(* ===== verification/Itzo_Prelude.thy ===== *)
theory Itzo_Prelude
  imports Main "HOL-Library.State_Monad"
begin

text \<open>
  Shared ground of the development: Go's errors, fixed-width integers, the functions of
  \<open>strings\<close>, \<open>strconv\<close> and \<open>path/filepath\<close> that itzo calls, and the state monad with the
  lemma collections the component theories use.  Go strings are byte sequences and are
  modelled as \<^typ>\<open>string\<close>; nothing here models a file of the repository, only what the
  repository uses of Go and its standard library.
\<close>

named_theorems go_defs \<open>definitions of Go library functions\<close>
named_theorems go_ints \<open>conversions between fixed-width integers\<close>

section \<open>Errors\<close>

text \<open>
  A Go \<open>error\<close> is nil (\<^term>\<open>None\<close>) or a value with a message.  The constructor keeps what
  \<open>os.IsNotExist\<close> and \<open>os.IsExist\<close> can see; an error built by \<open>fmt.Errorf\<close> or wrapped by
  \<open>errors.Wrap\<close> is \<open>ErrOther\<close>, since those predicates do not look through the wrapping.
\<close>

datatype go_error = ErrNotExist string | ErrExist string | ErrOther string

type_synonym error = "go_error option"

fun Error :: "go_error \<Rightarrow> string" where
  "Error (ErrNotExist m) = m"
| "Error (ErrExist m) = m"
| "Error (ErrOther m) = m"

fun IsNotExist :: "error \<Rightarrow> bool" where
  "IsNotExist (Some (ErrNotExist m)) = True"
| "IsNotExist _ = False"

fun IsExist :: "error \<Rightarrow> bool" where
  "IsExist (Some (ErrExist m)) = True"
| "IsExist _ = False"

definition Errorf :: "string \<Rightarrow> go_error" where
  "Errorf m = ErrOther m"

lemma IsNotExist_Errorf [simp]: "\<not> IsNotExist (Some (Errorf m))"
  by (simp add: Errorf_def)

lemma IsExist_Errorf [simp]: "\<not> IsExist (Some (Errorf m))"
  by (simp add: Errorf_def)

lemma Error_Errorf [simp]: "Error (Errorf m) = m"
  by (simp add: Errorf_def)

text \<open>A call that may panic: it returns a value or it does not return.\<close>

datatype 'a outcome = Ret (ret: 'a) | Panic

section \<open>Fixed-width integers\<close>

text \<open>
  Signed values are \<^typ>\<open>int\<close>, read as two's complement; a conversion or an operation that can
  leave the width wraps explicitly.
\<close>

definition to_signed :: "nat \<Rightarrow> int \<Rightarrow> int" where
  "to_signed w x = (x + 2 ^ (w - 1)) mod 2 ^ w - 2 ^ (w - 1)"

definition int32 :: "int \<Rightarrow> int" where "int32 x = to_signed 32 x"
definition int64 :: "int \<Rightarrow> int" where "int64 x = to_signed 64 x"
definition uint16 :: "int \<Rightarrow> nat" where "uint16 x = nat (x mod 2 ^ 16)"
definition uint32 :: "int \<Rightarrow> nat" where "uint32 x = nat (x mod 2 ^ 32)"

lemma to_signed_id:
  assumes "0 < w" "- (2 ^ (w - 1)) \<le> x" "x < 2 ^ (w - 1)"
  shows "to_signed w x = x"
proof -
  have "(2::int) ^ w = 2 * 2 ^ (w - 1)"
    using assms(1) by (cases w) auto
  with assms have "(x + 2 ^ (w - 1)) mod 2 ^ w = x + 2 ^ (w - 1)"
    by (intro mod_pos_pos_trivial) linarith+
  then show ?thesis by (simp add: to_signed_def)
qed

lemma int32_id [go_ints]: "- 2147483648 \<le> x \<Longrightarrow> x < 2147483648 \<Longrightarrow> int32 x = x"
  using to_signed_id [of 32 x] by (simp add: int32_def)

lemma int64_id [go_ints]:
  "- 9223372036854775808 \<le> x \<Longrightarrow> x < 9223372036854775808 \<Longrightarrow> int64 x = x"
  using to_signed_id [of 64 x] by (simp add: int64_def)

lemma uint32_id [go_ints]: "0 \<le> x \<Longrightarrow> x < 4294967296 \<Longrightarrow> uint32 x = nat x"
  by (simp add: uint32_def)

lemma uint32_bound [simp]: "uint32 x < 4294967296"
  by (simp add: uint32_def nat_less_iff)

lemma uint16_id [go_ints]: "0 \<le> x \<Longrightarrow> x < 65536 \<Longrightarrow> uint16 x = nat x"
  by (simp add: uint16_def)

lemma uint16_bound [simp]: "uint16 x < 65536"
  by (simp add: uint16_def nat_less_iff)

text \<open>Go's \<open>%\<close> and \<open>/\<close> truncate towards zero.\<close>

definition go_rem :: "int \<Rightarrow> int \<Rightarrow> int" where
  "go_rem a b = sgn a * (\<bar>a\<bar> mod \<bar>b\<bar>)"

lemma go_rem_nonneg [simp]: "0 \<le> a \<Longrightarrow> 0 < b \<Longrightarrow> go_rem a b = a mod b"
  by (cases "a = 0") (auto simp: go_rem_def sgn_if)

section \<open>Package strings\<close>

fun split_on :: "char \<Rightarrow> string \<Rightarrow> string list" where
  "split_on c [] = [[]]"
| "split_on c (x # xs) =
     (if x = c then [] # split_on c xs
      else (case split_on c xs of [] \<Rightarrow> [[x]] | w # ws \<Rightarrow> (x # w) # ws))"

text \<open>\<open>strings.SplitN(s, c, 2)\<close>\<close>

definition SplitN2 :: "string \<Rightarrow> char \<Rightarrow> string list" where
  "SplitN2 s c =
     (if c \<in> set s
      then [takeWhile (\<lambda>x. x \<noteq> c) s, tl (dropWhile (\<lambda>x. x \<noteq> c) s)]
      else [s])"

fun strings_Join :: "string list \<Rightarrow> string \<Rightarrow> string" where
  "strings_Join [] sep = []"
| "strings_Join [s] sep = s"
| "strings_Join (s # t # ts) sep = s @ sep @ strings_Join (t # ts) sep"

definition HasPrefix :: "string \<Rightarrow> string \<Rightarrow> bool" where
  "HasPrefix s p \<longleftrightarrow> take (length p) s = p"

definition HasSuffix :: "string \<Rightarrow> string \<Rightarrow> bool" where
  "HasSuffix s p \<longleftrightarrow> length p \<le> length s \<and> drop (length s - length p) s = p"

definition TrimPrefix :: "string \<Rightarrow> string \<Rightarrow> string" where
  "TrimPrefix s p = (if HasPrefix s p then drop (length p) s else s)"

fun Contains :: "string \<Rightarrow> string \<Rightarrow> bool" where
  "Contains [] p \<longleftrightarrow> p = []"
| "Contains (x # xs) p \<longleftrightarrow> HasPrefix (x # xs) p \<or> Contains xs p"

text \<open>\<open>IndexByte\<close> and \<open>LastIndex\<close> answer -1 when the byte does not occur.\<close>

fun IndexByte :: "string \<Rightarrow> char \<Rightarrow> int" where
  "IndexByte [] c = -1"
| "IndexByte (x # xs) c =
     (if x = c then 0 else (let i = IndexByte xs c in if i < 0 then -1 else i + 1))"

definition LastIndexByte :: "string \<Rightarrow> char \<Rightarrow> int" where
  "LastIndexByte s c =
     (let i = IndexByte (rev s) c in if i < 0 then -1 else int (length s) - 1 - i)"

text \<open>Upper and lower case are the ASCII mappings.\<close>

definition upper_char :: "char \<Rightarrow> char" where
  "upper_char c =
     (let n = (of_char c :: nat) in if 97 \<le> n \<and> n \<le> 122 then char_of (n - 32) else c)"

definition lower_char :: "char \<Rightarrow> char" where
  "lower_char c =
     (let n = (of_char c :: nat) in if 65 \<le> n \<and> n \<le> 90 then char_of (n + 32) else c)"

definition ToUpper :: "string \<Rightarrow> string" where "ToUpper s = map upper_char s"
definition ToLower :: "string \<Rightarrow> string" where "ToLower s = map lower_char s"

lemma split_on_nonempty [simp]: "split_on c s \<noteq> []"
  by (induction s) (auto split: list.splits)

lemma Join_split_on [simp]: "strings_Join (split_on c s) [c] = s"
proof (induction s)
  case Nil
  then show ?case by simp
next
  case (Cons x xs)
  obtain w ws where w: "split_on c xs = w # ws"
    using split_on_nonempty [of c xs] by (cases "split_on c xs") auto
  with Cons show ?case by (cases ws) auto
qed

lemma split_on_no_sep: "w \<in> set (split_on c s) \<Longrightarrow> c \<notin> set w"
proof (induction s arbitrary: w)
  case Nil
  then show ?case by simp
next
  case (Cons x xs)
  obtain v vs where v: "split_on c xs = v # vs"
    using split_on_nonempty [of c xs] by (cases "split_on c xs") auto
  have "w = [] \<or> (\<exists>u \<in> set (split_on c xs). w = u \<or> (x \<noteq> c \<and> w = x # u))"
    using Cons.prems v by (auto split: if_splits)
  with Cons.IH show ?case by auto
qed

lemma split_on_single: "c \<notin> set s \<Longrightarrow> split_on c s = [s]"
  by (induction s) auto

lemma split_on_append:
  "c \<notin> set a \<Longrightarrow> split_on c (a @ c # b) = a # split_on c b"
  by (induction a) auto

lemma SplitN2_sep: "c \<notin> set a \<Longrightarrow> SplitN2 (a @ c # b) c = [a, b]"
proof -
  assume "c \<notin> set a"
  then have "takeWhile (\<lambda>x. x \<noteq> c) (a @ c # b) = a \<and> dropWhile (\<lambda>x. x \<noteq> c) (a @ c # b) = c # b"
    by (induction a) auto
  then show ?thesis by (simp add: SplitN2_def)
qed

lemma SplitN2_nonempty [simp]: "SplitN2 s c \<noteq> []"
  by (simp add: SplitN2_def)

lemma SplitN2_hd: "SplitN2 s c ! 0 = takeWhile (\<lambda>x. x \<noteq> c) s"
proof (cases "c \<in> set s")
  case False
  then have "takeWhile (\<lambda>x. x \<noteq> c) s = s" by (induction s) auto
  then show ?thesis
    unfolding SplitN2_def using False by (simp only: if_False nth_Cons_0)
qed (simp add: SplitN2_def)

lemma HasPrefix_iff: "HasPrefix s p \<longleftrightarrow> (\<exists>r. s = p @ r)"
  unfolding HasPrefix_def
proof
  assume "take (length p) s = p"
  then have "s = p @ drop (length p) s" by (metis append_take_drop_id)
  then show "\<exists>r. s = p @ r" by blast
qed auto

lemma HasPrefix_append [simp]: "HasPrefix (p @ r) p"
  by (simp add: HasPrefix_def)

lemma HasPrefix_refl [simp]: "HasPrefix p p"
  by (simp add: HasPrefix_def)

lemma HasSuffix_append [simp]: "HasSuffix (r @ p) p"
  by (simp add: HasSuffix_def)

lemma IndexByte_ge: "-1 \<le> IndexByte s c"
  by (induction s) (auto simp: Let_def)

lemma IndexByte_None: "IndexByte s c < 0 \<longleftrightarrow> c \<notin> set s"
  by (induction s) (auto simp: Let_def)

lemma IndexByte_takeWhile:
  "c \<in> set s \<Longrightarrow> IndexByte s c = int (length (takeWhile (\<lambda>x. x \<noteq> c) s))"
proof (induction s)
  case (Cons x xs)
  then show ?case using IndexByte_None [of xs c] by (auto simp: Let_def)
qed simp

lemma upper_char_idem [simp]: "upper_char (upper_char c) = upper_char c"
proof -
  have "of_char (char_of (of_char c - 32 :: nat) :: char) = (of_char c - 32 :: nat)"
    if "97 \<le> (of_char c :: nat)" "(of_char c :: nat) \<le> 122"
    using that by simp
  then show ?thesis by (auto simp: upper_char_def Let_def)
qed

lemma ToUpper_idem [simp]: "ToUpper (ToUpper s) = ToUpper s"
  by (simp add: ToUpper_def comp_def)

lemma ToUpper_append [simp]: "ToUpper (a @ b) = ToUpper a @ ToUpper b"
  by (simp add: ToUpper_def)

section \<open>Package strconv\<close>

definition digit_char :: "nat \<Rightarrow> char" where
  "digit_char d = char_of (48 + d)"

fun nat_str :: "nat \<Rightarrow> string" where
  "nat_str n = (if n < 10 then [digit_char n] else nat_str (n div 10) @ [digit_char (n mod 10)])"

declare nat_str.simps [simp del]

definition Itoa :: "int \<Rightarrow> string" where
  "Itoa i = (if i < 0 then CHR ''-'' # nat_str (nat (- i)) else nat_str (nat i))"

definition is_digit :: "char \<Rightarrow> bool" where
  "is_digit c \<longleftrightarrow> (48::nat) \<le> of_char c \<and> (of_char c :: nat) \<le> 57"

definition digits_val :: "string \<Rightarrow> int" where
  "digits_val s = foldl (\<lambda>a c. 10 * a + (int (of_char c) - 48)) 0 s"

text \<open>\<open>strconv.ParseInt(s, 10, w)\<close>; \<open>Atoi\<close> is the 64-bit case.\<close>

definition ParseInt :: "nat \<Rightarrow> string \<Rightarrow> go_error + int" where
  "ParseInt w s =
     (let neg = (s \<noteq> [] \<and> hd s = CHR ''-'');
          ds = (if s \<noteq> [] \<and> (hd s = CHR ''-'' \<or> hd s = CHR ''+'') then tl s else s);
          v = (if neg then - digits_val ds else digits_val ds)
      in if ds = [] \<or> \<not> list_all is_digit ds
         then Inl (ErrOther (''strconv.ParseInt: parsing '' @ s @ '': invalid syntax''))
         else if v < - (2 ^ (w - 1)) \<or> 2 ^ (w - 1) \<le> v
         then Inl (ErrOther (''strconv.ParseInt: parsing '' @ s @ '': value out of range''))
         else Inr v)"

definition Atoi :: "string \<Rightarrow> go_error + int" where
  "Atoi s = ParseInt 64 s"

lemma digit_char_props [simp]:
  assumes "d < 10"
  shows "is_digit (digit_char d)" "int (of_char (digit_char d)) - 48 = int d"
  using assms by (auto simp: is_digit_def digit_char_def)

lemma digits_val_snoc: "digits_val (s @ [c]) = 10 * digits_val s + (int (of_char c) - 48)"
  by (simp add: digits_val_def)

lemma nat_str_digits: "nat_str n \<noteq> [] \<and> list_all is_digit (nat_str n)"
proof (induction n rule: nat_str.induct)
  case (1 n)
  then show ?case by (cases "n < 10") (simp_all add: nat_str.simps [of n])
qed

lemma digits_val_nat_str: "digits_val (nat_str n) = int n"
proof (induction n rule: nat_str.induct)
  case (1 n)
  show ?case
  proof (cases "n < 10")
    case True
    then show ?thesis by (simp add: nat_str.simps [of n] digits_val_def)
  next
    case False
    have "digits_val (nat_str n) = 10 * int (n div 10) + int (n mod 10)"
      using False "1" by (simp add: nat_str.simps [of n] digits_val_snoc)
    moreover have "10 * (n div 10) + n mod 10 = n" by simp
    ultimately show ?thesis by presburger
  qed
qed

lemma hd_nat_str_digit: "is_digit (hd (nat_str n))"
  using nat_str_digits [of n] by (cases "nat_str n") auto

lemma not_digit_sign [simp]: "\<not> is_digit (CHR ''-'')" "\<not> is_digit (CHR ''+'')"
  by (simp_all add: is_digit_def)

lemma ParseInt_Itoa:
  assumes "- (2 ^ (w - 1)) \<le> i" "i < 2 ^ (w - 1)"
  shows "ParseInt w (Itoa i) = Inr i"
proof -
  have sign: "hd (nat_str n) \<noteq> CHR ''-''" "hd (nat_str n) \<noteq> CHR ''+''" for n
    using hd_nat_str_digit [of n] by (metis not_digit_sign)+
  show ?thesis
    using assms nat_str_digits
    by (cases "i < 0") (auto simp: ParseInt_def Itoa_def Let_def sign digits_val_nat_str)
qed

lemma Atoi_Itoa:
  "- 9223372036854775808 \<le> i \<Longrightarrow> i < 9223372036854775808 \<Longrightarrow> Atoi (Itoa i) = Inr i"
  using ParseInt_Itoa [of 64 i] by (simp add: Atoi_def)

lemma Itoa_nonempty [simp]: "Itoa i \<noteq> []"
  using nat_str_digits by (simp add: Itoa_def)

section \<open>Package path/filepath\<close>

text \<open>
  \<open>clean_comps\<close> walks the components with the reversed output as a stack; \<open>..\<close> pops a
  component that is not itself \<open>..\<close>, and is dropped at the root of a rooted path.
\<close>

fun clean_comps :: "bool \<Rightarrow> string list \<Rightarrow> string list \<Rightarrow> string list" where
  "clean_comps r st [] = rev st"
| "clean_comps r st (c # cs) =
     (if c = [] \<or> c = ''.'' then clean_comps r st cs
      else if c = ''..'' then
        (case st of
           [] \<Rightarrow> if r then clean_comps r [] cs else clean_comps r [''..''] cs
         | t # ts \<Rightarrow> if t = ''..'' then clean_comps r (''..'' # st) cs else clean_comps r ts cs)
      else clean_comps r (c # st) cs)"

definition filepath_Clean :: "string \<Rightarrow> string" where
  "filepath_Clean p =
     (let r = (p \<noteq> [] \<and> hd p = CHR ''/'');
          cs = clean_comps r [] (split_on (CHR ''/'') p)
      in if r then CHR ''/'' # strings_Join cs ''/''
         else if cs = [] then ''.'' else strings_Join cs ''/'')"

definition filepath_Join :: "string list \<Rightarrow> string" where
  "filepath_Join es =
     (let ne = dropWhile (\<lambda>e. e = []) es
      in if ne = [] then [] else filepath_Clean (strings_Join ne ''/''))"

definition filepath_Dir :: "string \<Rightarrow> string" where
  "filepath_Dir p = filepath_Clean (rev (dropWhile (\<lambda>c. c \<noteq> CHR ''/'') (rev p)))"

definition filepath_Base :: "string \<Rightarrow> string" where
  "filepath_Base p =
     (if p = [] then ''.''
      else let q = rev (dropWhile (\<lambda>c. c = CHR ''/'') (rev p))
           in if q = [] then ''/'' else rev (takeWhile (\<lambda>c. c \<noteq> CHR ''/'') (rev q)))"

text \<open>A rooted path never keeps a \<open>..\<close> component.\<close>

lemma clean_comps_rooted_no_dotdot:
  "''..'' \<notin> set st \<Longrightarrow> ''..'' \<notin> set (clean_comps True st cs)"
proof (induction cs arbitrary: st)
  case (Cons c cs)
  then show ?case by (cases st) auto
qed simp

lemma clean_comps_parts:
  "set (clean_comps r st cs) \<subseteq> set st \<union> (set cs - {[], ''.''})"
proof (induction cs arbitrary: st)
  case (Cons c cs)
  show ?case
  proof (cases st)
    case Nil
    then show ?thesis
      using Cons.IH [of "[]"] Cons.IH [of "[''..'']"] Cons.IH [of "[c]"] by auto
  next
    case (Cons t ts)
    then show ?thesis
      using Cons.IH [of "st"] Cons.IH [of "''..'' # st"] Cons.IH [of "c # st"] Cons.IH [of ts]
      by auto
  qed
qed simp

section \<open>State monad\<close>

text \<open>
  Effectful Go code is a \<^typ>\<open>('s, 'a) state\<close> computation over the component's state record, in
  \<open>do\<close> notation; \<open>gets\<close> reads a field, \<open>modify\<close> writes one.  \<open>exec\<close> is the final state and
  \<open>result\<close> the value of a run.
\<close>

abbreviation return :: "'a \<Rightarrow> ('s, 'a) state" where
  "return \<equiv> State_Monad.return"

definition gets :: "('s \<Rightarrow> 'a) \<Rightarrow> ('s, 'a) state" where
  "gets f = State (\<lambda>s. (f s, s))"

definition modify :: "('s \<Rightarrow> 's) \<Rightarrow> ('s, unit) state" where
  "modify f = State (\<lambda>s. ((), f s))"

lemma run_state_gets [simp]: "run_state (gets f) s = (f s, s)"
  by (simp add: gets_def)

lemma run_state_modify [simp]: "run_state (modify f) s = ((), f s)"
  by (simp add: modify_def)

definition result :: "('s, 'a) state \<Rightarrow> 's \<Rightarrow> 'a" where
  "result m s = fst (run_state m s)"

definition final :: "('s, 'a) state \<Rightarrow> 's \<Rightarrow> 's" where
  "final m s = snd (run_state m s)"

lemma result_return [simp]: "result (return x) s = x"
  by (simp add: result_def)

lemma final_return [simp]: "final (return x) s = s"
  by (simp add: final_def)

lemma result_bind [simp]:
  "result (State_Monad.bind m f) s = result (f (result m s)) (final m s)"
  by (simp add: result_def final_def split_def)

lemma final_bind [simp]:
  "final (State_Monad.bind m f) s = final (f (result m s)) (final m s)"
  by (simp add: result_def final_def split_def)

lemma result_gets [simp]: "result (gets f) s = f s"
  by (simp add: result_def)

lemma final_gets [simp]: "final (gets f) s = s"
  by (simp add: final_def)

lemma final_modify [simp]: "final (modify f) s = f s"
  by (simp add: final_def)

lemma run_state_result_final: "run_state m s = (result m s, final m s)"
  by (simp add: result_def final_def)

text \<open>
  Go's \<open>for _, x := range xs { if err := f(x); err != nil { return err } }\<close>: the first error
  stops the loop.
\<close>

fun for_err :: "('a \<Rightarrow> ('s, error) state) \<Rightarrow> 'a list \<Rightarrow> ('s, error) state" where
  "for_err f [] = return None"
| "for_err f (x # xs) = do {
     err \<leftarrow> f x;
     case err of Some e \<Rightarrow> return (Some e) | None \<Rightarrow> for_err f xs
   }"

text \<open>Go's \<open>if err := m; err != nil { return wrap(err) }\<close> before \<open>k\<close>.\<close>

definition or_return ::
  "('s, error) state \<Rightarrow> (go_error \<Rightarrow> go_error) \<Rightarrow> ('s, error) state \<Rightarrow> ('s, error) state" where
  "or_return m wrap k = do {
     err \<leftarrow> m;
     case err of Some e \<Rightarrow> return (Some (wrap e)) | None \<Rightarrow> k }"

abbreviation errorf :: "string \<Rightarrow> go_error \<Rightarrow> go_error" where
  "errorf m e \<equiv> Errorf (m @ '': '' @ Error e)"

lemma result_or_return:
  "result (or_return m wrap k) s =
     (case result m s of Some e \<Rightarrow> Some (wrap e) | None \<Rightarrow> result k (final m s))"
  by (simp add: or_return_def split: option.split)

lemma final_or_return:
  "final (or_return m wrap k) s =
     (case result m s of Some e \<Rightarrow> final m s | None \<Rightarrow> final k (final m s))"
  by (simp add: or_return_def split: option.split)

lemma or_return_None:
  "result (or_return m wrap k) s = None \<longleftrightarrow> result m s = None \<and> result k (final m s) = None"
  by (simp add: result_or_return split: option.split)

text \<open>A \<open>range\<close> loop whose body never stops it.\<close>

fun for_each :: "('a \<Rightarrow> ('s, unit) state) \<Rightarrow> 'a list \<Rightarrow> ('s, unit) state" where
  "for_each f [] = return ()"
| "for_each f (x # xs) = do { f x; for_each f xs }"

lemma for_err_append:
  "for_err f (xs @ ys) = do {
     err \<leftarrow> for_err f xs;
     case err of Some e \<Rightarrow> return (Some e) | None \<Rightarrow> for_err f ys }"
  by (induction xs) (auto intro!: state_ext split: option.splits prod.splits)

lemma for_err_invariant:
  assumes "\<And>x s. x \<in> set xs \<Longrightarrow> P s \<Longrightarrow> P (final (f x) s)" "P s"
  shows "P (final (for_err f xs) s)"
  using assms
proof (induction xs arbitrary: s)
  case (Cons x xs)
  then show ?case by (auto split: option.splits)
qed simp

lemma for_each_invariant:
  assumes "\<And>x s. x \<in> set xs \<Longrightarrow> P s \<Longrightarrow> P (final (f x) s)" "P s"
  shows "P (final (for_each f xs) s)"
  using assms by (induction xs arbitrary: s) auto

end
