(* ===== verification/Api_Types.thy ===== *)
theory Api_Types
  imports Complex_Main Itzo_Prelude
begin

text \<open>
  The data of \<open>pkg/api\<close>: every struct of types.go and internal.go as a record with the fields
  in the source's order (a field is named after its type, \<open>Unit_Name\<close> for \<open>Unit.Name\<close>; an
  embedded struct is a field of its type's name), every string-based enumeration as a synonym
  of \<^typ>\<open>string\<close> with the source's constants (a value decoded from JSON need not be one of
  them), pointers as options, and the constructors of helper.go.
\<close>

section \<open>Time\<close>

text \<open>
  \<open>api.Time\<close> embeds \<open>time.Time\<close>; it is the number of nanoseconds since Go's zero time, so that
  the zero value, which \<open>IsZero\<close> recognises, is 0.  Its JSON form is RFC 3339, which keeps
  whole seconds, and \<open>null\<close> for the zero time.
\<close>

(* src: pkg/api/time.go 24-29 Time *)
type_synonym Time = int

definition Time_IsZero :: "Time \<Rightarrow> bool" where
  "Time_IsZero t \<longleftrightarrow> t = 0"

section \<open>Ports by number or by name\<close>

text \<open>
  \<open>intstr.IntOrString\<close> of the Kubernetes API: a tag (0 for \<open>intstr.Int\<close>, 1 for
  \<open>intstr.String\<close>) and the two payloads; \<open>FromInt\<close> fills the number.
\<close>

record IntOrString =
  IntOrString_Type :: int
  IntOrString_IntVal :: int
  IntOrString_StrVal :: string

abbreviation (input) intstr_Int :: int where "intstr_Int \<equiv> 0"

abbreviation (input) intstr_String :: int where "intstr_String \<equiv> 1"

definition intstr_FromInt :: "int \<Rightarrow> IntOrString" where
  "intstr_FromInt n =
     \<lparr>IntOrString_Type = intstr_Int, IntOrString_IntVal = int32 n, IntOrString_StrVal = []\<rparr>"

section \<open>types.go and internal.go\<close>

(* src: pkg/api/types.go 26-26 TerminationMessagePathDefault *)
abbreviation (input) TerminationMessagePathDefault :: string where
  "TerminationMessagePathDefault \<equiv> ''/dev/termination-log''"

(* src: pkg/api/types.go 651-653 PodPhase *)
type_synonym PodPhase = "string"

(* src: pkg/api/types.go 656-657 PodWaiting *)
abbreviation (input) PodWaiting :: PodPhase where "PodWaiting \<equiv> ''Waiting''"

(* src: pkg/api/types.go 658-660 PodDispatching *)
abbreviation (input) PodDispatching :: PodPhase where "PodDispatching \<equiv> ''Dispatching''"

(* src: pkg/api/types.go 661-662 PodRunning *)
abbreviation (input) PodRunning :: PodPhase where "PodRunning \<equiv> ''Running''"

(* src: pkg/api/types.go 663-666 PodSucceeded *)
abbreviation (input) PodSucceeded :: PodPhase where "PodSucceeded \<equiv> ''Succeeded''"

(* src: pkg/api/types.go 667-669 PodFailed *)
abbreviation (input) PodFailed :: PodPhase where "PodFailed \<equiv> ''Failed''"

(* src: pkg/api/types.go 670-672 PodTerminated *)
abbreviation (input) PodTerminated :: PodPhase where "PodTerminated \<equiv> ''Terminated''"

(* src: pkg/api/types.go 675-677 RestartPolicy *)
type_synonym RestartPolicy = "string"

(* src: pkg/api/types.go 680-680 RestartPolicyAlways *)
abbreviation (input) RestartPolicyAlways :: RestartPolicy where "RestartPolicyAlways \<equiv> ''Always''"

(* src: pkg/api/types.go 681-681 RestartPolicyOnFailure *)
abbreviation (input) RestartPolicyOnFailure :: RestartPolicy where "RestartPolicyOnFailure \<equiv> ''OnFailure''"

(* src: pkg/api/types.go 682-682 RestartPolicyNever *)
abbreviation (input) RestartPolicyNever :: RestartPolicy where "RestartPolicyNever \<equiv> ''Never''"

(* src: pkg/api/types.go 620-628 SecretKeySelector *)
record SecretKeySelector =
  SecretKeySelector_Name :: "string"
  SecretKeySelector_Key :: "string"

(* src: pkg/api/types.go 613-618 EnvVarSource *)
record EnvVarSource =
  EnvVarSource_SecretKeyRef :: "SecretKeySelector option"

(* src: pkg/api/types.go 603-611 EnvVar *)
record EnvVar =
  EnvVar_Name :: "string"
  EnvVar_Value :: "string"
  EnvVar_ValueFrom :: "EnvVarSource option"

(* src: pkg/api/types.go 589-601 VolumeMount *)
record VolumeMount =
  VolumeMount_Name :: "string"
  VolumeMount_MountPath :: "string"
  VolumeMount_SubPath :: "string"

(* src: pkg/api/types.go 710-711 Protocol *)
type_synonym Protocol = "string"

(* src: pkg/api/types.go 718-718 ProtocolTCP *)
abbreviation (input) ProtocolTCP :: Protocol where "ProtocolTCP \<equiv> ''TCP''"

(* src: pkg/api/types.go 719-719 ProtocolUDP *)
abbreviation (input) ProtocolUDP :: Protocol where "ProtocolUDP \<equiv> ''UDP''"

(* src: pkg/api/types.go 720-720 ProtocolICMP *)
abbreviation (input) ProtocolICMP :: Protocol where "ProtocolICMP \<equiv> ''ICMP''"

(* src: pkg/api/types.go 685-708 ContainerPort *)
record ContainerPort =
  ContainerPort_Name :: "string"
  ContainerPort_HostPort :: "int"
  ContainerPort_ContainerPort :: "int"
  ContainerPort_Protocol :: "Protocol"
  ContainerPort_HostIP :: "string"

(* src: pkg/api/types.go 581-587 Capabilities *)
record Capabilities =
  Capabilities_Add :: "string list"
  Capabilities_Drop :: "string list"

(* src: pkg/api/types.go 561-579 SecurityContext *)
record SecurityContext =
  SecurityContext_Capabilities :: "Capabilities option"
  SecurityContext_RunAsUser :: "int option"
  SecurityContext_RunAsGroup :: "int option"

(* src: pkg/api/types.go 761-771 ExecAction *)
record ExecAction =
  ExecAction_Command :: "string list"

(* src: pkg/api/types.go 773-774 URIScheme *)
type_synonym URIScheme = "string"

(* src: pkg/api/types.go 777-778 URISchemeHTTP *)
abbreviation (input) URISchemeHTTP :: URIScheme where "URISchemeHTTP \<equiv> ''HTTP''"

(* src: pkg/api/types.go 779-780 URISchemeHTTPS *)
abbreviation (input) URISchemeHTTPS :: URIScheme where "URISchemeHTTPS \<equiv> ''HTTPS''"

(* src: pkg/api/types.go 783-789 HTTPHeader *)
record HTTPHeader =
  HTTPHeader_Name :: "string"
  HTTPHeader_Value :: "string"

(* src: pkg/api/types.go 791-808 HTTPGetAction *)
record HTTPGetAction =
  HTTPGetAction_Path :: "string"
  HTTPGetAction_Port :: "IntOrString"
  HTTPGetAction_Host :: "string"
  HTTPGetAction_Scheme :: "URIScheme"
  HTTPGetAction_HTTPHeaders :: "HTTPHeader list"

(* src: pkg/api/types.go 810-819 TCPSocketAction *)
record TCPSocketAction =
  TCPSocketAction_Port :: "IntOrString"
  TCPSocketAction_Host :: "string"

(* src: pkg/api/types.go 821-831 Handler *)
record Handler =
  Handler_Exec :: "ExecAction option"
  Handler_HTTPGet :: "HTTPGetAction option"
  Handler_TCPSocket :: "TCPSocketAction option"

(* src: pkg/api/types.go 833-857 Probe *)
record Probe =
  Probe_Handler :: "Handler"
  Probe_InitialDelaySeconds :: "int"
  Probe_TimeoutSeconds :: "int"
  Probe_PeriodSeconds :: "int"
  Probe_SuccessThreshold :: "int"
  Probe_FailureThreshold :: "int"

(* src: pkg/api/types.go 480-480 TerminationMessagePolicy *)
type_synonym TerminationMessagePolicy = "string"

(* src: pkg/api/types.go 483-486 TerminationMessageReadFile *)
abbreviation (input) TerminationMessageReadFile :: TerminationMessagePolicy where "TerminationMessageReadFile \<equiv> ''File''"

(* src: pkg/api/types.go 487-491 TerminationMessageFallbackToLogsOnError *)
abbreviation (input) TerminationMessageFallbackToLogsOnError :: TerminationMessagePolicy where "TerminationMessageFallbackToLogsOnError \<equiv> ''FallbackToLogsOnError''"

(* src: pkg/api/types.go 494-559 Unit *)
record Unit =
  Unit_Name :: "string"
  Unit_Image :: "string"
  Unit_Command :: "string list"
  Unit_Args :: "string list"
  Unit_Env :: "EnvVar list"
  Unit_VolumeMounts :: "VolumeMount list"
  Unit_Ports :: "ContainerPort list"
  Unit_WorkingDir :: "string"
  Unit_SecurityContext :: "SecurityContext option"
  Unit_LivenessProbe :: "Probe option"
  Unit_ReadinessProbe :: "Probe option"
  Unit_StartupProbe :: "Probe option"
  Unit_TerminationMessagePath :: "string"
  Unit_TerminationMessagePolicy :: "TerminationMessagePolicy"

(* src: pkg/api/types.go 630-633 SpotPolicy *)
type_synonym SpotPolicy = "string"

(* src: pkg/api/types.go 636-636 SpotAlways *)
abbreviation (input) SpotAlways :: SpotPolicy where "SpotAlways \<equiv> ''Always''"

(* src: pkg/api/types.go 637-637 SpotPreferred *)
abbreviation (input) SpotPreferred :: SpotPolicy where "SpotPreferred \<equiv> ''Preferred''"

(* src: pkg/api/types.go 638-638 SpotNever *)
abbreviation (input) SpotNever :: SpotPolicy where "SpotNever \<equiv> ''Never''"

(* src: pkg/api/types.go 641-649 PodSpot *)
record PodSpot =
  PodSpot_Policy :: "SpotPolicy"

(* src: pkg/api/types.go 453-478 ResourceSpec *)
record ResourceSpec =
  ResourceSpec_CPU :: "string"
  ResourceSpec_Memory :: "string"
  ResourceSpec_GPU :: "string"
  ResourceSpec_VolumeSize :: "string"
  ResourceSpec_DedicatedCPU :: "bool"
  ResourceSpec_SustainedCPU :: "bool option"
  ResourceSpec_PrivateIPOnly :: "bool"

(* src: pkg/api/types.go 859-865 PlacementSpec *)
record PlacementSpec =
  PlacementSpec_AvailabilityZone :: "string"

(* src: pkg/api/types.go 422-423 StorageMedium *)
type_synonym StorageMedium = "string"

(* src: pkg/api/types.go 426-426 StorageMediumDefault *)
abbreviation (input) StorageMediumDefault :: StorageMedium where "StorageMediumDefault \<equiv> []"

(* src: pkg/api/types.go 427-427 StorageMediumMemory *)
abbreviation (input) StorageMediumMemory :: StorageMedium where "StorageMediumMemory \<equiv> ''Memory''"

(* src: pkg/api/types.go 432-444 EmptyDir *)
record EmptyDir =
  EmptyDir_Medium :: "StorageMedium"
  EmptyDir_SizeLimit :: "int"

(* src: pkg/api/types.go 446-451 PackagePath *)
record PackagePath =
  PackagePath_Path :: "string"

(* src: pkg/api/types.go 201-206 LocalObjectReference *)
record LocalObjectReference =
  LocalObjectReference_Name :: "string"

(* src: pkg/api/types.go 405-420 KeyToPath *)
record KeyToPath =
  KeyToPath_Key :: "string"
  KeyToPath_Path :: "string"
  KeyToPath_Mode :: "int option"

(* src: pkg/api/types.go 303-327 ConfigMapVolumeSource *)
record ConfigMapVolumeSource =
  ConfigMapVolumeSource_LocalObjectReference :: "LocalObjectReference"
  ConfigMapVolumeSource_Items :: "KeyToPath list"
  ConfigMapVolumeSource_DefaultMode :: "int option"
  ConfigMapVolumeSource_Optional :: "bool option"

(* src: pkg/api/types.go 276-301 SecretVolumeSource *)
record SecretVolumeSource =
  SecretVolumeSource_SecretName :: "string"
  SecretVolumeSource_Items :: "KeyToPath list"
  SecretVolumeSource_DefaultMode :: "int option"
  SecretVolumeSource_Optional :: "bool option"

(* src: pkg/api/types.go 253-253 HostPathType *)
type_synonym HostPathType = "string"

(* src: pkg/api/types.go 256-257 HostPathUnset *)
abbreviation (input) HostPathUnset :: HostPathType where "HostPathUnset \<equiv> []"

(* src: pkg/api/types.go 258-260 HostPathDirectoryOrCreate *)
abbreviation (input) HostPathDirectoryOrCreate :: HostPathType where "HostPathDirectoryOrCreate \<equiv> ''DirectoryOrCreate''"

(* src: pkg/api/types.go 261-262 HostPathDirectory *)
abbreviation (input) HostPathDirectory :: HostPathType where "HostPathDirectory \<equiv> ''Directory''"

(* src: pkg/api/types.go 263-265 HostPathFileOrCreate *)
abbreviation (input) HostPathFileOrCreate :: HostPathType where "HostPathFileOrCreate \<equiv> ''FileOrCreate''"

(* src: pkg/api/types.go 266-267 HostPathFile *)
abbreviation (input) HostPathFile :: HostPathType where "HostPathFile \<equiv> ''File''"

(* src: pkg/api/types.go 268-269 HostPathSocket *)
abbreviation (input) HostPathSocket :: HostPathType where "HostPathSocket \<equiv> ''Socket''"

(* src: pkg/api/types.go 270-271 HostPathCharDev *)
abbreviation (input) HostPathCharDev :: HostPathType where "HostPathCharDev \<equiv> ''CharDevice''"

(* src: pkg/api/types.go 272-273 HostPathBlockDev *)
abbreviation (input) HostPathBlockDev :: HostPathType where "HostPathBlockDev \<equiv> ''BlockDevice''"

(* src: pkg/api/types.go 239-251 HostPathVolumeSource *)
record HostPathVolumeSource =
  HostPathVolumeSource_Path :: "string"
  HostPathVolumeSource_Type :: "HostPathType option"

(* src: pkg/api/types.go 360-380 SecretProjection *)
record SecretProjection =
  SecretProjection_LocalObjectReference :: "LocalObjectReference"
  SecretProjection_Items :: "KeyToPath list"
  SecretProjection_Optional :: "bool option"

(* src: pkg/api/types.go 382-403 ConfigMapProjection *)
record ConfigMapProjection =
  ConfigMapProjection_LocalObjectReference :: "LocalObjectReference"
  ConfigMapProjection_Items :: "KeyToPath list"
  ConfigMapProjection_Optional :: "bool option"

(* src: pkg/api/types.go 342-358 VolumeProjection *)
record VolumeProjection =
  VolumeProjection_Secret :: "SecretProjection option"
  VolumeProjection_ConfigMap :: "ConfigMapProjection option"

(* src: pkg/api/types.go 329-340 ProjectedVolumeSource *)
record ProjectedVolumeSource =
  ProjectedVolumeSource_Sources :: "VolumeProjection list"
  ProjectedVolumeSource_DefaultMode :: "int option"

(* src: pkg/api/types.go 216-237 VolumeSource *)
record VolumeSource =
  VolumeSource_EmptyDir :: "EmptyDir option"
  VolumeSource_PackagePath :: "PackagePath option"
  VolumeSource_ConfigMap :: "ConfigMapVolumeSource option"
  VolumeSource_Secret :: "SecretVolumeSource option"
  VolumeSource_HostPath :: "HostPathVolumeSource option"
  VolumeSource_Projected :: "ProjectedVolumeSource option"

(* src: pkg/api/types.go 208-214 Volume *)
record Volume =
  Volume_Name :: "string"
  Volume_VolumeSource :: "VolumeSource"

(* src: pkg/api/types.go 176-176 NamespaceMode *)
type_synonym NamespaceMode = "int"

(* src: pkg/api/types.go 179-182 NamespaceModePod *)
abbreviation (input) NamespaceModePod :: NamespaceMode where "NamespaceModePod \<equiv> 0"

(* src: pkg/api/types.go 183-186 NamespaceModeContainer *)
abbreviation (input) NamespaceModeContainer :: NamespaceMode where "NamespaceModeContainer \<equiv> 1"

(* src: pkg/api/types.go 187-190 NamespaceModeNode *)
abbreviation (input) NamespaceModeNode :: NamespaceMode where "NamespaceModeNode \<equiv> 2"

(* src: pkg/api/types.go 159-174 NamespaceOption *)
record NamespaceOption =
  NamespaceOption_Network :: "NamespaceMode"
  NamespaceOption_Pid :: "NamespaceMode"
  NamespaceOption_Ipc :: "NamespaceMode"

(* src: pkg/api/types.go 193-199 Sysctl *)
record Sysctl =
  Sysctl_Name :: "string"
  Sysctl_Value :: "string"

(* src: pkg/api/types.go 145-157 PodSecurityContext *)
record PodSecurityContext =
  PodSecurityContext_NamespaceOptions :: "NamespaceOption option"
  PodSecurityContext_RunAsUser :: "int option"
  PodSecurityContext_RunAsGroup :: "int option"
  PodSecurityContext_SupplementalGroups :: "int list"
  PodSecurityContext_Sysctls :: "Sysctl list"

(* src: pkg/api/types.go 92-93 DNSPolicy *)
type_synonym DNSPolicy = "string"

(* src: pkg/api/types.go 96-99 DNSClusterFirstWithHostNet *)
abbreviation (input) DNSClusterFirstWithHostNet :: DNSPolicy where "DNSClusterFirstWithHostNet \<equiv> ''ClusterFirstWithHostNet''"

(* src: pkg/api/types.go 101-104 DNSClusterFirst *)
abbreviation (input) DNSClusterFirst :: DNSPolicy where "DNSClusterFirst \<equiv> ''ClusterFirst''"

(* src: pkg/api/types.go 106-108 DNSDefault *)
abbreviation (input) DNSDefault :: DNSPolicy where "DNSDefault \<equiv> ''Default''"

(* src: pkg/api/types.go 110-113 DNSNone *)
abbreviation (input) DNSNone :: DNSPolicy where "DNSNone \<equiv> ''None''"

(* src: pkg/api/types.go 137-143 PodDNSConfigOption *)
record PodDNSConfigOption =
  PodDNSConfigOption_Name :: "string"
  PodDNSConfigOption_Value :: "string option"

(* src: pkg/api/types.go 116-135 PodDNSConfig *)
record PodDNSConfig =
  PodDNSConfig_Nameservers :: "string list"
  PodDNSConfig_Searches :: "string list"
  PodDNSConfig_Options :: "PodDNSConfigOption list"

(* src: pkg/api/types.go 83-90 HostAlias *)
record HostAlias =
  HostAlias_IP :: "string"
  HostAlias_Hostnames :: "string list"

(* src: pkg/api/types.go 29-81 PodSpec *)
record PodSpec =
  PodSpec_Phase :: "PodPhase"
  PodSpec_RestartPolicy :: "RestartPolicy"
  PodSpec_Units :: "Unit list"
  PodSpec_InitUnits :: "Unit list"
  PodSpec_ImagePullSecrets :: "string list"
  PodSpec_InstanceType :: "string"
  PodSpec_Spot :: "PodSpot"
  PodSpec_Resources :: "ResourceSpec"
  PodSpec_Placement :: "PlacementSpec"
  PodSpec_Volumes :: "Volume list"
  PodSpec_SecurityContext :: "PodSecurityContext option"
  PodSpec_DNSPolicy :: "DNSPolicy"
  PodSpec_DNSConfig :: "PodDNSConfig option"
  PodSpec_Hostname :: "string"
  PodSpec_Subdomain :: "string"
  PodSpec_HostAliases :: "HostAlias list"

(* src: pkg/api/types.go 723-726 UnitStateWaiting *)
record UnitStateWaiting =
  UnitStateWaiting_Reason :: "string"
  UnitStateWaiting_StartFailure :: "bool"

(* src: pkg/api/types.go 728-730 UnitStateRunning *)
record UnitStateRunning =
  UnitStateRunning_StartedAt :: "Time"

(* src: pkg/api/types.go 732-738 UnitStateTerminated *)
record UnitStateTerminated =
  UnitStateTerminated_ExitCode :: "int"
  UnitStateTerminated_FinishedAt :: "Time"
  UnitStateTerminated_Reason :: "string"
  UnitStateTerminated_Message :: "string"
  UnitStateTerminated_StartedAt :: "Time"

(* src: pkg/api/types.go 740-747 UnitState *)
record UnitState =
  UnitState_Waiting :: "UnitStateWaiting option"
  UnitState_Running :: "UnitStateRunning option"
  UnitState_Terminated :: "UnitStateTerminated option"

(* src: pkg/api/types.go 749-757 UnitStatus *)
record UnitStatus =
  UnitStatus_Name :: "string"
  UnitStatus_State :: "UnitState"
  UnitStatus_LastTerminationState :: "UnitState"
  UnitStatus_RestartCount :: "int"
  UnitStatus_Image :: "string"
  UnitStatus_Ready :: "bool"
  UnitStatus_Started :: "bool option"

(* src: pkg/api/types.go 759-759 ResourceMetrics *)
type_synonym ResourceMetrics = "string \<rightharpoonup> real"

(* src: pkg/api/internal.go 30-34 RegistryCredentials *)
record RegistryCredentials =
  RegistryCredentials_Server :: "string"
  RegistryCredentials_Username :: "string"
  RegistryCredentials_Password :: "string"

(* src: pkg/api/internal.go 19-28 PodParameters *)
record PodParameters =
  PodParameters_Secrets :: "string \<rightharpoonup> (string \<rightharpoonup> string)"
  PodParameters_Credentials :: "string \<rightharpoonup> RegistryCredentials"
  PodParameters_Spec :: "PodSpec"
  PodParameters_Annotations :: "string \<rightharpoonup> string"
  PodParameters_PodName :: "string"
  PodParameters_NodeName :: "string"
  PodParameters_PodIP :: "string"
  PodParameters_PodHostname :: "string"

(* src: pkg/api/internal.go 36-41 PodStatusReply *)
record PodStatusReply =
  PodStatusReply_UnitStatuses :: "UnitStatus list"
  PodStatusReply_InitUnitStatuses :: "UnitStatus list"
  PodStatusReply_ResourceUsage :: "ResourceMetrics"
  PodStatusReply_PodIP :: "string"

(* src: pkg/api/internal.go 43-46 PortForwardParams *)
record PortForwardParams =
  PortForwardParams_PodName :: "string"
  PortForwardParams_Port :: "string"

(* src: pkg/api/internal.go 48-55 ExecParams *)
record ExecParams =
  ExecParams_PodName :: "string"
  ExecParams_UnitName :: "string"
  ExecParams_Command :: "string list"
  ExecParams_Interactive :: "bool"
  ExecParams_TTY :: "bool"
  ExecParams_SkipNSEnter :: "bool"

(* src: pkg/api/internal.go 57-62 AttachParams *)
record AttachParams =
  AttachParams_PodName :: "string"
  AttachParams_UnitName :: "string"
  AttachParams_Interactive :: "bool"
  AttachParams_TTY :: "bool"

(* src: pkg/api/internal.go 64-66 RunCmdParams *)
record RunCmdParams =
  RunCmdParams_Command :: "string list"

(* src: pkg/api/types.go 713-715 MakeProtocol *)
definition MakeProtocol :: "string \<Rightarrow> Protocol" where
  "MakeProtocol p = ToUpper p"

section \<open>helper.go\<close>

(* src: pkg/api/helper.go 19-19 PodName *)
abbreviation (input) PodName :: string where "PodName \<equiv> ''itzopod''"

(* src: pkg/api/helper.go 21-30 IsHostNetwork *)
definition IsHostNetwork :: "PodSecurityContext option \<Rightarrow> bool" where
  "IsHostNetwork securityContext =
     (case securityContext of
        None \<Rightarrow> False
      | Some sc \<Rightarrow>
          (case PodSecurityContext_NamespaceOptions sc of
             None \<Rightarrow> False
           | Some ns \<Rightarrow> NamespaceOption_Network ns = NamespaceModeNode))"

text \<open>The zero values Go gives to fields that a composite literal leaves out.\<close>

definition zero_UnitState :: UnitState where
  "zero_UnitState = \<lparr>UnitState_Waiting = None, UnitState_Running = None, UnitState_Terminated = None\<rparr>"

definition waiting_state :: "string \<Rightarrow> bool \<Rightarrow> UnitState" where
  "waiting_state reason failure =
     zero_UnitState\<lparr>UnitState_Waiting :=
       Some \<lparr>UnitStateWaiting_Reason = reason, UnitStateWaiting_StartFailure = failure\<rparr>\<rparr>"

definition running_state :: "Time \<Rightarrow> UnitState" where
  "running_state t =
     zero_UnitState\<lparr>UnitState_Running := Some \<lparr>UnitStateRunning_StartedAt = t\<rparr>\<rparr>"

definition terminated_state :: "UnitStateTerminated \<Rightarrow> UnitState" where
  "terminated_state t = zero_UnitState\<lparr>UnitState_Terminated := Some t\<rparr>"

definition zero_UnitStatus :: UnitStatus where
  "zero_UnitStatus =
     \<lparr>UnitStatus_Name = [], UnitStatus_State = zero_UnitState,
      UnitStatus_LastTerminationState = zero_UnitState, UnitStatus_RestartCount = 0,
      UnitStatus_Image = [], UnitStatus_Ready = False, UnitStatus_Started = None\<rparr>"

(* src: pkg/api/helper.go 32-43 MakeStillCreatingStatus *)
definition MakeStillCreatingStatus :: "string \<Rightarrow> string \<Rightarrow> string \<Rightarrow> UnitStatus" where
  "MakeStillCreatingStatus name img reason =
     zero_UnitStatus\<lparr>UnitStatus_Name := name, UnitStatus_State := waiting_state reason False,
       UnitStatus_RestartCount := 0, UnitStatus_Image := img\<rparr>"

(* src: pkg/api/helper.go 45-56 MakeFailedUpdateStatus *)
definition MakeFailedUpdateStatus :: "string \<Rightarrow> string \<Rightarrow> string \<Rightarrow> UnitStatus" where
  "MakeFailedUpdateStatus name img reason =
     zero_UnitStatus\<lparr>UnitStatus_Name := name, UnitStatus_State := waiting_state reason True,
       UnitStatus_Image := img\<rparr>"

text \<open>Zero values of the specification structs, the start of every concrete example.\<close>

definition zero_Unit :: Unit where
  "zero_Unit =
     \<lparr>Unit_Name = [], Unit_Image = [], Unit_Command = [], Unit_Args = [], Unit_Env = [],
      Unit_VolumeMounts = [], Unit_Ports = [], Unit_WorkingDir = [], Unit_SecurityContext = None,
      Unit_LivenessProbe = None, Unit_ReadinessProbe = None, Unit_StartupProbe = None,
      Unit_TerminationMessagePath = [], Unit_TerminationMessagePolicy = []\<rparr>"

definition zero_ResourceSpec :: ResourceSpec where
  "zero_ResourceSpec =
     \<lparr>ResourceSpec_CPU = [], ResourceSpec_Memory = [], ResourceSpec_GPU = [],
      ResourceSpec_VolumeSize = [], ResourceSpec_DedicatedCPU = False,
      ResourceSpec_SustainedCPU = None, ResourceSpec_PrivateIPOnly = False\<rparr>"

definition zero_PodSpec :: PodSpec where
  "zero_PodSpec =
     \<lparr>PodSpec_Phase = [], PodSpec_RestartPolicy = [], PodSpec_Units = [], PodSpec_InitUnits = [],
      PodSpec_ImagePullSecrets = [], PodSpec_InstanceType = [],
      PodSpec_Spot = \<lparr>PodSpot_Policy = []\<rparr>, PodSpec_Resources = zero_ResourceSpec,
      PodSpec_Placement = \<lparr>PlacementSpec_AvailabilityZone = []\<rparr>, PodSpec_Volumes = [],
      PodSpec_SecurityContext = None, PodSpec_DNSPolicy = [], PodSpec_DNSConfig = None,
      PodSpec_Hostname = [], PodSpec_Subdomain = [], PodSpec_HostAliases = []\<rparr>"

definition zero_PodSecurityContext :: PodSecurityContext where
  "zero_PodSecurityContext =
     \<lparr>PodSecurityContext_NamespaceOptions = None, PodSecurityContext_RunAsUser = None,
      PodSecurityContext_RunAsGroup = None, PodSecurityContext_SupplementalGroups = [],
      PodSecurityContext_Sysctls = []\<rparr>"

definition zero_SecurityContext :: SecurityContext where
  "zero_SecurityContext =
     \<lparr>SecurityContext_Capabilities = None, SecurityContext_RunAsUser = None,
      SecurityContext_RunAsGroup = None\<rparr>"

lemmas api_zero_defs =
  zero_UnitState_def waiting_state_def running_state_def terminated_state_def
  zero_UnitStatus_def zero_Unit_def zero_PodSpec_def zero_ResourceSpec_def
  zero_PodSecurityContext_def zero_SecurityContext_def

lemma waiting_state_sel [simp]:
  "UnitState_Running (waiting_state r b) = None"
  "UnitState_Terminated (waiting_state r b) = None"
  "UnitState_Waiting (waiting_state r b) =
     Some \<lparr>UnitStateWaiting_Reason = r, UnitStateWaiting_StartFailure = b\<rparr>"
  by (simp_all add: api_zero_defs)

lemma running_state_sel [simp]:
  "UnitState_Running (running_state t) = Some \<lparr>UnitStateRunning_StartedAt = t\<rparr>"
  "UnitState_Terminated (running_state t) = None"
  "UnitState_Waiting (running_state t) = None"
  by (simp_all add: api_zero_defs)

lemma terminated_state_sel [simp]:
  "UnitState_Terminated (terminated_state t) = Some t"
  "UnitState_Running (terminated_state t) = None"
  "UnitState_Waiting (terminated_state t) = None"
  by (simp_all add: api_zero_defs)

lemma MakeStillCreatingStatus_sel [simp]:
  "UnitStatus_Name (MakeStillCreatingStatus n i r) = n"
  "UnitStatus_Image (MakeStillCreatingStatus n i r) = i"
  "UnitStatus_State (MakeStillCreatingStatus n i r) = waiting_state r False"
  "UnitStatus_Ready (MakeStillCreatingStatus n i r) = False"
  "UnitStatus_RestartCount (MakeStillCreatingStatus n i r) = 0"
  by (simp_all add: MakeStillCreatingStatus_def zero_UnitStatus_def)

lemma MakeFailedUpdateStatus_sel [simp]:
  "UnitStatus_Name (MakeFailedUpdateStatus n i r) = n"
  "UnitStatus_Image (MakeFailedUpdateStatus n i r) = i"
  "UnitStatus_State (MakeFailedUpdateStatus n i r) = waiting_state r True"
  "UnitStatus_Ready (MakeFailedUpdateStatus n i r) = False"
  by (simp_all add: MakeFailedUpdateStatus_def zero_UnitStatus_def)

text \<open>The state of a unit: waiting, running or terminated, one of them.\<close>

definition one_state :: "UnitState \<Rightarrow> bool" where
  "one_state s \<longleftrightarrow>
     length (filter (\<lambda>b. b) [UnitState_Waiting s \<noteq> None, UnitState_Running s \<noteq> None,
       UnitState_Terminated s \<noteq> None]) = 1"

lemma one_state_cases [simp]:
  "one_state (waiting_state r f)" "one_state (running_state t)" "one_state (terminated_state x)"
  by (simp_all add: one_state_def waiting_state_def running_state_def terminated_state_def
      zero_UnitState_def)

end
