(* ===== verification/Runtime_Service.thy ===== *)
theory Runtime_Service
  imports Api_Types
begin

text \<open>
  \<open>pkg/runtime/runtime.go\<close>: the interface between the pod controller and a container runtime, as a
  record of computations over the runtime's own state, and the contract the controller relies on.
  A \<open>*UnitStatus\<close> may be nil; \<open>RunPodSandbox\<close> writes the phase of the spec it is given.
\<close>

(* src: pkg/runtime/runtime.go 31-60 RuntimeService *)
record 's runtime =
  rt_RunPodSandbox :: "PodSpec \<Rightarrow> ('s, error \<times> PodSpec) state"
  rt_StopPodSandbox :: "PodSpec \<Rightarrow> ('s, error) state"
  rt_RemovePodSandbox :: "PodSpec \<Rightarrow> ('s, error) state"
  rt_CreateContainer :: "Unit \<Rightarrow> PodSpec \<Rightarrow> string \<Rightarrow> (string \<rightharpoonup> RegistryCredentials) \<Rightarrow> bool \<Rightarrow>
    ('s, UnitStatus option \<times> error) state"
  rt_StartContainer :: "Unit \<Rightarrow> PodSpec \<Rightarrow> string \<Rightarrow> ('s, UnitStatus option \<times> error) state"
  rt_RemoveContainer :: "Unit \<Rightarrow> ('s, error) state"
  rt_ContainerStatus :: "string \<Rightarrow> string \<Rightarrow> ('s, UnitStatus option \<times> error) state"
  rt_UnitRunning :: "string \<Rightarrow> ('s, bool) state"
  rt_GetPid :: "string \<Rightarrow> ('s, int \<times> bool) state"
  rt_SetPodNetwork :: "string \<Rightarrow> string \<Rightarrow> ('s, unit) state"

text \<open>
  The contract: an operation that fails says so with a status, and asking for the status of a
  container always gives one.
\<close>

locale container_service =
  fixes rt :: "'s runtime"
  assumes create_status:
    "result (rt_CreateContainer rt u spec podName creds overlay) s = (None, err) \<Longrightarrow> err = None"
    and start_status: "result (rt_StartContainer rt u spec podName) s = (None, err) \<Longrightarrow> err = None"

locale runtime_service = container_service +
  assumes status_total: "fst (result (rt_ContainerStatus rt name img) s) \<noteq> None"

end
