(* ===== verification/Os_World.thy ===== *)
theory Os_World
  imports Itzo_Prelude
begin

text \<open>
  The operating system as the code sees it.  A system call is recorded in a trace and answered by the
  environment, an arbitrary function of the calls so far: no property assumes anything about the
  answers unless it says so.  Component states extend the record \<open>os\<close>, so that the mount code can
  run inside the state of a unit.
\<close>

section \<open>Calls and answers\<close>

text \<open>What \<open>os.Stat\<close> and \<open>os.Lstat\<close> tell: the bits of the mode that the code reads, and the size.\<close>

record FileInfo =
  fi_IsDir :: bool
  fi_ModeSymlink :: bool
  fi_ModeSocket :: bool
  fi_ModeDevice :: bool
  fi_ModeCharDevice :: bool
  fi_Size :: int

text \<open>Durations are in nanoseconds.\<close>

abbreviation (input) time_Second :: int where "time_Second \<equiv> 1000000000"

datatype os_call =
    Sys_Mount string string string nat string
  | Sys_Unmount string nat
  | Sys_PivotRoot string string
  | Sys_Mkfifo string nat
  | Sys_Sethostname string
  | Os_MkdirAll string nat
  | Os_Mkdir string nat
  | Os_Stat string
  | Os_Lstat string
  | Os_Readlink string
  | Os_Symlink string string
  | Os_Link string string
  | Os_Create string
  | Os_OpenFile string
  | Os_Remove string
  | Os_RemoveAll string
  | Os_Rename string string
  | Os_Chown string int int
  | Os_Lchown string int int
  | Os_Chmod string nat
  | Os_Chdir string
  | Os_Setenv string string
  | Io_ReadFile string
  | Io_WriteFile string string nat
  | Io_Copy string string
  | Sys_Sleep int
  | Sys_Exec "string list" "nat list" "(nat \<times> nat \<times> nat list) option"
  | Sys_Start "string list" "string list" bool
  | Ext_Call string "string list"

record reply =
  reply_err :: error
  reply_info :: FileInfo
  reply_data :: string
  reply_ints :: "int list"

definition zero_FileInfo :: FileInfo where
  "zero_FileInfo = \<lparr>fi_IsDir = False, fi_ModeSymlink = False, fi_ModeSocket = False,
     fi_ModeDevice = False, fi_ModeCharDevice = False, fi_Size = 0\<rparr>"

definition ok_reply :: reply where
  "ok_reply = \<lparr>reply_err = None, reply_info = zero_FileInfo, reply_data = [],
     reply_ints = []\<rparr>"

record os =
  os_env :: "os_call list \<Rightarrow> os_call \<Rightarrow> reply"
  os_trace :: "os_call list"

text \<open>The world in which every call succeeds.\<close>

definition calm :: os where
  "calm = \<lparr>os_env = (\<lambda>_ _. ok_reply), os_trace = []\<rparr>"

definition os_reply :: "os_call \<Rightarrow> ('a os_scheme, reply) state" where
  "os_reply c = State (\<lambda>w. (os_env w (os_trace w) c, w\<lparr>os_trace := os_trace w @ [c]\<rparr>))"

definition os_do :: "os_call \<Rightarrow> ('a os_scheme, error) state" where
  "os_do c = do { r \<leftarrow> os_reply c; return (reply_err r) }"

text \<open>A call whose error the code ignores or only logs.\<close>

definition os_try :: "os_call \<Rightarrow> ('a os_scheme, unit) state" where
  "os_try c = do { os_reply c; return () }"

named_theorems os_simps \<open>results and traces of system calls\<close>

lemma result_os_reply [simp]: "result (os_reply c) w = os_env w (os_trace w) c"
  by (simp add: os_reply_def result_def)

lemma final_os_reply [simp]: "final (os_reply c) w = w\<lparr>os_trace := os_trace w @ [c]\<rparr>"
  by (simp add: os_reply_def final_def)

lemma result_os_do [simp]: "result (os_do c) w = reply_err (os_env w (os_trace w) c)"
  by (simp add: os_do_def)

lemma final_os_do [simp]: "final (os_do c) w = w\<lparr>os_trace := os_trace w @ [c]\<rparr>"
  by (simp add: os_do_def)

lemma final_os_try [simp]: "final (os_try c) w = w\<lparr>os_trace := os_trace w @ [c]\<rparr>"
  by (simp add: os_try_def)

lemma calm_env [simp]: "os_env calm h c = ok_reply"
  by (simp add: calm_def)

lemma ok_reply_sel [simp]: "reply_err ok_reply = None"
  by (simp add: ok_reply_def)

section \<open>Traces\<close>

text \<open>The calls a computation makes; computations that only make calls, of a given kind.\<close>

definition calls :: "('a os_scheme, 'b) state \<Rightarrow> 'a os_scheme \<Rightarrow> os_call list" where
  "calls m w = drop (length (os_trace w)) (os_trace (final m w))"

definition calls_within :: "(os_call \<Rightarrow> bool) \<Rightarrow> ('a os_scheme, 'b) state \<Rightarrow> bool" where
  "calls_within P m \<longleftrightarrow>
     (\<forall>w. \<exists>cs. final m w = w\<lparr>os_trace := os_trace w @ cs\<rparr> \<and> list_all P cs)"

abbreviation only_calls :: "('a os_scheme, 'b) state \<Rightarrow> bool" where
  "only_calls m \<equiv> calls_within (\<lambda>c. True) m"

named_theorems calls_intros \<open>rules for \<open>calls_within\<close>\<close>

lemma calls_within_final:
  assumes "calls_within P m"
  shows "final m w = w\<lparr>os_trace := os_trace w @ calls m w\<rparr>" "list_all P (calls m w)"
  using assms by (auto simp: calls_within_def calls_def dest!: spec [where x = w])

lemma calls_within_env: "calls_within P m \<Longrightarrow> os_env (final m w) = os_env w"
  by (subst calls_within_final) simp_all

lemma only_calls_trace: "calls_within P m \<Longrightarrow> os_trace (final m w) = os_trace w @ calls m w"
  using calls_within_final(1) [of P m w] by simp

lemma calls_withinI:
  "(\<And>w. \<exists>cs. final m w = w\<lparr>os_trace := os_trace w @ cs\<rparr> \<and> list_all P cs) \<Longrightarrow> calls_within P m"
  by (simp add: calls_within_def)

lemma calls_within_return [calls_intros]: "calls_within P (return x)"
  by (rule calls_withinI) (rule exI [where x = "[]"], simp)

lemma calls_within_gets [calls_intros]: "calls_within P (gets f)"
  by (rule calls_withinI) (rule exI [where x = "[]"], simp)

lemma calls_within_os_reply [calls_intros]: "P c \<Longrightarrow> calls_within P (os_reply c)"
  by (rule calls_withinI) auto

lemma calls_within_bind [calls_intros]:
  assumes "calls_within P m" "\<And>x. calls_within P (f x)"
  shows "calls_within P (State_Monad.bind m f)"
proof (rule calls_withinI)
  fix w
  obtain as where as: "final m w = w\<lparr>os_trace := os_trace w @ as\<rparr>" "list_all P as"
    using assms(1) by (auto simp: calls_within_def)
  obtain bs where bs: "final (f (result m w)) (final m w) =
      (final m w)\<lparr>os_trace := os_trace (final m w) @ bs\<rparr>" "list_all P bs"
    using assms(2) [of "result m w"] unfolding calls_within_def by meson
  show "\<exists>cs. final (State_Monad.bind m f) w = w\<lparr>os_trace := os_trace w @ cs\<rparr> \<and> list_all P cs"
    using as bs by (intro exI [where x = "as @ bs"]) simp
qed

lemma calls_within_if [calls_intros]:
  "(b \<Longrightarrow> calls_within P m) \<Longrightarrow> (\<not> b \<Longrightarrow> calls_within P m') \<Longrightarrow> calls_within P (if b then m else m')"
  by simp

lemma calls_within_option [calls_intros]:
  "(x = None \<Longrightarrow> calls_within P m) \<Longrightarrow> (\<And>y. x = Some y \<Longrightarrow> calls_within P (f y)) \<Longrightarrow>
   calls_within P (case x of None \<Rightarrow> m | Some y \<Rightarrow> f y)"
  by (cases x) simp_all

lemma calls_within_prod [calls_intros]:
  "(\<And>y z. x = (y, z) \<Longrightarrow> calls_within P (f y z)) \<Longrightarrow> calls_within P (case x of (y, z) \<Rightarrow> f y z)"
  by (cases x) simp

lemma calls_within_nat [calls_intros]:
  "(n = 0 \<Longrightarrow> calls_within P m) \<Longrightarrow> (\<And>k. n = Suc k \<Longrightarrow> calls_within P (f k)) \<Longrightarrow>
   calls_within P (case n of 0 \<Rightarrow> m | Suc k \<Rightarrow> f k)"
  by (cases n) simp_all

lemma calls_within_Let [calls_intros]:
  "(\<And>y. y = x \<Longrightarrow> calls_within P (f y)) \<Longrightarrow> calls_within P (let y = x in f y)"
  by (simp add: Let_def)

lemma calls_within_os_do [calls_intros]: "P c \<Longrightarrow> calls_within P (os_do c)"
  unfolding os_do_def by (intro calls_intros)

lemma calls_within_os_try [calls_intros]: "P c \<Longrightarrow> calls_within P (os_try c)"
  unfolding os_try_def by (intro calls_intros)

lemma calls_within_for_err [calls_intros]:
  "(\<And>x. x \<in> set xs \<Longrightarrow> calls_within P (f x)) \<Longrightarrow> calls_within P (for_err f xs)"
  by (induction xs) (auto intro!: calls_intros)

lemma calls_within_for_each [calls_intros]:
  "(\<And>x. x \<in> set xs \<Longrightarrow> calls_within P (f x)) \<Longrightarrow> calls_within P (for_each f xs)"
  by (induction xs) (auto intro!: calls_intros)

lemma calls_within_mono:
  assumes "calls_within P m" "\<And>c. P c \<Longrightarrow> Q c"
  shows "calls_within Q m"
proof (rule calls_withinI)
  fix w
  obtain cs where "final m w = w\<lparr>os_trace := os_trace w @ cs\<rparr>" "list_all P cs"
    using assms(1) by (auto simp: calls_within_def)
  then show "\<exists>cs. final m w = w\<lparr>os_trace := os_trace w @ cs\<rparr> \<and> list_all Q cs"
    using assms(2) by (intro exI [where x = cs]) (simp add: list_all_iff)
qed

lemma calls_return [os_simps]: "calls (return x) w = []"
  by (simp add: calls_def)

lemma calls_os_do [os_simps]: "calls (os_do c) w = [c]"
  by (simp add: calls_def)

lemma calls_os_try [os_simps]: "calls (os_try c) w = [c]"
  by (simp add: calls_def)

lemma calls_os_reply [os_simps]: "calls (os_reply c) w = [c]"
  by (simp add: calls_def)

lemma calls_bind:
  assumes "only_calls m" "\<And>x. only_calls (f x)"
  shows "calls (State_Monad.bind m f) w = calls m w @ calls (f (result m w)) (final m w)"
proof -
  have "os_trace (final (f (result m w)) (final m w)) =
      os_trace (final m w) @ calls (f (result m w)) (final m w)"
    by (rule only_calls_trace [OF assms(2)])
  then have "os_trace (final (State_Monad.bind m f) w) =
      os_trace w @ calls m w @ calls (f (result m w)) (final m w)"
    unfolding final_bind only_calls_trace [OF assms(1), of w] by (simp only: append_assoc)
  then show ?thesis
    unfolding calls_def [of "State_Monad.bind m f"]
    by (simp only: drop_append drop_all order_refl diff_self_eq_0 diff_0_eq_0 drop_0 append_Nil)
qed

section \<open>Traces of computations that also change the rest of the state\<close>

definition trace_within :: "(os_call \<Rightarrow> bool) \<Rightarrow> ('a os_scheme, 'b) state \<Rightarrow> bool" where
  "trace_within P m \<longleftrightarrow> (\<forall>w. \<exists>cs. os_trace (final m w) = os_trace w @ cs \<and> list_all P cs)"

named_theorems trace_intros \<open>rules for \<open>trace_within\<close>\<close>

lemma trace_withinI:
  "(\<And>w. \<exists>cs. os_trace (final m w) = os_trace w @ cs \<and> list_all P cs) \<Longrightarrow> trace_within P m"
  by (simp add: trace_within_def)

lemma trace_within_set:
  assumes "trace_within P m" "c \<in> set (os_trace (final m w))"
  shows "c \<in> set (os_trace w) \<or> P c"
proof -
  obtain cs where "os_trace (final m w) = os_trace w @ cs" "list_all P cs"
    using assms(1) by (auto simp: trace_within_def)
  with assms(2) show ?thesis by (auto simp: list_all_iff)
qed

lemma trace_within_calls: "calls_within P m \<Longrightarrow> trace_within P m"
  by (rule trace_withinI, rule exI [where x = "calls m _"])
    (simp add: only_calls_trace calls_within_final(2))

lemma trace_within_return [trace_intros]: "trace_within P (return x)"
  by (rule trace_withinI) (rule exI [where x = "[]"], simp)

lemma trace_within_gets [trace_intros]: "trace_within P (gets f)"
  by (rule trace_withinI) (rule exI [where x = "[]"], simp)

lemma trace_within_modify [trace_intros]:
  "(\<And>w. os_trace (f w) = os_trace w) \<Longrightarrow> trace_within P (modify f)"
  by (rule trace_withinI) (rule exI [where x = "[]"], simp)

lemma trace_within_os_reply [trace_intros]: "P c \<Longrightarrow> trace_within P (os_reply c)"
  by (rule trace_withinI) auto

lemma trace_within_bind [trace_intros]:
  assumes "trace_within P m" "\<And>x. trace_within P (f x)"
  shows "trace_within P (State_Monad.bind m f)"
proof (rule trace_withinI)
  fix w
  obtain as where as: "os_trace (final m w) = os_trace w @ as" "list_all P as"
    using assms(1) by (auto simp: trace_within_def)
  obtain bs where bs: "os_trace (final (f (result m w)) (final m w)) = os_trace (final m w) @ bs"
      "list_all P bs"
    using assms(2) [of "result m w"] unfolding trace_within_def by meson
  show "\<exists>cs. os_trace (final (State_Monad.bind m f) w) = os_trace w @ cs \<and> list_all P cs"
    using as bs by (intro exI [where x = "as @ bs"]) simp
qed

lemma trace_within_if [trace_intros]:
  "(b \<Longrightarrow> trace_within P m) \<Longrightarrow> (\<not> b \<Longrightarrow> trace_within P m') \<Longrightarrow> trace_within P (if b then m else m')"
  by simp

lemma trace_within_option [trace_intros]:
  "(x = None \<Longrightarrow> trace_within P m) \<Longrightarrow> (\<And>y. x = Some y \<Longrightarrow> trace_within P (f y)) \<Longrightarrow>
   trace_within P (case x of None \<Rightarrow> m | Some y \<Rightarrow> f y)"
  by (cases x) simp_all

lemma trace_within_prod [trace_intros]:
  "(\<And>y z. x = (y, z) \<Longrightarrow> trace_within P (f y z)) \<Longrightarrow> trace_within P (case x of (y, z) \<Rightarrow> f y z)"
  by (cases x) simp

lemma trace_within_Let [trace_intros]:
  "(\<And>y. y = x \<Longrightarrow> trace_within P (f y)) \<Longrightarrow> trace_within P (let y = x in f y)"
  by (simp add: Let_def)

lemma trace_within_os_do [trace_intros]: "P c \<Longrightarrow> trace_within P (os_do c)"
  unfolding os_do_def by (intro trace_intros)

lemma trace_within_os_try [trace_intros]: "P c \<Longrightarrow> trace_within P (os_try c)"
  unfolding os_try_def by (intro trace_intros)

lemma trace_within_for_err [trace_intros]:
  "(\<And>x. x \<in> set xs \<Longrightarrow> trace_within P (f x)) \<Longrightarrow> trace_within P (for_err f xs)"
  by (induction xs) (auto intro!: trace_intros)

lemma trace_within_for_each [trace_intros]:
  "(\<And>x. x \<in> set xs \<Longrightarrow> trace_within P (f x)) \<Longrightarrow> trace_within P (for_each f xs)"
  by (induction xs) (auto intro!: trace_intros)

section \<open>Preserving a property of the state\<close>

definition preserves :: "('s \<Rightarrow> bool) \<Rightarrow> ('s, 'b) state \<Rightarrow> bool" where
  "preserves P m \<longleftrightarrow> (\<forall>w. P w \<longrightarrow> P (final m w))"

named_theorems preserves_intros \<open>rules for \<open>preserves\<close>\<close>

lemma preservesD: "preserves P m \<Longrightarrow> P w \<Longrightarrow> P (final m w)"
  by (simp add: preserves_def)

lemma preserves_return [preserves_intros]: "preserves P (return x)"
  by (simp add: preserves_def)

lemma preserves_gets [preserves_intros]: "preserves P (gets f)"
  by (simp add: preserves_def)

lemma preserves_modify [preserves_intros]: "(\<And>w. P w \<Longrightarrow> P (f w)) \<Longrightarrow> preserves P (modify f)"
  by (simp add: preserves_def)

lemma preserves_bind [preserves_intros]:
  "preserves P m \<Longrightarrow> (\<And>x. preserves P (f x)) \<Longrightarrow> preserves P (State_Monad.bind m f)"
  by (simp add: preserves_def)

lemma preserves_if [preserves_intros]:
  "(b \<Longrightarrow> preserves P m) \<Longrightarrow> (\<not> b \<Longrightarrow> preserves P m') \<Longrightarrow> preserves P (if b then m else m')"
  by simp

lemma preserves_option [preserves_intros]:
  "(x = None \<Longrightarrow> preserves P m) \<Longrightarrow> (\<And>y. x = Some y \<Longrightarrow> preserves P (f y)) \<Longrightarrow>
   preserves P (case x of None \<Rightarrow> m | Some y \<Rightarrow> f y)"
  by (cases x) simp_all

lemma preserves_sum [preserves_intros]:
  "(\<And>y. x = Inl y \<Longrightarrow> preserves P (f y)) \<Longrightarrow> (\<And>y. x = Inr y \<Longrightarrow> preserves P (g y)) \<Longrightarrow>
   preserves P (case x of Inl y \<Rightarrow> f y | Inr y \<Rightarrow> g y)"
  by (cases x) simp_all

lemma preserves_outcome [preserves_intros]:
  "(x = Panic \<Longrightarrow> preserves P m) \<Longrightarrow> (\<And>y. x = Ret y \<Longrightarrow> preserves P (f y)) \<Longrightarrow>
   preserves P (case x of Ret y \<Rightarrow> f y | Panic \<Rightarrow> m)"
  by (cases x) simp_all

lemma preserves_prod [preserves_intros]:
  "(\<And>y z. x = (y, z) \<Longrightarrow> preserves P (f y z)) \<Longrightarrow> preserves P (case x of (y, z) \<Rightarrow> f y z)"
  by (cases x) simp

lemma preserves_Let [preserves_intros]:
  "(\<And>y. y = x \<Longrightarrow> preserves P (f y)) \<Longrightarrow> preserves P (let y = x in f y)"
  by (simp add: Let_def)

lemma preserves_for_err [preserves_intros]:
  "(\<And>x. x \<in> set xs \<Longrightarrow> preserves P (f x)) \<Longrightarrow> preserves P (for_err f xs)"
  by (induction xs) (auto intro!: preserves_intros)

lemma preserves_for_each [preserves_intros]:
  "(\<And>x. x \<in> set xs \<Longrightarrow> preserves P (f x)) \<Longrightarrow> preserves P (for_each f xs)"
  by (induction xs) (auto intro!: preserves_intros)

text \<open>A property that does not look at the trace is preserved by system calls.\<close>

definition traceless :: "('a os_scheme \<Rightarrow> bool) \<Rightarrow> bool" where
  "traceless P \<longleftrightarrow> (\<forall>w cs. P w \<longrightarrow> P (w\<lparr>os_trace := cs\<rparr>))"

lemma preserves_calls: "traceless P \<Longrightarrow> calls_within Q m \<Longrightarrow> preserves P m"
  unfolding preserves_def by (subst calls_within_final(1)) (auto simp: traceless_def)

lemma preserves_os_reply [preserves_intros]: "traceless P \<Longrightarrow> preserves P (os_reply c)"
  by (simp add: preserves_def traceless_def)

lemma preserves_os_do [preserves_intros]: "traceless P \<Longrightarrow> preserves P (os_do c)"
  by (simp add: preserves_def traceless_def)

lemma preserves_os_try [preserves_intros]: "traceless P \<Longrightarrow> preserves P (os_try c)"
  by (simp add: preserves_def traceless_def)

end
