(* ===== verification/Containers.thy ===== *)
theory Containers
  imports Itzo_Prelude
begin

text \<open>
  The map-like containers: the concurrent map of \<open>pkg/util/conmap\<close> (each method runs under the
  map's lock, so it is one atomic operation), the two-level environment store of
  \<open>pkg/server/envstore.go\<close> and the map difference of \<open>pkg/util/diff.go\<close>.  What a client may
  assume of the two stores is one interface, \<open>go_store\<close>, which both provide.

  Go iterates over a map in an unspecified order.  An operation that does so takes the order as
  a list of keys; \<open>iterates\<close> says that a list is such an order.
\<close>

definition iterates :: "'k list \<Rightarrow> ('k \<rightharpoonup> 'v) \<Rightarrow> bool" where
  "iterates ks m \<longleftrightarrow> distinct ks \<and> set ks = dom m"

section \<open>The store interface\<close>

locale go_store =
  fixes get :: "'m \<Rightarrow> 'k \<Rightarrow> 'v option"
    and put :: "'k \<Rightarrow> 'v \<Rightarrow> 'm \<Rightarrow> 'm"
    and del :: "'k \<Rightarrow> 'm \<Rightarrow> 'm"
  assumes get_put: "get (put k v m) k' = (if k' = k then Some v else get m k')"
    and get_del: "get (del k m) k' = (if k' = k then None else get m k')"
begin

lemma put_overrides: "get (put k v (put k u m)) = get (put k v m)"
  by (rule ext) (simp add: get_put)

lemma put_commute: "k \<noteq> l \<Longrightarrow> get (put k v (put l u m)) = get (put l u (put k v m))"
  by (rule ext) (simp add: get_put)

lemma del_put: "get (del k (put k v m)) = get (del k m)"
  by (rule ext) (simp add: get_del get_put)

text \<open>After a series of writes a key holds the last value written, or what it held before.\<close>

lemma get_puts:
  "get (foldl (\<lambda>m kv. put (fst kv) (snd kv) m) m kvs) k =
   (case map_of (rev kvs) k of None \<Rightarrow> get m k | Some v \<Rightarrow> Some v)"
proof (induction kvs rule: rev_induct)
  case (snoc kv kvs)
  then show ?case by (cases kv) (simp add: get_put)
qed simp

lemma get_dels:
  "get (foldl (\<lambda>m k. del k m) m ks) k = (if k \<in> set ks then None else get m k)"
  by (induction ks arbitrary: m) (auto simp: get_del)

end

section \<open>conmap\<close>

(* src: pkg/util/conmap/conmaps.go 37-40 KeyTypeValueType *)
record ('k, 'v) KeyTypeValueType =
  conmap_data :: "'k \<rightharpoonup> 'v"

(* src: pkg/util/conmap/conmaps.go 47-51 NewKeyTypeValueType *)
definition NewKeyTypeValueType :: "('k, 'v) KeyTypeValueType" where
  "NewKeyTypeValueType = \<lparr>conmap_data = Map.empty\<rparr>"

(* src: pkg/util/conmap/conmaps.go 53-57 Set *)
definition conmap_Set :: "'k \<Rightarrow> 'v \<Rightarrow> ('k, 'v) KeyTypeValueType \<Rightarrow> ('k, 'v) KeyTypeValueType" where
  "conmap_Set key val m = m\<lparr>conmap_data := (conmap_data m)(key \<mapsto> val)\<rparr>"

(* src: pkg/util/conmap/conmaps.go 59-63 Delete *)
definition conmap_Delete :: "'k \<Rightarrow> ('k, 'v) KeyTypeValueType \<Rightarrow> ('k, 'v) KeyTypeValueType" where
  "conmap_Delete key m = m\<lparr>conmap_data := (conmap_data m)(key := None)\<rparr>"

text \<open>\<open>Get\<close> answers the zero value of the value type for a missing key.\<close>

(* src: pkg/util/conmap/conmaps.go 65-70 Get *)
definition conmap_Get :: "'v \<Rightarrow> ('k, 'v) KeyTypeValueType \<Rightarrow> 'k \<Rightarrow> 'v" where
  "conmap_Get zero m key = (case conmap_data m key of None \<Rightarrow> zero | Some v \<Rightarrow> v)"

(* src: pkg/util/conmap/conmaps.go 72-77 GetOK *)
definition conmap_GetOK :: "('k, 'v) KeyTypeValueType \<Rightarrow> 'k \<Rightarrow> 'v option" where
  "conmap_GetOK m key = conmap_data m key"

(* src: pkg/util/conmap/conmaps.go 79-84 Len *)
definition conmap_Len :: "('k, 'v) KeyTypeValueType \<Rightarrow> nat" where
  "conmap_Len m = card (dom (conmap_data m))"

(* src: pkg/util/conmap/conmaps.go 86-94 Items *)
definition conmap_Items :: "'k list \<Rightarrow> ('k, 'v) KeyTypeValueType \<Rightarrow> ('k \<times> 'v) list" where
  "conmap_Items order m =
     List.map_filter (\<lambda>k. map_option (\<lambda>v. (k, v)) (conmap_data m k)) order"

lemmas conmap_defs =
  NewKeyTypeValueType_def conmap_Set_def conmap_Delete_def conmap_Get_def conmap_GetOK_def

interpretation conmap: go_store conmap_GetOK conmap_Set conmap_Delete
  by unfold_locales (auto simp: conmap_defs)

lemma conmap_GetOK_Set [simp]:
  "conmap_GetOK (conmap_Set k v m) k' = (if k' = k then Some v else conmap_GetOK m k')"
  by (rule conmap.get_put)

lemma conmap_GetOK_Delete [simp]:
  "conmap_GetOK (conmap_Delete k m) k' = (if k' = k then None else conmap_GetOK m k')"
  by (rule conmap.get_del)

lemma conmap_Items_correct:
  assumes "iterates order (conmap_data m)"
  shows "map_of (conmap_Items order m) = conmap_data m"
    and "distinct (map fst (conmap_Items order m))"
    and "length (conmap_Items order m) = conmap_Len m"
proof -
  have items: "conmap_Items order m = map (\<lambda>k. (k, the (conmap_data m k))) order"
    if "set order \<subseteq> dom (conmap_data m)" for order
    using that by (induction order) (auto simp: conmap_Items_def map_filter_simps split: option.splits)
  have it: "conmap_Items order m = map (\<lambda>k. (k, the (conmap_data m k))) order"
    using assms by (intro items) (simp add: iterates_def)
  show "map_of (conmap_Items order m) = conmap_data m"
  proof
    fix k
    show "map_of (conmap_Items order m) k = conmap_data m k"
    proof (cases "k \<in> set order")
      case True
      with assms have "k \<in> dom (conmap_data m)" by (simp add: iterates_def)
      with True show ?thesis by (auto simp: it map_of_map_restrict)
    next
      case False
      with assms have "conmap_data m k = None" by (auto simp: iterates_def)
      with False show ?thesis by (simp add: it map_of_map_restrict)
    qed
  qed
  show "distinct (map fst (conmap_Items order m))"
    using assms by (simp add: it comp_def iterates_def)
  show "length (conmap_Items order m) = conmap_Len m"
    using assms by (simp add: it conmap_Len_def iterates_def flip: distinct_card)
qed

section \<open>EnvStore\<close>

text \<open>The outer map starts nil (\<^term>\<open>None\<close>) and is made by the first \<open>Add\<close>.\<close>

(* src: pkg/server/envstore.go 21-25 EnvStore *)
record EnvStore =
  EnvStore_data :: "(string \<rightharpoonup> (string \<rightharpoonup> string)) option"

(* src: pkg/server/envstore.go 27-39 Add *)
definition EnvStore_Add :: "string \<Rightarrow> string \<Rightarrow> string \<Rightarrow> EnvStore \<Rightarrow> EnvStore" where
  "EnvStore_Add u key val e =
     (let data = (case EnvStore_data e of None \<Rightarrow> Map.empty | Some d \<Rightarrow> d);
          m = (case data u of None \<Rightarrow> Map.empty | Some m \<Rightarrow> m)
      in e\<lparr>EnvStore_data := Some (data(u \<mapsto> m(key \<mapsto> val)))\<rparr>)"

(* src: pkg/server/envstore.go 41-50 Delete *)
definition EnvStore_Delete :: "string \<Rightarrow> string \<Rightarrow> EnvStore \<Rightarrow> EnvStore" where
  "EnvStore_Delete u key e =
     (case EnvStore_data e of
        None \<Rightarrow> e
      | Some data \<Rightarrow>
          (case data u of
             None \<Rightarrow> e
           | Some m \<Rightarrow> e\<lparr>EnvStore_data := Some (data(u \<mapsto> m(key := None)))\<rparr>))"

(* src: pkg/server/envstore.go 52-64 Get *)
definition EnvStore_Get :: "EnvStore \<Rightarrow> string \<Rightarrow> string \<Rightarrow> string option" where
  "EnvStore_Get e u key =
     (case EnvStore_data e of
        None \<Rightarrow> None
      | Some data \<Rightarrow> (case data u of None \<Rightarrow> None | Some m \<Rightarrow> m key))"

(* src: pkg/server/envstore.go 66-83 Items *)
definition EnvStore_Items :: "string list \<Rightarrow> EnvStore \<Rightarrow> string \<Rightarrow> (string \<times> string) list" where
  "EnvStore_Items order e u =
     (case EnvStore_data e of
        None \<Rightarrow> []
      | Some data \<Rightarrow>
          (case data u of
             None \<Rightarrow> []
           | Some m \<Rightarrow> List.map_filter (\<lambda>k. map_option (\<lambda>v. (k, v)) (m k)) order))"

lemmas EnvStore_defs = EnvStore_Add_def EnvStore_Delete_def EnvStore_Get_def

interpretation envstore: go_store "\<lambda>e uk. EnvStore_Get e (fst uk) (snd uk)"
    "\<lambda>uk. EnvStore_Add (fst uk) (snd uk)" "\<lambda>uk. EnvStore_Delete (fst uk) (snd uk)"
proof (unfold_locales, goal_cases)
  case (1 k v m k')
  then show ?case
    by (cases k; cases k') (auto simp: EnvStore_defs Let_def split: option.splits)
next
  case (2 k m k')
  then show ?case
    by (cases k; cases k') (auto simp: EnvStore_defs split: option.splits)
qed

section \<open>MapDiff\<close>

text \<open>\<open>reflect.DeepEqual\<close> on the stored values is equality of the values.\<close>

(* src: pkg/util/diff.go 23-45 MapDiff *)
definition MapDiff ::
  "string list \<Rightarrow> string list \<Rightarrow> (string \<rightharpoonup> 'v) \<Rightarrow> (string \<rightharpoonup> 'v) \<Rightarrow>
   string list \<times> string list \<times> string list" where
  "MapDiff spec_order status_order spec status =
     (let delete = filter (\<lambda>k. spec k = None) status_order;
          add = filter (\<lambda>k. status k = None) spec_order;
          update = filter (\<lambda>k. status k \<noteq> None \<and> spec k \<noteq> status k) spec_order
      in (add, update, delete))"

text \<open>What the three lists are for: a status brought up to date by them is the spec.\<close>

definition apply_diff ::
  "(string \<rightharpoonup> 'v) \<Rightarrow> string list \<times> string list \<times> string list \<Rightarrow> (string \<rightharpoonup> 'v) \<Rightarrow> (string \<rightharpoonup> 'v)" where
  "apply_diff spec d status =
     (\<lambda>k. if k \<in> set (snd (snd d)) then None
          else if k \<in> set (fst d) \<or> k \<in> set (fst (snd d)) then spec k
          else status k)"

lemma MapDiff_correct:
  assumes "iterates spec_order spec" "iterates status_order status"
  shows "apply_diff spec (MapDiff spec_order status_order spec status) status = spec"
proof
  fix k
  have "k \<in> set spec_order \<longleftrightarrow> spec k \<noteq> None" "k \<in> set status_order \<longleftrightarrow> status k \<noteq> None"
    using assms by (auto simp: iterates_def)
  then show "apply_diff spec (MapDiff spec_order status_order spec status) status k = spec k"
    by (cases "spec k"; cases "status k") (auto simp: apply_diff_def MapDiff_def Let_def)
qed

lemma MapDiff_disjoint:
  assumes "iterates spec_order spec" "iterates status_order status"
  shows "case MapDiff spec_order status_order spec status of (add, update, delete) \<Rightarrow>
           distinct (add @ update @ delete) \<and>
           set add = dom spec - dom status \<and>
           set update = {k \<in> dom spec \<inter> dom status. spec k \<noteq> status k} \<and>
           set delete = dom status - dom spec"
  using assms by (auto simp: iterates_def MapDiff_def Let_def)

end
