(* ===== verification/Util_Names.thy ===== *)
theory Util_Names
  imports Api_Types
begin

text \<open>
  The pure helpers of \<open>pkg/util\<close> (naming.go, version.go, image.go, ports.go, probes.go,
  envlist.go) and \<open>pkg/helper\<close>: names, image references, named ports and environment lists.
\<close>

section \<open>naming.go\<close>

(* src: pkg/util/naming.go 21-23 NamespaceSeparator *)
abbreviation (input) NamespaceSeparator :: char where "NamespaceSeparator \<equiv> CHR ''_''"

(* src: pkg/util/naming.go 25-30 GetNamespaceFromString *)
definition GetNamespaceFromString :: "string \<Rightarrow> string" where
  "GetNamespaceFromString n =
     (let i = IndexByte n NamespaceSeparator in if i > 0 then take (nat i) n else [])"

(* src: pkg/util/naming.go 32-40 GetNameFromString *)
definition GetNameFromString :: "string \<Rightarrow> string" where
  "GetNameFromString n =
     (let i = IndexByte n NamespaceSeparator
      in if i \<ge> 0 \<and> i < int (length n) - 1 then drop (nat (i + 1)) n
         else if i = int (length n) - 1 then []
         else n)"

(* src: pkg/util/naming.go 42-44 WithNamespace *)
definition WithNamespace :: "string \<Rightarrow> string \<Rightarrow> string" where
  "WithNamespace ns name = ns @ [NamespaceSeparator] @ name"

(* src: pkg/util/naming.go 46-55 SplitNamespaceAndName *)
definition SplitNamespaceAndName :: "string \<Rightarrow> string \<times> string" where
  "SplitNamespaceAndName n =
     (let parts = SplitN2 n NamespaceSeparator
      in if length parts = 0 then ([], [])
         else if length parts = 1 then ([], parts ! 0)
         else (parts ! 0, parts ! 1))"

lemma IndexByte_WithNamespace:
  "NamespaceSeparator \<notin> set ns \<Longrightarrow>
   IndexByte (WithNamespace ns name) NamespaceSeparator = int (length ns)"
  by (induction ns) (auto simp: WithNamespace_def Let_def)

lemma SplitNamespaceAndName_WithNamespace:
  "NamespaceSeparator \<notin> set ns \<Longrightarrow> SplitNamespaceAndName (WithNamespace ns name) = (ns, name)"
  by (simp add: SplitNamespaceAndName_def WithNamespace_def SplitN2_sep Let_def)

lemma GetNamespaceFromString_WithNamespace:
  "NamespaceSeparator \<notin> set ns \<Longrightarrow> GetNamespaceFromString (WithNamespace ns name) = ns"
  by (simp add: GetNamespaceFromString_def Let_def IndexByte_WithNamespace)
    (simp add: WithNamespace_def)

lemma GetNameFromString_WithNamespace:
  assumes "NamespaceSeparator \<notin> set ns"
  shows "GetNameFromString (WithNamespace ns name) = name"
proof -
  have "nat (int (length ns) + 1) = Suc (length ns)" by linarith
  then show ?thesis
    using assms
    by (auto simp: GetNameFromString_def Let_def IndexByte_WithNamespace)
      (auto simp: WithNamespace_def)
qed

lemma GetNameFromString_suffix: "HasSuffix n (GetNameFromString n)"
proof -
  have "HasSuffix n (drop k n)" for k
    by (cases "k \<le> length n") (simp_all add: HasSuffix_def)
  moreover have "HasSuffix n []"
    by (simp add: HasSuffix_def)
  ultimately show ?thesis
    by (simp add: GetNameFromString_def Let_def HasSuffix_def)
qed

section \<open>version.go\<close>

text \<open>The package variables set at build time are parameters.\<close>

(* src: pkg/util/version.go 27-33 Version *)
definition Version :: "string \<Rightarrow> string \<Rightarrow> string" where
  "Version VERSION GIT_REVISION =
     (if GIT_REVISION \<noteq> [] then VERSION @ ''-'' @ GIT_REVISION else VERSION)"

section \<open>image.go\<close>

(* src: pkg/util/image.go 25-41 ParseImageSpec *)
definition ParseImageSpec :: "string \<Rightarrow> string \<times> string" where
  "ParseImageSpec img =
     (let parts = split_on (CHR ''/'') img
      in if length parts = 1 then ([], strings_Join [''library'', parts ! 0] ''/'')
         else if Contains (parts ! 0) ''.'' then (parts ! 0, strings_Join (drop 1 parts) ''/'')
         else ([], img))"

fun find_creds :: "(string \<rightharpoonup> RegistryCredentials) \<Rightarrow> string list \<Rightarrow> string \<times> string" where
  "find_creds allCreds [] = ([], [])"
| "find_creds allCreds (s # ss) =
     (case allCreds s of
        Some creds \<Rightarrow> (RegistryCredentials_Username creds, RegistryCredentials_Password creds)
      | None \<Rightarrow> find_creds allCreds ss)"

(* src: pkg/util/image.go 43-66 GetRepoCreds *)
definition GetRepoCreds ::
  "string \<Rightarrow> (string \<rightharpoonup> RegistryCredentials) \<Rightarrow> string \<times> string" where
  "GetRepoCreds server allCreds =
     (case allCreds server of
        Some creds \<Rightarrow> (RegistryCredentials_Username creds, RegistryCredentials_Password creds)
      | None \<Rightarrow>
          if server = [] \<or> HasSuffix server ''docker.io''
          then find_creds allCreds [''index.docker.io'', ''registry-1.docker.io'', ''docker.io'']
          else ([], []))"

lemma ParseImageSpec_cases:
  obtains (library) "CHR ''/'' \<notin> set img" "ParseImageSpec img = ([], ''library/'' @ img)"
  | (server) s r where "ParseImageSpec img = (s, r)" "Contains s ''.''" "img = s @ ''/'' @ r"
  | (plain) "CHR ''/'' \<in> set img" "ParseImageSpec img = ([], img)"
proof (cases "CHR ''/'' \<in> set img")
  case False
  then show ?thesis
    by (intro library) (auto simp: ParseImageSpec_def split_on_single)
next
  case True
  obtain a b where ab: "img = a @ CHR ''/'' # b" "CHR ''/'' \<notin> set a"
    using split_list_first [OF True] by blast
  then have parts: "split_on (CHR ''/'') img = a # split_on (CHR ''/'') b"
    by (simp add: split_on_append)
  show ?thesis
  proof (cases "Contains a ''.''")
    case c: True
    then have "ParseImageSpec img = (a, b)"
      by (simp add: ParseImageSpec_def parts)
    with c ab show ?thesis by (intro server [of a b]) auto
  next
    case c: False
    with True show ?thesis
      by (intro plain) (auto simp: ParseImageSpec_def parts)
  qed
qed

section \<open>ports.go and probes.go\<close>

fun find_port :: "ContainerPort list \<Rightarrow> string \<Rightarrow> go_error + int" where
  "find_port [] portName = Inl (Errorf (''port '' @ portName @ '' not found''))"
| "find_port (p # ps) portName =
     (if ContainerPort_Name p = portName then Inr (ContainerPort_ContainerPort p)
      else find_port ps portName)"

(* src: pkg/util/ports.go 8-16 FindPortByName *)
definition FindPortByName :: "Unit \<Rightarrow> string \<Rightarrow> go_error + int" where
  "FindPortByName u portName = find_port (Unit_Ports u) portName"

(* src: pkg/util/probes.go 9-38 TranslateProbePorts *)
definition TranslateProbePorts :: "Unit \<Rightarrow> Probe option \<Rightarrow> Probe option" where
  "TranslateProbePorts u probe =
     (case probe of
        None \<Rightarrow> None
      | Some p \<Rightarrow>
          (case Handler_HTTPGet (Probe_Handler p) of
             None \<Rightarrow> probe
           | Some act \<Rightarrow>
               if IntOrString_Type (HTTPGetAction_Port act) = intstr_String then
                 (case FindPortByName u (IntOrString_StrVal (HTTPGetAction_Port act)) of
                    Inl err \<Rightarrow> Some p
                  | Inr port \<Rightarrow>
                      Some (p\<lparr>Probe_Handler := (Probe_Handler p)\<lparr>Handler_HTTPGet :=
                        Some (act\<lparr>HTTPGetAction_Port := intstr_FromInt port\<rparr>)\<rparr>\<rparr>))
               else probe))"

lemma find_port_find:
  "find_port ps n =
   (case List.find (\<lambda>p. ContainerPort_Name p = n) ps of
      None \<Rightarrow> Inl (Errorf (''port '' @ n @ '' not found''))
    | Some p \<Rightarrow> Inr (ContainerPort_ContainerPort p))"
  by (induction ps) auto

section \<open>envlist.go\<close>

text \<open>The key of an entry of an environment list is what stands before its first equals sign.\<close>

abbreviation env_key :: "string \<Rightarrow> string" where
  "env_key e \<equiv> SplitN2 e (CHR ''='') ! 0"

definition env_entry :: "string \<Rightarrow> string \<Rightarrow> string" where
  "env_entry key val = key @ ''='' @ val"

text \<open>The loop runs from the last entry to the first; \<open>result\<close> only ever grows at its end.\<close>

fun add_env_loop ::
  "string \<Rightarrow> string \<Rightarrow> bool \<Rightarrow> bool \<Rightarrow> string list \<Rightarrow> string list \<Rightarrow> bool \<times> string list" where
  "add_env_loop key val overwrite found res [] = (found, res)"
| "add_env_loop key val overwrite found res (e # es) =
     (if env_key e \<noteq> key then add_env_loop key val overwrite found (res @ [e]) es
      else if \<not> found then
        add_env_loop key val overwrite True
          (res @ [if overwrite then env_entry key val else e]) es
      else add_env_loop key val overwrite found res es)"

(* src: pkg/util/envlist.go 27-54 AddToEnvList *)
definition AddToEnvList :: "string list \<Rightarrow> string \<Rightarrow> string \<Rightarrow> bool \<Rightarrow> string list" where
  "AddToEnvList env key val overwrite =
     (let (found, res) = add_env_loop key val overwrite False [] (rev env)
      in if \<not> found then res @ [env_entry key val] else res)"

(* src: pkg/util/envlist.go 56-65 APIEnvVarsToMap *)
definition APIEnvVarsToMap :: "EnvVar list \<Rightarrow> (string \<rightharpoonup> string)" where
  "APIEnvVarsToMap envs =
     foldl (\<lambda>m ev. m(EnvVar_Name ev \<mapsto> EnvVar_Value ev)) Map.empty envs"

text \<open>\<open>expand\<close> stands for the \<open>expansion\<close> package, applied to the map of the variables.\<close>

(* src: pkg/util/envlist.go 67-78 ExpandContainerCommandOnlyStatic *)
definition ExpandContainerCommandOnlyStatic ::
  "((string \<rightharpoonup> string) \<Rightarrow> string \<Rightarrow> string) \<Rightarrow> string list \<Rightarrow> EnvVar list \<Rightarrow> string list" where
  "ExpandContainerCommandOnlyStatic expand containerCommand envs =
     map (expand (APIEnvVarsToMap envs)) containerCommand"

text \<open>An entry with no equals sign indexes past the end of \<open>items\<close>: a panic, \<^term>\<open>None\<close>.\<close>

(* src: pkg/util/envlist.go 80-87 EnvironToAPIEnvVar *)
fun EnvironToAPIEnvVar :: "string list \<Rightarrow> EnvVar list option" where
  "EnvironToAPIEnvVar [] = Some []"
| "EnvironToAPIEnvVar (e # es) =
     (let items = SplitN2 e (CHR ''='')
      in if length items < 2 then None
         else map_option
           (Cons \<lparr>EnvVar_Name = items ! 0, EnvVar_Value = items ! 1, EnvVar_ValueFrom = None\<rparr>)
           (EnvironToAPIEnvVar es))"

lemma env_key_entry [simp]: "CHR ''='' \<notin> set key \<Longrightarrow> env_key (env_entry key val) = key"
  by (simp add: env_entry_def SplitN2_sep)

text \<open>What the loop leaves: the other entries reversed, and one entry for the key.\<close>

lemma add_env_loop_found:
  "fst (add_env_loop key val ow f res es) \<longleftrightarrow> f \<or> (\<exists>e \<in> set es. env_key e = key)"
  by (induction es arbitrary: f res) auto

lemma add_env_loop_others:
  assumes "CHR ''='' \<notin> set key"
  shows "filter (\<lambda>e. env_key e \<noteq> key) (snd (add_env_loop key val ow f res es)) =
         filter (\<lambda>e. env_key e \<noteq> key) res @ filter (\<lambda>e. env_key e \<noteq> key) es"
  using assms by (induction es arbitrary: f res) auto

lemma add_env_loop_key:
  assumes "CHR ''='' \<notin> set key"
  shows "filter (\<lambda>e. env_key e = key) (snd (add_env_loop key val ow f res es)) =
         filter (\<lambda>e. env_key e = key) res @
         (if f then []
          else case filter (\<lambda>e. env_key e = key) es of
                 [] \<Rightarrow> [] | e # _ \<Rightarrow> [if ow then env_entry key val else e])"
  using assms by (induction es arbitrary: f res) (auto split: list.splits)

definition env_new :: "string list \<Rightarrow> string \<Rightarrow> string \<Rightarrow> bool \<Rightarrow> string" where
  "env_new env key val ow =
     (let es = filter (\<lambda>e. env_key e = key) env
      in if ow \<or> es = [] then env_entry key val else last es)"

lemma AddToEnvList_others:
  "CHR ''='' \<notin> set key \<Longrightarrow>
   filter (\<lambda>e. env_key e \<noteq> key) (AddToEnvList env key val ow) =
   rev (filter (\<lambda>e. env_key e \<noteq> key) env)"
  using add_env_loop_others [of key val ow False "[]" "rev env"]
  by (auto simp: AddToEnvList_def Let_def split_def rev_filter)

lemma AddToEnvList_key:
  assumes key: "CHR ''='' \<notin> set key"
  shows "filter (\<lambda>e. env_key e = key) (AddToEnvList env key val ow) = [env_new env key val ow]"
proof -
  let ?r = "add_env_loop key val ow False [] (rev env)"
  let ?es = "filter (\<lambda>e. env_key e = key) env"
  have k: "filter (\<lambda>e. env_key e = key) (snd ?r) =
    (case rev ?es of [] \<Rightarrow> [] | e # _ \<Rightarrow> [if ow then env_entry key val else e])"
    using add_env_loop_key [OF key, of val ow False "[]" "rev env"] by (simp add: rev_filter)
  have f: "fst ?r \<longleftrightarrow> ?es \<noteq> []"
    by (auto simp: add_env_loop_found filter_empty_conv)
  show ?thesis
  proof (cases "?es = []")
    case True
    with k f key show ?thesis
      by (simp add: AddToEnvList_def env_new_def split_def)
  next
    case False
    then obtain ys y where y: "?es = ys @ [y]" by (metis rev_exhaust)
    with k have "filter (\<lambda>e. env_key e = key) (snd ?r) = [if ow then env_entry key val else y]"
      by simp
    with f False y show ?thesis
      by (simp add: AddToEnvList_def env_new_def split_def)
  qed
qed

text \<open>Seen through another key, \<open>AddToEnvList\<close> only reverses the list.\<close>

lemma AddToEnvList_other_key:
  assumes "CHR ''='' \<notin> set key" "\<And>e. P e \<Longrightarrow> env_key e \<noteq> key"
  shows "filter P (AddToEnvList env key val ow) = rev (filter P env)"
proof -
  have sub: "filter P xs = filter P (filter (\<lambda>e. env_key e \<noteq> key) xs)" for xs
    using assms(2) by (induction xs) auto
  show ?thesis
    by (subst sub, subst AddToEnvList_others [OF assms(1)], subst (2) sub) (simp add: rev_filter)
qed

section \<open>helper.go of pkg/helper\<close>

(* src: pkg/helper/helper.go 6-6 maximumHostnameLength *)
abbreviation (input) maximumHostnameLength :: nat where "maximumHostnameLength \<equiv> 63"

(* src: pkg/helper/helper.go 7-7 defaultPath *)
definition defaultPath :: string where
  "defaultPath = ''/usr/local/sbin:/usr/local/bin:/usr/sbin:/usr/bin:/sbin:/bin''"

(* src: pkg/helper/helper.go 23-29 MakeHostname *)
definition MakeHostname :: "string \<Rightarrow> string" where
  "MakeHostname podname =
     (let noNSName = GetNameFromString podname
      in if length noNSName > maximumHostnameLength then take maximumHostnameLength noNSName
         else noNSName)"

(* src: pkg/helper/helper.go 10-21 EnsureDefaultEnviron *)
definition EnsureDefaultEnviron :: "string list \<Rightarrow> string \<Rightarrow> string \<Rightarrow> string list" where
  "EnsureDefaultEnviron env podname homedir =
     (let hostname = MakeHostname podname;
          env = AddToEnvList env ''HOSTNAME'' hostname True;
          env = AddToEnvList env ''TERM'' ''xterm'' False;
          env = AddToEnvList env ''HOME'' homedir False;
          env = AddToEnvList env ''PATH'' defaultPath False
      in env)"

lemma MakeHostname_length: "length (MakeHostname p) \<le> 63"
  by (simp add: MakeHostname_def Let_def)

text \<open>What the default environment keeps: every addition turns the order of the list around.\<close>

lemma AddToEnvList_key_other:
  "CHR ''='' \<notin> set k \<Longrightarrow> k \<noteq> key \<Longrightarrow>
   filter (\<lambda>e. env_key e = key) (AddToEnvList env k v ow) = rev (filter (\<lambda>e. env_key e = key) env)"
  by (rule AddToEnvList_other_key) auto

lemma env_new_AddToEnvList:
  assumes "CHR ''='' \<notin> set k" "k \<noteq> key"
  shows "env_new (AddToEnvList env k v ow) key val ow' = env_new (rev env) key val ow'"
    and "env_new (rev (AddToEnvList env k v ow)) key val ow' = env_new env key val ow'"
  using AddToEnvList_key_other [OF assms] by (simp_all add: env_new_def rev_filter [symmetric])

definition default_keys :: "string set" where
  "default_keys = {''HOSTNAME'', ''TERM'', ''HOME'', ''PATH''}"

lemma AddToEnvList_default_key:
  "CHR ''='' \<notin> set k \<Longrightarrow> k \<in> default_keys \<Longrightarrow>
   filter (\<lambda>e. env_key e \<notin> default_keys) (AddToEnvList env k v ow) =
   rev (filter (\<lambda>e. env_key e \<notin> default_keys) env)"
  by (rule AddToEnvList_other_key) auto

lemma in_default_keys [simp]:
  "''HOSTNAME'' \<in> default_keys" "''TERM'' \<in> default_keys" "''HOME'' \<in> default_keys"
  "''PATH'' \<in> default_keys"
  by (simp_all add: default_keys_def)

lemma EnsureDefaultEnviron_entries:
  "filter (\<lambda>e. env_key e = ''HOSTNAME'') (EnsureDefaultEnviron env podname homedir) =
     [env_entry ''HOSTNAME'' (MakeHostname podname)]"
  "filter (\<lambda>e. env_key e = ''TERM'') (EnsureDefaultEnviron env podname homedir) =
     [env_new (rev env) ''TERM'' ''xterm'' False]"
  "filter (\<lambda>e. env_key e = ''HOME'') (EnsureDefaultEnviron env podname homedir) =
     [env_new env ''HOME'' homedir False]"
  "filter (\<lambda>e. env_key e = ''PATH'') (EnsureDefaultEnviron env podname homedir) =
     [env_new (rev env) ''PATH'' defaultPath False]"
  "filter (\<lambda>e. env_key e \<notin> default_keys) (EnsureDefaultEnviron env podname homedir) =
     filter (\<lambda>e. env_key e \<notin> default_keys) env"
  by (simp_all add: EnsureDefaultEnviron_def Let_def AddToEnvList_key AddToEnvList_key_other
      env_new_AddToEnvList AddToEnvList_default_key env_new_def [of _ "''HOSTNAME''"])

end
