(* ===== verification/Pod_Controller.thy ===== *)
theory Pod_Controller
  imports Runtime_Service Os_World Containers Util_Names
begin

text \<open>
  \<open>pkg/server/pod_controller.go\<close>.  The functions that run in the update loop are computations over
  the controller's state, with the state of the runtime inside it; a nil status that would be
  dereferenced sets the flag \<open>pc_crashed\<close>.  The update loop, the goroutine that starts the units of an
  update, the cancellation of that goroutine and its wait group are a step relation.
\<close>

section \<open>State\<close>

(* src: pkg/server/pod_controller.go 37-43 UpdateType *)
datatype update_type =
  UpdateTypeNoChanges | UpdateTypePodRestart | UpdateTypePodCreate | UpdateTypeUnitsChange

(* src: pkg/server/pod_controller.go 46-46 specChanSize *)
abbreviation (input) specChanSize :: nat where "specChanSize \<equiv> 100"

(* src: pkg/server/pod_controller.go 50-72 PodController *)
record 's pod_controller =
  pc_podName :: string
  pc_podHostname :: string
  pc_podStatus :: PodSpec
  pc_updateChan :: "PodParameters list"
  pc_allCreds :: "string \<rightharpoonup> RegistryCredentials"
  pc_syncErrors :: "string \<rightharpoonup> UnitStatus"
  pc_netNS :: string
  pc_podIP :: string
  pc_podRestartCount :: int
  pc_restarting :: "(string, string) KeyTypeValueType"
  pc_annotations :: "string \<rightharpoonup> string"
  pc_crashed :: bool
  pc_world :: 's

type_synonym ('s, 'a) pc_m = "('s pod_controller, 'a) state"

definition on_rt :: "('s, 'a) state \<Rightarrow> ('s, 'a) pc_m" where
  "on_rt m = State (\<lambda>pc. let (r, w) = run_state m (pc_world pc) in (r, pc\<lparr>pc_world := w\<rparr>))"

lemma result_on_rt [simp]: "result (on_rt m) pc = result m (pc_world pc)"
  by (simp add: on_rt_def result_def split_def Let_def)

lemma final_on_rt [simp]: "final (on_rt m) pc = pc\<lparr>pc_world := final m (pc_world pc)\<rparr>"
  by (simp add: on_rt_def final_def split_def Let_def)

text \<open>\<open>pc.syncErrors[name] = *status\<close>\<close>

definition set_syncError :: "string \<Rightarrow> UnitStatus option \<Rightarrow> ('s, unit) pc_m" where
  "set_syncError name st =
     (case st of
        None \<Rightarrow> modify (\<lambda>pc. pc\<lparr>pc_crashed := True\<rparr>)
      | Some s \<Rightarrow> modify (\<lambda>pc. pc\<lparr>pc_syncErrors := (pc_syncErrors pc)(name \<mapsto> s)\<rparr>))"

(* src: pkg/server/pod_controller.go 93-106 NewPodController *)
definition NewPodController :: "'s \<Rightarrow> 's pod_controller" where
  "NewPodController world =
     \<lparr>pc_podName = [], pc_podHostname = [],
      pc_podStatus = zero_PodSpec\<lparr>PodSpec_Phase := PodRunning,
        PodSpec_RestartPolicy := RestartPolicyAlways\<rparr>,
      pc_updateChan = [], pc_allCreds = Map.empty, pc_syncErrors = Map.empty, pc_netNS = [],
      pc_podIP = [], pc_podRestartCount = 0, pc_restarting = NewKeyTypeValueType,
      pc_annotations = Map.empty, pc_crashed = False, pc_world = world\<rparr>"

(* src: pkg/server/pod_controller.go 109-113 SetPodNetwork *)
definition pc_SetPodNetwork :: "'s runtime \<Rightarrow> string \<Rightarrow> string \<Rightarrow> ('s, unit) pc_m" where
  "pc_SetPodNetwork rt netNS podIP = do {
     modify (\<lambda>pc. pc\<lparr>pc_netNS := netNS, pc_podIP := podIP\<rparr>);
     on_rt (rt_SetPodNetwork rt netNS podIP)
   }"

(* src: pkg/server/pod_controller.go 144-153 GetUnitName *)
definition GetUnitName :: "'s pod_controller \<Rightarrow> string \<Rightarrow> string \<times> error" where
  "GetUnitName pc unitName =
     (if unitName = [] then
        (case PodSpec_Units (pc_podStatus pc) of
           u # _ \<Rightarrow> (Unit_Name u, None)
         | [] \<Rightarrow> ([], Some (Errorf ''No running units on pod'')))
      else (unitName, None))"

text \<open>The channel is only written here; the caller is refused when it is full.\<close>

(* src: pkg/server/pod_controller.go 155-164 UpdatePod *)
definition UpdatePod :: "PodParameters \<Rightarrow> ('s, error) pc_m" where
  "UpdatePod params = do {
     chan \<leftarrow> gets pc_updateChan;
     if length chan = specChanSize
     then return (Some (Errorf ''Error updating pod spec: too many pending updates''))
     else do {
       modify (\<lambda>pc. pc\<lparr>pc_updateChan := chan @ [params]\<rparr>);
       return None
     }
   }"

section \<open>Secrets\<close>

(* src: pkg/server/pod_controller.go 170-190 MergeSecretsIntoSpec *)
fun merge_env :: "(string \<rightharpoonup> (string \<rightharpoonup> string)) \<Rightarrow> EnvVar list \<Rightarrow> EnvVar list" where
  "merge_env secrets [] = []"
| "merge_env secrets (ev # evs) =
     (case EnvVar_ValueFrom ev of
        None \<Rightarrow> ev # merge_env secrets evs
      | Some src \<Rightarrow>
          (case EnvVarSource_SecretKeyRef src of
             None \<Rightarrow> merge_env secrets evs
           | Some ref \<Rightarrow>
               (case secrets (SecretKeySelector_Name ref) of
                  None \<Rightarrow> merge_env secrets evs
                | Some m \<Rightarrow>
                    (case m (SecretKeySelector_Key ref) of
                       None \<Rightarrow> merge_env secrets evs
                     | Some val \<Rightarrow>
                         \<lparr>EnvVar_Name = EnvVar_Name ev, EnvVar_Value = val, EnvVar_ValueFrom = None\<rparr>
                         # merge_env secrets evs))))"

(* src: pkg/server/pod_controller.go 166-193 MergeSecretsIntoSpec *)
definition MergeSecretsIntoSpec :: "(string \<rightharpoonup> (string \<rightharpoonup> string)) \<Rightarrow> Unit list \<Rightarrow> Unit list" where
  "MergeSecretsIntoSpec secrets units =
     map (\<lambda>u. u\<lparr>Unit_Env := merge_env secrets (Unit_Env u)\<rparr>) units"

section \<open>Detecting changes\<close>

(* src: pkg/server/pod_controller.go 195-200 unitsEqual *)
definition unitsEqual :: "Unit \<Rightarrow> Unit \<Rightarrow> bool" where
  "unitsEqual specUnit statusUnit \<longleftrightarrow>
     Unit_Image specUnit = Unit_Image statusUnit \<and> Unit_Name specUnit = Unit_Name statusUnit"

(* src: pkg/server/pod_controller.go 202-215 unitsSlicesEqual *)
definition unitsSlicesEqual :: "Unit list \<Rightarrow> Unit list \<Rightarrow> bool" where
  "unitsSlicesEqual specUnits statusUnits \<longleftrightarrow>
     length specUnits = length statusUnits \<and>
     list_all (\<lambda>(a, b). unitsEqual a b) (zip specUnits statusUnits)"

text \<open>The two loops; \<open>i\<close> is the index of the next element.\<close>

(* src: pkg/server/pod_controller.go 221-230 diffUnits *)
fun diff_spec :: "Unit list \<Rightarrow> nat \<Rightarrow> Unit list \<Rightarrow> Unit list \<Rightarrow> Unit list \<Rightarrow> Unit list \<times> Unit list" where
  "diff_spec status i toAdd toDelete [] = (toAdd, toDelete)"
| "diff_spec status i toAdd toDelete (u # us) =
     (if i \<ge> length status then diff_spec status (Suc i) (toAdd @ [u]) toDelete us
      else if \<not> unitsEqual u (status ! i)
      then diff_spec status (Suc i) (toAdd @ [u]) (toDelete @ [status ! i]) us
      else diff_spec status (Suc i) toAdd toDelete us)"

(* src: pkg/server/pod_controller.go 233-242 diffUnits *)
fun diff_status :: "Unit list \<Rightarrow> nat \<Rightarrow> Unit list \<Rightarrow> Unit list \<Rightarrow> Unit list \<Rightarrow> Unit list \<times> Unit list" where
  "diff_status spec i toAdd toDelete [] = (toAdd, toDelete)"
| "diff_status spec i toAdd toDelete (u # us) =
     (if i \<ge> length spec then diff_status spec (Suc i) toAdd (toDelete @ [u]) us
      else if \<not> unitsEqual u (spec ! i)
      then diff_status spec (Suc i) (toAdd @ [spec ! i]) (toDelete @ [u]) us
      else diff_status spec (Suc i) toAdd toDelete us)"

(* src: pkg/server/pod_controller.go 217-245 diffUnits *)
definition diffUnits :: "Unit list \<Rightarrow> Unit list \<Rightarrow> Unit list \<times> Unit list" where
  "diffUnits spec status =
     (if length spec \<ge> length status then diff_spec status 0 [] [] spec
      else diff_status spec 0 [] [] status)"

(* src: pkg/server/pod_controller.go 247-261 detectChangeType *)
definition detectChangeType :: "PodSpec \<Rightarrow> PodSpec \<Rightarrow> update_type" where
  "detectChangeType spec status =
     (if \<not> unitsSlicesEqual (PodSpec_InitUnits spec) (PodSpec_InitUnits status)
      then UpdateTypePodRestart
      else if length (PodSpec_Units status) = 0 \<and> length (PodSpec_InitUnits status) = 0
      then UpdateTypePodCreate
      else
        let (toAdd, toDelete) = diffUnits (PodSpec_Units spec) (PodSpec_Units status);
            diffSize = length toAdd + length toDelete
        in if diffSize > 0 then UpdateTypeUnitsChange else UpdateTypeNoChanges)"

section \<open>Acting on a change\<close>

text \<open>\<open>strconv.ParseBool\<close>\<close>

definition ParseBool :: "string \<Rightarrow> bool option" where
  "ParseBool s =
     (if s \<in> {''1'', ''t'', ''T'', ''TRUE'', ''true'', ''True''} then Some True
      else if s \<in> {''0'', ''f'', ''F'', ''FALSE'', ''false'', ''False''} then Some False
      else None)"

(* src: pkg/server/pod_controller.go 42-42 UseOverlayfsAnnotationKey *)
definition UseOverlayfsAnnotationKey :: string where
  "UseOverlayfsAnnotationKey = ''pod.elotl.co/image-overlay-rootfs''"

(* src: pkg/server/pod_controller.go 497-514 useImageOverlayRootfs *)
definition useImageOverlayRootfs :: "(string \<rightharpoonup> string) \<Rightarrow> bool" where
  "useImageOverlayRootfs annotations =
     (case annotations UseOverlayfsAnnotationKey of
        Some val \<Rightarrow> (case ParseBool val of None \<Rightarrow> True | Some b \<Rightarrow> b)
      | None \<Rightarrow> True)"

text \<open>\<open>range units { CreateContainer }\<close>; \<open>created\<close> is what follows a container that was created.\<close>

definition create_units ::
  "'s runtime \<Rightarrow> PodSpec \<Rightarrow> (Unit \<Rightarrow> ('s, unit) pc_m) \<Rightarrow> Unit list \<Rightarrow> ('s, error) pc_m" where
  "create_units rt spec created us =
     for_err (\<lambda>u. do {
       podName \<leftarrow> gets pc_podName;
       creds \<leftarrow> gets pc_allCreds;
       annotations \<leftarrow> gets pc_annotations;
       (st, err) \<leftarrow> on_rt (rt_CreateContainer rt u spec podName creds
                             (useImageOverlayRootfs annotations));
       if err \<noteq> None then do { set_syncError (Unit_Name u) st; return err }
       else do { created u; return None }
     }) us"

(* src: pkg/server/pod_controller.go 454-471 CreatePod *)
definition CreatePod :: "'s runtime \<Rightarrow> PodSpec \<Rightarrow> ('s, error \<times> PodSpec) pc_m" where
  "CreatePod rt spec = do {
     (err, spec) \<leftarrow> on_rt (rt_RunPodSandbox rt spec);
     if err \<noteq> None then return (err, spec)
     else do {
       err \<leftarrow> create_units rt spec (\<lambda>_. return ()) (PodSpec_Units spec);
       return (err, spec)
     }
   }"

(* src: pkg/server/pod_controller.go 421-452 RestartPod *)
definition RestartPod :: "'s runtime \<Rightarrow> PodSpec \<Rightarrow> PodSpec \<Rightarrow> ('s, error \<times> PodSpec) pc_m" where
  "RestartPod rt spec status = do {
     err \<leftarrow> for_err (\<lambda>u. on_rt (rt_RemoveContainer rt u)) (PodSpec_Units status);
     if err \<noteq> None then return (err, spec) else do {
     err \<leftarrow> on_rt (rt_StopPodSandbox rt status);
     if err \<noteq> None then return (err, spec) else do {
     err \<leftarrow> on_rt (rt_RemovePodSandbox rt status);
     if err \<noteq> None then return (err, spec) else do {
     (err, spec) \<leftarrow> on_rt (rt_RunPodSandbox rt spec);
     if err \<noteq> None then return (err, spec) else do {
     err \<leftarrow> create_units rt spec (\<lambda>_. return ()) (PodSpec_Units spec);
     if err \<noteq> None then return (err, spec) else do {
     modify (\<lambda>pc. pc\<lparr>pc_podRestartCount := int32 (pc_podRestartCount pc + 1)\<rparr>);
     return (None, spec\<lparr>PodSpec_Phase := PodDispatching\<rparr>)
     }}}}}
   }"

(* src: pkg/server/pod_controller.go 477-483 RestartUnits *)
definition remove_unit :: "'s runtime \<Rightarrow> Unit \<Rightarrow> ('s, error) pc_m" where
  "remove_unit rt u = do {
     err \<leftarrow> on_rt (rt_RemoveContainer rt u);
     if err \<noteq> None then return err
     else do {
       modify (\<lambda>pc. pc\<lparr>pc_restarting := conmap_Set (Unit_Name u) (Unit_Image u) (pc_restarting pc)\<rparr>);
       return None
     }
   }"

(* src: pkg/server/pod_controller.go 473-495 RestartUnits *)
definition RestartUnits ::
  "'s runtime \<Rightarrow> PodSpec \<Rightarrow> PodSpec \<Rightarrow> ('s, Unit list \<times> error \<times> PodSpec) pc_m" where
  "RestartUnits rt spec status = do {
     let (addUnits, deleteUnits) = diffUnits (PodSpec_Units spec) (PodSpec_Units status);
     let spec = spec\<lparr>PodSpec_Phase := PodWaiting\<rparr>;
     err \<leftarrow> for_err (remove_unit rt) deleteUnits;
     if err \<noteq> None then return ([], err, spec) else do {
     err \<leftarrow> create_units rt spec
       (\<lambda>u. modify (\<lambda>pc. pc\<lparr>pc_restarting := conmap_Delete (Unit_Name u) (pc_restarting pc)\<rparr>))
       addUnits;
     if err \<noteq> None then return ([], err, spec) else return (addUnits, None, spec)
     }
   }"

text \<open>
  The part of \<open>SyncPodUnits\<close> before it waits for the previous update: \<^term>\<open>None\<close> when it returns
  there, else the init units and the units to start.
\<close>

(* src: pkg/server/pod_controller.go 263-299 SyncPodUnits *)
definition sync_prepare ::
  "'s runtime \<Rightarrow> PodSpec \<Rightarrow> PodSpec \<Rightarrow> (string \<rightharpoonup> RegistryCredentials) \<Rightarrow>
   ('s, update_type \<times> (Unit list \<times> Unit list) option \<times> PodSpec) pc_m" where
  "sync_prepare rt spec status allCreds = do {
     modify (\<lambda>pc. pc\<lparr>pc_allCreds := allCreds\<rparr>);
     let event = detectChangeType spec status;
     case event of
       UpdateTypeNoChanges \<Rightarrow> return (event, None, spec)
     | UpdateTypeUnitsChange \<Rightarrow> do {
         (addUnits, err, spec) \<leftarrow> RestartUnits rt spec status;
         return (event, if err \<noteq> None then None else Some ([], addUnits), spec)
       }
     | UpdateTypePodCreate \<Rightarrow> do {
         (err, spec) \<leftarrow> CreatePod rt spec;
         return (event, if err \<noteq> None then None
                        else Some (PodSpec_InitUnits spec, PodSpec_Units spec), spec)
       }
     | UpdateTypePodRestart \<Rightarrow> do {
         (err, spec) \<leftarrow> RestartPod rt spec status;
         return (event, if err \<noteq> None then None
                        else Some (PodSpec_InitUnits spec, PodSpec_Units spec), spec)
       }
   }"

(* src: pkg/server/pod_controller.go 129-134 doUpdate *)
definition merged_spec :: "PodParameters \<Rightarrow> PodSpec" where
  "merged_spec params =
     (let spec = PodParameters_Spec params; secrets = PodParameters_Secrets params
      in spec\<lparr>PodSpec_Units := MergeSecretsIntoSpec secrets (PodSpec_Units spec),
              PodSpec_InitUnits := MergeSecretsIntoSpec secrets (PodSpec_InitUnits spec)\<rparr>)"

(* src: pkg/server/pod_controller.go 129-135 doUpdate *)
definition update_prepare ::
  "'s runtime \<Rightarrow> PodParameters \<Rightarrow>
   ('s, update_type \<times> (Unit list \<times> Unit list) option \<times> PodSpec) pc_m" where
  "update_prepare rt params = do {
     modify (\<lambda>pc. pc\<lparr>pc_podName := PodParameters_PodName params,
                     pc_podHostname := PodParameters_PodHostname params\<rparr>);
     status \<leftarrow> gets pc_podStatus;
     sync_prepare rt (merged_spec params) status (PodParameters_Credentials params)
   }"

(* src: pkg/server/pod_controller.go 136-138 doUpdate *)
definition update_finish :: "PodParameters \<Rightarrow> PodSpec \<Rightarrow> ('s, unit) pc_m" where
  "update_finish params spec =
     modify (\<lambda>pc. pc\<lparr>pc_podStatus := spec, pc_annotations := PodParameters_Annotations params\<rparr>)"

section \<open>Status\<close>

(* src: pkg/server/pod_controller.go 377-395 GetStatus *)
definition unit_status :: "'s runtime \<Rightarrow> Unit \<Rightarrow> ('s, UnitStatus option) pc_m" where
  "unit_status rt u = do {
     (st, err) \<leftarrow> on_rt (rt_ContainerStatus rt (Unit_Name u) (Unit_Image u));
     pc \<leftarrow> gets (\<lambda>pc. pc);
     return (case pc_syncErrors pc (Unit_Name u) of
               Some failed \<Rightarrow> Some failed
             | None \<Rightarrow>
                 if err \<noteq> None \<and> conmap_GetOK (pc_restarting pc) (Unit_Name u) \<noteq> None
                 then Some (MakeStillCreatingStatus (Unit_Name u) (Unit_Image u) ''ContainerCreating'')
                 else st)
   }"

(* src: pkg/server/pod_controller.go 396-407 GetStatus *)
definition init_status :: "'s runtime \<Rightarrow> Unit \<Rightarrow> ('s, UnitStatus option) pc_m" where
  "init_status rt u = do {
     (st, err) \<leftarrow> on_rt (rt_ContainerStatus rt (Unit_Name u) (Unit_Image u));
     pc \<leftarrow> gets (\<lambda>pc. pc);
     return (case pc_syncErrors pc (Unit_Name u) of Some failed \<Rightarrow> Some failed | None \<Rightarrow> st)
   }"

(* src: pkg/server/pod_controller.go 409-417 GetStatus *)
definition completed_ready :: "UnitStatus \<Rightarrow> UnitStatus" where
  "completed_ready st =
     (case UnitState_Terminated (UnitStatus_State st) of
        Some t \<Rightarrow> if UnitStateTerminated_ExitCode t = 0 then st\<lparr>UnitStatus_Ready := True\<rparr> else st
      | None \<Rightarrow> st)"

text \<open>A nil status that is appended is dereferenced.\<close>

fun collect :: "(Unit \<Rightarrow> ('s, UnitStatus option) pc_m) \<Rightarrow> Unit list \<Rightarrow> ('s, UnitStatus list outcome) pc_m" where
  "collect f [] = return (Ret [])"
| "collect f (u # us) = do {
     st \<leftarrow> f u;
     case st of
       None \<Rightarrow> return Panic
     | Some s \<Rightarrow> do {
         r \<leftarrow> collect f us;
         return (case r of Panic \<Rightarrow> Panic | Ret ss \<Rightarrow> Ret (s # ss))
       }
   }"

(* src: pkg/server/pod_controller.go 374-419 GetStatus *)
definition pc_GetStatus :: "'s runtime \<Rightarrow> ('s, (UnitStatus list \<times> UnitStatus list) outcome) pc_m" where
  "pc_GetStatus rt = do {
     spec \<leftarrow> gets pc_podStatus;
     statuses \<leftarrow> collect (unit_status rt) (PodSpec_Units spec);
     case statuses of
       Panic \<Rightarrow> return Panic
     | Ret ss \<Rightarrow> do {
         inits \<leftarrow> collect (init_status rt) (PodSpec_InitUnits spec);
         return (case inits of Panic \<Rightarrow> Panic | Ret iss \<Rightarrow> Ret (ss, map completed_ready iss))
       }
   }"

section \<open>The update loop and the goroutine of an update\<close>

text \<open>
  Where the goroutine is: before the next init unit, waiting for one, or before the next unit.  The
  update loop is idle or waits for the goroutine of the update before; the wait group is its count.
\<close>

datatype task =
    T_inits "Unit list" "Unit list"
  | T_wait Unit "Unit list" "Unit list"
  | T_units "Unit list"

(* src: pkg/server/pod_controller.go 309-314 SyncPodUnits *)
record goroutine =
  g_spec :: PodSpec
  g_task :: task
  g_cancelled :: bool

datatype main = M_idle | M_wait "Unit list" "Unit list" PodSpec PodParameters

record 's sys =
  sys_pc :: "'s pod_controller"
  sys_main :: main
  sys_worker :: "goroutine option"
  sys_wg :: nat

(* src: pkg/server/pod_controller.go 309-314 SyncPodUnits *)
definition init_policy :: "PodSpec \<Rightarrow> RestartPolicy" where
  "init_policy spec =
     (if PodSpec_RestartPolicy spec = RestartPolicyAlways then RestartPolicyOnFailure
      else PodSpec_RestartPolicy spec)"

datatype poll_answer = P_again | P_done | P_failed

(* src: pkg/server/pod_controller.go 353-370 waitForInitUnit *)
definition poll_init :: "RestartPolicy \<Rightarrow> UnitStatus option \<Rightarrow> error \<Rightarrow> poll_answer" where
  "poll_init policy st err =
     (case (err, st) of
        (None, Some s) \<Rightarrow>
          (case UnitState_Terminated (UnitStatus_State s) of
             None \<Rightarrow> P_again
           | Some t \<Rightarrow>
               if UnitStateTerminated_ExitCode t = 0 then P_done
               else if policy = RestartPolicyNever then P_failed
               else P_again)
      | _ \<Rightarrow> P_again)"

text \<open>Starting a unit: an error is kept for \<open>GetStatus\<close>; a regular unit that starts clears its own.\<close>

(* src: pkg/server/pod_controller.go 317-323 SyncPodUnits *)
definition start_unit :: "'s runtime \<Rightarrow> PodSpec \<Rightarrow> Unit \<Rightarrow> ('s, error) pc_m" where
  "start_unit rt spec u = do {
     podName \<leftarrow> gets pc_podName;
     (st, err) \<leftarrow> on_rt (rt_StartContainer rt u spec podName);
     if err \<noteq> None then do { set_syncError (Unit_Name u) st; return err } else return None
   }"

(* src: pkg/server/pod_controller.go 336-336 SyncPodUnits *)
definition clear_syncError :: "string \<Rightarrow> ('s, unit) pc_m" where
  "clear_syncError name = modify (\<lambda>pc. pc\<lparr>pc_syncErrors := (pc_syncErrors pc)(name := None)\<rparr>)"

text \<open>
  One step of the goroutine: its next task, or that it ended, and whether it ended with
  \<open>waitGroup.Done()\<close>.  A goroutine that is cancelled, or whose init unit has failed for good, ends
  without it: those two \<open>return\<close>s are not preceded by a call to \<open>Done\<close>.
\<close>

datatype progress = Next task | Ended bool

(* src: pkg/server/pod_controller.go 315-338 SyncPodUnits *)
definition run_task :: "'s runtime \<Rightarrow> PodSpec \<Rightarrow> task \<Rightarrow> ('s, progress) pc_m" where
  "run_task rt spec t =
     (case t of
        T_inits [] units \<Rightarrow> return (Next (T_units units))
      | T_inits (u # us) units \<Rightarrow> do {
          err \<leftarrow> start_unit rt spec u;
          return (if err \<noteq> None then Ended True else Next (T_wait u us units))
        }
      | T_wait u us units \<Rightarrow> do {
          (st, err) \<leftarrow> on_rt (rt_ContainerStatus rt (Unit_Name u) (Unit_Image u));
          (if err = None \<and> st = None then modify (\<lambda>pc. pc\<lparr>pc_crashed := True\<rparr>) else return ());
          return (case poll_init (init_policy spec) st err of
                    P_again \<Rightarrow> Next t
                  | P_done \<Rightarrow> Next (T_inits us units)
                  | P_failed \<Rightarrow> Ended False)
        }
      | T_units [] \<Rightarrow> return (Ended True)
      | T_units (u # us) \<Rightarrow> do {
          err \<leftarrow> start_unit rt spec u;
          if err \<noteq> None then return (Ended True)
          else do { clear_syncError (Unit_Name u); return (Next (T_units us)) }
        })"

text \<open>Steps of the system: a client's update, the update loop, the goroutine.\<close>

(* src: pkg/server/pod_controller.go 115-127 runUpdateLoop *)
inductive sys_step :: "'s runtime \<Rightarrow> 's sys \<Rightarrow> 's sys \<Rightarrow> bool" for rt :: "'s runtime" where
  update: "sys_step rt s (s\<lparr>sys_pc := final (UpdatePod params) (sys_pc s)\<rparr>)"
| drop: "sys_main s = M_idle \<Longrightarrow> length (pc_updateChan (sys_pc s)) > 1 \<Longrightarrow>
    sys_step rt s (s\<lparr>sys_pc := (sys_pc s)\<lparr>pc_updateChan := tl (pc_updateChan (sys_pc s))\<rparr>\<rparr>)"
| trivial: "sys_main s = M_idle \<Longrightarrow> pc_updateChan (sys_pc s) = [params] \<Longrightarrow>
    run_state (update_prepare rt params) ((sys_pc s)\<lparr>pc_updateChan := []\<rparr>) = ((ev, None, spec), pc') \<Longrightarrow>
    sys_step rt s (s\<lparr>sys_pc := final (update_finish params spec) pc'\<rparr>)"
| start: "sys_main s = M_idle \<Longrightarrow> pc_updateChan (sys_pc s) = [params] \<Longrightarrow>
    run_state (update_prepare rt params) ((sys_pc s)\<lparr>pc_updateChan := []\<rparr>) =
      ((ev, Some (inits, units), spec), pc') \<Longrightarrow>
    sys_step rt s (s\<lparr>sys_pc := pc', sys_main := M_wait inits units spec params,
      sys_worker := map_option (\<lambda>g. g\<lparr>g_cancelled := True\<rparr>) (sys_worker s)\<rparr>)"
| resume: "sys_main s = M_wait inits units spec params \<Longrightarrow> sys_wg s = 0 \<Longrightarrow>
    sys_step rt s (s\<lparr>sys_main := M_idle, sys_wg := 1,
      sys_worker := Some \<lparr>g_spec = spec, g_task = T_inits inits units, g_cancelled = False\<rparr>,
      sys_pc := final (update_finish params (spec\<lparr>PodSpec_Phase := PodRunning\<rparr>)) (sys_pc s)\<rparr>)"
| cancelled: "sys_worker s = Some g \<Longrightarrow> g_cancelled g \<Longrightarrow> g_task g = T_wait u us units \<Longrightarrow>
    sys_step rt s (s\<lparr>sys_worker := None\<rparr>)"
| goes_on: "sys_worker s = Some g \<Longrightarrow>
    run_state (run_task rt (g_spec g) (g_task g)) (sys_pc s) = (Next t, pc') \<Longrightarrow>
    sys_step rt s (s\<lparr>sys_pc := pc', sys_worker := Some (g\<lparr>g_task := t\<rparr>)\<rparr>)"
| ends: "sys_worker s = Some g \<Longrightarrow>
    run_state (run_task rt (g_spec g) (g_task g)) (sys_pc s) = (Ended d, pc') \<Longrightarrow>
    sys_step rt s (s\<lparr>sys_pc := pc', sys_worker := None,
                     sys_wg := (if d then sys_wg s - 1 else sys_wg s)\<rparr>)"

inductive sys_steps :: "'s runtime \<Rightarrow> 's sys \<Rightarrow> 's sys \<Rightarrow> bool" for rt :: "'s runtime" where
  refl: "sys_steps rt s s"
| step: "sys_steps rt s t \<Longrightarrow> sys_step rt t u \<Longrightarrow> sys_steps rt s u"

definition init_sys :: "'s \<Rightarrow> 's sys" where
  "init_sys w = \<lparr>sys_pc = NewPodController w, sys_main = M_idle, sys_worker = None, sys_wg = 0\<rparr>"

section \<open>Properties\<close>

lemma sys_steps_trans: "sys_steps rt t u \<Longrightarrow> sys_steps rt s t \<Longrightarrow> sys_steps rt s u"
  by (induction rule: sys_steps.induct) (auto intro: sys_steps.step)

lemmas sys_steps_head = sys_steps_trans [OF _ sys_steps.step [OF sys_steps.refl]]

subsection \<open>Differences between specs\<close>

text \<open>The positions at which two lists of units differ, and what stands there.\<close>

definition same_at :: "Unit list \<Rightarrow> Unit list \<Rightarrow> nat \<Rightarrow> bool" where
  "same_at spec status i \<longleftrightarrow>
     i < length spec \<and> i < length status \<and> unitsEqual (spec ! i) (status ! i)"

lemma unitsEqual_sym: "unitsEqual a b \<longleftrightarrow> unitsEqual b a"
  by (auto simp: unitsEqual_def)

definition changed :: "Unit list \<Rightarrow> Unit list \<Rightarrow> Unit list" where
  "changed xs ys = map (\<lambda>i. xs ! i) (filter (\<lambda>i. \<not> same_at xs ys i) [0..<length xs])"

lemma diff_spec_eq:
  assumes "i \<le> length spec" "length status \<le> length spec"
  shows "diff_spec status i a d (drop i spec) =
     (a @ map ((!) spec) (filter (\<lambda>j. \<not> same_at spec status j) [i..<length spec]),
      d @ map ((!) status) (filter (\<lambda>j. \<not> same_at spec status j) [i..<length status]))"
  using assms
proof (induction "length spec - i" arbitrary: i a d)
  case 0
  then show ?case by simp
next
  case (Suc n)
  then have i: "i < length spec" by simp
  have dr: "drop i spec = spec ! i # drop (Suc i) spec" using i by (simp add: Cons_nth_drop_Suc)
  have up: "[i..<length spec] = i # [Suc i..<length spec]" using i by (simp add: upt_conv_Cons)
  show ?case
  proof (cases "i < length status")
    case True
    then have "[i..<length status] = i # [Suc i..<length status]" by (simp add: upt_conv_Cons)
    then show ?thesis
      using Suc(1) [of "Suc i"] Suc(2-) i dr up True by (auto simp: same_at_def)
  next
    case False
    then show ?thesis
      using Suc(1) [of "Suc i"] Suc(2-) i dr up by (auto simp: same_at_def)
  qed
qed

lemma diff_status_eq:
  assumes "i \<le> length status" "length spec \<le> length status"
  shows "diff_status spec i a d (drop i status) =
     (a @ map ((!) spec) (filter (\<lambda>j. \<not> same_at spec status j) [i..<length spec]),
      d @ map ((!) status) (filter (\<lambda>j. \<not> same_at spec status j) [i..<length status]))"
  using assms
proof (induction "length status - i" arbitrary: i a d)
  case 0
  then show ?case by simp
next
  case (Suc n)
  then have i: "i < length status" by simp
  have dr: "drop i status = status ! i # drop (Suc i) status" using i by (simp add: Cons_nth_drop_Suc)
  have up: "[i..<length status] = i # [Suc i..<length status]" using i by (simp add: upt_conv_Cons)
  show ?case
  proof (cases "i < length spec")
    case True
    then have "[i..<length spec] = i # [Suc i..<length spec]" by (simp add: upt_conv_Cons)
    then show ?thesis
      using Suc(1) [of "Suc i"] Suc(2-) i dr up True
      by (auto simp: same_at_def unitsEqual_sym [of "status ! i"])
  next
    case False
    then show ?thesis
      using Suc(1) [of "Suc i"] Suc(2-) i dr up by (auto simp: same_at_def)
  qed
qed

lemma same_at_sym: "same_at xs ys i \<longleftrightarrow> same_at ys xs i"
  by (auto simp: same_at_def unitsEqual_sym)

lemma diffUnits_changed: "diffUnits spec status = (changed spec status, changed status spec)"
proof -
  have sym: "(\<lambda>j. \<not> same_at status spec j) = (\<lambda>j. \<not> same_at spec status j)"
    using same_at_sym by blast
  show ?thesis
    using diff_spec_eq [of 0 spec status "[]" "[]"] diff_status_eq [of 0 status spec "[]" "[]"]
    by (simp add: diffUnits_def changed_def sym)
qed

lemma unitsSlicesEqual_iff:
  "unitsSlicesEqual xs ys \<longleftrightarrow> length xs = length ys \<and> (\<forall>i < length xs. same_at xs ys i)"
  by (auto simp: unitsSlicesEqual_def same_at_def list_all_length)

lemma changed_Nil:
  "changed xs ys = [] \<longleftrightarrow> (\<forall>i < length xs. same_at xs ys i)"
  by (auto simp: changed_def filter_empty_conv)

lemma no_change_iff:
  "changed xs ys = [] \<and> changed ys xs = [] \<longleftrightarrow> unitsSlicesEqual xs ys"
proof
  assume *: "changed xs ys = [] \<and> changed ys xs = []"
  then have "\<And>i. i < length xs \<Longrightarrow> i < length ys" "\<And>i. i < length ys \<Longrightarrow> i < length xs"
    by (auto simp: changed_Nil same_at_def)
  then have "length xs = length ys" by (meson linorder_neqE_nat less_irrefl)
  with * show "unitsSlicesEqual xs ys" by (simp add: changed_Nil unitsSlicesEqual_iff)
next
  assume "unitsSlicesEqual xs ys"
  then show "changed xs ys = [] \<and> changed ys xs = []"
    using same_at_sym by (auto simp: unitsSlicesEqual_iff changed_Nil)
qed

lemma detectChangeType_cases:
  "detectChangeType spec status =
     (if \<not> unitsSlicesEqual (PodSpec_InitUnits spec) (PodSpec_InitUnits status)
      then UpdateTypePodRestart
      else if PodSpec_Units status = [] \<and> PodSpec_InitUnits status = [] then UpdateTypePodCreate
      else if unitsSlicesEqual (PodSpec_Units spec) (PodSpec_Units status)
      then UpdateTypeNoChanges else UpdateTypeUnitsChange)"
  by (auto simp: detectChangeType_def diffUnits_changed simp flip: no_change_iff)

subsection \<open>Environment variables\<close>

text \<open>The value of a variable once secrets are merged; a variable whose secret is missing is dropped.\<close>

definition secret_value :: "(string \<rightharpoonup> (string \<rightharpoonup> string)) \<Rightarrow> EnvVar \<Rightarrow> string option" where
  "secret_value secrets ev =
     (case EnvVar_ValueFrom ev of
        None \<Rightarrow> Some (EnvVar_Value ev)
      | Some src \<Rightarrow>
          Option.bind (EnvVarSource_SecretKeyRef src) (\<lambda>ref.
            Option.bind (secrets (SecretKeySelector_Name ref)) (\<lambda>m. m (SecretKeySelector_Key ref))))"

lemma merge_env_values:
  "map (\<lambda>ev. (EnvVar_Name ev, EnvVar_Value ev)) (merge_env secrets evs) =
   List.map_filter (\<lambda>ev. map_option (\<lambda>v. (EnvVar_Name ev, v)) (secret_value secrets ev)) evs"
  by (induction evs) (auto simp: secret_value_def List.map_filter_simps split: option.splits)

lemma merge_env_plain: "ev \<in> set (merge_env secrets evs) \<Longrightarrow> EnvVar_ValueFrom ev = None"
  by (induction evs) (auto split: option.splits)

lemma merge_env_idem: "merge_env secrets' (merge_env secrets evs) = merge_env secrets evs"
proof -
  have "\<forall>ev \<in> set xs. EnvVar_ValueFrom ev = None \<Longrightarrow> merge_env secrets' xs = xs" for xs
    by (induction xs) auto
  then show ?thesis using merge_env_plain by blast
qed

subsection \<open>The channel of updates\<close>

lemma UpdatePod_result:
  "result (UpdatePod params) pc = None \<longleftrightarrow> length (pc_updateChan pc) \<noteq> specChanSize"
  by (simp add: UpdatePod_def)

lemma UpdatePod_chan:
  "pc_updateChan (final (UpdatePod params) pc) =
     (if length (pc_updateChan pc) = specChanSize then pc_updateChan pc
      else pc_updateChan pc @ [params])"
  by (simp add: UpdatePod_def)

text \<open>Nothing else writes the channel.\<close>

definition same_chan :: "('s, 'a) pc_m \<Rightarrow> bool" where
  "same_chan m \<longleftrightarrow> (\<forall>pc. pc_updateChan (final m pc) = pc_updateChan pc)"

lemma same_chan_intros:
  "same_chan (return x)" "same_chan (gets f)" "same_chan (on_rt r)"
  "(\<And>pc. pc_updateChan (g pc) = pc_updateChan pc) \<Longrightarrow> same_chan (modify g)"
  "same_chan m \<Longrightarrow> (\<And>x. same_chan (h x)) \<Longrightarrow> same_chan (State_Monad.bind m h)"
  "(b \<Longrightarrow> same_chan m1) \<Longrightarrow> (\<not> b \<Longrightarrow> same_chan m2) \<Longrightarrow> same_chan (if b then m1 else m2)"
  "(\<And>y z. p = (y, z) \<Longrightarrow> same_chan (k y z)) \<Longrightarrow> same_chan (case p of (y, z) \<Rightarrow> k y z)"
  by (auto simp: same_chan_def split: prod.split)

lemma same_chan_for_err:
  "(\<And>x. same_chan (f x)) \<Longrightarrow> same_chan (for_err f xs)"
  by (induction xs) (auto intro!: same_chan_intros split: option.split)

lemma same_chan_set_syncError: "same_chan (set_syncError n st)"
  by (cases st) (auto simp: set_syncError_def intro!: same_chan_intros)

lemma same_chan_create:
  "(\<And>u. same_chan (f u)) \<Longrightarrow> same_chan (create_units rt spec f us)"
  unfolding create_units_def
  by (intro same_chan_for_err same_chan_intros same_chan_set_syncError)

lemma same_chan_sync: "same_chan (sync_prepare rt spec status creds)"
proof -
  have "same_chan (CreatePod rt spec)" for spec :: PodSpec
    unfolding CreatePod_def by (intro same_chan_intros same_chan_create)
  moreover have "same_chan (RestartPod rt spec status)" for spec
    unfolding RestartPod_def by (intro same_chan_intros same_chan_create same_chan_for_err) simp
  moreover have "same_chan (RestartUnits rt spec status)" for spec
    unfolding RestartUnits_def remove_unit_def [abs_def] Let_def
    by (intro same_chan_intros same_chan_create same_chan_for_err) simp_all
  ultimately have "same_chan (case e of
       UpdateTypeNoChanges \<Rightarrow> return (e, None, spec)
     | UpdateTypeUnitsChange \<Rightarrow> do {
         (addUnits, err, spec) \<leftarrow> RestartUnits rt spec status;
         return (e, if err \<noteq> None then None else Some ([], addUnits), spec)
       }
     | UpdateTypePodCreate \<Rightarrow> do {
         (err, spec) \<leftarrow> CreatePod rt spec;
         return (e, if err \<noteq> None then None
                        else Some (PodSpec_InitUnits spec, PodSpec_Units spec), spec)
       }
     | UpdateTypePodRestart \<Rightarrow> do {
         (err, spec) \<leftarrow> RestartPod rt spec status;
         return (e, if err \<noteq> None then None
                        else Some (PodSpec_InitUnits spec, PodSpec_Units spec), spec)
       })" for e
    by (cases e) (auto intro!: same_chan_intros)
  then show ?thesis
    unfolding sync_prepare_def Let_def by (intro same_chan_intros) simp_all
qed

lemma same_chan_prepare: "same_chan (update_prepare rt params)"
  unfolding update_prepare_def by (intro same_chan_intros same_chan_sync) simp_all

lemma same_chan_start: "same_chan (start_unit rt spec u)"
  unfolding start_unit_def by (intro same_chan_intros same_chan_set_syncError)

lemma same_chan_run_task: "same_chan (run_task rt spec t)"
proof (cases t)
  case (T_inits us units)
  then show ?thesis by (cases us) (auto simp: run_task_def intro!: same_chan_intros same_chan_start)
next
  case (T_wait u us units)
  then show ?thesis by (auto simp: run_task_def intro!: same_chan_intros)
next
  case (T_units us)
  then show ?thesis
    by (cases us)
      (auto simp: run_task_def clear_syncError_def intro!: same_chan_intros same_chan_start)
qed

lemma same_chan_state: "same_chan m \<Longrightarrow> run_state m pc = (x, pc') \<Longrightarrow> pc_updateChan pc' = pc_updateChan pc"
  by (metis final_def same_chan_def snd_conv)

text \<open>The channel never holds more than its capacity.\<close>

lemma sys_step_chan:
  assumes "sys_step rt s t" "length (pc_updateChan (sys_pc s)) \<le> specChanSize"
  shows "length (pc_updateChan (sys_pc t)) \<le> specChanSize"
  using assms
proof (cases rule: sys_step.cases)
  case (trivial params ev spec pc')
  then show ?thesis
    using same_chan_state [OF same_chan_prepare trivial(4)] by (simp add: update_finish_def)
next
  case (start params ev inits units spec pc')
  then show ?thesis using same_chan_state [OF same_chan_prepare start(4)] by simp
next
  case (goes_on g t' pc')
  then show ?thesis using same_chan_state [OF same_chan_run_task goes_on(3)] assms(2) by simp
next
  case (ends g d pc')
  then show ?thesis using same_chan_state [OF same_chan_run_task ends(3)] assms(2) by simp
qed (auto simp: UpdatePod_chan update_finish_def)

lemma sys_steps_chan:
  "sys_steps rt s t \<Longrightarrow> length (pc_updateChan (sys_pc s)) \<le> specChanSize \<Longrightarrow>
   length (pc_updateChan (sys_pc t)) \<le> specChanSize"
  by (induction rule: sys_steps.induct) (auto dest: sys_step_chan)

subsection \<open>One goroutine at a time, and the leak\<close>

definition wg_inv :: "'s sys \<Rightarrow> bool" where
  "wg_inv s \<longleftrightarrow> sys_wg s \<le> 1 \<and> (sys_worker s \<noteq> None \<longrightarrow> sys_wg s = 1)"

lemma sys_step_wg: "sys_step rt s t \<Longrightarrow> wg_inv s \<Longrightarrow> wg_inv t"
  by (cases rule: sys_step.cases) (auto simp: wg_inv_def)

lemma sys_steps_wg: "sys_steps rt s t \<Longrightarrow> wg_inv s \<Longrightarrow> wg_inv t"
  by (induction rule: sys_steps.induct) (auto dest: sys_step_wg)

lemma init_wg: "wg_inv (init_sys w)"
  by (simp add: wg_inv_def init_sys_def)

text \<open>
  The count leaks: a goroutine has ended without \<open>Done\<close>.  No goroutine ever runs again, and an
  update that waits waits for ever.
\<close>

definition leaked :: "'s sys \<Rightarrow> bool" where
  "leaked s \<longleftrightarrow> sys_worker s = None \<and> sys_wg s > 0"

lemma sys_step_leaked: "sys_step rt s t \<Longrightarrow> leaked s \<Longrightarrow> leaked t"
  by (cases rule: sys_step.cases) (auto simp: leaked_def)

lemma sys_step_leaked_wait:
  "sys_step rt s t \<Longrightarrow> leaked s \<Longrightarrow> sys_main s = M_wait i u spec p \<Longrightarrow> sys_main t = M_wait i u spec p"
  by (cases rule: sys_step.cases) (auto simp: leaked_def)

lemma sys_steps_leaked:
  assumes "sys_steps rt s t" "leaked s"
  shows "leaked t \<and> (sys_main s = M_wait i u spec p \<longrightarrow> sys_main t = M_wait i u spec p)"
  using assms
  by (induction rule: sys_steps.induct) (auto dest: sys_step_leaked sys_step_leaked_wait)

text \<open>Cancelling a goroutine that waits for an init unit leaks.\<close>

lemma cancelled_leaks:
  assumes "wg_inv s" "sys_worker s = Some g" "g_cancelled g" "g_task g = T_wait u us units"
  shows "\<exists>t. sys_step rt s t \<and> leaked t \<and> sys_main t = sys_main s"
  using sys_step.cancelled [OF assms(2-)] assms(1,2)
  by (intro exI [where x = "s\<lparr>sys_worker := None\<rparr>"]) (auto simp: leaked_def wg_inv_def)

lemma failed_init_leaks:
  assumes "wg_inv s" "sys_worker s = Some g" "g_task g = T_wait u us units"
    and "result (rt_ContainerStatus rt (Unit_Name u) (Unit_Image u)) (pc_world (sys_pc s)) = (st, err)"
    and "poll_init (init_policy (g_spec g)) st err = P_failed"
  shows "\<exists>t. sys_step rt s t \<and> leaked t"
proof -
  have "result (run_task rt (g_spec g) (g_task g)) (sys_pc s) = Ended False"
    using assms(3-5) by (simp add: run_task_def)
  then have "run_state (run_task rt (g_spec g) (g_task g)) (sys_pc s) =
      (Ended False, final (run_task rt (g_spec g) (g_task g)) (sys_pc s))"
    by (simp add: run_state_result_final)
  then have "sys_step rt s (s\<lparr>sys_pc := final (run_task rt (g_spec g) (g_task g)) (sys_pc s),
      sys_worker := None, sys_wg := (if False then sys_wg s - 1 else sys_wg s)\<rparr>)"
    by (rule sys_step.ends [OF assms(2)])
  moreover have "sys_wg s = 1" using assms(1,2) by (auto simp: wg_inv_def)
  ultimately show ?thesis by (auto simp: leaked_def)
qed

subsection \<open>What an update does to the runtime\<close>

text \<open>A runtime that records the calls it gets, and succeeds.\<close>

datatype rt_call =
    C_RunSandbox | C_StopSandbox | C_RemoveSandbox
  | C_Create string bool | C_Start string | C_Remove string | C_Status string

definition log_call :: "rt_call \<Rightarrow> 'a \<Rightarrow> (rt_call list, 'a) state" where
  "log_call c r = State (\<lambda>l. (r, l @ [c]))"

lemma log_call_run [simp]: "result (log_call c r) l = r" "final (log_call c r) l = l @ [c]"
  by (simp_all add: log_call_def result_def final_def)

definition log_rt :: "rt_call list runtime" where
  "log_rt =
     \<lparr>rt_RunPodSandbox = (\<lambda>spec. log_call C_RunSandbox (None, spec\<lparr>PodSpec_Phase := PodDispatching\<rparr>)),
      rt_StopPodSandbox = (\<lambda>spec. log_call C_StopSandbox None),
      rt_RemovePodSandbox = (\<lambda>spec. log_call C_RemoveSandbox None),
      rt_CreateContainer = (\<lambda>u spec p c ov. log_call (C_Create (Unit_Name u) ov) (None, None)),
      rt_StartContainer = (\<lambda>u spec p. log_call (C_Start (Unit_Name u)) (None, None)),
      rt_RemoveContainer = (\<lambda>u. log_call (C_Remove (Unit_Name u)) None),
      rt_ContainerStatus = (\<lambda>n i. log_call (C_Status n) (Some zero_UnitStatus, None)),
      rt_UnitRunning = (\<lambda>n. return True),
      rt_GetPid = (\<lambda>n. return (0, False)),
      rt_SetPodNetwork = (\<lambda>n ip. return ())\<rparr>"

lemma create_units_log:
  assumes "\<And>u pc. \<exists>m. final (f u) pc = pc\<lparr>pc_restarting := m\<rparr>"
  shows "result (create_units log_rt spec f us) pc = None \<and>
     (\<exists>m. final (create_units log_rt spec f us) pc = pc\<lparr>pc_restarting := m,
        pc_world := pc_world pc @
          map (\<lambda>u. C_Create (Unit_Name u) (useImageOverlayRootfs (pc_annotations pc))) us\<rparr>)"
proof (induction us arbitrary: pc)
  case Nil
  then show ?case
    by (simp add: create_units_def) (rule exI [where x = "pc_restarting pc"], simp)
next
  case (Cons u us)
  let ?pc = "pc\<lparr>pc_world := pc_world pc @
      [C_Create (Unit_Name u) (useImageOverlayRootfs (pc_annotations pc))]\<rparr>"
  obtain m where m: "final (f u) ?pc = ?pc\<lparr>pc_restarting := m\<rparr>" using assms by blast
  then show ?case
    using Cons [of "?pc\<lparr>pc_restarting := m\<rparr>"] by (auto simp: create_units_def log_rt_def)
qed

lemma create_units_log_world:
  assumes "\<And>u pc. \<exists>m. final (f u) pc = pc\<lparr>pc_restarting := m\<rparr>"
  shows "result (create_units log_rt spec f us) pc = None"
    and "pc_world (final (create_units log_rt spec f us) pc) = pc_world pc @
     map (\<lambda>u. C_Create (Unit_Name u) (useImageOverlayRootfs (pc_annotations pc))) us"
  using create_units_log [of f spec us pc, OF assms] by auto

lemma keep_restarting:
  "\<exists>m. final (return ()) pc = pc\<lparr>pc_restarting := m\<rparr>"
  by (intro exI [where x = "pc_restarting pc"]) simp

lemma delete_restarting:
  "\<exists>m. final (modify (\<lambda>pc. pc\<lparr>pc_restarting := conmap_Delete n (pc_restarting pc)\<rparr>)) pc =
     pc\<lparr>pc_restarting := m\<rparr>"
  by auto

lemma remove_units_log:
  "result (for_err (\<lambda>u. on_rt (rt_RemoveContainer log_rt u)) us) pc = None \<and>
   final (for_err (\<lambda>u. on_rt (rt_RemoveContainer log_rt u)) us) pc =
     pc\<lparr>pc_world := pc_world pc @ map (\<lambda>u. C_Remove (Unit_Name u)) us\<rparr>"
  by (induction us arbitrary: pc) (simp_all add: log_rt_def)

lemma remove_unit_log:
  "result (for_err (remove_unit log_rt) us) pc = None"
  "pc_world (final (for_err (remove_unit log_rt) us) pc) =
     pc_world pc @ map (\<lambda>u. C_Remove (Unit_Name u)) us"
  "pc_annotations (final (for_err (remove_unit log_rt) us) pc) = pc_annotations pc"
  by (induction us arbitrary: pc) (simp_all add: remove_unit_def log_rt_def)

lemma RestartUnits_log:
  "pc_world (final (RestartUnits log_rt spec status) pc) = pc_world pc @
     map (\<lambda>u. C_Remove (Unit_Name u)) (changed (PodSpec_Units status) (PodSpec_Units spec)) @
     map (\<lambda>u. C_Create (Unit_Name u) (useImageOverlayRootfs (pc_annotations pc)))
       (changed (PodSpec_Units spec) (PodSpec_Units status))"
  by (simp add: RestartUnits_def Let_def diffUnits_changed remove_unit_log
      create_units_log_world [OF delete_restarting])

lemma update_prepare_annotations:
  "update_prepare rt (params\<lparr>PodParameters_Annotations := a\<rparr>) = update_prepare rt params"
  by (simp add: update_prepare_def merged_spec_def)

lemma CreatePod_log:
  "fst (result (CreatePod log_rt spec) pc) = None"
  "pc_world (final (CreatePod log_rt spec) pc) = pc_world pc @ C_RunSandbox #
     map (\<lambda>u. C_Create (Unit_Name u) (useImageOverlayRootfs (pc_annotations pc))) (PodSpec_Units spec)"
  by (simp_all add: CreatePod_def create_units_log_world [OF keep_restarting] log_rt_def [THEN arg_cong, of rt_RunPodSandbox])

lemma RestartPod_log:
  fixes spec status :: PodSpec
  defines "r \<equiv> RestartPod log_rt spec status"
  shows "fst (result r pc) = None"
    and "PodSpec_Units (snd (result r pc)) = PodSpec_Units spec"
    and "PodSpec_InitUnits (snd (result r pc)) = PodSpec_InitUnits spec"
    and "pc_podRestartCount (final r pc) = int32 (pc_podRestartCount pc + 1)"
    and "pc_world (final r pc) = pc_world pc @ map (\<lambda>u. C_Remove (Unit_Name u)) (PodSpec_Units status) @
     [C_StopSandbox, C_RemoveSandbox, C_RunSandbox] @
     map (\<lambda>u. C_Create (Unit_Name u) (useImageOverlayRootfs (pc_annotations pc))) (PodSpec_Units spec)"
proof -
  have sel: "rt_RunPodSandbox log_rt sp = log_call C_RunSandbox (None, sp\<lparr>PodSpec_Phase := PodDispatching\<rparr>)"
    "rt_StopPodSandbox log_rt st = log_call C_StopSandbox None"
    "rt_RemovePodSandbox log_rt st = log_call C_RemoveSandbox None" for sp st
    by (simp_all add: log_rt_def)
  note defs = r_def RestartPod_def remove_units_log sel create_units_log_world [OF keep_restarting]
  obtain m where m: "\<And>pc. final (create_units log_rt
      (spec\<lparr>PodSpec_Phase := PodDispatching\<rparr>) (\<lambda>_. return ()) (PodSpec_Units spec)) pc =
      pc\<lparr>pc_restarting := m pc, pc_world := pc_world pc @
          map (\<lambda>u. C_Create (Unit_Name u) (useImageOverlayRootfs (pc_annotations pc))) (PodSpec_Units spec)\<rparr>"
    using create_units_log [OF keep_restarting] by metis
  show "fst (result r pc) = None"
    "PodSpec_Units (snd (result r pc)) = PodSpec_Units spec"
    "PodSpec_InitUnits (snd (result r pc)) = PodSpec_InitUnits spec"
    "pc_podRestartCount (final r pc) = int32 (pc_podRestartCount pc + 1)"
    "pc_world (final r pc) = pc_world pc @ map (\<lambda>u. C_Remove (Unit_Name u)) (PodSpec_Units status) @
     [C_StopSandbox, C_RemoveSandbox, C_RunSandbox] @
     map (\<lambda>u. C_Create (Unit_Name u) (useImageOverlayRootfs (pc_annotations pc))) (PodSpec_Units spec)"
    by (simp_all add: defs m)
qed

lemma merged_spec_sel:
  "map Unit_Name (PodSpec_Units (merged_spec p)) = map Unit_Name (PodSpec_Units (PodParameters_Spec p))"
  "PodSpec_InitUnits (merged_spec p) = [] \<longleftrightarrow> PodSpec_InitUnits (PodParameters_Spec p) = []"
  by (simp_all add: merged_spec_def MergeSecretsIntoSpec_def Let_def comp_def)

lemma update_prepare_restart:
  assumes "detectChangeType (merged_spec params) (pc_podStatus pc) = UpdateTypePodRestart"
  shows "final (update_prepare rt params) pc =
      final (RestartPod rt (merged_spec params) (pc_podStatus pc))
        (pc\<lparr>pc_podName := PodParameters_PodName params,
            pc_podHostname := PodParameters_PodHostname params,
            pc_allCreds := PodParameters_Credentials params\<rparr>)"
    and "fst (result (update_prepare rt params) pc) = UpdateTypePodRestart"
  using assms by (simp_all add: update_prepare_def sync_prepare_def Let_def split_def)

text \<open>The first update of a pod with init units.\<close>

lemma first_update_log:
  assumes "PodSpec_InitUnits (PodParameters_Spec params) \<noteq> []"
  defines "m \<equiv> update_prepare log_rt params"
  shows "fst (result m (NewPodController [])) = UpdateTypePodRestart"
    and "pc_podRestartCount (final m (NewPodController [])) = 1"
    and "pc_world (final m (NewPodController [])) = [C_StopSandbox, C_RemoveSandbox, C_RunSandbox] @
     map (\<lambda>u. C_Create (Unit_Name u) True) (PodSpec_Units (PodParameters_Spec params))"
proof -
  let ?pc = "NewPodController [] :: rt_call list pod_controller"
  let ?st = "pc_podStatus ?pc"
  have st: "PodSpec_Units ?st = []" "PodSpec_InitUnits ?st = []"
    by (simp_all add: NewPodController_def zero_PodSpec_def)
  have ev: "detectChangeType (merged_spec params) ?st = UpdateTypePodRestart"
    using assms(1) merged_spec_sel(2) [of params]
    by (simp add: detectChangeType_cases unitsSlicesEqual_def st)
  define q where "q = ?pc\<lparr>pc_podName := PodParameters_PodName params,
      pc_podHostname := PodParameters_PodHostname params,
      pc_allCreds := PodParameters_Credentials params\<rparr>"
  let ?R = "RestartPod log_rt (merged_spec params) ?st"
  have fin: "final m ?pc = final ?R q"
    unfolding m_def q_def using update_prepare_restart(1) [OF ev] .
  show "fst (result m ?pc) = UpdateTypePodRestart"
    unfolding m_def using update_prepare_restart(2) [OF ev] .
  have ann: "useImageOverlayRootfs (pc_annotations q) = True" "pc_podRestartCount q = 0" "pc_world q = []"
    by (simp_all add: q_def NewPodController_def useImageOverlayRootfs_def)
  show "pc_podRestartCount (final m ?pc) = 1"
    unfolding fin RestartPod_log(4) using ann by (simp add: int32_id)
  have "map (\<lambda>u. C_Create (Unit_Name u) True) (PodSpec_Units (merged_spec params)) =
      map (\<lambda>u. C_Create (Unit_Name u) True) (PodSpec_Units (PodParameters_Spec params))"
    using arg_cong [OF merged_spec_sel(1) [of params], of "map (\<lambda>n. C_Create n True)"] by (simp add: comp_def)
  then show "pc_world (final m ?pc) = [C_StopSandbox, C_RemoveSandbox, C_RunSandbox] @
     map (\<lambda>u. C_Create (Unit_Name u) True) (PodSpec_Units (PodParameters_Spec params))"
    unfolding fin RestartPod_log(5) using ann st by simp
qed

subsection \<open>Under the contract no nil status is dereferenced\<close>

definition alive :: "'s pod_controller \<Rightarrow> bool" where
  "alive pc \<longleftrightarrow> \<not> pc_crashed pc"

lemma alive_on_rt: "preserves alive (on_rt m)"
  by (simp add: preserves_def alive_def)

lemma alive_set_syncError: "preserves alive (set_syncError n (Some st))"
  by (simp add: preserves_def alive_def set_syncError_def)

context container_service
begin

lemma alive_create:
  assumes "\<And>u. preserves alive (f u)"
  shows "preserves alive (create_units rt spec f us)"
proof -
  have "alive (final (do {
       podName \<leftarrow> gets pc_podName;
       creds \<leftarrow> gets pc_allCreds;
       annotations \<leftarrow> gets pc_annotations;
       (st, err) \<leftarrow> on_rt (rt_CreateContainer rt u spec podName creds
                             (useImageOverlayRootfs annotations));
       if err \<noteq> None then do { set_syncError (Unit_Name u) st; return err }
       else do { f u; return None }
     }) pc)" if "alive pc" for u pc
    using that assms [THEN preservesD] create_status [of u spec "pc_podName pc" "pc_allCreds pc"
        "useImageOverlayRootfs (pc_annotations pc)" "pc_world pc"]
    by (auto simp: set_syncError_def alive_def split: prod.split option.split)
  then show ?thesis
    unfolding create_units_def by (intro preserves_for_err) (simp add: preserves_def)
qed

lemma alive_start: "preserves alive (start_unit rt spec u)"
  unfolding preserves_def
  using start_status [of u spec]
  by (auto simp: start_unit_def set_syncError_def alive_def split: prod.split option.split)

lemma alive_prepare: "preserves alive (update_prepare rt params)"
proof -
  note intros = preserves_intros alive_on_rt alive_create
  have create: "preserves alive (CreatePod rt spec)" for spec
    unfolding CreatePod_def by (intro intros)
  have pod: "preserves alive (RestartPod rt spec status)" for spec status
    unfolding RestartPod_def by (intro intros) (simp add: alive_def)
  have units: "preserves alive (RestartUnits rt spec status)" for spec status
    unfolding RestartUnits_def remove_unit_def [abs_def]
    by (intro intros) (simp_all add: alive_def)
  have "preserves alive (sync_prepare rt spec status creds)" for spec status creds
    unfolding sync_prepare_def Let_def
    by (cases "detectChangeType spec status")
      (auto intro!: preserves_intros create pod units simp: alive_def)
  then show ?thesis
    unfolding update_prepare_def by (intro intros) (simp add: alive_def)
qed

end

context runtime_service
begin

lemma alive_run_task: "preserves alive (run_task rt spec t)"
proof (cases t)
  case (T_inits us units)
  then show ?thesis
    by (cases us) (auto simp: run_task_def intro!: preserves_intros alive_start)
next
  case (T_wait u us units)
  then show ?thesis
    unfolding preserves_def using status_total [of "Unit_Name u" "Unit_Image u"]
    by (auto simp: run_task_def alive_def split: prod.split)
      (metis fst_conv option.distinct(1))+
next
  case (T_units us)
  then show ?thesis
    by (cases us) (auto simp: run_task_def clear_syncError_def alive_def
        intro!: preserves_intros alive_start)
qed

lemma alive_step:
  assumes "sys_step rt s t" "alive (sys_pc s)"
  shows "alive (sys_pc t)"
proof -
  have run: "alive pc'" if "preserves alive m" "run_state m pc = (x, pc')" "alive pc"
    for m :: "('s, 'b) pc_m" and pc x pc'
    using that by (metis final_def preservesD snd_conv)
  show ?thesis
    using assms
  proof (cases rule: sys_step.cases)
    case (trivial params ev spec pc')
    from run [OF alive_prepare trivial(4)] assms(2) trivial(1) show ?thesis
      by (simp add: alive_def update_finish_def)
  next
    case (start params ev inits units spec pc')
    from run [OF alive_prepare start(4)] assms(2) start(1) show ?thesis by (simp add: alive_def)
  next
    case (goes_on g t' pc')
    from run [OF alive_run_task goes_on(3)] assms(2) goes_on(1) show ?thesis by simp
  next
    case (ends g d pc')
    from run [OF alive_run_task ends(3)] assms(2) ends(1) show ?thesis by simp
  qed (auto simp: alive_def UpdatePod_def update_finish_def)
qed

lemma alive_steps: "sys_steps rt s t \<Longrightarrow> alive (sys_pc s) \<Longrightarrow> alive (sys_pc t)"
  by (induction rule: sys_steps.induct) (auto dest: alive_step)

lemma collect_Ret:
  "(\<And>u pc. result (f u) pc \<noteq> None) \<Longrightarrow> \<exists>ss. result (collect f us) pc = Ret ss \<and> length ss = length us"
proof (induction us arbitrary: pc)
  case (Cons u us)
  obtain st where "result (f u) pc = Some st" using Cons.prems by blast
  moreover obtain ss where "result (collect f us) (final (f u) pc) = Ret ss" "length ss = length us"
    using Cons by blast
  ultimately show ?case by simp
qed simp

lemma GetStatus_total:
  "\<exists>ss iss. result (pc_GetStatus rt) pc = Ret (ss, iss) \<and>
     length ss = length (PodSpec_Units (pc_podStatus pc)) \<and>
     length iss = length (PodSpec_InitUnits (pc_podStatus pc))"
proof -
  have total: "\<And>n i s. fst (result (rt_ContainerStatus rt n i) s) \<noteq> None" by (rule status_total)
  have u: "result (unit_status rt u) pc \<noteq> None" for u pc
    using total [of "Unit_Name u" "Unit_Image u" "pc_world pc"]
    by (simp add: unit_status_def split_def split: option.splits)
  have i: "result (init_status rt u) pc \<noteq> None" for u pc
    using total [of "Unit_Name u" "Unit_Image u" "pc_world pc"]
    by (simp add: init_status_def split_def split: option.splits)
  obtain ss where ss: "result (collect (unit_status rt) (PodSpec_Units (pc_podStatus pc))) pc = Ret ss"
      "length ss = length (PodSpec_Units (pc_podStatus pc))"
    using collect_Ret [of "unit_status rt", OF u] by blast
  obtain iss where "result (collect (init_status rt) (PodSpec_InitUnits (pc_podStatus pc)))
      (final (collect (unit_status rt) (PodSpec_Units (pc_podStatus pc))) pc) = Ret iss"
      "length iss = length (PodSpec_InitUnits (pc_podStatus pc))"
    using collect_Ret [of "init_status rt", OF i] by blast
  with ss show ?thesis by (simp add: pc_GetStatus_def)
qed

end

subsection \<open>A run that leaks\<close>

text \<open>
  With the recording runtime, whose init units never finish: a first update with an init unit, then
  one whose init units differ.
\<close>

lemma RestartPod_keeps:
  "pc_podStatus (final (RestartPod log_rt spec status) pc) = pc_podStatus pc \<and>
   pc_updateChan (final (RestartPod log_rt spec status) pc) = pc_updateChan pc"
proof -
  have sel: "rt_RunPodSandbox log_rt sp = log_call C_RunSandbox (None, sp\<lparr>PodSpec_Phase := PodDispatching\<rparr>)"
    "rt_StopPodSandbox log_rt st = log_call C_StopSandbox None"
    "rt_RemovePodSandbox log_rt st = log_call C_RemoveSandbox None" for sp st
    by (simp_all add: log_rt_def)
  have c: "\<exists>m. final (create_units log_rt sp (\<lambda>_. return ()) us) pc = pc\<lparr>pc_restarting := m,
        pc_world := pc_world pc @
          map (\<lambda>u. C_Create (Unit_Name u) (useImageOverlayRootfs (pc_annotations pc))) us\<rparr>"
    for sp us and pc :: "rt_call list pod_controller"
    using create_units_log [OF keep_restarting] by blast
  have keep: "pc_podStatus (final (create_units log_rt sp (\<lambda>_. return ()) us) pc) = pc_podStatus pc"
    "pc_updateChan (final (create_units log_rt sp (\<lambda>_. return ()) us) pc) = pc_updateChan pc"
    for sp us and pc :: "rt_call list pod_controller"
    using c [of sp us pc] by auto
  show ?thesis
    by (simp add: RestartPod_def remove_units_log sel create_units_log_world [OF keep_restarting] keep)
qed

lemma update_prepare_restart_log:
  assumes "detectChangeType (merged_spec params) (pc_podStatus pc) = UpdateTypePodRestart"
  obtains spec pc' where
    "run_state (update_prepare log_rt params) pc =
       ((UpdateTypePodRestart, Some (PodSpec_InitUnits (merged_spec params),
          PodSpec_Units (merged_spec params)), spec), pc')"
    "PodSpec_InitUnits spec = PodSpec_InitUnits (merged_spec params)"
    "pc_podStatus pc' = pc_podStatus pc" "pc_updateChan pc' = pc_updateChan pc"
proof -
  define q where "q = pc\<lparr>pc_podName := PodParameters_PodName params,
      pc_podHostname := PodParameters_PodHostname params,
      pc_allCreds := PodParameters_Credentials params\<rparr>"
  let ?R = "RestartPod log_rt (merged_spec params) (pc_podStatus pc)"
  have "result (update_prepare log_rt params) pc =
      (UpdateTypePodRestart, Some (PodSpec_InitUnits (merged_spec params),
          PodSpec_Units (merged_spec params)), snd (result ?R q))"
    using assms RestartPod_log [of "merged_spec params" "pc_podStatus pc" q]
    by (simp add: update_prepare_def sync_prepare_def Let_def split_def q_def)
  moreover have "final (update_prepare log_rt params) pc = final ?R q"
    unfolding q_def using update_prepare_restart(1) [OF assms] .
  ultimately show thesis
    using RestartPod_keeps [of "merged_spec params" "pc_podStatus pc" q]
      RestartPod_log(3) [of "merged_spec params" "pc_podStatus pc" q]
    by (intro that [of "snd (result ?R q)" "final ?R q"])
      (simp_all add: run_state_result_final q_def)
qed

lemma poll_never: "poll_init policy (Some zero_UnitStatus) None = P_again"
  by (simp add: poll_init_def zero_UnitStatus_def zero_UnitState_def)

lemma update_step:
  assumes "pc_updateChan (sys_pc s) = []"
  shows "sys_step rt s (s\<lparr>sys_pc := (sys_pc s)\<lparr>pc_updateChan := [params]\<rparr>\<rparr>)"
  using sys_step.update [of rt s params] assms by (simp add: UpdatePod_def)

text \<open>A first update that gets as far as starting units has its goroutine before the first of them.\<close>

lemma first_goroutine:
  assumes "run_state (update_prepare rt params) (NewPodController w) =
      ((ev, Some (inits, units), spec), pc)"
  shows "sys_steps rt (init_sys w)
     \<lparr>sys_pc = final (update_finish params (spec\<lparr>PodSpec_Phase := PodRunning\<rparr>)) pc,
      sys_main = M_idle,
      sys_worker = Some \<lparr>g_spec = spec, g_task = T_inits inits units, g_cancelled = False\<rparr>,
      sys_wg = 1\<rparr>"
proof -
  let ?s0 = "init_sys w"
  let ?s1 = "?s0\<lparr>sys_pc := (NewPodController w)\<lparr>pc_updateChan := [params]\<rparr>\<rparr>"
  have chan: "pc_updateChan (NewPodController w) = []" by (simp add: NewPodController_def)
  then have new: "(NewPodController w)\<lparr>pc_updateChan := []\<rparr> = NewPodController w" by simp
  have r1: "sys_step rt ?s0 ?s1"
    using update_step [of ?s0 rt params] chan by (simp add: init_sys_def)
  have r2: "sys_step rt ?s1 (?s1\<lparr>sys_pc := pc, sys_main := M_wait inits units spec params,
      sys_worker := None\<rparr>)"
    using sys_step.start [of ?s1 params rt ev inits units spec pc] assms
    by (simp add: init_sys_def new)
  show ?thesis
    using sys_steps.step [OF sys_steps.step [OF sys_steps.step [OF sys_steps.refl r1] r2]
        sys_step.resume [of _ inits units spec params]]
    by (simp add: init_sys_def)
qed

lemma leak_run:
  assumes inits: "PodSpec_InitUnits (PodParameters_Spec p1) \<noteq> []"
    and other: "\<not> unitsSlicesEqual (PodSpec_InitUnits (merged_spec p2)) (PodSpec_InitUnits (merged_spec p1))"
  shows "\<exists>s i u spec. sys_steps log_rt (init_sys []) s \<and> leaked s \<and> sys_main s = M_wait i u spec p2"
proof -
  let ?s0 = "init_sys [] :: rt_call list sys"
  define s1 where "s1 = ?s0\<lparr>sys_pc := (sys_pc ?s0)\<lparr>pc_updateChan := [p1]\<rparr>\<rparr>"
  have st0: "pc_updateChan (sys_pc ?s0) = []" "PodSpec_InitUnits (pc_podStatus (sys_pc ?s0)) = []"
    by (simp_all add: init_sys_def NewPodController_def zero_PodSpec_def)
  have r1: "sys_step log_rt ?s0 s1" unfolding s1_def by (rule update_step [OF st0(1)])
  have d1: "detectChangeType (merged_spec p1) (pc_podStatus ((sys_pc s1)\<lparr>pc_updateChan := []\<rparr>)) =
      UpdateTypePodRestart"
    using inits st0 merged_spec_sel(2) [of p1]
    by (simp add: s1_def detectChangeType_cases unitsSlicesEqual_def)
  obtain spec1 pc1 where p1: "run_state (update_prepare log_rt p1) ((sys_pc s1)\<lparr>pc_updateChan := []\<rparr>) =
      ((UpdateTypePodRestart, Some (PodSpec_InitUnits (merged_spec p1),
          PodSpec_Units (merged_spec p1)), spec1), pc1)"
      "PodSpec_InitUnits spec1 = PodSpec_InitUnits (merged_spec p1)" "pc_updateChan pc1 = []"
    using update_prepare_restart_log [OF d1] by (metis pod_controller.select_convs(4)
        pod_controller.surjective pod_controller.update_convs(4))
  define s2 where "s2 = s1\<lparr>sys_pc := pc1, sys_main := M_wait (PodSpec_InitUnits (merged_spec p1))
      (PodSpec_Units (merged_spec p1)) spec1 p1, sys_worker := None\<rparr>"
  have r2: "sys_step log_rt s1 s2"
    using sys_step.start [OF _ _ p1(1)] by (simp add: s1_def s2_def init_sys_def)
  define g1 where "g1 = \<lparr>g_spec = spec1, g_task = T_inits (PodSpec_InitUnits (merged_spec p1))
      (PodSpec_Units (merged_spec p1)), g_cancelled = False\<rparr>"
  define pc3 where "pc3 = final (update_finish p1 (spec1\<lparr>PodSpec_Phase := PodRunning\<rparr>)) pc1"
  define s3 where "s3 = s2\<lparr>sys_main := M_idle, sys_wg := 1, sys_worker := Some g1, sys_pc := pc3\<rparr>"
  have r3: "sys_step log_rt s2 s3"
    unfolding s3_def g1_def pc3_def
    using sys_step.resume [of s2 _ _ spec1 p1 log_rt] by (simp add: s2_def s1_def init_sys_def)
  obtain u us where us: "PodSpec_InitUnits (merged_spec p1) = u # us"
    using inits merged_spec_sel(2) [of p1] by (cases "PodSpec_InitUnits (merged_spec p1)") auto
  define g2 where "g2 = g1\<lparr>g_task := T_wait u us (PodSpec_Units (merged_spec p1))\<rparr>"
  define pc4 where "pc4 = final (run_task log_rt spec1 (g_task g1)) pc3"
  define s4 where "s4 = s3\<lparr>sys_pc := pc4, sys_worker := Some g2\<rparr>"
  have start: "result (run_task log_rt spec1 (g_task g1)) pc3 =
      Next (T_wait u us (PodSpec_Units (merged_spec p1)))"
    and pc4: "pc_updateChan pc4 = []" "pc_podStatus pc4 = spec1\<lparr>PodSpec_Phase := PodRunning\<rparr>"
    using p1(3) by (simp_all add: pc4_def pc3_def g1_def run_task_def us start_unit_def log_rt_def
        update_finish_def)
  have r4: "sys_step log_rt s3 s4"
    unfolding s4_def g2_def pc4_def
    using sys_step.goes_on [of s3 g1 log_rt "T_wait u us (PodSpec_Units (merged_spec p1))"] start
    by (simp add: s3_def g1_def run_state_result_final)
  define s5 where "s5 = s4\<lparr>sys_pc := pc4\<lparr>pc_updateChan := [p2]\<rparr>\<rparr>"
  have r5: "sys_step log_rt s4 s5"
    using update_step [of s4 log_rt p2] pc4(1) by (simp add: s5_def s4_def)
  have d2: "detectChangeType (merged_spec p2) (pc_podStatus ((sys_pc s5)\<lparr>pc_updateChan := []\<rparr>)) =
      UpdateTypePodRestart"
    using other p1(2) pc4(2) by (simp add: s5_def detectChangeType_cases)
  obtain i us2 spec2 pc6 where p2: "run_state (update_prepare log_rt p2)
      ((sys_pc s5)\<lparr>pc_updateChan := []\<rparr>) = ((UpdateTypePodRestart, Some (i, us2), spec2), pc6)"
    using update_prepare_restart_log [OF d2] by metis
  define s6 where "s6 = s5\<lparr>sys_pc := pc6, sys_main := M_wait i us2 spec2 p2,
      sys_worker := Some (g2\<lparr>g_cancelled := True\<rparr>)\<rparr>"
  have r6: "sys_step log_rt s5 s6"
    using sys_step.start [OF _ _ p2] by (simp add: s6_def s5_def s4_def s3_def)
  have r7: "sys_step log_rt s6 (s6\<lparr>sys_worker := None\<rparr>)"
    by (rule sys_step.cancelled [of s6 "g2\<lparr>g_cancelled := True\<rparr>" u us
          "PodSpec_Units (merged_spec p1)"]) (simp_all add: s6_def g2_def)
  have "sys_steps log_rt ?s0 (s6\<lparr>sys_worker := None\<rparr>)"
    using r1 r2 r3 r4 r5 r6 r7 by (meson sys_steps.refl sys_steps.step)
  moreover have "leaked (s6\<lparr>sys_worker := None\<rparr>)"
    by (simp add: leaked_def s6_def s5_def s4_def s3_def)
  moreover have "sys_main (s6\<lparr>sys_worker := None\<rparr>) = M_wait i us2 spec2 p2"
    by (simp add: s6_def)
  ultimately show ?thesis by blast
qed

end
