(* ===== verification/Pod_Sync.thy ===== *)
theory Pod_Sync
  imports Pod_Controller
begin

text \<open>
  What the controller achieves with a runtime that works.  The specification of such a runtime is a
  shelf of containers with their images, each started or not: the locale \<open>working_runtime\<close> says
  what creating, starting and removing a container do to the shelf that a state of the runtime stands for.
  In it, a pod whose units run is brought to the specification of the next update.  The simplest
  such runtime, \<open>ideal_rt\<close>, is the shelf itself; \<open>Itzo_Works\<close> interprets the locale with the
  runtime of this repository.  An update that comes while units are being started may not be carried
  through.
\<close>

section \<open>A runtime that works\<close>

type_synonym shelf = "string \<rightharpoonup> string \<times> bool"

text \<open>
  The states of the runtime in which it works, the shelf each stands for, the image under which a
  container is kept, and the units and pods it takes.
\<close>

record 's shelf_view =
  sv_good :: "'s \<Rightarrow> bool"
  sv_shelf :: "'s \<Rightarrow> shelf"
  sv_stored :: "string \<Rightarrow> string"
  sv_takes :: "Unit \<Rightarrow> bool"
  sv_sandbox :: "PodSpec \<Rightarrow> bool"

text \<open>Units that all run, and a shelf on which some are still to be started.\<close>

definition all_running :: "(string \<Rightarrow> string) \<Rightarrow> Unit list \<Rightarrow> shelf" where
  "all_running im us = map_of (map (\<lambda>u. (Unit_Name u, (im (Unit_Image u), True))) us)"

definition unit_names :: "Unit list \<Rightarrow> string list" where
  "unit_names us = map Unit_Name us"

definition partly :: "(string \<Rightarrow> string) \<Rightarrow> shelf \<Rightarrow> Unit list \<Rightarrow> Unit list \<Rightarrow> bool" where
  "partly im m us rest \<longleftrightarrow> dom m = Unit_Name ` set us \<and> set rest \<subseteq> set us \<and>
     (\<forall>u \<in> set us. \<exists>b. m (Unit_Name u) = Some (im (Unit_Image u), b) \<and> (u \<in> set rest \<or> b))"

section \<open>Creating and removing\<close>

definition shelf_create :: "(string \<Rightarrow> string) \<Rightarrow> Unit list \<Rightarrow> shelf \<Rightarrow> shelf" where
  "shelf_create im us m = foldl (\<lambda>m u. m(Unit_Name u \<mapsto> (im (Unit_Image u), False))) m us"

definition shelf_remove :: "Unit list \<Rightarrow> shelf \<Rightarrow> shelf" where
  "shelf_remove us m = foldl (\<lambda>m u. m(Unit_Name u := None)) m us"

lemma shelf_simps [simp]:
  "shelf_create im [] m = m" "shelf_remove [] m = m"
  "shelf_create im (u # us) m = shelf_create im us (m(Unit_Name u \<mapsto> (im (Unit_Image u), False)))"
  "shelf_remove (u # us) m = shelf_remove us (m(Unit_Name u := None))"
  by (simp_all add: shelf_create_def shelf_remove_def)

lemma shelf_create_other: "n \<notin> Unit_Name ` set us \<Longrightarrow> shelf_create im us m n = m n"
  unfolding shelf_create_def by (induction us arbitrary: m) auto

lemma shelf_create_at:
  "distinct (unit_names us) \<Longrightarrow> u \<in> set us \<Longrightarrow> shelf_create im us m (Unit_Name u) = Some (im (Unit_Image u), False)"
proof (induction us arbitrary: m)
  case (Cons v us)
  then show ?case
    using shelf_create_other [of "Unit_Name v" us im "m(Unit_Name v \<mapsto> (im (Unit_Image v), False))"]
    by (auto simp: unit_names_def shelf_create_def)
qed simp

lemma shelf_remove_at:
  "shelf_remove us m n = (if n \<in> Unit_Name ` set us then None else m n)"
  unfolding shelf_remove_def by (induction us arbitrary: m) auto

text \<open>Replacing what stands at the positions that differ.\<close>

lemma changed_set: "set (changed xs ys) = {xs ! i | i. i < length xs \<and> \<not> same_at xs ys i}"
  by (auto simp: changed_def)

lemma changed_subset: "set (changed xs ys) \<subseteq> set xs"
  by (auto simp: changed_set)

lemma same_index:
  "distinct (unit_names us) \<Longrightarrow> i < length us \<Longrightarrow> j < length us \<Longrightarrow>
   Unit_Name (us ! i) = Unit_Name (us ! j) \<Longrightarrow> i = j"
  using nth_eq_iff_index_eq [of "unit_names us" i j] by (simp add: unit_names_def)

lemma changed_distinct:
  assumes "distinct (unit_names xs)"
  shows "distinct (unit_names (changed xs ys))"
proof -
  have "inj_on (\<lambda>i. Unit_Name (xs ! i)) {0..<length xs}"
    using same_index [OF assms] by (auto simp: inj_on_def)
  then have "inj_on (\<lambda>i. Unit_Name (xs ! i)) (set (filter (\<lambda>i. \<not> same_at xs ys i) [0..<length xs]))"
    by (rule inj_on_subset) auto
  then show ?thesis
    unfolding unit_names_def changed_def map_map comp_def by (subst distinct_map) simp
qed

lemma all_running_at:
  assumes "distinct (unit_names us)" "u \<in> set us"
  shows "all_running im us (Unit_Name u) = Some (im (Unit_Image u), True)"
  using assms unfolding all_running_def
  by (intro map_of_is_SomeI) (auto simp: unit_names_def comp_def)

lemma dom_all_running: "dom (all_running im us) = Unit_Name ` set us"
  by (force simp: all_running_def dom_map_of_conv_image_fst)

lemma partly_Nil:
  assumes "distinct (unit_names us)"
  shows "partly im m us [] \<longleftrightarrow> m = all_running im us"
proof
  assume p: "partly im m us []"
  show "m = all_running im us"
  proof
    fix n
    show "m n = all_running im us n"
    proof (cases "n \<in> Unit_Name ` set us")
      case True
      then obtain u where "u \<in> set us" "n = Unit_Name u" by blast
      then show ?thesis using p all_running_at [OF assms] by (fastforce simp: partly_def)
    next
      case False
      then have "n \<notin> dom m" "n \<notin> dom (all_running im us)"
        using p by (simp_all only: partly_def dom_all_running not_False_eq_True simp_thms)
      then have "m n = None" "all_running im us n = None" by (simp_all only: domIff not_not)
      then show ?thesis by simp
    qed
  qed
qed (auto simp: partly_def all_running_at [OF assms] dom_all_running)

lemma same_name:
  "distinct (unit_names us) \<Longrightarrow> u \<in> set us \<Longrightarrow> v \<in> set us \<Longrightarrow> Unit_Name u = Unit_Name v \<Longrightarrow> u = v"
  by (auto simp: unit_names_def distinct_map dest: inj_onD)

lemma replace_partly:
  assumes old: "distinct (unit_names old)" and new: "distinct (unit_names new)"
  shows "partly im (shelf_create im (changed new old) (shelf_remove (changed old new) (all_running im old)))
     new (changed new old)"
proof -
  let ?add = "changed new old" and ?del = "changed old new"
  let ?m1 = "shelf_remove ?del (all_running im old)"
  let ?m = "shelf_create im ?add ?m1"
  have kept: "?m (Unit_Name u) = Some (im (Unit_Image u), True)" if u: "u \<in> set new" "u \<notin> set ?add" for u
  proof -
    obtain i where i: "u = new ! i" "same_at new old i" "i < length old"
      using u by (auto simp: changed_set in_set_conv_nth same_at_def)
    then have same: "Unit_Name (old ! i) = Unit_Name u" "Unit_Image (old ! i) = Unit_Image u"
      by (simp_all add: same_at_def unitsEqual_def)
    have "Unit_Name u \<notin> Unit_Name ` set ?add"
    proof
      assume "Unit_Name u \<in> Unit_Name ` set ?add"
      then obtain v where v: "v \<in> set ?add" "Unit_Name u = Unit_Name v" by blast
      with changed_subset [of new old] have "u = v" using same_name [OF new u(1)] by blast
      with v(1) u(2) show False by simp
    qed
    moreover have "Unit_Name u \<notin> Unit_Name ` set ?del"
    proof
      assume "Unit_Name u \<in> Unit_Name ` set ?del"
      then obtain j where j: "j < length old" "\<not> same_at old new j" "Unit_Name (old ! j) = Unit_Name u"
        by (auto simp: changed_set)
      then have "j = i" using same_index [OF old _ i(3)] same(1) by simp
      with j(2) i(2) show False using same_at_sym by blast
    qed
    ultimately have "?m (Unit_Name u) = all_running im old (Unit_Name (old ! i))"
      using same by (simp add: shelf_create_other shelf_remove_at)
    then show ?thesis using all_running_at [OF old, of "old ! i"] i(3) same by simp
  qed
  have made: "?m (Unit_Name u) = Some (im (Unit_Image u), False)" if "u \<in> set ?add" for u
    using shelf_create_at [OF changed_distinct [OF new] that] .
  have "n \<in> Unit_Name ` set new" if n: "?m n \<noteq> None" for n
  proof (cases "n \<in> Unit_Name ` set ?add")
    case False
    then have "?m1 n \<noteq> None" using n by (simp add: shelf_create_other)
    then have "n \<notin> Unit_Name ` set ?del" "n \<in> dom (all_running im old)"
      by (auto simp: shelf_remove_at split: if_splits)
    then obtain v where v: "v \<in> set old" "n = Unit_Name v" unfolding dom_all_running by blast
    then obtain i where i: "i < length old" "v = old ! i" by (metis in_set_conv_nth)
    have "same_at old new i"
      using \<open>n \<notin> Unit_Name ` set ?del\<close> v(2) i unfolding changed_set by blast
    then have "i < length new" "Unit_Name (new ! i) = n"
      using i(2) v(2) by (simp_all add: same_at_def unitsEqual_def)
    then show ?thesis by (metis imageI nth_mem)
  qed (auto simp: changed_set)
  moreover have at: "\<exists>b. ?m (Unit_Name u) = Some (im (Unit_Image u), b) \<and> (u \<in> set ?add \<or> b)"
    if "u \<in> set new" for u
    by (cases "u \<in> set ?add") (auto simp: kept that made)
  ultimately have "dom ?m = Unit_Name ` set new" by (auto simp: dom_def) fastforce
  then show ?thesis
    unfolding partly_def using at changed_subset by blast
qed

lemma shelf_create_running:
  assumes "distinct (unit_names us)"
  shows "shelf_create im us Map.empty n = map_option (\<lambda>(i, b). (i, False)) (all_running im us n)"
proof (cases "n \<in> Unit_Name ` set us")
  case True
  then obtain u where "u \<in> set us" "n = Unit_Name u" by blast
  then show ?thesis using shelf_create_at [OF assms] all_running_at [OF assms] by simp
next
  case False
  then have "n \<notin> dom (all_running im us)" by (simp only: dom_all_running not_False_eq_True)
  then have "all_running im us n = None" by (simp only: domIff not_not)
  with False show ?thesis by (simp add: shelf_create_other)
qed

text \<open>A unit that is to be created has no container once those that go have been removed.\<close>

lemma replace_fresh:
  assumes old: "distinct (unit_names old)" and new: "distinct (unit_names new)"
    and u: "u \<in> set (changed new old)"
  shows "shelf_remove (changed old new) (all_running im old) (Unit_Name u) = None"
proof (rule ccontr)
  assume "shelf_remove (changed old new) (all_running im old) (Unit_Name u) \<noteq> None"
  then have kept: "Unit_Name u \<notin> Unit_Name ` set (changed old new)" "Unit_Name u \<in> dom (all_running im old)"
    by (auto simp: shelf_remove_at split: if_splits)
  obtain i where i: "i < length new" "u = new ! i" "\<not> same_at new old i"
    using u by (auto simp: changed_set)
  from kept(2) obtain j where j: "j < length old" "Unit_Name (old ! j) = Unit_Name u"
    unfolding dom_all_running by (metis image_iff in_set_conv_nth)
  have "same_at old new j"
    using kept(1) j unfolding changed_set by (metis (mono_tags, lifting) image_eqI mem_Collect_eq)
  then have "j < length new" "Unit_Name (new ! j) = Unit_Name u"
    using j(2) by (simp_all add: same_at_def unitsEqual_def)
  then have "j = i" using same_index [OF new _ i(1)] i(2) by simp
  with \<open>same_at old new j\<close> i(3) same_at_sym show False by blast
qed

section \<open>One update\<close>

text \<open>The units an update asks for: names and images are those of its specification.\<close>

definition wanted :: "PodParameters \<Rightarrow> Unit list" where
  "wanted params = PodSpec_Units (merged_spec params)"

definition simple_update :: "PodParameters \<Rightarrow> bool" where
  "simple_update params \<longleftrightarrow> PodSpec_InitUnits (PodParameters_Spec params) = [] \<and>
     distinct (map Unit_Name (PodSpec_Units (PodParameters_Spec params)))"

lemma simple_update_wanted:
  assumes "simple_update params"
  shows "PodSpec_InitUnits (merged_spec params) = []" "distinct (unit_names (wanted params))"
  using assms by (simp_all add: simple_update_def merged_spec_sel wanted_def unit_names_def)

text \<open>An update the runtime takes.\<close>

definition sv_accepts :: "'s shelf_view \<Rightarrow> PodParameters \<Rightarrow> bool" where
  "sv_accepts sv params \<longleftrightarrow> simple_update params \<and> sv_sandbox sv (merged_spec params) \<and>
     (\<forall>u \<in> set (wanted params). sv_takes sv u)"

lemma sv_acceptsD:
  assumes "sv_accepts sv params"
  shows "simple_update params" "sv_sandbox sv (merged_spec params)" "u \<in> set (wanted params) \<Longrightarrow> sv_takes sv u"
  using assms by (simp_all add: sv_accepts_def)

text \<open>All units of the status run, and nothing else; no error is kept for a client.\<close>

definition all_up :: "'s shelf_view \<Rightarrow> 's pod_controller \<Rightarrow> bool" where
  "all_up sv pc \<longleftrightarrow> PodSpec_InitUnits (pc_podStatus pc) = [] \<and>
     distinct (unit_names (PodSpec_Units (pc_podStatus pc))) \<and> sv_good sv (pc_world pc) \<and>
     sv_shelf sv (pc_world pc) = all_running (sv_stored sv) (PodSpec_Units (pc_podStatus pc)) \<and>
     pc_syncErrors pc = Map.empty"

lemma same_units_running: "unitsSlicesEqual xs ys \<Longrightarrow> all_running im xs = all_running im ys"
proof -
  assume "unitsSlicesEqual xs ys"
  then have "map (\<lambda>u. (Unit_Name u, im (Unit_Image u), True)) xs =
      map (\<lambda>u. (Unit_Name u, im (Unit_Image u), True)) ys"
    by (auto simp: unitsSlicesEqual_iff same_at_def unitsEqual_def intro: nth_equalityI)
  then show ?thesis by (simp add: all_running_def)
qed

lemma changed_empty: "changed xs [] = xs" "changed [] xs = []"
  by (simp_all add: changed_def same_at_def map_nth)

lemma simple_kind:
  assumes "simple_update params" "PodSpec_InitUnits (pc_podStatus pc) = []"
  shows "detectChangeType (merged_spec params) (pc_podStatus pc) =
    (if PodSpec_Units (pc_podStatus pc) = [] then UpdateTypePodCreate
     else if unitsSlicesEqual (wanted params) (PodSpec_Units (pc_podStatus pc)) then UpdateTypeNoChanges
     else UpdateTypeUnitsChange)"
  using assms simple_update_wanted(1) [OF assms(1)]
  by (simp add: detectChangeType_cases wanted_def unitsSlicesEqual_def)

locale working_runtime =
  fixes rt :: "'s runtime" and sv :: "'s shelf_view"
  assumes sandbox: "sv_good sv w \<Longrightarrow> sv_sandbox sv spec \<Longrightarrow>
      \<exists>spec'. result (rt_RunPodSandbox rt spec) w = (None, spec') \<and>
        PodSpec_Units spec' = PodSpec_Units spec \<and> PodSpec_InitUnits spec' = PodSpec_InitUnits spec"
    and sandbox_keeps: "sv_good sv w \<Longrightarrow> sv_sandbox sv spec \<Longrightarrow>
      sv_good sv (final (rt_RunPodSandbox rt spec) w) \<and>
      sv_shelf sv (final (rt_RunPodSandbox rt spec) w) = sv_shelf sv w"
    and create: "sv_good sv w \<Longrightarrow> sv_takes sv u \<Longrightarrow> sv_shelf sv w (Unit_Name u) = None \<Longrightarrow>
      snd (result (rt_CreateContainer rt u spec podName creds overlay) w) = None \<and>
      sv_good sv (final (rt_CreateContainer rt u spec podName creds overlay) w) \<and>
      sv_shelf sv (final (rt_CreateContainer rt u spec podName creds overlay) w) =
        (sv_shelf sv w)(Unit_Name u \<mapsto> (sv_stored sv (Unit_Image u), False))"
    and start: "sv_good sv w \<Longrightarrow> sv_shelf sv w (Unit_Name u) = Some (img, b) \<Longrightarrow>
      snd (result (rt_StartContainer rt u spec podName) w) = None \<and>
      sv_good sv (final (rt_StartContainer rt u spec podName) w) \<and>
      sv_shelf sv (final (rt_StartContainer rt u spec podName) w) =
        (sv_shelf sv w)(Unit_Name u \<mapsto> (img, True))"
    and remove: "sv_good sv w \<Longrightarrow>
      result (rt_RemoveContainer rt u) w = None \<and> sv_good sv (final (rt_RemoveContainer rt u) w) \<and>
      sv_shelf sv (final (rt_RemoveContainer rt u) w) = (sv_shelf sv w)(Unit_Name u := None)"
begin

lemma create_units_ok:
  assumes created: "\<And>u pc. \<exists>r. final (f u) pc = pc\<lparr>pc_restarting := r\<rparr>"
    and "sv_good sv (pc_world pc)" "\<forall>u \<in> set us. sv_takes sv u" "distinct (unit_names us)"
    "\<forall>u \<in> set us. sv_shelf sv (pc_world pc) (Unit_Name u) = None"
  shows "result (create_units rt spec f us) pc = None \<and>
     (\<exists>r w. final (create_units rt spec f us) pc = pc\<lparr>pc_restarting := r, pc_world := w\<rparr> \<and>
        sv_good sv w \<and> sv_shelf sv w = shelf_create (sv_stored sv) us (sv_shelf sv (pc_world pc)))"
  using assms(2-)
proof (induction us arbitrary: pc)
  case Nil
  show ?case
  proof (intro conjI exI)
    show "final (create_units rt spec f []) pc = pc\<lparr>pc_restarting := pc_restarting pc, pc_world := pc_world pc\<rparr>"
      "result (create_units rt spec f []) pc = None"
      by (simp_all add: create_units_def)
    show "sv_good sv (pc_world pc)" by (rule Nil(1))
  qed simp
next
  case (Cons u us)
  let ?create = "rt_CreateContainer rt u spec (pc_podName pc) (pc_allCreds pc)
    (useImageOverlayRootfs (pc_annotations pc))"
  define w1 where "w1 = final ?create (pc_world pc)"
  have ok: "snd (result ?create (pc_world pc)) = None" "sv_good sv w1"
      "sv_shelf sv w1 = (sv_shelf sv (pc_world pc))(Unit_Name u \<mapsto> (sv_stored sv (Unit_Image u), False))"
    using create [OF Cons.prems(1), of u] Cons.prems(2,4) by (simp_all add: w1_def)
  obtain r where r: "final (f u) (pc\<lparr>pc_world := w1\<rparr>) = pc\<lparr>pc_world := w1, pc_restarting := r\<rparr>"
    using created by metis
  let ?pc = "pc\<lparr>pc_world := w1, pc_restarting := r\<rparr>"
  have prems: "sv_good sv (pc_world ?pc)" "\<forall>u \<in> set us. sv_takes sv u" "distinct (unit_names us)"
    using ok(2) Cons.prems(2,3) by (simp_all add: unit_names_def)
  have other: "Unit_Name u \<notin> Unit_Name ` set us" using Cons.prems(3) by (simp add: unit_names_def)
  have fresh: "\<forall>v \<in> set us. sv_shelf sv (pc_world ?pc) (Unit_Name v) = None"
  proof
    fix v assume v: "v \<in> set us"
    then have "Unit_Name v \<noteq> Unit_Name u" using other by (metis imageI)
    with ok(3) Cons.prems(4) v show "sv_shelf sv (pc_world ?pc) (Unit_Name v) = None" by simp
  qed
  have "result (create_units rt spec f us) ?pc = None \<and>
     (\<exists>r w. final (create_units rt spec f us) ?pc = ?pc\<lparr>pc_restarting := r, pc_world := w\<rparr> \<and>
        sv_good sv w \<and> sv_shelf sv w = shelf_create (sv_stored sv) us (sv_shelf sv (pc_world ?pc)))"
    by (rule Cons.IH [OF prems fresh])
  then obtain r' w where rest: "result (create_units rt spec f us) ?pc = None"
      "final (create_units rt spec f us) ?pc = ?pc\<lparr>pc_restarting := r', pc_world := w\<rparr>" "sv_good sv w"
      "sv_shelf sv w = shelf_create (sv_stored sv) us (sv_shelf sv w1)" by auto
  have "result (create_units rt spec f (u # us)) pc = result (create_units rt spec f us) ?pc"
    "final (create_units rt spec f (u # us)) pc = final (create_units rt spec f us) ?pc"
    using ok(1) r by (simp_all add: create_units_def split_def flip: w1_def)
  with rest ok(3) show ?case by (intro conjI exI [of _ r'] exI [of _ w]) simp_all
qed

lemma remove_units_ok:
  assumes "sv_good sv (pc_world pc)"
  shows "result (for_err (remove_unit rt) us) pc = None \<and>
   (\<exists>r w. final (for_err (remove_unit rt) us) pc = pc\<lparr>pc_restarting := r, pc_world := w\<rparr> \<and>
      sv_good sv w \<and> sv_shelf sv w = shelf_remove us (sv_shelf sv (pc_world pc)))"
  using assms
proof (induction us arbitrary: pc)
  case Nil
  then show ?case
    by simp (intro exI [of _ "pc_restarting pc"] exI [of _ "pc_world pc"], simp)
next
  case (Cons u us)
  define w1 where "w1 = final (rt_RemoveContainer rt u) (pc_world pc)"
  have ok: "result (rt_RemoveContainer rt u) (pc_world pc) = None" "sv_good sv w1"
      "sv_shelf sv w1 = (sv_shelf sv (pc_world pc))(Unit_Name u := None)"
    using remove [OF Cons.prems] by (simp_all add: w1_def)
  let ?pc = "pc\<lparr>pc_world := w1, pc_restarting := conmap_Set (Unit_Name u) (Unit_Image u) (pc_restarting pc)\<rparr>"
  have "sv_good sv (pc_world ?pc)" using ok(2) by simp
  from Cons.IH [OF this] obtain r' w where rest: "result (for_err (remove_unit rt) us) ?pc = None"
      "final (for_err (remove_unit rt) us) ?pc = ?pc\<lparr>pc_restarting := r', pc_world := w\<rparr>" "sv_good sv w"
      "sv_shelf sv w = shelf_remove us (sv_shelf sv w1)" by auto
  have "result (for_err (remove_unit rt) (u # us)) pc = result (for_err (remove_unit rt) us) ?pc"
    "final (for_err (remove_unit rt) (u # us)) pc = final (for_err (remove_unit rt) us) ?pc"
    using ok(1) by (simp_all add: remove_unit_def flip: w1_def)
  with rest ok(3) show ?case by (intro conjI exI [of _ r'] exI [of _ w]) simp_all
qed

lemma RestartUnits_ok:
  assumes "diffUnits (PodSpec_Units spec) (PodSpec_Units status) = (add, del)"
    and "sv_good sv (pc_world pc)" "\<forall>u \<in> set add. sv_takes sv u" "distinct (unit_names add)"
    "\<forall>u \<in> set add. shelf_remove del (sv_shelf sv (pc_world pc)) (Unit_Name u) = None"
  obtains r w where "run_state (RestartUnits rt spec status) pc =
     ((add, None, spec\<lparr>PodSpec_Phase := PodWaiting\<rparr>), pc\<lparr>pc_restarting := r, pc_world := w\<rparr>)"
    "sv_good sv w" "sv_shelf sv w =
       shelf_create (sv_stored sv) add (shelf_remove del (sv_shelf sv (pc_world pc)))"
proof -
  obtain r1 w1 where r1: "result (for_err (remove_unit rt) del) pc = None"
      "final (for_err (remove_unit rt) del) pc = pc\<lparr>pc_restarting := r1, pc_world := w1\<rparr>"
      "sv_good sv w1" "sv_shelf sv w1 = shelf_remove del (sv_shelf sv (pc_world pc))"
    using remove_units_ok [OF assms(2)] by blast
  let ?f = "\<lambda>u. modify (\<lambda>pc. pc\<lparr>pc_restarting := conmap_Delete (Unit_Name u) (pc_restarting pc)\<rparr>)"
  let ?pc = "pc\<lparr>pc_restarting := r1, pc_world := w1\<rparr>"
  have "result (create_units rt (spec\<lparr>PodSpec_Phase := PodWaiting\<rparr>) ?f add) ?pc = None \<and>
     (\<exists>r w. final (create_units rt (spec\<lparr>PodSpec_Phase := PodWaiting\<rparr>) ?f add) ?pc =
         ?pc\<lparr>pc_restarting := r, pc_world := w\<rparr> \<and>
        sv_good sv w \<and> sv_shelf sv w = shelf_create (sv_stored sv) add (sv_shelf sv (pc_world ?pc)))"
    by (rule create_units_ok [OF delete_restarting]) (use r1 assms in simp_all)
  then obtain r2 w2 where r2: "result (create_units rt (spec\<lparr>PodSpec_Phase := PodWaiting\<rparr>) ?f add) ?pc = None"
      "final (create_units rt (spec\<lparr>PodSpec_Phase := PodWaiting\<rparr>) ?f add) ?pc =
         pc\<lparr>pc_restarting := r2, pc_world := w2\<rparr>"
      "sv_good sv w2" "sv_shelf sv w2 = shelf_create (sv_stored sv) add (sv_shelf sv w1)" by auto
  have "run_state (RestartUnits rt spec status) pc =
     ((add, None, spec\<lparr>PodSpec_Phase := PodWaiting\<rparr>), pc\<lparr>pc_restarting := r2, pc_world := w2\<rparr>)"
    using r1(1,2) r2(1,2) by (simp add: run_state_result_final RestartUnits_def assms(1) Let_def)
  from that [OF this r2(3)] r2(4) r1(4) show thesis by simp
qed

lemma CreatePod_ok:
  assumes "sv_good sv (pc_world pc)" "sv_sandbox sv spec" "\<forall>u \<in> set (PodSpec_Units spec). sv_takes sv u"
    "distinct (unit_names (PodSpec_Units spec))" "sv_shelf sv (pc_world pc) = Map.empty"
  obtains r w spec' where "run_state (CreatePod rt spec) pc =
      ((None, spec'), pc\<lparr>pc_restarting := r, pc_world := w\<rparr>)"
    "PodSpec_Units spec' = PodSpec_Units spec" "PodSpec_InitUnits spec' = PodSpec_InitUnits spec"
    "sv_good sv w" "sv_shelf sv w = shelf_create (sv_stored sv) (PodSpec_Units spec) Map.empty"
proof -
  obtain spec' where spec': "result (rt_RunPodSandbox rt spec) (pc_world pc) = (None, spec')"
      "PodSpec_Units spec' = PodSpec_Units spec" "PodSpec_InitUnits spec' = PodSpec_InitUnits spec"
    using sandbox [OF assms(1,2)] by blast
  define w1 where "w1 = final (rt_RunPodSandbox rt spec) (pc_world pc)"
  have w1: "sv_good sv w1" "sv_shelf sv w1 = Map.empty"
    using sandbox_keeps [OF assms(1,2)] assms(5) by (simp_all add: w1_def)
  let ?pc = "pc\<lparr>pc_world := w1\<rparr>"
  have "result (create_units rt spec' (\<lambda>_. return ()) (PodSpec_Units spec)) ?pc = None \<and>
     (\<exists>r w. final (create_units rt spec' (\<lambda>_. return ()) (PodSpec_Units spec)) ?pc =
         ?pc\<lparr>pc_restarting := r, pc_world := w\<rparr> \<and>
        sv_good sv w \<and> sv_shelf sv w =
          shelf_create (sv_stored sv) (PodSpec_Units spec) (sv_shelf sv (pc_world ?pc)))"
    by (rule create_units_ok [OF keep_restarting]) (use w1 assms in simp_all)
  then obtain r w where r: "result (create_units rt spec' (\<lambda>_. return ()) (PodSpec_Units spec)) ?pc = None"
      "final (create_units rt spec' (\<lambda>_. return ()) (PodSpec_Units spec)) ?pc =
         pc\<lparr>pc_restarting := r, pc_world := w\<rparr>"
      "sv_good sv w" "sv_shelf sv w = shelf_create (sv_stored sv) (PodSpec_Units spec) Map.empty"
    using w1(2) by auto
  have "run_state (CreatePod rt spec) pc = ((None, spec'), pc\<lparr>pc_restarting := r, pc_world := w\<rparr>)"
    using spec' r(1,2) by (simp add: run_state_result_final CreatePod_def flip: w1_def)
  from that [OF this spec'(2,3) r(3,4)] show thesis .
qed

text \<open>What an update does to the shelf, by its kind.\<close>

lemma prepare_none:
  assumes "detectChangeType (merged_spec params) (pc_podStatus pc) = UpdateTypeNoChanges"
  obtains pc' where
    "run_state (update_prepare rt params) pc = ((UpdateTypeNoChanges, None, merged_spec params), pc')"
    "pc_world pc' = pc_world pc" "pc_syncErrors pc' = pc_syncErrors pc"
proof
  show "run_state (update_prepare rt params) pc = ((UpdateTypeNoChanges, None, merged_spec params),
      pc\<lparr>pc_podName := PodParameters_PodName params,
        pc_podHostname := PodParameters_PodHostname params, pc_allCreds := PodParameters_Credentials params\<rparr>)"
    using assms by (simp add: update_prepare_def sync_prepare_def run_state_result_final)
qed simp_all

lemma prepare_create:
  assumes "detectChangeType (merged_spec params) (pc_podStatus pc) = UpdateTypePodCreate"
    "sv_good sv (pc_world pc)" "sv_accepts sv params" "sv_shelf sv (pc_world pc) = Map.empty"
  obtains spec pc' where
    "run_state (update_prepare rt params) pc =
       ((UpdateTypePodCreate, Some (PodSpec_InitUnits (merged_spec params), wanted params), spec), pc')"
    "PodSpec_Units spec = wanted params" "PodSpec_InitUnits spec = PodSpec_InitUnits (merged_spec params)"
    "sv_good sv (pc_world pc')"
    "sv_shelf sv (pc_world pc') = shelf_create (sv_stored sv) (wanted params) Map.empty"
    "pc_syncErrors pc' = pc_syncErrors pc"
proof -
  let ?spec = "merged_spec params"
  note ok = sv_acceptsD [OF assms(3)]
  define q where "q = pc\<lparr>pc_podName := PodParameters_PodName params,
      pc_podHostname := PodParameters_PodHostname params, pc_allCreds := PodParameters_Credentials params\<rparr>"
  have q: "sv_good sv (pc_world q)" "sv_shelf sv (pc_world q) = Map.empty" using assms(2,4) by (simp_all add: q_def)
  have units: "\<forall>u \<in> set (PodSpec_Units ?spec). sv_takes sv u" "distinct (unit_names (PodSpec_Units ?spec))"
    using ok(3) simple_update_wanted(2) [OF ok(1)] by (simp_all add: wanted_def)
  obtain r w spec' where cp: "run_state (CreatePod rt ?spec) q =
      ((None, spec'), q\<lparr>pc_restarting := r, pc_world := w\<rparr>)"
      "PodSpec_Units spec' = PodSpec_Units ?spec" "PodSpec_InitUnits spec' = PodSpec_InitUnits ?spec"
      "sv_good sv w" "sv_shelf sv w = shelf_create (sv_stored sv) (PodSpec_Units ?spec) Map.empty"
    by (rule CreatePod_ok [OF q(1) ok(2) units q(2)])
  have "run_state (update_prepare rt params) pc =
      ((UpdateTypePodCreate, Some (PodSpec_InitUnits ?spec, wanted params), spec'),
       q\<lparr>pc_restarting := r, pc_world := w\<rparr>)"
    using assms(1) cp(1-3)
    by (simp add: update_prepare_def sync_prepare_def run_state_result_final wanted_def flip: q_def)
  from that [OF this] cp show thesis by (simp add: wanted_def q_def)
qed

lemma prepare_change:
  assumes "detectChangeType (merged_spec params) (pc_podStatus pc) = UpdateTypeUnitsChange"
    "sv_good sv (pc_world pc)" "sv_accepts sv params"
  defines "old \<equiv> PodSpec_Units (pc_podStatus pc)"
  assumes "\<forall>u \<in> set (changed (wanted params) old).
    shelf_remove (changed old (wanted params)) (sv_shelf sv (pc_world pc)) (Unit_Name u) = None"
  obtains spec pc' where
    "run_state (update_prepare rt params) pc =
       ((UpdateTypeUnitsChange, Some ([], changed (wanted params) old), spec), pc')"
    "PodSpec_Units spec = wanted params" "PodSpec_InitUnits spec = PodSpec_InitUnits (merged_spec params)"
    "sv_good sv (pc_world pc')"
    "sv_shelf sv (pc_world pc') = shelf_create (sv_stored sv) (changed (wanted params) old)
       (shelf_remove (changed old (wanted params)) (sv_shelf sv (pc_world pc)))"
    "pc_syncErrors pc' = pc_syncErrors pc"
proof -
  let ?spec = "merged_spec params" and ?add = "changed (wanted params) old"
  note ok = sv_acceptsD [OF assms(3)]
  define q where "q = pc\<lparr>pc_podName := PodParameters_PodName params,
      pc_podHostname := PodParameters_PodHostname params, pc_allCreds := PodParameters_Credentials params\<rparr>"
  have world: "pc_world q = pc_world pc" by (simp add: q_def)
  have q: "sv_good sv (pc_world q)" using assms(2) world by simp
  have diff: "diffUnits (PodSpec_Units ?spec) (PodSpec_Units (pc_podStatus pc)) =
      (?add, changed old (wanted params))"
    by (simp add: diffUnits_changed wanted_def old_def)
  have units: "\<forall>u \<in> set ?add. sv_takes sv u" "distinct (unit_names ?add)"
    using ok(3) changed_subset [of "wanted params" old] changed_distinct [OF simple_update_wanted(2) [OF ok(1)]]
    by blast+
  have fresh: "\<forall>u \<in> set ?add. shelf_remove (changed old (wanted params)) (sv_shelf sv (pc_world q)) (Unit_Name u) = None"
    using assms(5) world by simp
  obtain r w where ru: "run_state (RestartUnits rt ?spec (pc_podStatus pc)) q =
      ((?add, None, ?spec\<lparr>PodSpec_Phase := PodWaiting\<rparr>), q\<lparr>pc_restarting := r, pc_world := w\<rparr>)"
      "sv_good sv w" "sv_shelf sv w = shelf_create (sv_stored sv) ?add
         (shelf_remove (changed old (wanted params)) (sv_shelf sv (pc_world q)))"
    by (rule RestartUnits_ok [OF diff q units fresh])
  have "run_state (update_prepare rt params) pc =
      ((UpdateTypeUnitsChange, Some ([], ?add), ?spec\<lparr>PodSpec_Phase := PodWaiting\<rparr>),
       q\<lparr>pc_restarting := r, pc_world := w\<rparr>)"
    using assms(1) ru(1)
    by (simp add: update_prepare_def sync_prepare_def run_state_result_final flip: q_def)
  from that [OF this] ru(2,3) world show thesis by (simp add: wanted_def q_def)
qed

lemma prepare_ok:
  assumes "all_up sv pc" "sv_accepts sv params"
  obtains ev x spec pc' where
    "run_state (update_prepare rt params) pc = ((ev, x, spec), pc')"
    "PodSpec_Units spec = wanted params" "PodSpec_InitUnits spec = []" "sv_good sv (pc_world pc')"
    "case x of None \<Rightarrow> sv_shelf sv (pc_world pc') = all_running (sv_stored sv) (wanted params)
      | Some (inits, units) \<Rightarrow> inits = [] \<and>
          partly (sv_stored sv) (sv_shelf sv (pc_world pc')) (wanted params) units"
    "pc_syncErrors pc' = Map.empty"
proof -
  let ?old = "PodSpec_Units (pc_podStatus pc)"
  note simple = sv_acceptsD(1) [OF assms(2)]
  note new = simple_update_wanted [OF simple]
  have old: "PodSpec_InitUnits (pc_podStatus pc) = []" "distinct (unit_names ?old)"
      "sv_good sv (pc_world pc)" "sv_shelf sv (pc_world pc) = all_running (sv_stored sv) ?old"
      "pc_syncErrors pc = Map.empty"
    using assms(1) by (simp_all add: all_up_def)
  note repl = replace_partly [OF old(2) new(2)]
  note kind = simple_kind [OF simple old(1)]
  consider "?old = []" | "?old \<noteq> []" "unitsSlicesEqual (wanted params) ?old"
    | "?old \<noteq> []" "\<not> unitsSlicesEqual (wanted params) ?old" by blast
  then show thesis
  proof cases
    case 1
    then have "detectChangeType (merged_spec params) (pc_podStatus pc) = UpdateTypePodCreate"
      "sv_shelf sv (pc_world pc) = Map.empty"
      using kind old(4) by (simp_all add: all_running_def)
    then obtain spec pc' where r: "run_state (update_prepare rt params) pc =
         ((UpdateTypePodCreate, Some (PodSpec_InitUnits (merged_spec params), wanted params), spec), pc')"
        "PodSpec_Units spec = wanted params" "PodSpec_InitUnits spec = PodSpec_InitUnits (merged_spec params)"
        "sv_good sv (pc_world pc')"
        "sv_shelf sv (pc_world pc') = shelf_create (sv_stored sv) (wanted params) Map.empty"
        "pc_syncErrors pc' = pc_syncErrors pc"
      using prepare_create [OF _ old(3) assms(2)] by blast
    have "all_running (sv_stored sv) [] = Map.empty" by (simp add: all_running_def)
    with repl [of "sv_stored sv"] 1 r(5)
    have "partly (sv_stored sv) (sv_shelf sv (pc_world pc')) (wanted params) (wanted params)"
      by (simp add: changed_empty)
    with new(1) r(2-4,6) old(5) show thesis by (intro that [OF r(1)]) simp_all
  next
    case 2
    then have "detectChangeType (merged_spec params) (pc_podStatus pc) = UpdateTypeNoChanges"
      using kind by simp
    then obtain pc' where r: "run_state (update_prepare rt params) pc =
         ((UpdateTypeNoChanges, None, merged_spec params), pc')" and w: "pc_world pc' = pc_world pc"
        "pc_syncErrors pc' = pc_syncErrors pc"
      by (rule prepare_none)
    show thesis
      using new(1) old(3-5) w same_units_running [OF 2(2)] by (intro that [OF r]) (simp_all add: wanted_def)
  next
    case 3
    then have "detectChangeType (merged_spec params) (pc_podStatus pc) = UpdateTypeUnitsChange"
      using kind by simp
    moreover have "\<forall>u \<in> set (changed (wanted params) ?old).
        shelf_remove (changed ?old (wanted params)) (sv_shelf sv (pc_world pc)) (Unit_Name u) = None"
      unfolding old(4) using replace_fresh [OF old(2) new(2)] by blast
    ultimately obtain spec pc' where r: "run_state (update_prepare rt params) pc =
         ((UpdateTypeUnitsChange, Some ([], changed (wanted params) ?old), spec), pc')"
        "PodSpec_Units spec = wanted params" "PodSpec_InitUnits spec = PodSpec_InitUnits (merged_spec params)"
        "sv_good sv (pc_world pc')" "sv_shelf sv (pc_world pc') =
           shelf_create (sv_stored sv) (changed (wanted params) ?old)
             (shelf_remove (changed ?old (wanted params)) (sv_shelf sv (pc_world pc)))"
        "pc_syncErrors pc' = pc_syncErrors pc"
      using prepare_change [OF _ old(3) assms(2)] by blast
    show thesis
      using repl [of "sv_stored sv"] new(1) old(4,5) r(2-6) by (intro that [OF r(1)]) simp_all
  qed
qed

end

section \<open>Runs without another update\<close>

definition quiet_step :: "'s runtime \<Rightarrow> 's sys \<Rightarrow> 's sys \<Rightarrow> bool" where
  "quiet_step rt s t \<longleftrightarrow> sys_step rt s t \<and> (\<forall>params. t \<noteq> s\<lparr>sys_pc := final (UpdatePod params) (sys_pc s)\<rparr>)"

lemma quiet_cases:
  assumes "quiet_step rt s t"
  obtains "sys_main s = M_idle" "length (pc_updateChan (sys_pc s)) > 1"
      "t = s\<lparr>sys_pc := (sys_pc s)\<lparr>pc_updateChan := tl (pc_updateChan (sys_pc s))\<rparr>\<rparr>"
  | params ev spec pc' where "sys_main s = M_idle" "pc_updateChan (sys_pc s) = [params]"
      "run_state (update_prepare rt params) ((sys_pc s)\<lparr>pc_updateChan := []\<rparr>) = ((ev, None, spec), pc')"
      "t = s\<lparr>sys_pc := final (update_finish params spec) pc'\<rparr>"
  | params ev inits units spec pc' where "sys_main s = M_idle" "pc_updateChan (sys_pc s) = [params]"
      "run_state (update_prepare rt params) ((sys_pc s)\<lparr>pc_updateChan := []\<rparr>) =
        ((ev, Some (inits, units), spec), pc')"
      "t = s\<lparr>sys_pc := pc', sys_main := M_wait inits units spec params,
        sys_worker := map_option (\<lambda>g. g\<lparr>g_cancelled := True\<rparr>) (sys_worker s)\<rparr>"
  | inits units spec params where "sys_main s = M_wait inits units spec params" "sys_wg s = 0"
      "t = s\<lparr>sys_main := M_idle, sys_wg := 1,
        sys_worker := Some \<lparr>g_spec = spec, g_task = T_inits inits units, g_cancelled = False\<rparr>,
        sys_pc := final (update_finish params (spec\<lparr>PodSpec_Phase := PodRunning\<rparr>)) (sys_pc s)\<rparr>"
  | g u us units where "sys_worker s = Some g" "g_cancelled g" "g_task g = T_wait u us units"
  | g t' pc' where "sys_worker s = Some g"
      "run_state (run_task rt (g_spec g) (g_task g)) (sys_pc s) = (Next t', pc')"
      "t = s\<lparr>sys_pc := pc', sys_worker := Some (g\<lparr>g_task := t'\<rparr>)\<rparr>"
  | g d pc' where "sys_worker s = Some g"
      "run_state (run_task rt (g_spec g) (g_task g)) (sys_pc s) = (Ended d, pc')"
      "t = s\<lparr>sys_pc := pc', sys_worker := None, sys_wg := (if d then sys_wg s - 1 else sys_wg s)\<rparr>"
proof -
  have "sys_step rt s t" and no_update: "\<And>params. t \<noteq> s\<lparr>sys_pc := final (UpdatePod params) (sys_pc s)\<rparr>"
    using assms by (simp_all add: quiet_step_def)
  from this(1) show thesis
  proof cases
    case (update params)
    with no_update show thesis by blast
  next
    case drop
    with that(1) show thesis by blast
  next
    case trivial
    with that(2) show thesis by blast
  next
    case start
    with that(3) show thesis by blast
  next
    case resume
    with that(4) show thesis by blast
  next
    case cancelled
    with that(5) show thesis by blast
  next
    case goes_on
    with that(6) show thesis by blast
  next
    case ends
    with that(7) show thesis by blast
  qed
qed

text \<open>
  The phases of an update: it is in the channel, behind some that are dropped, it waits to start its units, it starts them, it is done.
\<close>

definition starting_units :: "'s shelf_view \<Rightarrow> PodParameters \<Rightarrow> 's pod_controller \<Rightarrow> PodSpec \<Rightarrow> Unit list \<Rightarrow> bool" where
  "starting_units sv params pc spec units \<longleftrightarrow> pc_updateChan pc = [] \<and>
     PodSpec_Units spec = wanted params \<and> PodSpec_InitUnits spec = [] \<and> sv_good sv (pc_world pc) \<and>
     partly (sv_stored sv) (sv_shelf sv (pc_world pc)) (wanted params) units \<and> pc_syncErrors pc = Map.empty"

definition settled :: "'s shelf_view \<Rightarrow> PodParameters \<Rightarrow> 's sys \<Rightarrow> bool" where
  "settled sv params s \<longleftrightarrow> sys_main s = M_idle \<and> sys_worker s = None \<and> sys_wg s = 0 \<and>
     pc_updateChan (sys_pc s) = [] \<and> all_up sv (sys_pc s) \<and>
     PodSpec_Units (pc_podStatus (sys_pc s)) = wanted params"

datatype phase = Ph_queued nat | Ph_wait "Unit list" | Ph_inits "Unit list" | Ph_start "Unit list" | Ph_done

fun in_phase :: "'s shelf_view \<Rightarrow> PodParameters \<Rightarrow> phase \<Rightarrow> 's sys \<Rightarrow> bool" where
  "in_phase sv params (Ph_queued n) s \<longleftrightarrow> sys_main s = M_idle \<and> sys_worker s = None \<and> sys_wg s = 0 \<and>
     (\<exists>ps. pc_updateChan (sys_pc s) = ps @ [params] \<and> length ps = n) \<and> all_up sv (sys_pc s)"
| "in_phase sv params (Ph_wait units) s \<longleftrightarrow> sys_worker s = None \<and> sys_wg s = 0 \<and>
     (\<exists>spec. sys_main s = M_wait [] units spec params \<and> starting_units sv params (sys_pc s) spec units)"
| "in_phase sv params (Ph_inits units) s \<longleftrightarrow> sys_main s = M_idle \<and> sys_wg s = 1 \<and>
     (\<exists>spec. sys_worker s = Some \<lparr>g_spec = spec, g_task = T_inits [] units, g_cancelled = False\<rparr>) \<and>
     starting_units sv params (sys_pc s) (pc_podStatus (sys_pc s)) units"
| "in_phase sv params (Ph_start units) s \<longleftrightarrow> sys_main s = M_idle \<and> sys_wg s = 1 \<and>
     (\<exists>spec. sys_worker s = Some \<lparr>g_spec = spec, g_task = T_units units, g_cancelled = False\<rparr>) \<and>
     starting_units sv params (sys_pc s) (pc_podStatus (sys_pc s)) units"
| "in_phase sv params Ph_done s \<longleftrightarrow> settled sv params s"

fun phase_rank :: "phase \<Rightarrow> nat \<times> nat" where
  "phase_rank (Ph_queued n) = (4, n)"
| "phase_rank (Ph_wait units) = (3, 0)"
| "phase_rank (Ph_inits units) = (2, 0)"
| "phase_rank (Ph_start units) = (1, length units)"
| "phase_rank Ph_done = (0, 0)"

definition phase_less :: "(phase \<times> phase) set" where
  "phase_less = inv_image (less_than <*lex*> less_than) phase_rank"

lemma wf_phase_less: "wf phase_less"
  by (simp add: phase_less_def wf_lex_prod)

lemma partly_start:
  assumes "partly im m us (u # rest)" "distinct (unit_names us)"
  obtains b where "m (Unit_Name u) = Some (im (Unit_Image u), b)"
    "partly im (m(Unit_Name u \<mapsto> (im (Unit_Image u), True))) us rest"
proof -
  have u: "u \<in> set us" using assms(1) by (simp add: partly_def)
  then obtain b where b: "m (Unit_Name u) = Some (im (Unit_Image u), b)"
    using assms(1) by (auto simp: partly_def)
  let ?m = "m(Unit_Name u \<mapsto> (im (Unit_Image u), True))"
  have "\<exists>b. ?m (Unit_Name v) = Some (im (Unit_Image v), b) \<and> (v \<in> set rest \<or> b)" if v: "v \<in> set us" for v
  proof (cases "Unit_Name v = Unit_Name u")
    case True
    then have "v = u" using same_name [OF assms(2) v u] by simp
    then show ?thesis by (intro exI [of _ True]) simp
  next
    case False
    then show ?thesis using assms(1) v by (auto simp: partly_def)
  qed
  moreover have "dom ?m = Unit_Name ` set us"
    using assms(1) u by (auto simp: partly_def)
  ultimately have "partly im ?m us rest"
    using assms(1) unfolding partly_def by simp
  with b show thesis by (rule that)
qed

lemma run_task_quick:
  "run_state (run_task rt spec (T_inits [] units)) pc = (Next (T_units units), pc)"
  "run_state (run_task rt spec (T_units [])) pc = (Ended True, pc)"
  by (simp_all add: run_state_result_final run_task_def)

lemma quietI:
  assumes "sys_step rt s t"
    "sys_main t \<noteq> sys_main s \<or> sys_worker t \<noteq> sys_worker s \<or>
     length (pc_updateChan (sys_pc t)) < length (pc_updateChan (sys_pc s))"
  shows "quiet_step rt s t"
  using assms by (auto simp: quiet_step_def UpdatePod_chan split: if_splits)

context working_runtime
begin

lemma run_task_start:
  assumes "sv_good sv (pc_world pc)" "sv_shelf sv (pc_world pc) (Unit_Name u) = Some (img, b)"
  obtains w where "run_state (run_task rt spec (T_units (u # us))) pc =
     (Next (T_units us), pc\<lparr>pc_world := w, pc_syncErrors := (pc_syncErrors pc)(Unit_Name u := None)\<rparr>)"
    "sv_good sv w" "sv_shelf sv w = (sv_shelf sv (pc_world pc))(Unit_Name u \<mapsto> (img, True))"
proof -
  define w where "w = final (rt_StartContainer rt u spec (pc_podName pc)) (pc_world pc)"
  note ok = start [OF assms, of spec "pc_podName pc", folded w_def]
  have "run_state (run_task rt spec (T_units (u # us))) pc =
     (Next (T_units us), pc\<lparr>pc_world := w, pc_syncErrors := (pc_syncErrors pc)(Unit_Name u := None)\<rparr>)"
    using ok by (simp add: run_state_result_final run_task_def start_unit_def clear_syncError_def split_def
        flip: w_def)
  from that [OF this] ok show thesis by simp
qed

lemma last_queued:
  assumes s: "sys_main s = M_idle" "sys_worker s = None" "sys_wg s = 0"
      "pc_updateChan (sys_pc s) = [params]" "all_up sv (sys_pc s)"
    and "quiet_step rt s t" "sv_accepts sv params"
  shows "in_phase sv params Ph_done t \<or> (\<exists>units. in_phase sv params (Ph_wait units) t)"
proof -
  let ?pc = "(sys_pc s)\<lparr>pc_updateChan := []\<rparr>"
  have "all_up sv ?pc" using s(5) by (simp add: all_up_def)
  then obtain ev x spec pc' where run: "run_state (update_prepare rt params) ?pc = ((ev, x, spec), pc')"
      and spec: "PodSpec_Units spec = wanted params" "PodSpec_InitUnits spec = []" "sv_good sv (pc_world pc')"
      and x: "case x of None \<Rightarrow> sv_shelf sv (pc_world pc') = all_running (sv_stored sv) (wanted params)
        | Some (inits, units) \<Rightarrow> inits = [] \<and>
            partly (sv_stored sv) (sv_shelf sv (pc_world pc')) (wanted params) units"
      and err: "pc_syncErrors pc' = Map.empty"
    using prepare_ok assms(7) by blast
  have chan: "pc_updateChan pc' = []"
    using same_chan_state [OF same_chan_prepare run] by simp
  note new = simple_update_wanted [OF sv_acceptsD(1) [OF assms(7)]]
  show ?thesis
  proof (cases x)
    case None
    then have "t = s\<lparr>sys_pc := final (update_finish params spec) pc'\<rparr>"
      using assms(6) s run by (auto elim!: quiet_cases)
    then have "in_phase sv params Ph_done t"
      using s None x spec err chan new(2) by (simp add: settled_def update_finish_def all_up_def)
    then show ?thesis ..
  next
    case (Some iu)
    then obtain units where iu: "x = Some ([], units)"
        "partly (sv_stored sv) (sv_shelf sv (pc_world pc')) (wanted params) units"
      using x by (cases iu) auto
    then have "t = s\<lparr>sys_pc := pc', sys_main := M_wait [] units spec params, sys_worker := None\<rparr>"
      using assms(6) s run by (auto elim!: quiet_cases)
    then have "in_phase sv params (Ph_wait units) t"
      using s iu spec err chan by (simp add: starting_units_def)
    then show ?thesis by blast
  qed
qed

lemma phase_step:
  assumes "in_phase sv params ph s" "quiet_step rt s t" "sv_accepts sv params"
  shows "\<exists>ph'. in_phase sv params ph' t \<and> (ph', ph) \<in> phase_less"
proof (cases ph)
  case (Ph_queued n)
  then obtain ps where q: "sys_main s = M_idle" "sys_worker s = None" "sys_wg s = 0"
      "pc_updateChan (sys_pc s) = ps @ [params]" "length ps = n" "all_up sv (sys_pc s)"
    using assms(1) by auto
  show ?thesis
  proof (cases ps)
    case (Cons p ps')
    then have "t = s\<lparr>sys_pc := (sys_pc s)\<lparr>pc_updateChan := ps' @ [params]\<rparr>\<rparr>"
      using assms(2) q by (auto elim!: quiet_cases)
    then have "in_phase sv params (Ph_queued (length ps')) t"
      using q by (simp add: all_up_def)
    then show ?thesis
      using Ph_queued q(5) Cons by (intro exI [of _ "Ph_queued (length ps')"]) (auto simp: phase_less_def)
  next
    case Nil
    with q have s: "sys_main s = M_idle" "sys_worker s = None" "sys_wg s = 0"
        "pc_updateChan (sys_pc s) = [params]" "all_up sv (sys_pc s)" by simp_all
    have less: "(Ph_done, ph) \<in> phase_less" "(Ph_wait units, ph) \<in> phase_less" for units
      using Ph_queued by (simp_all add: phase_less_def)
    then show ?thesis using last_queued [OF s assms(2,3)] by blast
  qed
next
  case (Ph_wait units)
  then obtain spec where s: "sys_main s = M_wait [] units spec params" "sys_worker s = None" "sys_wg s = 0"
      "starting_units sv params (sys_pc s) spec units"
    using assms(1) by auto
  then have "t = s\<lparr>sys_main := M_idle, sys_wg := 1,
      sys_worker := Some \<lparr>g_spec = spec, g_task = T_inits [] units, g_cancelled = False\<rparr>,
      sys_pc := final (update_finish params (spec\<lparr>PodSpec_Phase := PodRunning\<rparr>)) (sys_pc s)\<rparr>"
    using assms(2) by (auto elim!: quiet_cases)
  then have "in_phase sv params (Ph_inits units) t"
    using s(4) by (simp add: starting_units_def update_finish_def)
  then show ?thesis using Ph_wait by (intro exI [of _ "Ph_inits units"]) (simp add: phase_less_def)
next
  case (Ph_inits units)
  then obtain spec where s: "sys_main s = M_idle" "sys_wg s = 1"
      "sys_worker s = Some \<lparr>g_spec = spec, g_task = T_inits [] units, g_cancelled = False\<rparr>"
      "starting_units sv params (sys_pc s) (pc_podStatus (sys_pc s)) units"
    using assms(1) by auto
  then have "t = s\<lparr>sys_worker := Some \<lparr>g_spec = spec, g_task = T_units units, g_cancelled = False\<rparr>\<rparr>"
    using assms(2) by (auto elim!: quiet_cases simp: run_task_quick starting_units_def)
  then have "in_phase sv params (Ph_start units) t"
    using s by simp
  then show ?thesis using Ph_inits by (intro exI [of _ "Ph_start units"]) (simp add: phase_less_def)
next
  case (Ph_start units)
  then obtain spec where s: "sys_main s = M_idle" "sys_wg s = 1"
      "sys_worker s = Some \<lparr>g_spec = spec, g_task = T_units units, g_cancelled = False\<rparr>"
      "starting_units sv params (sys_pc s) (pc_podStatus (sys_pc s)) units"
    using assms(1) by auto
  note new = simple_update_wanted [OF sv_acceptsD(1) [OF assms(3)]]
  show ?thesis
  proof (cases units)
    case Nil
    then have "t = s\<lparr>sys_worker := None, sys_wg := 0\<rparr>"
      using assms(2) s by (auto elim!: quiet_cases simp: run_task_quick starting_units_def)
    then have "in_phase sv params Ph_done t"
      using s Nil new(2) partly_Nil [OF new(2)] by (simp add: starting_units_def settled_def all_up_def)
    then show ?thesis using Ph_start by (intro exI [of _ Ph_done]) (simp add: phase_less_def)
  next
    case (Cons u us)
    have st: "partly (sv_stored sv) (sv_shelf sv (pc_world (sys_pc s))) (wanted params) (u # us)"
        "sv_good sv (pc_world (sys_pc s))"
      using s(4) Cons by (simp_all add: starting_units_def)
    obtain b where b: "sv_shelf sv (pc_world (sys_pc s)) (Unit_Name u) = Some (sv_stored sv (Unit_Image u), b)"
        "partly (sv_stored sv)
          ((sv_shelf sv (pc_world (sys_pc s)))(Unit_Name u \<mapsto> (sv_stored sv (Unit_Image u), True)))
          (wanted params) us"
      using partly_start [OF st(1) new(2)] by blast
    obtain w where w: "run_state (run_task rt spec (T_units (u # us))) (sys_pc s) =
         (Next (T_units us), (sys_pc s)\<lparr>pc_world := w,
            pc_syncErrors := (pc_syncErrors (sys_pc s))(Unit_Name u := None)\<rparr>)"
        "sv_good sv w" "sv_shelf sv w =
           (sv_shelf sv (pc_world (sys_pc s)))(Unit_Name u \<mapsto> (sv_stored sv (Unit_Image u), True))"
      using run_task_start [OF st(2) b(1)] by blast
    have "t = s\<lparr>sys_pc := (sys_pc s)\<lparr>pc_world := w,
          pc_syncErrors := (pc_syncErrors (sys_pc s))(Unit_Name u := None)\<rparr>,
        sys_worker := Some \<lparr>g_spec = spec, g_task = T_units us, g_cancelled = False\<rparr>\<rparr>"
      using assms(2) s Cons w(1) by (auto elim!: quiet_cases simp: starting_units_def)
    then have "in_phase sv params (Ph_start us) t"
      using s b(2) w(2,3) by (simp add: starting_units_def)
    then show ?thesis using Ph_start Cons by (intro exI [of _ "Ph_start us"]) (simp add: phase_less_def)
  qed
next
  case Ph_done
  then have "settled sv params s" using assms(1) by simp
  then have False
    using assms(2) unfolding settled_def by (auto elim!: quiet_cases)
  then show ?thesis ..
qed

lemma phase_progress:
  assumes "in_phase sv params ph s" "ph \<noteq> Ph_done" "sv_accepts sv params"
  shows "\<exists>t. quiet_step rt s t"
proof (cases ph)
  case (Ph_queued n)
  then obtain ps where q: "sys_main s = M_idle" "pc_updateChan (sys_pc s) = ps @ [params]" "all_up sv (sys_pc s)"
    using assms(1) by auto
  show ?thesis
  proof (cases "ps = []")
    case False
    then have "sys_step rt s (s\<lparr>sys_pc := (sys_pc s)\<lparr>pc_updateChan := tl (pc_updateChan (sys_pc s))\<rparr>\<rparr>)"
      by (intro sys_step.drop) (use q in \<open>simp_all add: neq_Nil_conv\<close>)
    then show ?thesis using False q(2) by (intro exI quietI) auto
  next
    case True
    with q have s: "sys_main s = M_idle" "pc_updateChan (sys_pc s) = [params]" "all_up sv (sys_pc s)" by simp_all
    let ?pc = "(sys_pc s)\<lparr>pc_updateChan := []\<rparr>"
    have "all_up sv ?pc" using s(3) by (simp add: all_up_def)
    then obtain ev x spec pc' where run: "run_state (update_prepare rt params) ?pc = ((ev, x, spec), pc')"
      by (rule prepare_ok [OF _ assms(3)]) blast
    have chan: "pc_updateChan pc' = []"
      using same_chan_state [OF same_chan_prepare run] by simp
    show ?thesis
    proof (cases x)
      case None
      note st = sys_step.trivial [OF s(1,2) run [unfolded None]]
      show ?thesis by (rule exI, rule quietI [OF st]) (simp add: update_finish_def chan s(2))
    next
      case (Some iu)
      obtain inits units where iu: "x = Some (inits, units)" using Some by (cases iu) auto
      note st = sys_step.start [OF s(1,2) run [unfolded iu]]
      show ?thesis by (rule exI, rule quietI [OF st]) (simp add: s(1))
    qed
  qed
next
  case (Ph_wait units)
  then obtain spec where "sys_main s = M_wait [] units spec params" "sys_wg s = 0"
    using assms(1) by auto
  note st = sys_step.resume [OF this, of rt]
  show ?thesis by (rule exI, rule quietI [OF st]) (simp add: \<open>sys_main s = _\<close>)
next
  case (Ph_inits units)
  then obtain spec where
      s: "sys_worker s = Some \<lparr>g_spec = spec, g_task = T_inits [] units, g_cancelled = False\<rparr>"
    using assms(1) by auto
  show ?thesis
    using sys_step.goes_on [OF s, of rt "T_units units" "sys_pc s"] s
    by (intro exI quietI) (auto simp: run_task_quick)
next
  case (Ph_start units)
  then obtain spec where
      s: "sys_worker s = Some \<lparr>g_spec = spec, g_task = T_units units, g_cancelled = False\<rparr>"
      "partly (sv_stored sv) (sv_shelf sv (pc_world (sys_pc s))) (wanted params) units"
      "sv_good sv (pc_world (sys_pc s))"
    using assms(1) by (auto simp: starting_units_def)
  show ?thesis
  proof (cases units)
    case Nil
    show ?thesis
      using sys_step.ends [OF s(1), of rt True "sys_pc s"] s(1) Nil
      by (intro exI quietI) (auto simp: run_task_quick)
  next
    case (Cons u us)
    then obtain b where "sv_shelf sv (pc_world (sys_pc s)) (Unit_Name u) = Some (sv_stored sv (Unit_Image u), b)"
      using s(2) partly_start simple_update_wanted(2) [OF sv_acceptsD(1) [OF assms(3)]] by blast
    then obtain pc' where "run_state (run_task rt spec (T_units (u # us))) (sys_pc s) = (Next (T_units us), pc')"
      using run_task_start [OF s(3)] by blast
    then show ?thesis
      using sys_step.goes_on [OF s(1), of rt "T_units us" pc'] s(1) Cons
      by (intro exI quietI) auto
  qed
qed (use assms(2) in simp)

lemma phase_run:
  assumes "(quiet_step rt)\<^sup>*\<^sup>* s t" "in_phase sv params ph s" "sv_accepts sv params"
  shows "\<exists>ph'. in_phase sv params ph' t"
  using assms(1,2)
proof (induction rule: rtranclp_induct)
  case (step t u)
  then show ?case using phase_step assms(3) by blast
qed blast

lemma phase_finite:
  assumes "sv_accepts sv params"
  shows "in_phase sv params ph (f 0) \<Longrightarrow> \<not> (\<forall>i. quiet_step rt (f i) (f (Suc i)))"
proof (induction ph arbitrary: f rule: wf_induct_rule [OF wf_phase_less])
  case (1 ph)
  show ?case
  proof
    assume run: "\<forall>i. quiet_step rt (f i) (f (Suc i))"
    then obtain ph' where "in_phase sv params ph' (f (Suc 0))" "(ph', ph) \<in> phase_less"
      using phase_step [OF 1(2) _ assms] by blast
    with 1(1) [of ph' "\<lambda>i. f (Suc i)"] run show False by simp
  qed
qed

text \<open>
  Once there are updates in the channel of a pod whose units all run, the controller cannot go on for
  ever, and when it cannot go on exactly the units the last of them wants run.
\<close>

lemma update_settles:
  assumes "in_phase sv params (Ph_queued n) s" "sv_accepts sv params"
  shows "\<not> (\<exists>f. f 0 = s \<and> (\<forall>i. quiet_step rt (f i) (f (Suc i))))"
    and "(quiet_step rt)\<^sup>*\<^sup>* s t \<Longrightarrow> \<not> (\<exists>u. quiet_step rt t u) \<Longrightarrow> settled sv params t"
proof -
  show "\<not> (\<exists>f. f 0 = s \<and> (\<forall>i. quiet_step rt (f i) (f (Suc i))))"
    using phase_finite [OF assms(2), of "Ph_queued n"] assms(1) by blast
  assume run: "(quiet_step rt)\<^sup>*\<^sup>* s t" and stuck: "\<not> (\<exists>u. quiet_step rt t u)"
  obtain ph where ph: "in_phase sv params ph t" using phase_run [OF run assms] by blast
  then have "ph = Ph_done" using phase_progress assms(2) stuck by blast
  with ph show "settled sv params t" by simp
qed

end

section \<open>The shelf as a runtime\<close>

definition ideal_rt :: "shelf runtime" where
  "ideal_rt =
     \<lparr>rt_RunPodSandbox = (\<lambda>spec. return (None, spec)),
      rt_StopPodSandbox = (\<lambda>spec. return None),
      rt_RemovePodSandbox = (\<lambda>spec. return None),
      rt_CreateContainer = (\<lambda>u spec podName creds overlay. do {
        modify (\<lambda>m. m(Unit_Name u \<mapsto> (Unit_Image u, False)));
        return (Some (MakeStillCreatingStatus (Unit_Name u) (Unit_Image u) ''Created''), None) }),
      rt_StartContainer = (\<lambda>u spec podName. do {
        m \<leftarrow> gets (\<lambda>m. m);
        case m (Unit_Name u) of
          None \<Rightarrow> return (Some (MakeFailedUpdateStatus (Unit_Name u) (Unit_Image u) ''NoContainer''),
                          Some (Errorf ''no such container''))
        | Some (img, _) \<Rightarrow> do {
            modify (\<lambda>m. m(Unit_Name u \<mapsto> (img, True)));
            return (Some (MakeStillCreatingStatus (Unit_Name u) (Unit_Image u) ''Started''), None) } }),
      rt_RemoveContainer = (\<lambda>u. do { modify (\<lambda>m. m(Unit_Name u := None)); return None }),
      rt_ContainerStatus = (\<lambda>n i. return (Some (MakeStillCreatingStatus n i ''Created''), None)),
      rt_UnitRunning = (\<lambda>n. gets (\<lambda>m. case m n of Some (_, b) \<Rightarrow> b | None \<Rightarrow> False)),
      rt_GetPid = (\<lambda>n. return (0, False)),
      rt_SetPodNetwork = (\<lambda>n ip. return ())\<rparr>"

interpretation ideal: runtime_service ideal_rt
  by unfold_locales (auto simp: ideal_rt_def split: option.splits prod.splits)

definition ideal_view :: "shelf shelf_view" where
  "ideal_view = \<lparr>sv_good = (\<lambda>m. True), sv_shelf = (\<lambda>m. m), sv_stored = (\<lambda>img. img), sv_takes = (\<lambda>u. True),
     sv_sandbox = (\<lambda>spec. True)\<rparr>"

lemma ideal_view_sel [simp]:
  "sv_good ideal_view m" "sv_shelf ideal_view m = m" "sv_stored ideal_view = (\<lambda>img. img)"
  "sv_takes ideal_view u" "sv_sandbox ideal_view spec"
  "sv_accepts ideal_view params \<longleftrightarrow> simple_update params"
  by (simp_all add: ideal_view_def sv_accepts_def)

interpretation ideal_works: working_runtime ideal_rt ideal_view
  by unfold_locales (auto simp: ideal_rt_def)

section \<open>An update that comes too early\<close>

text \<open>
  The goroutine of an update does not look whether it was cancelled before it starts a unit.  The state
  here: it is about to start its units, \<open>u\<close> the first, and the next update has removed \<open>u\<close>, cancelled
  the goroutine and waits for it to end.
\<close>

definition overtaken_by ::
  "'s shelf_view \<Rightarrow> PodParameters \<Rightarrow> PodParameters \<Rightarrow> PodSpec \<Rightarrow> PodSpec \<Rightarrow> 's sys \<Rightarrow> bool" where
  "overtaken_by sv p1 p2 spec1 spec2 s \<longleftrightarrow>
     sys_main s = M_wait [] (changed (wanted p2) (wanted p1)) spec2 p2 \<and>
     sys_worker s = Some \<lparr>g_spec = spec1, g_task = T_units (wanted p1), g_cancelled = True\<rparr> \<and>
     sys_wg s = 1 \<and> pc_updateChan (sys_pc s) = [] \<and> PodSpec_Units spec2 = wanted p2 \<and>
     sv_good sv (pc_world (sys_pc s)) \<and>
     sv_shelf sv (pc_world (sys_pc s)) = shelf_create (sv_stored sv) (changed (wanted p2) (wanted p1))
       (shelf_remove (changed (wanted p1) (wanted p2)) (shelf_create (sv_stored sv) (wanted p1) Map.empty))"

lemma first_differs:
  assumes "wanted p1 = u # rest" "Unit_Name u \<notin> Unit_Name ` set (wanted p2)"
  shows "\<not> unitsSlicesEqual (wanted p2) (wanted p1)" "u \<in> set (changed (wanted p1) (wanted p2))"
proof -
  show "\<not> unitsSlicesEqual (wanted p2) (wanted p1)"
  proof
    assume "unitsSlicesEqual (wanted p2) (wanted p1)"
    then have "0 < length (wanted p2)" "Unit_Name (wanted p2 ! 0) = Unit_Name u"
      using assms(1) by (auto simp: unitsSlicesEqual_iff same_at_def unitsEqual_def)
    with assms(2) show False by (metis imageI nth_mem)
  qed
  have "\<not> same_at (wanted p1) (wanted p2) 0"
    using assms nth_mem [of 0 "wanted p2"] by (auto simp: same_at_def unitsEqual_def image_iff)
  then show "u \<in> set (changed (wanted p1) (wanted p2))" using assms(1) by (force simp: changed_set)
qed

context working_runtime
begin

lemma overtaken_update:
  assumes w0: "sv_good sv w0" "sv_shelf sv w0 = Map.empty"
    and p1: "sv_accepts sv p1" "wanted p1 = u # rest" and p2: "sv_accepts sv p2"
    and u: "Unit_Name u \<notin> Unit_Name ` set (wanted p2)"
  obtains spec1 spec2 s where "sys_steps rt (init_sys w0) s" "overtaken_by sv p1 p2 spec1 spec2 s"
proof -
  let ?pc0 = "NewPodController w0" and ?im = "sv_stored sv"
  let ?add = "changed (wanted p2) (wanted p1)" and ?del = "changed (wanted p1) (wanted p2)"
  note new1 = simple_update_wanted [OF sv_acceptsD(1) [OF p1(1)]]
    and new2 = simple_update_wanted [OF sv_acceptsD(1) [OF p2]]
  have fresh: "PodSpec_InitUnits (pc_podStatus ?pc0) = []" "PodSpec_Units (pc_podStatus ?pc0) = []"
      "pc_world ?pc0 = w0" "pc_updateChan ?pc0 = []"
    by (simp_all add: NewPodController_def zero_PodSpec_def)
  have first: "detectChangeType (merged_spec p1) (pc_podStatus ?pc0) = UpdateTypePodCreate"
    using simple_kind [OF sv_acceptsD(1) [OF p1(1)] fresh(1)] fresh(2) by simp
  obtain spec1 pc1 where r1: "run_state (update_prepare rt p1) ?pc0 =
         ((UpdateTypePodCreate, Some (PodSpec_InitUnits (merged_spec p1), wanted p1), spec1), pc1)"
      and spec1: "PodSpec_Units spec1 = wanted p1" "PodSpec_InitUnits spec1 = PodSpec_InitUnits (merged_spec p1)"
      and w1: "sv_good sv (pc_world pc1)" "sv_shelf sv (pc_world pc1) = shelf_create ?im (wanted p1) Map.empty"
    by (rule prepare_create [OF first _ p1(1)]) (use w0 fresh(3) in auto)
  define pc2 where "pc2 = final (update_finish p1 (spec1\<lparr>PodSpec_Phase := PodRunning\<rparr>)) pc1"
  have pc2: "sv_shelf sv (pc_world pc2) = shelf_create ?im (wanted p1) Map.empty" "pc_updateChan pc2 = []"
      "PodSpec_Units (pc_podStatus pc2) = wanted p1" "PodSpec_InitUnits (pc_podStatus pc2) = []"
      "sv_good sv (pc_world pc2)"
    using w1 spec1 new1(1) same_chan_state [OF same_chan_prepare r1] fresh(4)
    by (simp_all add: pc2_def update_finish_def)
  let ?g = "\<lambda>t c. Some \<lparr>g_spec = spec1, g_task = t, g_cancelled = c\<rparr>"
  define s3 where "s3 = \<lparr>sys_pc = pc2, sys_main = M_idle, sys_worker = ?g (T_inits [] (wanted p1)) False, sys_wg = 1\<rparr>"
  have s3: "sys_steps rt (init_sys w0) s3"
    unfolding s3_def pc2_def using first_goroutine [OF r1] new1(1) by simp
  define s4 where "s4 = s3\<lparr>sys_worker := ?g (T_units (wanted p1)) False\<rparr>"
  have s4: "sys_step rt s3 s4"
    using sys_step.goes_on [of s3 _ rt "T_units (wanted p1)" pc2]
    by (simp add: s3_def s4_def run_task_quick)
  define s5 where "s5 = s4\<lparr>sys_pc := pc2\<lparr>pc_updateChan := [p2]\<rparr>\<rparr>"
  have s5: "sys_step rt s4 s5"
    using update_step [of s4 rt p2] pc2(2) by (simp add: s3_def s4_def s5_def)
  have change: "detectChangeType (merged_spec p2) (pc_podStatus pc2) = UpdateTypeUnitsChange"
    using simple_kind [OF sv_acceptsD(1) [OF p2] pc2(4)] pc2(3) p1(2) first_differs(1) [OF p1(2) u] by simp
  have "shelf_remove ?del (shelf_create ?im (wanted p1) Map.empty) n =
      map_option (\<lambda>(i, b). (i, False)) (shelf_remove ?del (all_running ?im (wanted p1)) n)" for n
    using shelf_create_running [OF new1(2)] by (simp add: shelf_remove_at)
  then have fresh2: "\<forall>u \<in> set ?add.
      shelf_remove ?del (shelf_create ?im (wanted p1) Map.empty) (Unit_Name u) = None"
    using replace_fresh [OF new1(2) new2(2)] by simp
  have "\<forall>u \<in> set (changed (wanted p2) (PodSpec_Units (pc_podStatus pc2))).
      shelf_remove (changed (PodSpec_Units (pc_podStatus pc2)) (wanted p2)) (sv_shelf sv (pc_world pc2)) (Unit_Name u) = None"
    unfolding pc2(1,3) by (rule fresh2)
  then obtain spec2 pc6 where r2: "run_state (update_prepare rt p2) pc2 =
       ((UpdateTypeUnitsChange, Some ([], changed (wanted p2) (PodSpec_Units (pc_podStatus pc2))), spec2), pc6)"
      and spec2: "PodSpec_Units spec2 = wanted p2" and w6: "sv_good sv (pc_world pc6)"
        "sv_shelf sv (pc_world pc6) =
         shelf_create ?im (changed (wanted p2) (PodSpec_Units (pc_podStatus pc2)))
           (shelf_remove (changed (PodSpec_Units (pc_podStatus pc2)) (wanted p2)) (sv_shelf sv (pc_world pc2)))"
    by (rule prepare_change [OF change pc2(5) p2]) blast
  have chan6: "pc_updateChan pc6 = []"
    using same_chan_state [OF same_chan_prepare r2] pc2(2) by simp
  define s6 where "s6 = s5\<lparr>sys_pc := pc6, sys_main := M_wait [] ?add spec2 p2,
      sys_worker := ?g (T_units (wanted p1)) True\<rparr>"
  have same2: "pc2\<lparr>pc_updateChan := []\<rparr> = pc2" using pc2(2) by simp
  have s6: "sys_step rt s5 s6"
    using sys_step.start [of s5 p2 rt] r2 [unfolded pc2(3)] same2
    by (simp add: s3_def s4_def s5_def s6_def)
  have run: "sys_steps rt (init_sys w0) s6"
    by (intro sys_steps.step [OF _ s6] sys_steps.step [OF _ s5] sys_steps.step [OF _ s4] s3)
  have "overtaken_by sv p1 p2 spec1 spec2 s6"
    using chan6 spec2 w6 [unfolded pc2(1,3)]
    by (simp add: overtaken_by_def s3_def s4_def s5_def s6_def)
  with run show thesis by (rule that)
qed

end

text \<open>When the goroutine has ended, the next one is about to start its units.\<close>

lemma resume_units:
  assumes "sys_main s = M_wait [] units spec params" "sys_worker s = None" "sys_wg s = 0"
  obtains t where "sys_steps rt s t" "sys_main t = M_idle" "sys_wg t = 1"
    "sys_worker t = Some \<lparr>g_spec = spec, g_task = T_units units, g_cancelled = False\<rparr>"
    "pc_world (sys_pc t) = pc_world (sys_pc s)" "pc_updateChan (sys_pc t) = pc_updateChan (sys_pc s)"
    "PodSpec_Units (pc_podStatus (sys_pc t)) = PodSpec_Units spec"
proof -
  define pc where "pc = final (update_finish params (spec\<lparr>PodSpec_Phase := PodRunning\<rparr>)) (sys_pc s)"
  define s8 where "s8 = s\<lparr>sys_main := M_idle, sys_wg := 1,
      sys_worker := Some \<lparr>g_spec = spec, g_task = T_inits [] units, g_cancelled = False\<rparr>, sys_pc := pc\<rparr>"
  have s8: "sys_step rt s s8"
    using sys_step.resume [of s "[]" units spec params rt] assms by (simp add: s8_def pc_def)
  define s9 where "s9 = s8\<lparr>sys_worker := Some \<lparr>g_spec = spec, g_task = T_units units, g_cancelled = False\<rparr>\<rparr>"
  have s9: "sys_step rt s8 s9"
    using sys_step.goes_on [of s8 _ rt "T_units units" pc] by (simp add: s8_def s9_def run_task_quick)
  have "sys_steps rt s s9" by (rule sys_steps.step [OF sys_steps.step [OF sys_steps.refl s8] s9])
  then show thesis by (rule that) (simp_all add: s8_def s9_def pc_def update_finish_def)
qed

lemma stuck_idle:
  assumes "sys_main s = M_idle" "sys_worker s = None" "pc_updateChan (sys_pc s) = []"
  shows "\<not> (\<exists>t. quiet_step rt s t)"
  using assms by (auto elim!: quiet_cases)

text \<open>
  With the shelf, the goroutine ends at the first unit that is not there; the next update starts only
  what it created.
\<close>

lemma run_task_ideal:
  "pc_world pc (Unit_Name u) = Some (img, b) \<Longrightarrow>
   run_state (run_task ideal_rt spec (T_units (u # us))) pc =
     (Next (T_units us), pc\<lparr>pc_world := (pc_world pc)(Unit_Name u \<mapsto> (img, True)),
        pc_syncErrors := (pc_syncErrors pc)(Unit_Name u := None)\<rparr>)"
  by (simp add: run_state_result_final run_task_def start_unit_def clear_syncError_def ideal_rt_def)

lemma start_all:
  assumes "sys_worker s = Some \<lparr>g_spec = spec, g_task = T_units us, g_cancelled = c\<rparr>"
    "Unit_Name ` set us \<subseteq> dom (pc_world (sys_pc s))"
  shows "\<exists>t. sys_steps ideal_rt s t \<and> sys_main t = sys_main s \<and> sys_worker t = None \<and>
     pc_updateChan (sys_pc t) = pc_updateChan (sys_pc s) \<and> pc_podStatus (sys_pc t) = pc_podStatus (sys_pc s) \<and>
     (\<forall>n. n \<notin> Unit_Name ` set us \<longrightarrow> pc_world (sys_pc t) n = pc_world (sys_pc s) n)"
  using assms
proof (induction us arbitrary: s)
  case Nil
  have "run_state (run_task ideal_rt spec (T_units [])) (sys_pc s) = (Ended True, sys_pc s)"
    by (rule run_task_quick)
  then have "sys_step ideal_rt s (s\<lparr>sys_worker := None, sys_wg := sys_wg s - 1\<rparr>)"
    using sys_step.ends [OF Nil(1), of ideal_rt True "sys_pc s"] by simp
  from sys_steps.step [OF sys_steps.refl this] show ?case
    by (intro exI [of _ "s\<lparr>sys_worker := None, sys_wg := sys_wg s - 1\<rparr>"]) simp
next
  case (Cons u us)
  obtain img b where m: "pc_world (sys_pc s) (Unit_Name u) = Some (img, b)"
    using Cons.prems(2) by auto
  let ?pc = "(sys_pc s)\<lparr>pc_world := (pc_world (sys_pc s))(Unit_Name u \<mapsto> (img, True)),
        pc_syncErrors := (pc_syncErrors (sys_pc s))(Unit_Name u := None)\<rparr>"
  define s' where "s' = s\<lparr>sys_pc := ?pc, sys_worker := Some \<lparr>g_spec = spec, g_task = T_units us, g_cancelled = c\<rparr>\<rparr>"
  have step: "sys_step ideal_rt s s'"
    using sys_step.goes_on [OF Cons.prems(1), of ideal_rt "T_units us" ?pc] run_task_ideal [OF m]
    by (simp add: s'_def)
  have s': "sys_worker s' = Some \<lparr>g_spec = spec, g_task = T_units us, g_cancelled = c\<rparr>"
      "sys_main s' = sys_main s" "pc_updateChan (sys_pc s') = pc_updateChan (sys_pc s)"
      "pc_podStatus (sys_pc s') = pc_podStatus (sys_pc s)"
      "\<And>n. n \<noteq> Unit_Name u \<Longrightarrow> pc_world (sys_pc s') n = pc_world (sys_pc s) n"
      "dom (pc_world (sys_pc s')) = insert (Unit_Name u) (dom (pc_world (sys_pc s)))"
    by (simp_all add: s'_def)
  have "Unit_Name ` set us \<subseteq> dom (pc_world (sys_pc s'))"
    unfolding s'(6) using Cons.prems(2) by auto
  from Cons.IH [OF s'(1) this] obtain t where t: "sys_steps ideal_rt s' t" "sys_main t = sys_main s'"
      "sys_worker t = None" "pc_updateChan (sys_pc t) = pc_updateChan (sys_pc s')"
      "pc_podStatus (sys_pc t) = pc_podStatus (sys_pc s')"
      "\<forall>n. n \<notin> Unit_Name ` set us \<longrightarrow> pc_world (sys_pc t) n = pc_world (sys_pc s') n"
    by blast
  have "sys_steps ideal_rt s t" by (rule sys_steps_head [OF t(1) step])
  with t(2-6) s'(2-5) show ?case by (intro exI [of _ t]) simp
qed

lemma start_missing:
  assumes "pc_world pc (Unit_Name u) = None"
  shows "\<exists>pc'. run_state (run_task ideal_rt spec (T_units (u # us))) pc = (Ended True, pc') \<and>
    pc_world pc' = pc_world pc \<and> pc_updateChan pc' = pc_updateChan pc \<and> pc_podStatus pc' = pc_podStatus pc"
  using assms
  by (simp add: run_state_result_final run_task_def start_unit_def ideal_rt_def set_syncError_def)

lemma late_start_lost:
  assumes p1: "simple_update p1" "wanted p1 = u # rest" and p2: "simple_update p2"
    and u: "Unit_Name u \<notin> Unit_Name ` set (wanted p2)"
    and v: "v \<in> set rest" "v \<notin> set (changed (wanted p1) (wanted p2))"
  shows "\<exists>s. sys_steps ideal_rt (init_sys Map.empty) s \<and> \<not> (\<exists>t. quiet_step ideal_rt s t) \<and>
     PodSpec_Units (pc_podStatus (sys_pc s)) = wanted p2 \<and> Unit_Name v \<in> Unit_Name ` set (wanted p2) \<and>
     pc_world (sys_pc s) (Unit_Name v) = Some (Unit_Image v, False)"
proof -
  let ?add = "changed (wanted p2) (wanted p1)" and ?del = "changed (wanted p1) (wanted p2)"
  note new1 = simple_update_wanted [OF p1(1)] and new2 = simple_update_wanted [OF p2]
  have acc: "sv_accepts ideal_view p1" "sv_accepts ideal_view p2" using p1(1) p2 by simp_all
  have empty: "sv_shelf ideal_view Map.empty = Map.empty" by simp
  obtain spec1 spec2 s6 where s6: "sys_steps ideal_rt (init_sys Map.empty) s6"
      "overtaken_by ideal_view p1 p2 spec1 spec2 s6"
    by (rule ideal_works.overtaken_update [OF ideal_view_sel(1) empty acc(1) p1(2) acc(2) u])
  then have at6: "sys_main s6 = M_wait [] ?add spec2 p2"
      "sys_worker s6 = Some \<lparr>g_spec = spec1, g_task = T_units (u # rest), g_cancelled = True\<rparr>"
      "sys_wg s6 = 1" "pc_updateChan (sys_pc s6) = []" "PodSpec_Units spec2 = wanted p2"
      "pc_world (sys_pc s6) =
         shelf_create (\<lambda>img. img) ?add (shelf_remove ?del (shelf_create (\<lambda>img. img) (wanted p1) Map.empty))"
    using p1(2) by (simp_all only: overtaken_by_def ideal_view_sel)
  have "Unit_Name u \<notin> Unit_Name ` set ?add" using u changed_subset by blast
  then have "pc_world (sys_pc s6) (Unit_Name u) = None"
    using first_differs(2) [OF p1(2) u] unfolding at6(6) by (simp add: shelf_create_other shelf_remove_at)
  then obtain pc7 where r7: "run_state (run_task ideal_rt spec1 (T_units (u # rest))) (sys_pc s6) =
        (Ended True, pc7)" and pc7: "pc_world pc7 = pc_world (sys_pc s6)" "pc_updateChan pc7 = []"
    using start_missing at6(4) by metis
  define s7 where "s7 = s6\<lparr>sys_pc := pc7, sys_worker := None, sys_wg := 0\<rparr>"
  have s7: "sys_step ideal_rt s6 s7"
    using sys_step.ends [OF at6(2), of ideal_rt True pc7] r7 at6(3) by (simp add: s7_def)
  have at7: "sys_main s7 = M_wait [] ?add spec2 p2" "sys_worker s7 = None" "sys_wg s7 = 0"
    using at6(1) by (simp_all add: s7_def)
  obtain s9 where s9: "sys_steps ideal_rt s7 s9" "sys_main s9 = M_idle"
      "sys_worker s9 = Some \<lparr>g_spec = spec2, g_task = T_units ?add, g_cancelled = False\<rparr>"
      "pc_world (sys_pc s9) = pc_world (sys_pc s7)" "pc_updateChan (sys_pc s9) = pc_updateChan (sys_pc s7)"
      "PodSpec_Units (pc_podStatus (sys_pc s9)) = PodSpec_Units spec2"
    by (rule resume_units [OF at7]) blast
  have world: "pc_world (sys_pc s9) = pc_world (sys_pc s6)" "pc_updateChan (sys_pc s9) = []"
    using s9(4,5) pc7 by (simp_all add: s7_def)
  have run9: "sys_steps ideal_rt (init_sys Map.empty) s9"
    by (rule sys_steps_trans [OF s9(1) sys_steps.step [OF s6(1) s7]])
  have "n \<in> dom (pc_world (sys_pc s9))" if "n \<in> Unit_Name ` set ?add" for n
  proof -
    from that obtain x where "x \<in> set ?add" "n = Unit_Name x" by blast
    then show ?thesis
      using shelf_create_at [OF changed_distinct [OF new2(2)]] unfolding world at6(6) by auto
  qed
  then obtain t where t: "sys_steps ideal_rt s9 t" "sys_main t = M_idle" "sys_worker t = None"
      "pc_updateChan (sys_pc t) = []" "PodSpec_Units (pc_podStatus (sys_pc t)) = wanted p2"
      "\<forall>n. n \<notin> Unit_Name ` set ?add \<longrightarrow> pc_world (sys_pc t) n = pc_world (sys_pc s6) n"
    using start_all [OF s9(3)] s9(2,6) world at6(5) by (metis subsetI)
  have v1: "v \<in> set (wanted p1)" using v(1) p1(2) by simp
  obtain i where i: "i < length (wanted p1)" "v = wanted p1 ! i" "same_at (wanted p1) (wanted p2) i"
    using v1 v(2) by (auto simp: in_set_conv_nth changed_set)
  then have i2: "i < length (wanted p2)" "Unit_Name (wanted p2 ! i) = Unit_Name v"
    by (simp_all add: same_at_def unitsEqual_def)
  have kept: "Unit_Name v \<notin> Unit_Name ` set ?add"
  proof
    assume "Unit_Name v \<in> Unit_Name ` set ?add"
    then obtain j where j: "j < length (wanted p2)" "\<not> same_at (wanted p2) (wanted p1) j"
        "Unit_Name (wanted p2 ! j) = Unit_Name v"
      by (auto simp: changed_set)
    then have "j = i" using same_index [OF new2(2) _ i2(1)] i2(2) by simp
    with j(2) i(3) same_at_sym show False by blast
  qed
  have "Unit_Name v \<notin> Unit_Name ` set ?del"
  proof
    assume "Unit_Name v \<in> Unit_Name ` set ?del"
    then obtain x where x: "x \<in> set ?del" "Unit_Name v = Unit_Name x" by blast
    with changed_subset have "v = x" using same_name [OF new1(2) v1] by blast
    with x(1) v(2) show False by simp
  qed
  then have "pc_world (sys_pc s6) (Unit_Name v) = Some (Unit_Image v, False)"
    unfolding at6(6) using kept shelf_create_at [OF new1(2) v1]
    by (simp add: shelf_create_other shelf_remove_at)
  with t(6) kept have "pc_world (sys_pc t) (Unit_Name v) = Some (Unit_Image v, False)" by simp
  moreover have "Unit_Name v \<in> Unit_Name ` set (wanted p2)" using i2 by (metis imageI nth_mem)
  moreover have "\<not> (\<exists>u. quiet_step ideal_rt t u)" using stuck_idle t(2,3,4) by blast
  ultimately show ?thesis using sys_steps_trans [OF t(1) run9] t(5) by blast
qed

end
