(* ===== verification/Pod_Steps.thy ===== *)
theory Pod_Steps
  imports Pod_Sync
begin

text \<open>
  The pod controller one call to its runtime at a time.  In \<open>Pod_Controller\<close> the update loop does the
  work of an update in one step; here every call is a step of its own, between which the goroutine of the
  update before and the clients do theirs.  Every run of \<open>sys_step\<close> is a run of these finer
  steps, what is invariant is shown for the finer steps, and an update that finds no goroutine at work
  is carried out as in \<open>Pod_Sync\<close>.
\<close>

section \<open>What is left of an update\<close>

text \<open>
  The calls an update still has to make.  \<open>Op_each\<close> is the head of the loop over the units of the
  specification, which is read after the sandbox has been made; \<open>Op_replace\<close> and \<open>Op_recreate\<close> are
  the calls of \<open>RestartUnits\<close>, which also keep the table of units that are being restarted.
\<close>

datatype pod_call =
    Op_remove Unit | Op_stop PodSpec | Op_unbox PodSpec | Op_run | Op_each | Op_create Unit | Op_count
  | Op_replace Unit | Op_recreate Unit

text \<open>One call: its error, the specification after it, and what it puts before the calls to come.\<close>

(* src: pkg/server/pod_controller.go 421-495 RestartPod *)
fun pod_op :: "'s runtime \<Rightarrow> pod_call \<Rightarrow> PodSpec \<Rightarrow> ('s, error \<times> PodSpec \<times> pod_call list) pc_m" where
  "pod_op rt (Op_remove u) spec = do {
     err \<leftarrow> on_rt (rt_RemoveContainer rt u); return (err, spec, []) }"
| "pod_op rt (Op_stop status) spec = do {
     err \<leftarrow> on_rt (rt_StopPodSandbox rt status); return (err, spec, []) }"
| "pod_op rt (Op_unbox status) spec = do {
     err \<leftarrow> on_rt (rt_RemovePodSandbox rt status); return (err, spec, []) }"
| "pod_op rt Op_run spec = do {
     (err, spec) \<leftarrow> on_rt (rt_RunPodSandbox rt spec); return (err, spec, []) }"
| "pod_op rt Op_each spec = return (None, spec, map Op_create (PodSpec_Units spec))"
| "pod_op rt (Op_create u) spec = do {
     err \<leftarrow> create_units rt spec (\<lambda>_. return ()) [u]; return (err, spec, []) }"
| "pod_op rt Op_count spec = do {
     modify (\<lambda>pc. pc\<lparr>pc_podRestartCount := int32 (pc_podRestartCount pc + 1)\<rparr>);
     return (None, spec\<lparr>PodSpec_Phase := PodDispatching\<rparr>, []) }"
| "pod_op rt (Op_replace u) spec = do { err \<leftarrow> remove_unit rt u; return (err, spec, []) }"
| "pod_op rt (Op_recreate u) spec = do {
     err \<leftarrow> create_units rt spec
       (\<lambda>u. modify (\<lambda>pc. pc\<lparr>pc_restarting := conmap_Delete (Unit_Name u) (pc_restarting pc)\<rparr>)) [u];
     return (err, spec, []) }"

text \<open>
  The update the loop works on.  What it will start are the units that were added, or all units of the
  specification, the init units first.
\<close>

record update =
  up_params :: PodParameters
  up_spec :: PodSpec
  up_ops :: "pod_call list"
  up_added :: "Unit list option"

definition to_start :: "Unit list option \<Rightarrow> PodSpec \<Rightarrow> Unit list \<times> Unit list" where
  "to_start added spec =
     (case added of Some units \<Rightarrow> ([], units) | None \<Rightarrow> (PodSpec_InitUnits spec, PodSpec_Units spec))"

(* src: pkg/server/pod_controller.go 263-299 SyncPodUnits *)
fun plan_update :: "update_type \<Rightarrow> PodParameters \<Rightarrow> PodSpec \<Rightarrow> update" where
  "plan_update UpdateTypeUnitsChange params status =
     (let spec = merged_spec params; (add, del) = diffUnits (PodSpec_Units spec) (PodSpec_Units status)
      in \<lparr>up_params = params, up_spec = spec\<lparr>PodSpec_Phase := PodWaiting\<rparr>,
          up_ops = map Op_replace del @ map Op_recreate add, up_added = Some add\<rparr>)"
| "plan_update UpdateTypePodCreate params status =
     \<lparr>up_params = params, up_spec = merged_spec params, up_ops = [Op_run, Op_each], up_added = None\<rparr>"
| "plan_update UpdateTypePodRestart params status =
     \<lparr>up_params = params, up_spec = merged_spec params,
      up_ops = map Op_remove (PodSpec_Units status) @
        [Op_stop status, Op_unbox status, Op_run, Op_each, Op_count],
      up_added = None\<rparr>"
| "plan_update UpdateTypeNoChanges params status =
     \<lparr>up_params = params, up_spec = merged_spec params, up_ops = [], up_added = None\<rparr>"

text \<open>What an update writes before it makes its first call.\<close>

(* src: pkg/server/pod_controller.go 129-135 doUpdate *)
definition take_update :: "PodParameters \<Rightarrow> 's pod_controller \<Rightarrow> 's pod_controller" where
  "take_update params pc = pc\<lparr>pc_updateChan := [], pc_podName := PodParameters_PodName params,
     pc_podHostname := PodParameters_PodHostname params, pc_allCreds := PodParameters_Credentials params\<rparr>"

section \<open>The steps\<close>

datatype loop = L_idle | L_update update | L_wait "Unit list" "Unit list" PodSpec PodParameters

record 's ctl =
  ct_pc :: "'s pod_controller"
  ct_loop :: loop
  ct_worker :: "goroutine option"
  ct_wg :: nat

datatype actor = Client | Update_loop | Goroutine

text \<open>
  Who makes a step.  Clients send updates, set the network and ask for the status of a unit, at any time.
  An update that changes nothing, or of which a call fails, ends without starting anything; its
  specification and annotations are kept all the same.
\<close>

(* src: pkg/server/pod_controller.go 263-342 SyncPodUnits *)
inductive ctl_step :: "'s runtime \<Rightarrow> actor \<Rightarrow> 's ctl \<Rightarrow> 's ctl \<Rightarrow> bool" for rt :: "'s runtime" where
  sent: "ctl_step rt Client s (s\<lparr>ct_pc := final (UpdatePod params) (ct_pc s)\<rparr>)"
| network: "ctl_step rt Client s (s\<lparr>ct_pc := final (pc_SetPodNetwork rt netNS podIP) (ct_pc s)\<rparr>)"
| asked: "ctl_step rt Client s (s\<lparr>ct_pc := final (unit_status rt u) (ct_pc s)\<rparr>)"
| drop: "ct_loop s = L_idle \<Longrightarrow> length (pc_updateChan (ct_pc s)) > 1 \<Longrightarrow>
    ctl_step rt Update_loop s (s\<lparr>ct_pc := (ct_pc s)\<lparr>pc_updateChan := tl (pc_updateChan (ct_pc s))\<rparr>\<rparr>)"
| same: "ct_loop s = L_idle \<Longrightarrow> pc_updateChan (ct_pc s) = [params] \<Longrightarrow>
    detectChangeType (merged_spec params) (pc_podStatus (ct_pc s)) = UpdateTypeNoChanges \<Longrightarrow>
    ctl_step rt Update_loop s
      (s\<lparr>ct_pc := final (update_finish params (merged_spec params)) (take_update params (ct_pc s))\<rparr>)"
| takes: "ct_loop s = L_idle \<Longrightarrow> pc_updateChan (ct_pc s) = [params] \<Longrightarrow>
    detectChangeType (merged_spec params) (pc_podStatus (ct_pc s)) = ev \<Longrightarrow> ev \<noteq> UpdateTypeNoChanges \<Longrightarrow>
    ctl_step rt Update_loop s (s\<lparr>ct_pc := take_update params (ct_pc s),
      ct_loop := L_update (plan_update ev params (pc_podStatus (ct_pc s)))\<rparr>)"
| calls: "ct_loop s = L_update up \<Longrightarrow> up_ops up = op # ops \<Longrightarrow>
    run_state (pod_op rt op (up_spec up)) (ct_pc s) = ((None, spec, new), pc) \<Longrightarrow>
    ctl_step rt Update_loop s (s\<lparr>ct_pc := pc, ct_loop := L_update (up\<lparr>up_spec := spec, up_ops := new @ ops\<rparr>)\<rparr>)"
| fails: "ct_loop s = L_update up \<Longrightarrow> up_ops up = op # ops \<Longrightarrow>
    run_state (pod_op rt op (up_spec up)) (ct_pc s) = ((Some err, spec, new), pc) \<Longrightarrow>
    ctl_step rt Update_loop s
      (s\<lparr>ct_pc := final (update_finish (up_params up) spec) pc, ct_loop := L_idle\<rparr>)"
| cancels: "ct_loop s = L_update up \<Longrightarrow> up_ops up = [] \<Longrightarrow>
    to_start (up_added up) (up_spec up) = (inits, units) \<Longrightarrow>
    ctl_step rt Update_loop s (s\<lparr>ct_loop := L_wait inits units (up_spec up) (up_params up),
      ct_worker := map_option (\<lambda>g. g\<lparr>g_cancelled := True\<rparr>) (ct_worker s)\<rparr>)"
| resume: "ct_loop s = L_wait inits units spec params \<Longrightarrow> ct_wg s = 0 \<Longrightarrow>
    ctl_step rt Update_loop s (s\<lparr>ct_loop := L_idle, ct_wg := 1,
      ct_worker := Some \<lparr>g_spec = spec, g_task = T_inits inits units, g_cancelled = False\<rparr>,
      ct_pc := final (update_finish params (spec\<lparr>PodSpec_Phase := PodRunning\<rparr>)) (ct_pc s)\<rparr>)"
| cancelled: "ct_worker s = Some g \<Longrightarrow> g_cancelled g \<Longrightarrow> g_task g = T_wait u us units \<Longrightarrow>
    ctl_step rt Goroutine s (s\<lparr>ct_worker := None\<rparr>)"
| goes_on: "ct_worker s = Some g \<Longrightarrow>
    run_state (run_task rt (g_spec g) (g_task g)) (ct_pc s) = (Next t, pc) \<Longrightarrow>
    ctl_step rt Goroutine s (s\<lparr>ct_pc := pc, ct_worker := Some (g\<lparr>g_task := t\<rparr>)\<rparr>)"
| ends: "ct_worker s = Some g \<Longrightarrow>
    run_state (run_task rt (g_spec g) (g_task g)) (ct_pc s) = (Ended d, pc) \<Longrightarrow>
    ctl_step rt Goroutine s
      (s\<lparr>ct_pc := pc, ct_worker := None, ct_wg := (if d then ct_wg s - 1 else ct_wg s)\<rparr>)"

inductive ctl_steps :: "'s runtime \<Rightarrow> 's ctl \<Rightarrow> 's ctl \<Rightarrow> bool" for rt :: "'s runtime" where
  refl: "ctl_steps rt s s"
| step: "ctl_steps rt s t \<Longrightarrow> ctl_step rt a t u \<Longrightarrow> ctl_steps rt s u"

lemma ctl_steps_trans: "ctl_steps rt t u \<Longrightarrow> ctl_steps rt s t \<Longrightarrow> ctl_steps rt s u"
  by (induction rule: ctl_steps.induct) (auto intro: ctl_steps.step)

lemmas ctl_steps_one = ctl_steps.step [OF ctl_steps.refl]

definition init_ctl :: "'s \<Rightarrow> 's ctl" where
  "init_ctl w = \<lparr>ct_pc = NewPodController w, ct_loop = L_idle, ct_worker = None, ct_wg = 0\<rparr>"

inductive_cases client_cases: "ctl_step rt Client s t"
inductive_cases loop_cases: "ctl_step rt Update_loop s t"
inductive_cases goroutine_cases: "ctl_step rt Goroutine s t"

section \<open>Invariants of the finer steps\<close>

definition ct_wg_inv :: "'s ctl \<Rightarrow> bool" where
  "ct_wg_inv s \<longleftrightarrow> ct_wg s \<le> 1 \<and> (ct_worker s \<noteq> None \<longrightarrow> ct_wg s = 1)"

lemma ctl_step_wg: "ctl_step rt a s t \<Longrightarrow> ct_wg_inv s \<Longrightarrow> ct_wg_inv t"
  by (cases rule: ctl_step.cases) (auto simp: ct_wg_inv_def)

lemma ctl_steps_wg: "ctl_steps rt s t \<Longrightarrow> ct_wg_inv s \<Longrightarrow> ct_wg_inv t"
  by (induction rule: ctl_steps.induct) (auto dest: ctl_step_wg)

lemma init_ctl_wg: "ct_wg_inv (init_ctl w)"
  by (simp add: ct_wg_inv_def init_ctl_def)

text \<open>Once the count has leaked, an update that waits waits for ever.\<close>

definition ct_leaked :: "'s ctl \<Rightarrow> bool" where
  "ct_leaked s \<longleftrightarrow> ct_worker s = None \<and> ct_wg s > 0"

lemma ctl_step_leaked: "ctl_step rt a s t \<Longrightarrow> ct_leaked s \<Longrightarrow> ct_leaked t"
  by (cases rule: ctl_step.cases) (auto simp: ct_leaked_def)

lemma ctl_step_leaked_wait:
  "ctl_step rt a s t \<Longrightarrow> ct_leaked s \<Longrightarrow> ct_loop s = L_wait i u spec p \<Longrightarrow> ct_loop t = L_wait i u spec p"
  by (cases rule: ctl_step.cases) (auto simp: ct_leaked_def)

lemma ctl_steps_leaked:
  assumes "ctl_steps rt s t" "ct_leaked s" "ct_loop s = L_wait i u spec p"
  shows "ct_leaked t \<and> ct_loop t = L_wait i u spec p"
  using assms by (induction rule: ctl_steps.induct) (auto dest: ctl_step_leaked ctl_step_leaked_wait)

text \<open>The channel of updates.\<close>

lemma same_chan_op: "same_chan (pod_op rt op spec)"
  by (cases op) (auto simp: remove_unit_def intro!: same_chan_intros same_chan_create)

lemma same_chan_unit_status: "same_chan (unit_status rt u)"
  unfolding unit_status_def by (intro same_chan_intros)

lemma same_chan_network: "same_chan (pc_SetPodNetwork rt netNS podIP)"
  unfolding pc_SetPodNetwork_def by (intro same_chan_intros) simp

lemma ctl_step_chan:
  assumes "ctl_step rt a s t" "length (pc_updateChan (ct_pc s)) \<le> specChanSize"
  shows "length (pc_updateChan (ct_pc t)) \<le> specChanSize"
  using assms
proof (cases rule: ctl_step.cases)
  case (network netNS podIP)
  then show ?thesis using same_chan_network [of rt netNS podIP] assms(2) by (simp add: same_chan_def)
next
  case (asked u)
  then show ?thesis using same_chan_unit_status [of rt u] assms(2) by (simp add: same_chan_def)
next
  case (calls up op ops spec new pc)
  then show ?thesis using same_chan_state [OF same_chan_op calls(5)] assms(2) by simp
next
  case (fails up op ops err spec new pc)
  then show ?thesis
    using same_chan_state [OF same_chan_op fails(5)] assms(2) by (simp add: update_finish_def)
next
  case (goes_on g t pc)
  then show ?thesis using same_chan_state [OF same_chan_run_task goes_on(4)] assms(2) by simp
next
  case (ends g d pc)
  then show ?thesis using same_chan_state [OF same_chan_run_task ends(4)] assms(2) by simp
qed (auto simp: UpdatePod_chan update_finish_def take_update_def)

lemma ctl_steps_chan:
  "ctl_steps rt s t \<Longrightarrow> length (pc_updateChan (ct_pc s)) \<le> specChanSize \<Longrightarrow>
   length (pc_updateChan (ct_pc t)) \<le> specChanSize"
  by (induction rule: ctl_steps.induct) (auto dest: ctl_step_chan)

text \<open>Under the contract of the runtime no nil status is dereferenced.\<close>

context runtime_service
begin

lemma alive_op: "preserves alive (pod_op rt op spec)"
  by (cases op) (auto simp: remove_unit_def alive_def intro!: preserves_intros alive_on_rt alive_create)

lemma alive_ctl_step:
  assumes "ctl_step rt a s t" "alive (ct_pc s)"
  shows "alive (ct_pc t)"
proof -
  have run: "alive pc'" if "run_state m pc = (x, pc')" "preserves alive m" "alive pc"
    for m :: "('s, 'b) pc_m" and pc x pc'
    using that by (metis final_def preservesD snd_conv)
  show ?thesis
    using assms
  proof (cases rule: ctl_step.cases)
    case (calls up op ops spec new pc)
    then show ?thesis using run [OF calls(5) alive_op assms(2)] by simp
  next
    case (fails up op ops err spec new pc)
    then show ?thesis using run [OF fails(5) alive_op assms(2)] by (simp add: alive_def update_finish_def)
  next
    case (goes_on g t pc)
    then show ?thesis using run [OF goes_on(4) alive_run_task assms(2)] by simp
  next
    case (ends g d pc)
    then show ?thesis using run [OF ends(4) alive_run_task assms(2)] by simp
  qed (auto simp: alive_def UpdatePod_def update_finish_def take_update_def pc_SetPodNetwork_def
      unit_status_def split_def)
qed

lemma alive_ctl_steps: "ctl_steps rt s t \<Longrightarrow> alive (ct_pc s) \<Longrightarrow> alive (ct_pc t)"
  by (induction rule: ctl_steps.induct) (auto dest: alive_ctl_step)

end

section \<open>All calls of an update\<close>

text \<open>
  The calls from a state to the end, made without anybody else: whether they all succeeded, and the
  specification and the controller after them.
\<close>

inductive all_calls ::
  "'s runtime \<Rightarrow> pod_call list \<Rightarrow> PodSpec \<Rightarrow> 's pod_controller \<Rightarrow> bool \<Rightarrow> PodSpec \<Rightarrow> 's pod_controller \<Rightarrow> bool"
  for rt :: "'s runtime" where
  none: "all_calls rt [] spec pc True spec pc"
| failed: "run_state (pod_op rt op spec) pc = ((Some err, spec', new), pc') \<Longrightarrow>
    all_calls rt (op # ops) spec pc False spec' pc'"
| more: "run_state (pod_op rt op spec) pc = ((None, spec1, new), pc1) \<Longrightarrow>
    all_calls rt (new @ ops) spec1 pc1 ok spec' pc' \<Longrightarrow> all_calls rt (op # ops) spec pc ok spec' pc'"

inductive_cases no_calls_left: "all_calls rt [] spec pc ok spec' pc'"
inductive_cases some_calls_left: "all_calls rt (op # ops) spec pc ok spec' pc'"

lemma for_err_one: "for_err f [x] = f x"
  by (auto intro!: state_ext split: prod.split option.split)

lemma create_units_each: "create_units rt spec f us = for_err (\<lambda>u. create_units rt spec f [u]) us"
  unfolding create_units_def for_err_one ..

text \<open>Go's loop over units that ends at the first error.\<close>

lemma all_calls_loop:
  assumes "\<And>u. pod_op rt (F u) spec = do { err \<leftarrow> g u; return (err, spec, []) }"
    and "run_state (for_err g us) pc = (err, pc1)"
    and "case err of Some e \<Rightarrow> \<not> ok \<and> spec' = spec \<and> pc' = pc1 | None \<Rightarrow> all_calls rt ops spec pc1 ok spec' pc'"
  shows "all_calls rt (map F us @ ops) spec pc ok spec' pc'"
  using assms(2,3)
proof (induction us arbitrary: pc)
  case Nil
  then show ?case by (simp add: run_state_result_final)
next
  case (Cons u us)
  obtain e w where run: "run_state (g u) pc = (e, w)" by (cases "run_state (g u) pc")
  then have op: "run_state (pod_op rt (F u) spec) pc = ((e, spec, []), w)"
    by (simp add: assms(1) run_state_result_final)
  show ?case
  proof (cases e)
    case (Some e')
    then have "err = Some e'" "pc1 = w" using Cons.prems(1) run by (simp_all add: run_state_result_final)
    with Cons.prems(2) op Some show ?thesis by (auto intro: all_calls.failed)
  next
    case None
    then have "run_state (for_err g us) w = (err, pc1)"
      using Cons.prems(1) run by (simp add: run_state_result_final)
    from Cons.IH [OF this Cons.prems(2)] op None show ?thesis by (auto intro: all_calls.more)
  qed
qed

lemma all_calls_loop_last:
  assumes "\<And>u. pod_op rt (F u) spec = do { err \<leftarrow> g u; return (err, spec, []) }"
    and "run_state (for_err g us) pc = (err, pc1)"
  shows "all_calls rt (map F us) spec pc (err = None) spec pc1"
proof -
  have "all_calls rt (map F us @ []) spec pc (err = None) spec pc1"
    by (rule all_calls_loop [OF assms]) (auto intro: all_calls.none split: option.split)
  then show ?thesis by simp
qed

text \<open>A call that adds none.\<close>

lemma all_calls_one:
  assumes "run_state (pod_op rt op spec) pc = ((err, spec1, []), pc1)"
    and "case err of Some e \<Rightarrow> \<not> ok \<and> spec' = spec1 \<and> pc' = pc1 | None \<Rightarrow> all_calls rt ops spec1 pc1 ok spec' pc'"
  shows "all_calls rt (op # ops) spec pc ok spec' pc'"
proof (cases err)
  case None
  show ?thesis by (rule all_calls.more [OF assms(1) [unfolded None]]) (use assms(2) None in simp)
next
  case (Some e)
  with all_calls.failed [OF assms(1) [unfolded Some]] assms(2) show ?thesis by simp
qed

lemma calls_of_create:
  assumes "run_state (create_units rt spec (\<lambda>_. return ()) (PodSpec_Units spec)) pc = (err, pc1)"
    and "case err of Some e \<Rightarrow> \<not> ok \<and> spec' = spec \<and> pc' = pc1 | None \<Rightarrow> all_calls rt ops spec pc1 ok spec' pc'"
  shows "all_calls rt (Op_each # ops) spec pc ok spec' pc'"
proof (rule all_calls.more)
  show "run_state (pod_op rt Op_each spec) pc = ((None, spec, map Op_create (PodSpec_Units spec)), pc)"
    by (simp add: run_state_result_final)
  show "all_calls rt (map Op_create (PodSpec_Units spec) @ ops) spec pc ok spec' pc'"
    by (rule all_calls_loop [OF _ assms(1) [unfolded create_units_each [where us = "PodSpec_Units spec"]] assms(2)]) simp
qed

lemma calls_of_CreatePod:
  assumes "run_state (CreatePod rt spec) pc = ((err, spec'), pc')"
  shows "all_calls rt [Op_run, Op_each] spec pc (err = None) spec' pc'"
proof -
  obtain e spec1 pc1 where run: "run_state (on_rt (rt_RunPodSandbox rt spec)) pc = ((e, spec1), pc1)"
    by (metis surj_pair)
  then have op: "run_state (pod_op rt Op_run spec) pc = ((e, spec1, []), pc1)"
    by (simp add: run_state_result_final)
  obtain e2 pc2 where each: "run_state (create_units rt spec1 (\<lambda>_. return ()) (PodSpec_Units spec1)) pc1 = (e2, pc2)"
    by (rule prod.exhaust)
  have r: "(err, spec', pc') = (if e \<noteq> None then (e, spec1, pc1) else (e2, spec1, pc2))"
    using assms run each by (auto simp: CreatePod_def run_state_result_final)
  have "all_calls rt [Op_each] spec1 pc1 (e2 = None) spec1 pc2"
    by (rule calls_of_create [OF each]) (auto intro: all_calls.none split: option.split)
  with r show ?thesis by (intro all_calls_one [OF op]) (auto split: option.split)
qed

lemma calls_of_RestartUnits:
  assumes "run_state (RestartUnits rt spec status) pc = ((adds, err, spec'), pc')"
    and "diffUnits (PodSpec_Units spec) (PodSpec_Units status) = (add, del)"
  shows "all_calls rt (map Op_replace del @ map Op_recreate add) (spec\<lparr>PodSpec_Phase := PodWaiting\<rparr>) pc
      (err = None) spec' pc' \<and> (err = None \<longrightarrow> adds = add)"
proof -
  let ?spec = "spec\<lparr>PodSpec_Phase := PodWaiting\<rparr>"
  let ?f = "\<lambda>u. modify (\<lambda>pc. pc\<lparr>pc_restarting := conmap_Delete (Unit_Name u) (pc_restarting pc)\<rparr>)"
  obtain e pc1 where run: "run_state (for_err (remove_unit rt) del) pc = (e, pc1)" by (metis surj_pair)
  note loop = all_calls_loop [of rt Op_replace ?spec "remove_unit rt", OF _ run]
  show ?thesis
  proof (cases e)
    case (Some x)
    with run assms have r: "err = Some x" "spec' = ?spec" "pc' = pc1"
      by (simp_all add: RestartUnits_def run_state_result_final Let_def)
    have "all_calls rt (map Op_replace del @ map Op_recreate add) ?spec pc False ?spec pc1"
      by (rule loop) (simp_all add: Some)
    with r show ?thesis by simp
  next
    case None
    obtain e2 pc2 where run2: "run_state (create_units rt ?spec ?f add) pc1 = (e2, pc2)" by (rule prod.exhaust)
    have "run_state (RestartUnits rt spec status) pc =
        (if e2 \<noteq> None then (([], e2, ?spec), pc2) else ((add, None, ?spec), pc2))"
    proof -
      have "result (for_err (remove_unit rt) del) pc = None" "final (for_err (remove_unit rt) del) pc = pc1"
        "result (create_units rt ?spec ?f add) pc1 = e2" "final (create_units rt ?spec ?f add) pc1 = pc2"
        using run run2 None by (simp_all add: run_state_result_final)
      then show ?thesis
        by (cases e2) (simp_all add: RestartUnits_def assms(2) run_state_result_final Let_def)
    qed
    with assms(1) have r: "err = e2" "spec' = ?spec" "pc' = pc2" "e2 = None \<longrightarrow> adds = add"
      by (auto split: if_splits)
    have "all_calls rt (map Op_recreate add) ?spec pc1 (e2 = None) ?spec pc2"
      by (rule all_calls_loop_last [OF _ run2 [unfolded create_units_each [where us = add]]]) simp
    then have "all_calls rt (map Op_replace del @ map Op_recreate add) ?spec pc (e2 = None) ?spec pc2"
      by (intro loop) (simp_all add: None)
    with r show ?thesis by simp
  qed
qed

lemma calls_of_RestartPod:
  assumes "run_state (RestartPod rt spec status) pc = ((err, spec'), pc')"
  shows "all_calls rt (map Op_remove (PodSpec_Units status) @
      [Op_stop status, Op_unbox status, Op_run, Op_each, Op_count]) spec pc (err = None) spec' pc'"
proof -
  let ?rm = "\<lambda>u. on_rt (rt_RemoveContainer rt u)"
  obtain e1 pc1 where r1: "run_state (for_err ?rm (PodSpec_Units status)) pc = (e1, pc1)" by (metis surj_pair)
  obtain e2 pc2 where r2: "run_state (on_rt (rt_StopPodSandbox rt status)) pc1 = (e2, pc2)" by (metis surj_pair)
  obtain e3 pc3 where r3: "run_state (on_rt (rt_RemovePodSandbox rt status)) pc2 = (e3, pc3)" by (metis surj_pair)
  obtain e4 spec4 pc4 where r4: "run_state (on_rt (rt_RunPodSandbox rt spec)) pc3 = ((e4, spec4), pc4)"
    by (metis surj_pair)
  obtain e5 pc5 where r5: "run_state (create_units rt spec4 (\<lambda>_. return ()) (PodSpec_Units spec4)) pc4 = (e5, pc5)"
    by (rule prod.exhaust)
  note r = r1 r2 r3 r4 r5
  have ops: "run_state (pod_op rt (Op_stop status) spec) pc1 = ((e2, spec, []), pc2)"
    "run_state (pod_op rt (Op_unbox status) spec) pc2 = ((e3, spec, []), pc3)"
    "run_state (pod_op rt Op_run spec) pc3 = ((e4, spec4, []), pc4)"
    using r2 r3 r4 by (simp_all add: run_state_result_final)
  have run: "(err, spec', pc') =
     (if e1 \<noteq> None then (e1, spec, pc1) else if e2 \<noteq> None then (e2, spec, pc2)
      else if e3 \<noteq> None then (e3, spec, pc3) else if e4 \<noteq> None then (e4, spec4, pc4)
      else if e5 \<noteq> None then (e5, spec4, pc5)
      else (None, spec4\<lparr>PodSpec_Phase := PodDispatching\<rparr>,
        pc5\<lparr>pc_podRestartCount := int32 (pc_podRestartCount pc5 + 1)\<rparr>))"
    using assms r by (auto simp: RestartPod_def run_state_result_final split: if_splits)
  have count: "all_calls rt [Op_count] spec4 pc5 True (spec4\<lparr>PodSpec_Phase := PodDispatching\<rparr>)
      (pc5\<lparr>pc_podRestartCount := int32 (pc_podRestartCount pc5 + 1)\<rparr>)"
    by (rule all_calls_one) (auto simp: run_state_result_final intro: all_calls.none)
  have h4: "all_calls rt [Op_each, Op_count] spec4 pc4 (err = None) spec' pc'"
    if "e1 = None" "e2 = None" "e3 = None" "e4 = None"
    by (rule calls_of_create [OF r5]) (use that run count in \<open>auto split: option.split\<close>)
  have h3: "all_calls rt [Op_run, Op_each, Op_count] spec pc3 (err = None) spec' pc'"
    if "e1 = None" "e2 = None" "e3 = None"
    by (rule all_calls_one [OF ops(3)]) (use that run h4 in \<open>auto split: option.split\<close>)
  have h2: "all_calls rt [Op_unbox status, Op_run, Op_each, Op_count] spec pc2 (err = None) spec' pc'"
    if "e1 = None" "e2 = None"
    by (rule all_calls_one [OF ops(2)]) (use that run h3 in \<open>auto split: option.split\<close>)
  have h1: "all_calls rt [Op_stop status, Op_unbox status, Op_run, Op_each, Op_count] spec pc1 (err = None) spec' pc'"
    if "e1 = None"
    by (rule all_calls_one [OF ops(1)]) (use that run h2 in \<open>auto split: option.split\<close>)
  show ?thesis
    by (rule all_calls_loop [of rt Op_remove spec ?rm, OF _ r1]) (use run h1 in \<open>auto split: option.split\<close>)
qed

text \<open>The calls of the plan are those that \<open>update_prepare\<close> makes in one step.\<close>

lemma plan_calls:
  assumes "run_state (update_prepare rt params) (pc\<lparr>pc_updateChan := []\<rparr>) = ((ev, x, spec'), pc')"
    and "detectChangeType (merged_spec params) (pc_podStatus pc) \<noteq> UpdateTypeNoChanges"
    and "up = plan_update (detectChangeType (merged_spec params) (pc_podStatus pc)) params (pc_podStatus pc)"
  shows "all_calls rt (up_ops up) (up_spec up) (take_update params pc) (x \<noteq> None) spec' pc' \<and>
     (x \<noteq> None \<longrightarrow> x = Some (to_start (up_added up) spec')) \<and> up_params up = params"
proof -
  let ?spec = "merged_spec params" and ?status = "pc_podStatus pc" and ?pc = "take_update params pc"
  have prep: "run_state (sync_prepare rt ?spec ?status (PodParameters_Credentials params))
      (pc\<lparr>pc_updateChan := [], pc_podName := PodParameters_PodName params,
         pc_podHostname := PodParameters_PodHostname params\<rparr>) = ((ev, x, spec'), pc')"
    using assms(1) by (simp add: update_prepare_def run_state_result_final)
  have pc: "pc\<lparr>pc_updateChan := [], pc_podName := PodParameters_PodName params,
      pc_podHostname := PodParameters_PodHostname params, pc_allCreds := PodParameters_Credentials params\<rparr> = ?pc"
    by (simp add: take_update_def)
  show ?thesis
  proof (cases "detectChangeType ?spec ?status")
    case UpdateTypeNoChanges
    with assms(2) show ?thesis by simp
  next
    case UpdateTypePodCreate
    obtain err spec1 pc1 where run: "run_state (CreatePod rt ?spec) ?pc = ((err, spec1), pc1)" by (metis surj_pair)
    with prep UpdateTypePodCreate
    have "x = (if err \<noteq> None then None else Some (PodSpec_InitUnits spec1, PodSpec_Units spec1))"
      "spec' = spec1" "pc' = pc1"
      by (auto simp: sync_prepare_def run_state_result_final pc)
    with calls_of_CreatePod [OF run] UpdateTypePodCreate show ?thesis
      by (auto simp: assms(3) to_start_def)
  next
    case UpdateTypePodRestart
    obtain err spec1 pc1 where run: "run_state (RestartPod rt ?spec ?status) ?pc = ((err, spec1), pc1)"
      by (metis surj_pair)
    with prep UpdateTypePodRestart
    have "x = (if err \<noteq> None then None else Some (PodSpec_InitUnits spec1, PodSpec_Units spec1))"
      "spec' = spec1" "pc' = pc1"
      by (auto simp: sync_prepare_def run_state_result_final pc)
    with calls_of_RestartPod [OF run] UpdateTypePodRestart show ?thesis
      by (auto simp: assms(3) to_start_def)
  next
    case UpdateTypeUnitsChange
    obtain adds err spec1 pc1 where run: "run_state (RestartUnits rt ?spec ?status) ?pc = ((adds, err, spec1), pc1)"
      by (metis surj_pair)
    obtain add del where diff: "diffUnits (PodSpec_Units ?spec) (PodSpec_Units ?status) = (add, del)"
      by (metis surj_pair)
    from prep UpdateTypeUnitsChange run
    have "x = (if err \<noteq> None then None else Some ([], adds))" "spec' = spec1" "pc' = pc1"
      by (auto simp: sync_prepare_def run_state_result_final pc)
    with calls_of_RestartUnits [OF run diff] UpdateTypeUnitsChange diff show ?thesis
      by (auto simp: assms(3) to_start_def Let_def)
  qed
qed

lemma prepare_same:
  assumes "detectChangeType (merged_spec params) (pc_podStatus pc) = UpdateTypeNoChanges"
  shows "run_state (update_prepare rt params) (pc\<lparr>pc_updateChan := []\<rparr>) =
    ((UpdateTypeNoChanges, None, merged_spec params), take_update params pc)"
  using assms by (simp add: update_prepare_def sync_prepare_def run_state_result_final take_update_def)

section \<open>The runs of \<open>Pod_Controller\<close> are runs of the finer steps\<close>

fun loop_of :: "main \<Rightarrow> loop" where
  "loop_of M_idle = L_idle"
| "loop_of (M_wait inits units spec params) = L_wait inits units spec params"

definition embed :: "'s sys \<Rightarrow> 's ctl" where
  "embed s = \<lparr>ct_pc = sys_pc s, ct_loop = loop_of (sys_main s), ct_worker = sys_worker s, ct_wg = sys_wg s\<rparr>"

lemma embed_sel [simp]:
  "ct_pc (embed s) = sys_pc s" "ct_loop (embed s) = loop_of (sys_main s)"
  "ct_worker (embed s) = sys_worker s" "ct_wg (embed s) = sys_wg s"
  by (simp_all add: embed_def)

lemma loop_of_simps [simp]:
  "loop_of m = L_idle \<longleftrightarrow> m = M_idle" "loop_of m = L_wait i u spec p \<longleftrightarrow> m = M_wait i u spec p"
  "loop_of m \<noteq> L_update up"
  by (cases m; auto)+

lemma embed_init [simp]: "embed (init_sys w) = init_ctl w"
  by (simp add: embed_def init_sys_def init_ctl_def)

lemma all_calls_steps:
  assumes "all_calls rt ops spec pc ok spec' pc'"
    and "ct_loop s = L_update up" "up_ops up = ops" "up_spec up = spec" "ct_pc s = pc"
  shows "ctl_steps rt s (if ok then s\<lparr>ct_pc := pc', ct_loop := L_update (up\<lparr>up_spec := spec', up_ops := []\<rparr>)\<rparr>
     else s\<lparr>ct_pc := final (update_finish (up_params up) spec') pc', ct_loop := L_idle\<rparr>)"
  using assms
proof (induction arbitrary: s up rule: all_calls.induct)
  case (none spec pc)
  then have "s\<lparr>ct_pc := pc, ct_loop := L_update (up\<lparr>up_spec := spec, up_ops := []\<rparr>)\<rparr> = s" by simp
  then show ?case by (simp add: ctl_steps.refl)
next
  case (failed op spec pc err spec' new pc' ops)
  then show ?case using ctl_steps_one [OF ctl_step.fails [of s up op ops rt err spec' new pc']] by simp
next
  case (more op spec pc spec1 new pc1 ops ok spec' pc')
  let ?up = "up\<lparr>up_spec := spec1, up_ops := new @ ops\<rparr>"
  let ?s = "s\<lparr>ct_pc := pc1, ct_loop := L_update ?up\<rparr>"
  have step: "ctl_step rt Update_loop s ?s"
    using more.hyps(1) more.prems by (intro ctl_step.calls) simp_all
  have "ctl_steps rt ?s (if ok then ?s\<lparr>ct_pc := pc', ct_loop := L_update (?up\<lparr>up_spec := spec', up_ops := []\<rparr>)\<rparr>
     else ?s\<lparr>ct_pc := final (update_finish (up_params ?up) spec') pc', ct_loop := L_idle\<rparr>)"
    by (rule more.IH) simp_all
  from ctl_steps_trans [OF this ctl_steps_one [OF step]] show ?case by (cases ok) simp_all
qed

text \<open>The update loop of \<open>Pod_Controller\<close> that takes an update.\<close>

lemma embed_update:
  assumes "sys_main s = M_idle" "pc_updateChan (sys_pc s) = [params]"
    and "run_state (update_prepare rt params) ((sys_pc s)\<lparr>pc_updateChan := []\<rparr>) = ((ev, x, spec), pc)"
  shows "ctl_steps rt (embed s)
    (case x of None \<Rightarrow> embed (s\<lparr>sys_pc := final (update_finish params spec) pc\<rparr>)
     | Some (inits, units) \<Rightarrow> embed (s\<lparr>sys_pc := pc, sys_main := M_wait inits units spec params,
         sys_worker := map_option (\<lambda>g. g\<lparr>g_cancelled := True\<rparr>) (sys_worker s)\<rparr>))"
proof (cases "detectChangeType (merged_spec params) (pc_podStatus (sys_pc s)) = UpdateTypeNoChanges")
  case True
  from prepare_same [OF this, of rt] assms(3)
  have r: "x = None" "spec = merged_spec params" "pc = take_update params (sys_pc s)" by simp_all
  from ctl_step.same [of "embed s" params rt] assms(1,2) True
  have "ctl_step rt Update_loop (embed s)
      ((embed s)\<lparr>ct_pc := final (update_finish params spec) pc\<rparr>)" by (simp add: r)
  from ctl_steps_one [OF this] assms(1) show ?thesis by (simp add: r(1) embed_def)
next
  case False
  define up where "up = plan_update (detectChangeType (merged_spec params) (pc_podStatus (sys_pc s))) params (pc_podStatus (sys_pc s))"
  define f where "f = (embed s)\<lparr>ct_pc := take_update params (sys_pc s), ct_loop := L_update up\<rparr>"
  have takes: "ctl_step rt Update_loop (embed s) f"
    using ctl_step.takes [of "embed s" params _ rt, OF _ _ HOL.refl] assms(1,2) False
    by (simp add: up_def f_def)
  from plan_calls [OF assms(3) False up_def]
  have calls: "all_calls rt (up_ops up) (up_spec up) (take_update params (sys_pc s)) (x \<noteq> None) spec pc"
      "x \<noteq> None \<longrightarrow> x = Some (to_start (up_added up) spec)" "up_params up = params"
    by simp_all
  have run: "ctl_steps rt f (if x \<noteq> None then f\<lparr>ct_pc := pc, ct_loop := L_update (up\<lparr>up_spec := spec, up_ops := []\<rparr>)\<rparr>
      else f\<lparr>ct_pc := final (update_finish (up_params up) spec) pc, ct_loop := L_idle\<rparr>)"
    by (rule all_calls_steps [OF calls(1)]) (simp_all add: f_def)
  show ?thesis
  proof (cases x)
    case None
    have "ctl_steps rt (embed s) (f\<lparr>ct_pc := final (update_finish params spec) pc, ct_loop := L_idle\<rparr>)"
      using ctl_steps_trans [OF run ctl_steps_one [OF takes]] None calls(3) by simp
    with None assms(1) show ?thesis by (simp add: f_def embed_def)
  next
    case (Some iu)
    obtain inits units where iu: "x = Some (inits, units)" using Some by (cases iu) auto
    let ?g = "f\<lparr>ct_pc := pc, ct_loop := L_update (up\<lparr>up_spec := spec, up_ops := []\<rparr>)\<rparr>"
    have run1: "ctl_steps rt (embed s) ?g"
      using ctl_steps_trans [OF run ctl_steps_one [OF takes]] iu by simp
    have "ctl_step rt Update_loop ?g (?g\<lparr>ct_loop := L_wait inits units spec params,
        ct_worker := map_option (\<lambda>g. g\<lparr>g_cancelled := True\<rparr>) (sys_worker s)\<rparr>)"
      using ctl_step.cancels [of ?g "up\<lparr>up_spec := spec, up_ops := []\<rparr>" inits units rt] calls(2,3) iu
      by (simp add: f_def)
    from ctl_steps.step [OF run1 this] show ?thesis by (simp add: iu f_def embed_def)
  qed
qed

lemma embed_step:
  assumes "sys_step rt s t"
  shows "ctl_steps rt (embed s) (embed t)"
  using assms
proof cases
  case (update params)
  with ctl_steps_one [OF ctl_step.sent [of rt "embed s" params]] show ?thesis by (simp add: embed_def)
next
  case drop
  with ctl_steps_one [OF ctl_step.drop [of "embed s" rt]] show ?thesis by (simp add: embed_def)
next
  case (trivial params ev spec pc')
  with embed_update [OF trivial(2-4)] show ?thesis by simp
next
  case (start params ev inits units spec pc')
  with embed_update [OF start(2-4)] show ?thesis by simp
next
  case (resume inits units spec params)
  with ctl_steps_one [OF ctl_step.resume [of "embed s" inits units spec params rt]] show ?thesis
    by (simp add: embed_def)
next
  case (cancelled g u us units)
  with ctl_steps_one [OF ctl_step.cancelled [of "embed s" g u us units rt]] show ?thesis
    by (simp add: embed_def)
next
  case (goes_on g t' pc')
  with ctl_steps_one [OF ctl_step.goes_on [of "embed s" g rt t' pc']] show ?thesis
    by (simp add: embed_def)
next
  case (ends g d pc')
  with ctl_steps_one [OF ctl_step.ends [of "embed s" g rt d pc']] show ?thesis
    by (cases d) (simp_all add: embed_def)
qed

lemma embed_steps: "sys_steps rt s t \<Longrightarrow> ctl_steps rt (embed s) (embed t)"
  by (induction rule: sys_steps.induct) (auto intro: ctl_steps.refl ctl_steps_trans embed_step)

lemma init_steps: "sys_steps rt (init_sys w) s \<Longrightarrow> ctl_steps rt (init_ctl w) (embed s)"
  using embed_steps by fastforce

section \<open>Runs that find no goroutine at work\<close>

text \<open>
  A step of the controller itself.  While an update makes its calls with no goroutine at work, the state
  of \<open>Pod_Controller\<close> is the one after all of them: \<open>ahead\<close> relates the two, and every step is one of
  \<open>Pod_Controller\<close> or brings the calls nearer to their end.
\<close>

definition ctl_goes :: "'s runtime \<Rightarrow> 's ctl \<Rightarrow> 's ctl \<Rightarrow> bool" where
  "ctl_goes rt s t \<longleftrightarrow> (\<exists>a. a \<noteq> Client \<and> ctl_step rt a s t)"

definition ahead :: "'s runtime \<Rightarrow> 's ctl \<Rightarrow> 's sys \<Rightarrow> bool" where
  "ahead rt f c \<longleftrightarrow> (case ct_loop f of
     L_update up \<Rightarrow> ct_worker f = None \<and> (\<exists>ok spec pc.
       all_calls rt (up_ops up) (up_spec up) (ct_pc f) ok spec pc \<and>
       c = \<lparr>sys_pc = (if ok then pc else final (update_finish (up_params up) spec) pc),
            sys_main = (if ok then (case to_start (up_added up) spec of (inits, units) \<Rightarrow>
              M_wait inits units spec (up_params up)) else M_idle),
            sys_worker = None, sys_wg = ct_wg f\<rparr>)
   | _ \<Rightarrow> f = embed c)"

fun calls_left :: "loop \<Rightarrow> nat \<times> nat \<times> nat" where
  "calls_left (L_update up) = (1, length (filter (\<lambda>op. op = Op_each) (up_ops up)), length (up_ops up))"
| "calls_left l = (0, 0, 0)"

definition fewer_calls :: "(loop \<times> loop) set" where
  "fewer_calls = inv_image (less_than <*lex*> less_than <*lex*> less_than) calls_left"

lemma wf_fewer_calls: "wf fewer_calls"
  by (simp add: fewer_calls_def wf_lex_prod)

lemma pod_op_adds:
  assumes "run_state (pod_op rt op spec) pc = ((err, spec', new), pc')"
  shows "new = [] \<or> op = Op_each \<and> Op_each \<notin> set new"
  using assms by (cases op) (auto simp: run_state_result_final split_def)

lemma ahead_update:
  assumes "ct_loop f = L_update up" "ahead rt f c" "ctl_goes rt f t"
  shows "ahead rt t c \<and> (ct_loop t, ct_loop f) \<in> fewer_calls"
proof -
  have none: "ct_worker f = None" using assms(1,2) by (simp add: ahead_def)
  obtain a where "a \<noteq> Client" "ctl_step rt a f t" using assms(3) by (auto simp: ctl_goes_def)
  from this(2,1) show ?thesis
  proof cases
    case (calls up' op ops spec new pc)
    then have up: "up' = up" "up_ops up = op # ops" using assms(1) by simp_all
    have "(ct_loop t, ct_loop f) \<in> fewer_calls"
      using pod_op_adds [OF calls(5)] calls(2) up assms(1)
      by (auto simp: fewer_calls_def filter_empty_conv)
    moreover have "ahead rt t c"
      using assms(1,2) none calls up
      by (fastforce simp: ahead_def elim: some_calls_left)
    ultimately show ?thesis by blast
  next
    case (fails up' op ops err spec new pc)
    then have up: "up' = up" "up_ops up = op # ops" using assms(1) by simp_all
    have "ahead rt t c"
      using assms(1,2) none fails up
      by (fastforce simp: ahead_def embed_def elim: some_calls_left)
    with fails(2) assms(1) show ?thesis by (simp add: fewer_calls_def)
  next
    case (cancels up' inits units)
    then have up: "up' = up" "up_ops up = []" using assms(1) by simp_all
    have "ahead rt t c"
      using assms(1,2) none cancels up
      by (auto simp: ahead_def embed_def elim: no_calls_left)
    with cancels(2) assms(1) show ?thesis by (simp add: fewer_calls_def)
  qed (use assms(1) none in auto)
qed

lemma ahead_no_update: "(\<And>up. ct_loop f \<noteq> L_update up) \<Longrightarrow> ahead rt f c \<longleftrightarrow> f = embed c"
  by (auto simp: ahead_def split: loop.split)

lemma ahead_takes:
  assumes "sys_main c = M_idle" "pc_updateChan (sys_pc c) = [params]" "sys_worker c = None"
    and "detectChangeType (merged_spec params) (pc_podStatus (sys_pc c)) \<noteq> UpdateTypeNoChanges"
    and "up = plan_update (detectChangeType (merged_spec params) (pc_podStatus (sys_pc c))) params (pc_podStatus (sys_pc c))"
  shows "\<exists>d. quiet_step rt c d \<and>
    ahead rt ((embed c)\<lparr>ct_pc := take_update params (sys_pc c), ct_loop := L_update up\<rparr>) d"
proof -
  obtain ev x spec pc where run:
      "run_state (update_prepare rt params) ((sys_pc c)\<lparr>pc_updateChan := []\<rparr>) = ((ev, x, spec), pc)"
    by (metis surj_pair)
  from plan_calls [OF run assms(4,5)]
  have calls: "all_calls rt (up_ops up) (up_spec up) (take_update params (sys_pc c)) (x \<noteq> None) spec pc"
      "x \<noteq> None \<longrightarrow> x = Some (to_start (up_added up) spec)" "up_params up = params"
    by simp_all
  have chan: "pc_updateChan pc = []" using same_chan_state [OF same_chan_prepare run] by simp
  let ?f = "(embed c)\<lparr>ct_pc := take_update params (sys_pc c), ct_loop := L_update up\<rparr>"
  show ?thesis
  proof (cases x)
    case None
    let ?d = "c\<lparr>sys_pc := final (update_finish params spec) pc\<rparr>"
    have "quiet_step rt c ?d"
      by (rule quietI [OF sys_step.trivial [OF assms(1,2) run [unfolded None]]])
        (simp add: assms(2) chan update_finish_def)
    moreover have "ahead rt ?f ?d"
      using calls None assms(1,3)
      by (auto simp: ahead_def intro!: exI [of _ False] exI [of _ spec] exI [of _ pc])
    ultimately show ?thesis by blast
  next
    case (Some iu)
    obtain inits units where iu: "x = Some (inits, units)" using Some by (cases iu) auto
    let ?d = "c\<lparr>sys_pc := pc, sys_main := M_wait inits units spec params,
      sys_worker := map_option (\<lambda>g. g\<lparr>g_cancelled := True\<rparr>) (sys_worker c)\<rparr>"
    have "quiet_step rt c ?d"
      by (rule quietI [OF sys_step.start [OF assms(1,2) run [unfolded iu]]]) (simp add: assms(1))
    moreover have "ahead rt ?f ?d"
      using calls iu assms(1,3)
      by (auto simp: ahead_def intro!: exI [of _ True] exI [of _ spec] exI [of _ pc] split: prod.split)
    ultimately show ?thesis by blast
  qed
qed

lemma ahead_embed:
  assumes "ctl_goes rt (embed c) t"
    and "sys_main c = M_idle \<Longrightarrow> pc_updateChan (sys_pc c) \<noteq> [] \<Longrightarrow> sys_worker c = None"
    and "\<And>g u us units. sys_worker c = Some g \<Longrightarrow> g_task g \<noteq> T_wait u us units"
  shows "\<exists>d. quiet_step rt c d \<and> ahead rt t d"
proof -
  obtain a where a: "a \<noteq> Client" and step: "ctl_step rt a (embed c) t" using assms(1) by (auto simp: ctl_goes_def)
  have embedded: ?thesis if "quiet_step rt c d" "t = embed d" for d
    using that ahead_no_update [of t rt d] by auto
  from step a show ?thesis
  proof cases
    case drop
    let ?d = "c\<lparr>sys_pc := (sys_pc c)\<lparr>pc_updateChan := tl (pc_updateChan (sys_pc c))\<rparr>\<rparr>"
    have "sys_step rt c ?d" using drop by (intro sys_step.drop) simp_all
    then have "quiet_step rt c ?d" using drop(4) by (intro quietI) auto
    then show ?thesis by (rule embedded) (use drop(2) in \<open>simp add: embed_def\<close>)
  next
    case (same params)
    let ?pc = "take_update params (sys_pc c)"
    let ?d = "c\<lparr>sys_pc := final (update_finish params (merged_spec params)) ?pc\<rparr>"
    have "sys_step rt c ?d"
      using same by (intro sys_step.trivial [OF _ _ prepare_same]) simp_all
    then have "quiet_step rt c ?d"
      using same(4) by (intro quietI) (auto simp: update_finish_def take_update_def)
    then show ?thesis by (rule embedded) (use same(2) in \<open>simp add: embed_def\<close>)
  next
    case (takes params ev)
    then have "sys_worker c = None" using assms(2) by simp
    with ahead_takes [of c params _ rt] takes show ?thesis by auto
  next
    case (resume inits units spec params)
    let ?d = "c\<lparr>sys_main := M_idle, sys_wg := 1,
      sys_worker := Some \<lparr>g_spec = spec, g_task = T_inits inits units, g_cancelled = False\<rparr>,
      sys_pc := final (update_finish params (spec\<lparr>PodSpec_Phase := PodRunning\<rparr>)) (sys_pc c)\<rparr>"
    have "sys_step rt c ?d" using resume by (intro sys_step.resume) simp_all
    then have "quiet_step rt c ?d" using resume(3) by (intro quietI) auto
    then show ?thesis by (rule embedded) (use resume(2) in \<open>simp add: embed_def\<close>)
  next
    case (cancelled g u us units)
    with assms(3) show ?thesis by simp
  next
    case (goes_on g t' pc)
    let ?d = "c\<lparr>sys_pc := pc, sys_worker := Some (g\<lparr>g_task := t'\<rparr>)\<rparr>"
    have "sys_step rt c ?d" using goes_on by (intro sys_step.goes_on) simp_all
    moreover have other: "g_task g \<noteq> t'"
    proof -
      have "\<And>u us units. g_task g \<noteq> T_wait u us units" using goes_on(3) assms(3) by simp
      then show ?thesis
        using goes_on(4) by (cases "g_task g") (auto simp: run_task_def run_state_result_final
            split: list.splits if_splits)
    qed
    have "g_task (g\<lparr>g_task := t'\<rparr>) = t'" by simp
    with other have "g\<lparr>g_task := t'\<rparr> \<noteq> g" by metis
    ultimately have "quiet_step rt c ?d" using goes_on(3) by (intro quietI) auto
    then show ?thesis by (rule embedded) (use goes_on(2) in \<open>simp add: embed_def\<close>)
  next
    case (ends g e pc)
    let ?d = "c\<lparr>sys_pc := pc, sys_worker := None, sys_wg := (if e then sys_wg c - 1 else sys_wg c)\<rparr>"
    have "sys_step rt c ?d" using ends by (intro sys_step.ends) simp_all
    then have "quiet_step rt c ?d" using ends(3) by (intro quietI) auto
    then show ?thesis by (rule embedded) (use ends(2) in \<open>simp add: embed_def\<close>)
  qed simp_all
qed

text \<open>Whatever the controller of \<open>Pod_Controller\<close> can do, it can begin.\<close>

lemma quiet_goes:
  assumes "quiet_step rt c d"
  shows "\<exists>t. ctl_goes rt (embed c) t"
proof -
  have "\<exists>a t. a \<noteq> Client \<and> ctl_step rt a (embed c) t"
    using assms
  proof (cases rule: quiet_cases)
    case 1
    with ctl_step.drop [of "embed c" rt] show ?thesis by (intro exI [of _ Update_loop]) auto
  next
    case (2 params ev spec pc')
    then show ?thesis
      using ctl_step.same [of "embed c" params rt] ctl_step.takes [of "embed c" params _ rt, OF _ _ HOL.refl]
      by (intro exI [of _ Update_loop]) (cases "detectChangeType (merged_spec params) (pc_podStatus (sys_pc c))"; auto)
  next
    case (3 params ev inits units spec pc')
    then show ?thesis
      using ctl_step.same [of "embed c" params rt] ctl_step.takes [of "embed c" params _ rt, OF _ _ HOL.refl]
      by (intro exI [of _ Update_loop]) (cases "detectChangeType (merged_spec params) (pc_podStatus (sys_pc c))"; auto)
  next
    case (4 inits units spec params)
    with ctl_step.resume [of "embed c" inits units spec params rt] show ?thesis
      by (intro exI [of _ Update_loop]) auto
  next
    case (5 g u us units)
    with ctl_step.cancelled [of "embed c" g u us units rt] show ?thesis
      by (intro exI [of _ Goroutine]) auto
  next
    case (6 g t' pc')
    with ctl_step.goes_on [of "embed c" g rt t' pc'] show ?thesis by (intro exI [of _ Goroutine]) auto
  next
    case (7 g e pc')
    with ctl_step.ends [of "embed c" g rt e pc'] show ?thesis by (intro exI [of _ Goroutine]) auto
  qed
  then show ?thesis by (auto simp: ctl_goes_def)
qed

lemma update_goes:
  assumes "ct_loop f = L_update up"
  shows "\<exists>t. ctl_goes rt f t"
proof -
  have "\<exists>t. ctl_step rt Update_loop f t"
  proof (cases "up_ops up")
    case Nil
    obtain inits units where "to_start (up_added up) (up_spec up) = (inits, units)" by (metis surj_pair)
    from ctl_step.cancels [OF assms Nil this] show ?thesis by blast
  next
    case (Cons op ops)
    obtain err spec new pc where run: "run_state (pod_op rt op (up_spec up)) (ct_pc f) = ((err, spec, new), pc)"
      by (metis surj_pair)
    show ?thesis
    proof (cases err)
      case None
      from ctl_step.calls [OF assms Cons run [unfolded None]] show ?thesis by blast
    next
      case (Some e)
      from ctl_step.fails [OF assms Cons run [unfolded Some]] show ?thesis by blast
    qed
  qed
  then show ?thesis by (auto simp: ctl_goes_def)
qed

context working_runtime
begin

lemma in_phase_quiet:
  assumes "in_phase sv params ph c"
  shows "sys_main c = M_idle \<Longrightarrow> pc_updateChan (sys_pc c) \<noteq> [] \<Longrightarrow> sys_worker c = None"
    and "sys_worker c = Some g \<Longrightarrow> g_task g \<noteq> T_wait u us units"
  using assms by (cases ph; auto simp: starting_units_def settled_def)+

lemma ahead_phase:
  assumes "ahead rt f c" "in_phase sv params ph c" "ctl_goes rt f t" "sv_accepts sv params"
  shows "\<exists>d ph'. ahead rt t d \<and> in_phase sv params ph' d \<and>
    ((ph', ct_loop t), (ph, ct_loop f)) \<in> phase_less <*lex*> fewer_calls"
proof (cases "\<exists>up. ct_loop f = L_update up")
  case True
  then obtain up where "ct_loop f = L_update up" ..
  from ahead_update [OF this assms(1,3)] assms(2) show ?thesis by auto
next
  case False
  with assms(1) have f: "f = embed c" by (simp add: ahead_no_update)
  obtain d where d: "quiet_step rt c d" "ahead rt t d"
    using ahead_embed [OF assms(3) [unfolded f]] in_phase_quiet [OF assms(2)] by blast
  from phase_step [OF assms(2) d(1) assms(4)] d(2) show ?thesis by auto
qed

lemma ahead_run:
  assumes "(ctl_goes rt)\<^sup>*\<^sup>* f t" "ahead rt f c" "in_phase sv params ph c" "sv_accepts sv params"
  shows "\<exists>d ph'. ahead rt t d \<and> in_phase sv params ph' d"
  using assms(1-3)
proof (induction rule: rtranclp_induct)
  case (step t u)
  then show ?case using ahead_phase assms(4) by blast
qed blast

lemma ahead_finite:
  assumes "sv_accepts sv params"
  shows "ahead rt (f 0) c \<Longrightarrow> in_phase sv params ph c \<Longrightarrow> \<not> (\<forall>i. ctl_goes rt (f i) (f (Suc i)))"
proof (induction "(ph, ct_loop (f 0))" arbitrary: f c ph
    rule: wf_induct_rule [OF wf_lex_prod [OF wf_phase_less wf_fewer_calls]])
  case 1
  show ?case
  proof
    assume run: "\<forall>i. ctl_goes rt (f i) (f (Suc i))"
    obtain d ph' where "ahead rt (f (Suc 0)) d" "in_phase sv params ph' d"
        "((ph', ct_loop (f (Suc 0))), (ph, ct_loop (f 0))) \<in> phase_less <*lex*> fewer_calls"
      using ahead_phase [OF 1(2,3) _ assms] run by blast
    with 1(1) [of ph' "\<lambda>i. f (Suc i)" d] run show False by simp
  qed
qed

text \<open>As \<open>update_settles\<close>, for the finer steps.\<close>

lemma ctl_settles:
  assumes "in_phase sv params (Ph_queued n) c" "sv_accepts sv params"
  shows "\<not> (\<exists>f. f 0 = embed c \<and> (\<forall>i. ctl_goes rt (f i) (f (Suc i))))"
    and "(ctl_goes rt)\<^sup>*\<^sup>* (embed c) t \<Longrightarrow> \<not> (\<exists>u. ctl_goes rt t u) \<Longrightarrow> \<exists>d. t = embed d \<and> settled sv params d"
proof -
  have c: "ahead rt (embed c) c" by (simp add: ahead_no_update)
  then show "\<not> (\<exists>f. f 0 = embed c \<and> (\<forall>i. ctl_goes rt (f i) (f (Suc i))))"
    using ahead_finite [OF assms(2) _ assms(1)] by metis
  assume run: "(ctl_goes rt)\<^sup>*\<^sup>* (embed c) t" and stuck: "\<not> (\<exists>u. ctl_goes rt t u)"
  obtain d ph where d: "ahead rt t d" "in_phase sv params ph d" using ahead_run [OF run c assms] by blast
  have "\<nexists>up. ct_loop t = L_update up" using stuck update_goes by blast
  with d(1) have t: "t = embed d" by (simp add: ahead_no_update)
  have "ph = Ph_done"
    using phase_progress [OF d(2) _ assms(2)] stuck quiet_goes unfolding t by blast
  with t d(2) show "\<exists>d. t = embed d \<and> settled sv params d" by auto
qed

end

lemma stuck_idle_ctl:
  assumes "sys_main s = M_idle" "sys_worker s = None" "pc_updateChan (sys_pc s) = []"
  shows "\<not> (\<exists>t. ctl_goes rt (embed s) t)"
  using assms by (auto simp: ctl_goes_def elim!: ctl_step.cases)

text \<open>A run that cannot go on for ever ends.\<close>

lemma run_ends:
  assumes "\<not> (\<exists>f. f 0 = s \<and> (\<forall>i. R (f i) (f (Suc i))))"
  shows "\<exists>t. R\<^sup>*\<^sup>* s t \<and> \<not> (\<exists>u. R t u)"
proof (rule ccontr)
  assume "\<not> ?thesis"
  then have "\<forall>t. \<exists>u. R\<^sup>*\<^sup>* s t \<longrightarrow> R t u" by blast
  then obtain g where g: "\<And>t. R\<^sup>*\<^sup>* s t \<Longrightarrow> R t (g t)" by metis
  define f where "f i = (g ^^ i) s" for i
  have "R\<^sup>*\<^sup>* s (f i)" for i
    by (induction i) (auto simp: f_def dest: g intro: rtranclp.rtrancl_into_rtrancl)
  then have "\<forall>i. R (f i) (f (Suc i))" using g by (simp add: f_def)
  moreover have "f 0 = s" by (simp add: f_def)
  ultimately show False using assms by blast
qed

text \<open>A controller that works on no update.\<close>

definition idle_ctl :: "'s pod_controller \<Rightarrow> 's ctl" where
  "idle_ctl pc = \<lparr>ct_pc = pc, ct_loop = L_idle, ct_worker = None, ct_wg = 0\<rparr>"

lemma all_up_chan: "all_up sv (final (UpdatePod params) pc) = all_up sv pc"
  by (simp add: all_up_def UpdatePod_def)

end
