(* ===== verification/File_Tail.thy ===== *)
theory File_Tail
  imports Os_World
begin

text \<open>
  \<open>pkg/util/file.go\<close>: the tail of a file by lines or by bytes, and the small helpers around files,
  and \<open>SetOOMScore\<close> of \<open>util.go\<close>.  \<open>fs path\<close> is what opening a file gives: an error, or its bytes;
  the file does not change while it is read.  A negative buffer size panics.
\<close>

section \<open>The tail\<close>

(* src: pkg/util/file.go 10-12 MaxBufferSize *)
abbreviation (input) MaxBufferSize :: int where "MaxBufferSize \<equiv> 10485760"

abbreviation (input) chunkSize :: nat where "chunkSize \<equiv> 8196"

abbreviation (input) newline :: char where "newline \<equiv> CHR 0x0A"

definition newlines :: "string \<Rightarrow> nat" where
  "newlines s = length (filter (\<lambda>c. c = newline) s)"

text \<open>
  The loop at chunk \<open>k\<close>, counted from the end: \<open>seen\<close> newlines so far, \<open>acc\<close> what follows.  The
  source prepends each part when it writes the parts out in reverse.
\<close>

(* src: pkg/util/file.go 60-99 tailLines *)
function tail_loop :: "string \<Rightarrow> nat \<Rightarrow> int \<Rightarrow> nat \<Rightarrow> nat \<Rightarrow> string \<Rightarrow> string" where
  "tail_loop f lns maxBytes k seen acc =
     (if seen < lns \<and> k * chunkSize < length f \<and> int (k * chunkSize) < maxBytes
      then (let offsetFromStart = length f - Suc k * chunkSize;
                chunkBuf = take (length f - k * chunkSize - offsetFromStart) (drop offsetFromStart f);
                seen = seen + newlines chunkBuf
            in if seen > lns
               then (let overCount = seen - lns; parts = split_on newline chunkBuf
                     in tail_loop f lns maxBytes (Suc k) seen
                          (if overCount < length parts
                           then strings_Join (drop overCount parts) [newline] @ acc else acc))
               else tail_loop f lns maxBytes (Suc k) seen (chunkBuf @ acc))
      else acc)"
  by pat_completeness auto

termination by (relation "measure (\<lambda>(f, lns, maxBytes, k, seen, acc). length f - k * chunkSize)") auto

declare tail_loop.simps [simp del]

(* src: pkg/util/file.go 60-99 tailLines *)
definition tailLines :: "string \<Rightarrow> nat \<Rightarrow> int \<Rightarrow> string" where
  "tailLines f lns maxBytes = tail_loop f lns maxBytes 0 0 []"

(* src: pkg/util/file.go 101-114 tailBytes *)
definition tailBytes :: "string \<Rightarrow> int \<Rightarrow> string outcome" where
  "tailBytes f maxBytes =
     (let fileSize = int (length f);
          maxBytes = (if maxBytes > fileSize then fileSize else maxBytes)
      in if maxBytes < 0 then Panic
         else Ret (if fileSize > maxBytes then drop (nat (fileSize - maxBytes)) f else f))"

(* src: pkg/util/file.go 14-35 TailFile *)
definition TailFile ::
  "(string \<Rightarrow> go_error + string) \<Rightarrow> string \<Rightarrow> int \<Rightarrow> int \<Rightarrow> (string \<times> error) outcome" where
  "TailFile fs path lns maxBytes =
     (case fs path of
        Inl err \<Rightarrow> Ret ([], Some err)
      | Inr f \<Rightarrow>
          let maxBytes = (if maxBytes = 0 \<or> maxBytes > MaxBufferSize then MaxBufferSize else maxBytes)
          in if lns > 0 then Ret (tailLines f (nat lns) maxBytes, None)
             else (case tailBytes f maxBytes of Panic \<Rightarrow> Panic | Ret s \<Rightarrow> Ret (s, None)))"

section \<open>Helpers\<close>

(* src: pkg/util/file.go 37-55 CopyFile *)
definition CopyFile :: "string \<Rightarrow> string \<Rightarrow> ('a os_scheme, error) state" where
  "CopyFile src dst = do {
     err \<leftarrow> os_do (Os_OpenFile src);
     if err \<noteq> None then return err
     else do {
       err \<leftarrow> os_do (Os_Create dst);
       if err \<noteq> None then return err else os_do (Io_Copy src dst)
     }
   }"

text \<open>\<open>reply_data\<close> of listing a directory is empty when \<open>Readdirnames\<close> answers \<open>EOF\<close>.\<close>

(* src: pkg/util/file.go 116-129 IsEmptyDir *)
definition IsEmptyDir :: "string \<Rightarrow> ('a os_scheme, bool \<times> error) state" where
  "IsEmptyDir name = do {
     err \<leftarrow> os_do (Os_OpenFile name);
     if err \<noteq> None \<and> \<not> IsExist err then return (True, None)
     else if err \<noteq> None then return (False, err)
     else do {
       r \<leftarrow> os_reply (Ext_Call ''readdir'' [name]);
       if reply_err r = None \<and> reply_data r = [] then return (True, None)
       else return (False, reply_err r)
     }
   }"

(* src: pkg/util/file.go 131-141 EnsureFileExists *)
definition EnsureFileExists :: "string \<Rightarrow> ('a os_scheme, error) state" where
  "EnsureFileExists name = do {
     err \<leftarrow> os_do (Os_OpenFile name);
     if err \<noteq> None \<and> IsNotExist err then os_do (Os_Create name) else return err
   }"

(* src: pkg/util/util.go 36-40 SetOOMScore *)
definition SetOOMScore :: "int \<Rightarrow> int \<Rightarrow> ('a os_scheme, error) state" where
  "SetOOMScore pid score =
     os_do (Io_WriteFile (''/proc/'' @ Itoa pid @ ''/oom_score_adj'') (Itoa score @ [newline]) 420)"

section \<open>Properties\<close>

lemma newlines_append [simp]: "newlines (a @ b) = newlines a + newlines b"
  by (simp add: newlines_def)

lemma newlines_Nil [simp]: "newlines [] = 0"
  by (simp add: newlines_def)

lemma length_split_on: "length (split_on newline s) = Suc (newlines s)"
  by (induction s) (auto simp: newlines_def split: list.splits)

text \<open>Dropping the first parts keeps a suffix and drops as many newlines.\<close>

lemma Join_drop_split:
  "n \<le> newlines s \<Longrightarrow>
   \<exists>p. s = p @ strings_Join (drop n (split_on newline s)) [newline] \<and> newlines p = n"
proof (induction n)
  case 0
  then show ?case by (intro exI [where x = "[]"]) simp
next
  case (Suc n)
  let ?ps = "split_on newline s"
  obtain p where p: "s = p @ strings_Join (drop n ?ps) [newline]" "newlines p = n"
    using Suc by auto
  have len: "Suc n < length ?ps" using Suc.prems length_split_on [of s] by simp
  then obtain x y ys where xs: "drop n ?ps = x # y # ys"
    by (metis Cons_nth_drop_Suc Suc_lessD)
  then have dn: "drop (Suc n) ?ps = y # ys"
    by (metis drop_Suc list.sel(3) tl_drop)
  have "x \<in> set ?ps" using xs by (metis in_set_dropD list.set_intros(1))
  then have "newlines x = 0" using split_on_no_sep [of x newline s] by (auto simp: newlines_def filter_empty_conv)
  then show ?case using p xs dn
    by (intro exI [where x = "p @ x @ [newline]"]) (simp add: newlines_def)
qed

text \<open>
  The loop keeps a suffix of the file: what it has is all that follows chunk \<open>k\<close> while fewer lines
  than asked for have been seen.
\<close>

lemma tail_loop_suffix:
  assumes "acc = drop (length f - k * chunkSize) f" "newlines acc = seen" "seen \<le> lns"
  shows "\<exists>p. f = p @ tail_loop f lns maxBytes k seen acc \<and>
     newlines (tail_loop f lns maxBytes k seen acc) \<le> lns"
  using assms
proof (induction f lns maxBytes k seen acc rule: tail_loop.induct)
  case (1 f lns maxBytes k seen acc)
  let ?go = "seen < lns \<and> k * chunkSize < length f \<and> int (k * chunkSize) < maxBytes"
  define off where "off = length f - Suc k * chunkSize"
  define buf where "buf = take (length f - k * chunkSize - off) (drop off f)"
  have suf: "acc = drop (length f - k * chunkSize) f" by (rule "1.prems")
  show ?case
  proof (cases ?go)
    case False
    have "tail_loop f lns maxBytes k seen acc = acc"
      by (subst tail_loop.simps) (use False in auto)
    moreover have "f = take (length f - k * chunkSize) f @ acc" by (simp add: suf)
    ultimately show ?thesis using "1.prems" by metis
  next
    case True
    have cat: "buf @ acc = drop off f"
    proof -
      have "off \<le> length f - k * chunkSize" by (simp add: off_def)
      then have "drop (length f - k * chunkSize) f =
          drop (length f - k * chunkSize - off) (drop off f)"
        by (simp only: drop_drop le_add_diff_inverse2)
      then show ?thesis unfolding suf buf_def by (metis append_take_drop_id)
    qed
    have fcat: "f = take off f @ buf @ acc" by (simp add: cat)
    show ?thesis
    proof (cases "seen + newlines buf > lns")
      case False
      have step: "tail_loop f lns maxBytes k seen acc =
          tail_loop f lns maxBytes (Suc k) (seen + newlines buf) (buf @ acc)"
        by (subst tail_loop.simps) (use True False in \<open>simp add: Let_def off_def buf_def\<close>)
      have "newlines (buf @ acc) = seen + newlines buf" using "1.prems"(2) by simp
      moreover have "buf @ acc = drop (length f - Suc k * chunkSize) f" using cat by (simp add: off_def)
      ultimately have "\<exists>p. f = p @ tail_loop f lns maxBytes (Suc k) (seen + newlines buf) (buf @ acc) \<and>
          newlines (tail_loop f lns maxBytes (Suc k) (seen + newlines buf) (buf @ acc)) \<le> lns"
        using "1.IH"(2) [OF True off_def buf_def refl] False by auto
      then show ?thesis by (simp only: step)
    next
      case over: True
      define n where "n = seen + newlines buf - lns"
      have n: "n \<le> newlines buf" using True unfolding n_def by linarith
      define t where "t = strings_Join (drop n (split_on newline buf)) [newline]"
      obtain p where p: "buf = p @ t" "newlines p = n"
        using Join_drop_split [OF n] by (auto simp: t_def)
      have "tail_loop f lns maxBytes k seen acc =
          tail_loop f lns maxBytes (Suc k) (seen + newlines buf) (t @ acc)"
        by (subst tail_loop.simps)
          (use True over n in \<open>simp add: Let_def off_def buf_def n_def t_def length_split_on\<close>)
      also have "\<dots> = t @ acc"
        by (subst tail_loop.simps) (use over in simp)
      finally have res: "tail_loop f lns maxBytes k seen acc = t @ acc" .
      have "f = (take off f @ p) @ t @ acc" using fcat p by simp
      moreover have "newlines (t @ acc) \<le> lns"
        using p over "1.prems"(2) by (simp add: n_def)
      ultimately show ?thesis unfolding res by blast
    qed
  qed
qed

lemma tailLines_suffix:
  "\<exists>p. f = p @ tailLines f lns maxBytes \<and> newlines (tailLines f lns maxBytes) \<le> lns"
  using tail_loop_suffix [of "[]" f 0 0 lns maxBytes] by (simp add: tailLines_def)

lemma tailBytes_suffix:
  "0 \<le> maxBytes \<Longrightarrow> tailBytes f maxBytes = Ret (drop (length f - nat maxBytes) f)"
  by (auto simp: tailBytes_def Let_def nat_diff_distrib)

lemma TailFile_bytes:
  assumes "fs path = Inr f" "lns \<le> 0" "0 \<le> maxBytes"
  shows "TailFile fs path lns maxBytes =
     Ret (drop (length f - (if maxBytes = 0 \<or> maxBytes > MaxBufferSize then 10485760 else nat maxBytes)) f,
          None)"
  using assms by (simp add: TailFile_def Let_def tailBytes_suffix)

end
