(* ===== verification/Prog.thy ===== *)
theory Prog
  imports Os_World
begin

text \<open>
  External programs: \<open>pkg/util/prog.go\<close> (finding, installing and running one), the image clients
  \<open>pkg/image/tosi.go\<close> and \<open>img.go\<close>, and the GPU set-up \<open>pkg/host/nvidia.go\<close>.  Running a program is
  an \<open>Ext_Call\<close> of the world: \<open>reply_err\<close> is what \<open>Run\<close> returns and \<open>reply_data\<close> what it printed.
  The semantic-version package and the regular expression are parameters.
\<close>

section \<open>prog.go\<close>

text \<open>\<open>strings.Fields\<close> and \<open>strings.TrimRight\<close>.\<close>

definition is_space :: "char \<Rightarrow> bool" where
  "is_space c \<longleftrightarrow> c \<in> {CHR '' '', CHR 0x09, CHR 0x0A, CHR 0x0B, CHR 0x0C, CHR 0x0D}"

fun fields_loop :: "string \<Rightarrow> string \<Rightarrow> string list" where
  "fields_loop w [] = (if w = [] then [] else [w])"
| "fields_loop w (c # cs) =
     (if is_space c then (if w = [] then fields_loop [] cs else w # fields_loop [] cs)
      else fields_loop (w @ [c]) cs)"

definition Fields :: "string \<Rightarrow> string list" where
  "Fields s = fields_loop [] s"

definition TrimRight :: "string \<Rightarrow> string \<Rightarrow> string" where
  "TrimRight s cutset = rev (dropWhile (\<lambda>c. c \<in> set cutset) (rev s))"

(* src: pkg/util/prog.go 46-46 itzoBinPath *)
definition itzoBinPath :: string where
  "itzoBinPath = ''/tmp/itzo/bin''"

(* src: pkg/util/prog.go 56-70 versionMatch *)
definition find_version :: "(string \<Rightarrow> bool) \<Rightarrow> string \<Rightarrow> string option" where
  "find_version is_semver output =
     find is_semver (concat (map (\<lambda>l. map (\<lambda>word. TrimRight word '',;.'') (Fields l))
       (split_on (CHR 0x0A) output)))"

(* src: pkg/util/prog.go 49-71 versionMatch *)
definition versionMatch ::
  "(string \<Rightarrow> bool) \<Rightarrow> (string \<Rightarrow> string \<Rightarrow> int) \<Rightarrow> string \<Rightarrow> string \<Rightarrow> string \<Rightarrow>
   ('a os_scheme, bool) state" where
  "versionMatch is_semver compare exe minVersion versionArg = do {
     r \<leftarrow> os_reply (Ext_Call exe [versionArg]);
     return (reply_err r = None \<and>
       (case find_version is_semver (reply_data r) of
          None \<Rightarrow> False
        | Some version \<Rightarrow> compare version minVersion \<ge> 0))
   }"

(* src: pkg/util/prog.go 73-81 ensurePath *)
definition ensurePath :: "string \<Rightarrow> ('a os_scheme, unit) state" where
  "ensurePath localPath = do {
     r \<leftarrow> os_reply (Ext_Call ''getenv'' [''PATH'']);
     let envPath = reply_data r in
     if localPath \<in> set (split_on (CHR '':'') envPath) then return ()
     else os_try (Os_Setenv ''PATH'' (envPath @ '':'' @ localPath))
   }"

text \<open>The download is one call; its reply has the status code.\<close>

(* src: pkg/util/prog.go 104-125 InstallProg *)
definition InstallProg :: "string \<Rightarrow> string \<Rightarrow> ('a os_scheme, error) state" where
  "InstallProg url path = do {
     resp \<leftarrow> os_reply (Ext_Call ''http.Get'' [url]);
     if reply_err resp \<noteq> None then
       return (Some (Errorf (''creating get request for '' @ url)))
     else if reply_ints resp \<noteq> [200] then
       return (Some (Errorf (''downloading '' @ url @ '': got status code'')))
     else do {
       os_try (Os_MkdirAll (filepath_Dir path) 493);
       err \<leftarrow> os_do (Os_OpenFile path);
       if err \<noteq> None then return (Some (Errorf (''opening '' @ path @ '' for writing'')))
       else do {
         err \<leftarrow> os_do (Io_Copy url path);
         if err \<noteq> None then return (Some (Errorf (''writing '' @ path))) else return None
       }
     }
   }"

(* src: pkg/util/prog.go 83-102 EnsureProg *)
definition EnsureProg ::
  "(string \<Rightarrow> bool) \<Rightarrow> (string \<Rightarrow> string \<Rightarrow> int) \<Rightarrow> string \<Rightarrow> string \<Rightarrow> string \<Rightarrow> string \<Rightarrow>
   ('a os_scheme, string \<times> error) state" where
  "EnsureProg is_semver compare prog downloadURL minVersion versionArg = do {
     ensurePath itzoBinPath;
     r \<leftarrow> os_reply (Ext_Call ''exec.LookPath'' [prog]);
     found \<leftarrow> (if reply_err r = None
               then versionMatch is_semver compare (reply_data r) minVersion versionArg
               else return False);
     if found then return (reply_data r, None)
     else
       let exe = filepath_Join [itzoBinPath, filepath_Base prog] in do {
         err \<leftarrow> InstallProg downloadURL exe;
         if err \<noteq> None then return ([], err) else return (exe, None)
       }
   }"

text \<open>
  One attempt: the error, and whether to stop at once for lack of disk space.  A failed
  \<open>statfs\<close> is not a reason to stop.
\<close>

definition last_bytes :: "int \<Rightarrow> string \<Rightarrow> string" where
  "last_bytes n s = (if int (length s) > n then drop (length s - nat n) s else s)"

(* src: pkg/util/prog.go 134-157 RunProg *)
definition run_attempt ::
  "string \<Rightarrow> int \<Rightarrow> string list \<Rightarrow> int \<Rightarrow> ('a os_scheme, error \<times> bool) state" where
  "run_attempt prog outputLimit args n = do {
     r \<leftarrow> os_reply (Ext_Call prog args);
     if reply_err r = None then return (None, False)
     else do {
       st \<leftarrow> os_reply (Ext_Call ''statfs'' [''/'']);
       if reply_err st = None \<and> (\<exists>b \<in> set (reply_ints st). b < 5)
       then return (Some (Errorf ''low disk space''), True)
       else return (Some (Errorf (prog @ '' failed after '' @ Itoa n @ '' attempt(s), output:'' @
                                  last_bytes outputLimit (reply_data r))), False)
     }
   }"

text \<open>The seconds of back-off grow by doubling plus a jitter of at most their number.\<close>

(* src: pkg/util/prog.go 132-165 RunProg *)
function RunProg_loop ::
  "string \<Rightarrow> int \<Rightarrow> int \<Rightarrow> string list \<Rightarrow> int \<Rightarrow> int \<Rightarrow> ('a os_scheme, error) state" where
  "RunProg_loop prog outputLimit maxRetries args n backoff = do {
     r \<leftarrow> run_attempt prog outputLimit args (n + 1);
     case r of
       (None, _) \<Rightarrow> return None
     | (Some e, low) \<Rightarrow>
         if low \<or> n + 1 \<ge> maxRetries then return (Some e)
         else do {
           os_try (Sys_Sleep (backoff * time_Second));
           j \<leftarrow> os_reply (Ext_Call ''rand.Float64'' []);
           RunProg_loop prog outputLimit maxRetries args (n + 1)
             (backoff * 2 + (case reply_ints j of [] \<Rightarrow> 0 | x # _ \<Rightarrow> x mod (backoff + 1)))
         }
   }"
  by pat_completeness auto

termination by (relation "measure (\<lambda>(prog, lim, maxRetries, args, n, backoff). nat (maxRetries - n))") auto

declare RunProg_loop.simps [simp del]

(* src: pkg/util/prog.go 127-166 RunProg *)
definition RunProg :: "string \<Rightarrow> int \<Rightarrow> int \<Rightarrow> string list \<Rightarrow> ('a os_scheme, error) state" where
  "RunProg prog outputLimit maxRetries args = RunProg_loop prog outputLimit maxRetries args 0 3"

section \<open>The image clients\<close>

abbreviation (input) TosiMaxRetries :: int where "TosiMaxRetries \<equiv> 3"
abbreviation (input) TosiOutputLimit :: int where "TosiOutputLimit \<equiv> 4096"

(* src: pkg/image/tosi.go 24-42 Tosi *)
record Tosi =
  tosi_server :: string
  tosi_username :: string
  tosi_password :: string
  tosi_image :: string
  tosi_exe :: string
  tosi_extractWithOverlay :: bool

(* src: pkg/image/tosi.go 44-49 NewTosi *)
definition NewTosi :: Tosi where
  "NewTosi = \<lparr>tosi_server = [], tosi_username = [], tosi_password = [], tosi_image = [],
     tosi_exe = ''tosi'', tosi_extractWithOverlay = True\<rparr>"

(* src: pkg/image/tosi.go 51-53 SetTosiExtractionType *)
definition SetTosiExtractionType :: "bool \<Rightarrow> Tosi \<Rightarrow> Tosi" where
  "SetTosiExtractionType useOverlayRootfs t = t\<lparr>tosi_extractWithOverlay := useOverlayRootfs\<rparr>"

(* src: pkg/image/tosi.go 55-60 Login *)
definition tosi_Login :: "string \<Rightarrow> string \<Rightarrow> string \<Rightarrow> Tosi \<Rightarrow> error \<times> Tosi" where
  "tosi_Login server username password t =
     (None, t\<lparr>tosi_server := server, tosi_username := username, tosi_password := password\<rparr>)"

(* src: pkg/image/tosi.go 62-66 Pull *)
definition tosi_Pull :: "string \<Rightarrow> string \<Rightarrow> Tosi \<Rightarrow> error \<times> Tosi" where
  "tosi_Pull server img t = (None, t\<lparr>tosi_server := server, tosi_image := img\<rparr>)"

(* src: pkg/image/tosi.go 75-99 buildTosiArgs *)
definition buildTosiArgs ::
  "Tosi \<Rightarrow> string \<Rightarrow> string \<Rightarrow> string \<Rightarrow> string \<Rightarrow> string \<Rightarrow> string \<Rightarrow> string list" where
  "buildTosiArgs t server img dest configPath username password =
     (let imageExtractFlag = (if tosi_extractWithOverlay t then ''-mount'' else ''-extractto'');
          args = [''-image'', img, imageExtractFlag, dest, ''-saveconfig'', configPath];
          args = (if username \<noteq> [] then args @ [''-username'', username] else args);
          args = (if password \<noteq> [] then args @ [''-password'', password] else args)
      in if server \<noteq> [] then args @ [''-url'', server] else args)"

(* src: pkg/image/tosi.go 101-111 run *)
definition tosi_run ::
  "(string \<Rightarrow> bool) \<Rightarrow> (string \<Rightarrow> string \<Rightarrow> int) \<Rightarrow> Tosi \<Rightarrow> string \<Rightarrow> string \<Rightarrow> string \<Rightarrow> string \<Rightarrow> string \<Rightarrow>
   string \<Rightarrow> ('a os_scheme, error \<times> Tosi) state" where
  "tosi_run is_semver compare t server img dest configPath username password = do {
     (tp, err) \<leftarrow> EnsureProg is_semver compare (tosi_exe t)
       ''https://github.com/elotl/tosi/releases/download/v0.0.7/tosi-amd64'' ''v0.0.7'' ''-version'';
     if err \<noteq> None then return (err, t)
     else do {
       let t = t\<lparr>tosi_exe := tp\<rparr>;
       err \<leftarrow> RunProg tp TosiOutputLimit TosiMaxRetries
                (buildTosiArgs t server img dest configPath username password);
       return (err, t)
     }
   }"

(* src: pkg/image/tosi.go 68-73 Unpack *)
definition tosi_Unpack ::
  "(string \<Rightarrow> bool) \<Rightarrow> (string \<Rightarrow> string \<Rightarrow> int) \<Rightarrow> string \<Rightarrow> string \<Rightarrow> string \<Rightarrow> Tosi \<Rightarrow>
   ('a os_scheme, error \<times> Tosi) state" where
  "tosi_Unpack is_semver compare img dest configPath t =
     (if img \<noteq> tosi_image t
      then return (Some (Errorf (''image mismatch '' @ tosi_image t @ '' != '' @ img)), t)
      else tosi_run is_semver compare t (tosi_server t) (tosi_image t) dest configPath
             (tosi_username t) (tosi_password t))"

(* src: pkg/image/img.go 36-46 Img *)
record Img =
  img_stateDir :: string
  img_exe :: string

(* src: pkg/image/img.go 41-46 NewImg *)
definition NewImg :: "string \<Rightarrow> string \<Rightarrow> Img" where
  "NewImg stateDir imgExe = \<lparr>img_stateDir = stateDir, img_exe = ''img''\<rparr>"

(* src: pkg/image/img.go 71-80 run *)
definition img_run ::
  "(string \<Rightarrow> bool) \<Rightarrow> (string \<Rightarrow> string \<Rightarrow> int) \<Rightarrow> string list \<Rightarrow> Img \<Rightarrow>
   ('a os_scheme, error \<times> Img) state" where
  "img_run is_semver compare args i = do {
     (exe, err) \<leftarrow> EnsureProg is_semver compare (img_exe i)
       ''https://github.com/genuinetools/img/releases/download/v0.5.7/img-linux-amd64'' ''v0.5.7''
       ''version'';
     if err \<noteq> None then return (err, i)
     else do { err \<leftarrow> RunProg exe 4096 3 args; return (err, i\<lparr>img_exe := exe\<rparr>) }
   }"

(* src: pkg/image/img.go 48-51 Login *)
definition img_Login where
  "img_Login is_semver compare server username password i =
     img_run is_semver compare [''login'', ''--username'', username, ''--password'', password, server] i"

(* src: pkg/image/img.go 53-64 Pull *)
definition img_Pull where
  "img_Pull is_semver compare url_host server img i =
     (let img = (if server \<noteq> []
                 then (case url_host server of None \<Rightarrow> server | Some h \<Rightarrow> h) @ ''/'' @ img else img)
      in img_run is_semver compare [''pull'', ''--state'', img_stateDir i, img] i)"

(* src: pkg/image/img.go 66-69 Unpack *)
definition img_Unpack where
  "img_Unpack is_semver compare img dest configPath i =
     img_run is_semver compare [''unpack'', ''--state'', img_stateDir i, ''--output'', dest, img] i"

section \<open>GPUs\<close>

(* src: pkg/host/nvidia.go 38-88 InitializeGPU *)
definition InitializeGPU ::
  "(string \<Rightarrow> bool) \<Rightarrow> (string \<Rightarrow> string \<Rightarrow> int) \<Rightarrow> string \<Rightarrow> ('a os_scheme, error) state" where
  "InitializeGPU is_semver compare rootfs = do {
     err \<leftarrow> os_do (Os_Stat ''/dev/nvidiactl'');
     if IsNotExist err then return None
     else if err \<noteq> None then return err
     else do {
       (cli, err) \<leftarrow> EnsureProg is_semver compare ''nvidia-container-cli''
         ''https://s3.amazonaws.com/itzo-packages/nvidia-container-cli'' ''1.0.2'' ''--version'';
       if err \<noteq> None then return err
       else do {
         err \<leftarrow> os_do (Ext_Call ''nvidia-smi'' []);
         if err \<noteq> None then return err
         else os_do (Ext_Call cli
           [''configure'', ''--compute'', ''--no-cgroups'', ''--no-devbind'', ''--utility'', rootfs])
       }
     }
   }"

section \<open>Properties\<close>

lemma calls_within_RunProg_loop:
  "calls_within (\<lambda>c. True) (RunProg_loop prog lim maxRetries args n backoff)"
proof (induction prog lim maxRetries args n backoff rule: RunProg_loop.induct)
  case (1 prog lim maxRetries args n backoff)
  show ?case
    unfolding RunProg_loop.simps [of prog lim maxRetries args n backoff] run_attempt_def
    by (intro calls_intros "1.IH") (auto intro!: calls_intros "1.IH" split: option.splits)
qed

text \<open>
  The attempts of \<open>RunProg\<close>, counted in the trace, and the seconds slept between them.
\<close>

definition attempts :: "string \<Rightarrow> string list \<Rightarrow> os_call list \<Rightarrow> nat" where
  "attempts prog args cs = length (filter (\<lambda>c. c = Ext_Call prog args) cs)"

fun slept :: "os_call list \<Rightarrow> int list" where
  "slept [] = []"
| "slept (Sys_Sleep t # cs) = t # slept cs"
| "slept (_ # cs) = slept cs"

lemma slept_append [simp]: "slept (a @ b) = slept a @ slept b"
  by (induction a rule: slept.induct) simp_all

lemma attempts_append [simp]: "attempts prog args (a @ b) = attempts prog args a + attempts prog args b"
  by (simp add: attempts_def)

definition plain_prog :: "string \<Rightarrow> bool" where
  "plain_prog prog \<longleftrightarrow> prog \<noteq> ''statfs'' \<and> prog \<noteq> ''rand.Float64''"

lemma attempts_Cons:
  "attempts prog args (c # cs) = (if c = Ext_Call prog args then 1 else 0) + attempts prog args cs"
  by (simp add: attempts_def)

lemma attempts_Nil [simp]: "attempts prog args [] = 0"
  by (simp add: attempts_def)

lemma run_attempt_trace:
  assumes "plain_prog prog"
  shows "\<exists>cs. final (run_attempt prog lim args n) w = w\<lparr>os_trace := os_trace w @ cs\<rparr> \<and>
     attempts prog args cs = 1 \<and> slept cs = []"
proof (cases "reply_err (os_env w (os_trace w) (Ext_Call prog args)) = None")
  case True
  then show ?thesis
    by (intro exI [where x = "[Ext_Call prog args]"]) (simp add: run_attempt_def attempts_Cons)
next
  case False
  with assms show ?thesis
    by (intro exI [where x = "[Ext_Call prog args, Ext_Call ''statfs'' [''/'']]"])
      (auto simp: run_attempt_def attempts_Cons plain_prog_def)
qed

text \<open>Each sleep is at least twice as long as the one before.\<close>

fun doubling :: "int \<Rightarrow> int list \<Rightarrow> bool" where
  "doubling b [] = True"
| "doubling b (t # ts) \<longleftrightarrow> b \<le> t \<and> doubling (2 * t) ts"

lemma RunProg_loop_trace:
  assumes "plain_prog prog" "0 \<le> backoff"
  shows "\<exists>cs. final (RunProg_loop prog lim mx args n backoff) w = w\<lparr>os_trace := os_trace w @ cs\<rparr> \<and>
     1 \<le> attempts prog args cs \<and> attempts prog args cs \<le> nat (max 1 (mx - n)) \<and>
     length (slept cs) < attempts prog args cs \<and> doubling (backoff * time_Second) (slept cs)"
  using assms
proof (induction prog lim mx args n backoff arbitrary: w rule: RunProg_loop.induct)
  case (1 prog lim mx args n backoff)
  let ?loop = "RunProg_loop prog lim mx args n backoff"
  obtain err low where r: "result (run_attempt prog lim args (n + 1)) w = (err, low)"
    by (metis prod.collapse)
  obtain as where as: "final (run_attempt prog lim args (n + 1)) w = w\<lparr>os_trace := os_trace w @ as\<rparr>"
      "attempts prog args as = 1" "slept as = []"
    using run_attempt_trace [OF "1.prems"(1)] by blast
  show ?case
  proof (cases "err = None \<or> low \<or> n + 1 \<ge> mx")
    case True
    then have "final ?loop w = w\<lparr>os_trace := os_trace w @ as\<rparr>"
      by (subst RunProg_loop.simps) (use r as in \<open>auto split: option.splits\<close>)
    with as show ?thesis by (intro exI [where x = as]) simp
  next
    case False
    then obtain e where e: "err = Some e" and go: "\<not> low" "\<not> n + 1 \<ge> mx" by auto
    define mid where "mid = [Sys_Sleep (backoff * time_Second), Ext_Call ''rand.Float64'' []]"
    define w1 where "w1 = w\<lparr>os_trace := os_trace w @ as @ mid\<rparr>"
    define j where "j = (case reply_ints (os_env w (os_trace w @ as @ [Sys_Sleep (backoff * time_Second)])
        (Ext_Call ''rand.Float64'' [])) of [] \<Rightarrow> 0 | x # _ \<Rightarrow> x mod (backoff + 1))"
    have j: "0 \<le> j" using "1.prems"(2) by (auto simp: j_def split: list.splits)
    have step: "final ?loop w = final (RunProg_loop prog lim mx args (n + 1) (backoff * 2 + j)) w1"
      by (subst RunProg_loop.simps) (use r as e go in \<open>simp add: w1_def mid_def j_def\<close>)
    have "\<exists>cs. final (RunProg_loop prog lim mx args (n + 1) (backoff * 2 + j)) w1 =
        w1\<lparr>os_trace := os_trace w1 @ cs\<rparr> \<and>
        1 \<le> attempts prog args cs \<and> attempts prog args cs \<le> nat (max 1 (mx - (n + 1))) \<and>
        length (slept cs) < attempts prog args cs \<and> doubling ((backoff * 2 + j) * time_Second) (slept cs)"
      using j unfolding j_def by (intro "1.IH" [OF e]) (use go "1.prems" in auto)
    then obtain cs where cs: "final (RunProg_loop prog lim mx args (n + 1) (backoff * 2 + j)) w1 =
        w1\<lparr>os_trace := os_trace w1 @ cs\<rparr>"
        "1 \<le> attempts prog args cs" "attempts prog args cs \<le> nat (max 1 (mx - (n + 1)))"
        "length (slept cs) < attempts prog args cs" "doubling ((backoff * 2 + j) * time_Second) (slept cs)"
      by blast
    have "attempts prog args mid = 0"
      using "1.prems"(1) by (auto simp: mid_def attempts_Cons plain_prog_def)
    moreover have "slept mid = [backoff * time_Second]" by (simp add: mid_def)
    moreover have "doubling (2 * (backoff * time_Second)) (slept cs)"
      using cs(5) j by (cases "slept cs") auto
    ultimately show ?thesis
      using step cs as go by (intro exI [where x = "as @ mid @ cs"]) (simp add: w1_def)
  qed
qed

lemma run_attempt_result:
  "fst (result (run_attempt prog lim args n) w) = None \<longleftrightarrow>
   reply_err (os_env w (os_trace w) (Ext_Call prog args)) = None"
  by (simp add: run_attempt_def)

end
