(* ===== verification/Mounts.thy ===== *)
theory Mounts
  imports Os_World Api_Types
begin

text \<open>
  \<open>pkg/mount/mount.go\<close>: the special file systems of a unit, the volumes of a pod and their
  attachment to units.  Every operation runs in the state of \<^theory_text>\<open>Os_World\<close>, so what it did can be read off
  the trace.  \<open>resolveLinks\<close> follows absolute links without a bound; the model counts them down and
  answers \<^term>\<open>None\<close> when the count is used up.
\<close>

unbundle bit_operations_syntax

section \<open>The special mounts\<close>

abbreviation (input) MS_NOSUID :: nat where "MS_NOSUID \<equiv> 2"
abbreviation (input) MS_NODEV :: nat where "MS_NODEV \<equiv> 4"
abbreviation (input) MS_NOEXEC :: nat where "MS_NOEXEC \<equiv> 8"
abbreviation (input) MS_BIND :: nat where "MS_BIND \<equiv> 4096"
abbreviation (input) MS_REC :: nat where "MS_REC \<equiv> 16384"
abbreviation (input) MS_PRIVATE :: nat where "MS_PRIVATE \<equiv> 262144"
abbreviation (input) MS_SHARED :: nat where "MS_SHARED \<equiv> 1048576"
abbreviation (input) MS_RELATIME :: nat where "MS_RELATIME \<equiv> 2097152"
abbreviation (input) MNT_DETACH :: nat where "MNT_DETACH \<equiv> 2"

(* src: pkg/mount/mount.go 60-66 Mount *)
record Mount =
  Mount_Source :: string
  Mount_Target :: string
  Mount_Fs :: string
  Mount_Flags :: nat
  Mount_Data :: string

(* src: pkg/mount/mount.go 68-96 Mounts *)
definition Mounts :: "Mount list" where
  "Mounts =
     [\<lparr>Mount_Source = ''proc'', Mount_Target = ''/proc'', Mount_Fs = ''proc'',
       Mount_Flags = MS_NOSUID OR MS_NODEV OR MS_NOEXEC OR MS_RELATIME, Mount_Data = []\<rparr>,
      \<lparr>Mount_Source = ''devtmpfs'', Mount_Target = ''/dev'', Mount_Fs = ''devtmpfs'',
       Mount_Flags = MS_NOSUID OR MS_RELATIME, Mount_Data = ''mode=755''\<rparr>,
      \<lparr>Mount_Source = ''devpts'', Mount_Target = ''/dev/pts'', Mount_Fs = ''devpts'',
       Mount_Flags = MS_NOSUID OR MS_NOEXEC OR MS_RELATIME,
       Mount_Data = ''mode=620,ptmxmode=000''\<rparr>,
      \<lparr>Mount_Source = ''sysfs'', Mount_Target = ''/sys'', Mount_Fs = ''sysfs'',
       Mount_Flags = MS_NOSUID OR MS_NODEV OR MS_NOEXEC OR MS_RELATIME, Mount_Data = []\<rparr>]"

text \<open>The root of a unit's files; the empty name stands for the chroot the unit already runs in.\<close>

definition special_rootfs :: "string \<Rightarrow> string \<Rightarrow> string" where
  "special_rootfs basedir unitname =
     (if unitname \<noteq> [] then filepath_Join [basedir, unitname, ''ROOTFS''] else ''/'')"

(* src: pkg/mount/mount.go 104-118 UnmountSpecial *)
definition UnmountSpecial :: "string \<Rightarrow> string \<Rightarrow> ('a os_scheme, unit) state" where
  "UnmountSpecial basedir unitname =
     (let rootfs = special_rootfs basedir unitname
      in for_each (\<lambda>m. os_try (Sys_Unmount (filepath_Join [rootfs, Mount_Target m]) MNT_DETACH))
           (rev Mounts))"

(* src: pkg/mount/mount.go 120-139 MountSpecial *)
definition MountSpecial :: "string \<Rightarrow> string \<Rightarrow> ('a os_scheme, error) state" where
  "MountSpecial basedir unitname =
     (let rootfs = special_rootfs basedir unitname
      in for_err (\<lambda>m.
           let target = filepath_Join [rootfs, Mount_Target m]
           in do {
             err \<leftarrow> os_do (Os_MkdirAll target 448);
             case err of
               Some e \<Rightarrow> return (Some e)
             | None \<Rightarrow> do {
                 err \<leftarrow> os_do (Sys_Mount (Mount_Source m) target (Mount_Fs m) (Mount_Flags m)
                                (Mount_Data m));
                 case err of
                   Some e \<Rightarrow> do { UnmountSpecial basedir unitname; return (Some e) }
                 | None \<Rightarrow> return None
               }
           }) Mounts)"

section \<open>Plain mounts\<close>

(* src: pkg/mount/mount.go 141-143 BindMount *)
definition BindMount :: "string \<Rightarrow> string \<Rightarrow> ('a os_scheme, error) state" where
  "BindMount src dst = os_do (Sys_Mount src dst [] (MS_BIND OR MS_REC) [])"

(* src: pkg/mount/mount.go 145-147 Unmount *)
definition Unmount :: "string \<Rightarrow> ('a os_scheme, error) state" where
  "Unmount dir = os_do (Sys_Unmount dir MNT_DETACH)"

(* src: pkg/mount/mount.go 149-151 PivotRoot *)
definition PivotRoot :: "string \<Rightarrow> string \<Rightarrow> ('a os_scheme, error) state" where
  "PivotRoot rootfs oldrootfs = os_do (Sys_PivotRoot rootfs oldrootfs)"

(* src: pkg/mount/mount.go 397-400 ShareMount *)
definition ShareMount :: "string \<Rightarrow> nat \<Rightarrow> ('a os_scheme, error) state" where
  "ShareMount target flags = os_do (Sys_Mount ''none'' target [] flags [])"

(* src: pkg/mount/mount.go 479-489 createTmpfs *)
definition createTmpfs :: "string \<Rightarrow> int \<Rightarrow> ('a os_scheme, error) state" where
  "createTmpfs dir sizeMB =
     os_do (Sys_Mount ''tmpfs'' dir ''tmpfs'' 0 (''size='' @ Itoa sizeMB @ ''m''))"

(* src: pkg/mount/mount.go 491-526 createEmptydir *)
definition createEmptydir :: "string \<Rightarrow> EmptyDir \<Rightarrow> ('a os_scheme, error) state" where
  "createEmptydir dir emptyDir = do {
     err \<leftarrow> os_do (Os_Mkdir dir 493);
     if err \<noteq> None \<and> \<not> IsExist err then return err
     else do {
       err \<leftarrow> os_do (Sys_Mount dir dir [] (MS_BIND OR MS_REC) []);
       if err \<noteq> None then return err
       else do {
         err \<leftarrow> ShareMount dir (MS_SHARED OR MS_REC);
         if err \<noteq> None then return err
         else if EmptyDir_Medium emptyDir = StorageMediumDefault then return None
         else if EmptyDir_Medium emptyDir = StorageMediumMemory
         then createTmpfs dir (EmptyDir_SizeLimit emptyDir)
         else return (Some (Errorf (''Unknown medium '' @ EmptyDir_Medium emptyDir @
                                    '' in createEmptydir()'')))
       }
     }
   }"

section \<open>Volumes\<close>

text \<open>The checks of a host path, by its type; \<open>fallthrough\<close> makes one case end in another.\<close>

(* src: pkg/mount/mount.go 225-235 CreateMount *)
definition check_directory :: "string \<Rightarrow> ('a os_scheme, error) state" where
  "check_directory path = do {
     fi \<leftarrow> os_reply (Os_Stat path);
     return (if reply_err fi \<noteq> None then reply_err fi
             else if \<not> fi_IsDir (reply_info fi)
             then Some (Errorf (path @ '' is not a directory''))
             else None)
   }"

(* src: pkg/mount/mount.go 250-260 CreateMount *)
definition check_file :: "string \<Rightarrow> ('a os_scheme, error) state" where
  "check_file path = do {
     fi \<leftarrow> os_reply (Os_Stat path);
     return (if reply_err fi \<noteq> None then reply_err fi
             else if fi_IsDir (reply_info fi)
             then Some (Errorf (path @ '' is not a file''))
             else None)
   }"

(* src: pkg/mount/mount.go 210-299 CreateMount *)
definition check_hostpath :: "HostPathVolumeSource \<Rightarrow> ('a os_scheme, error) state" where
  "check_hostpath hp =
     (let path = HostPathVolumeSource_Path hp;
          hostPathType = (case HostPathVolumeSource_Type hp of None \<Rightarrow> HostPathUnset | Some t \<Rightarrow> t)
      in if hostPathType = HostPathUnset then return None
      else if hostPathType = HostPathDirectoryOrCreate then do {
        err \<leftarrow> os_do (Os_MkdirAll path 493);
        if err \<noteq> None then return err else check_directory path
      }
      else if hostPathType = HostPathDirectory then check_directory path
      else if hostPathType = HostPathFileOrCreate then do {
        err \<leftarrow> os_do (Os_Stat path);
        if IsNotExist err then do {
          err \<leftarrow> os_do (Os_Create path);
          if err \<noteq> None then return err else check_file path
        }
        else if err \<noteq> None then return err
        else check_file path
      }
      else if hostPathType = HostPathFile then check_file path
      else if hostPathType = HostPathSocket then do {
        fi \<leftarrow> os_reply (Os_Stat path);
        return (if reply_err fi \<noteq> None then reply_err fi
                else if fi_ModeSocket (reply_info fi)
                then Some (Errorf (path @ '' is not a socket'')) else None)
      }
      else if hostPathType = HostPathCharDev then do {
        fi \<leftarrow> os_reply (Os_Stat path);
        return (if reply_err fi \<noteq> None then reply_err fi
                else if fi_ModeCharDevice (reply_info fi)
                then Some (Errorf (path @ '' is not a chardev'')) else None)
      }
      else if hostPathType = HostPathBlockDev then do {
        fi \<leftarrow> os_reply (Os_Stat path);
        return (if reply_err fi \<noteq> None then reply_err fi
                else if fi_ModeDevice (reply_info fi) \<and> \<not> fi_ModeCharDevice (reply_info fi)
                then Some (Errorf (path @ '' is not a blockdev'')) else None)
      }
      else return (Some (Errorf (''invalid HostPath type '' @ hostPathType))))"

text \<open>The three groups of sources \<open>CreateMount\<close> knows.\<close>

definition is_package :: "VolumeSource \<Rightarrow> bool" where
  "is_package vs \<longleftrightarrow> VolumeSource_PackagePath vs \<noteq> None \<or> VolumeSource_Secret vs \<noteq> None \<or>
     VolumeSource_ConfigMap vs \<noteq> None \<or> VolumeSource_Projected vs \<noteq> None"

definition err_multiple :: error where
  "err_multiple = Some (Errorf ''multiple volumes are specified'')"

definition err_no_volume :: error where
  "err_no_volume = Some (Errorf ''no volume specified'')"

(* src: pkg/mount/mount.go 177-202 CreateMount *)
definition create_package_link :: "string \<Rightarrow> string \<Rightarrow> Volume \<Rightarrow> ('a os_scheme, error) state" where
  "create_package_link basedir mountpath volume =
     (let packagepath = filepath_Join [basedir, ''..'', ''packages'', Volume_Name volume];
          packagepath = (case VolumeSource_PackagePath (Volume_VolumeSource volume) of
                           None \<Rightarrow> packagepath
                         | Some p \<Rightarrow> filepath_Join [packagepath, PackagePath_Path p])
      in do {
        err \<leftarrow> os_do (Os_Stat packagepath);
        if err \<noteq> None then return err else os_do (Os_Symlink packagepath mountpath)
      })"

(* src: pkg/mount/mount.go 203-305 CreateMount *)
definition create_hostpath_link ::
  "string \<Rightarrow> HostPathVolumeSource \<Rightarrow> ('a os_scheme, error) state" where
  "create_hostpath_link mountpath hp = do {
     err \<leftarrow> check_hostpath hp;
     if err \<noteq> None then return err
     else os_do (Os_Symlink (HostPathVolumeSource_Path hp) mountpath)
   }"

(* src: pkg/mount/mount.go 153-312 CreateMount *)
definition CreateMount :: "string \<Rightarrow> Volume \<Rightarrow> ('a os_scheme, error) state" where
  "CreateMount basedir volume =
     (let mountsdir = filepath_Join [basedir, ''../mounts''];
          mountpath = filepath_Join [mountsdir, Volume_Name volume];
          vs = Volume_VolumeSource volume;
          found = (VolumeSource_EmptyDir vs \<noteq> None)
      in do {
        err \<leftarrow> os_do (Os_MkdirAll mountsdir 448);
        if err \<noteq> None then return err else do {
        err \<leftarrow> os_do (Os_Stat mountpath);
        if err \<noteq> None \<and> \<not> IsNotExist err then return err else do {
        err \<leftarrow> (case VolumeSource_EmptyDir vs of
                  Some ed \<Rightarrow> createEmptydir mountpath ed
                | None \<Rightarrow> return None);
        if err \<noteq> None then return err else do {
        err \<leftarrow> (if is_package vs
                then (if found then return err_multiple
                      else create_package_link basedir mountpath volume)
                else return None);
        if err \<noteq> None then return err else do {
        err \<leftarrow> (case VolumeSource_HostPath vs of
                  Some hp \<Rightarrow> if found \<or> is_package vs then return err_multiple
                             else create_hostpath_link mountpath hp
                | None \<Rightarrow> return None);
        if err \<noteq> None then return err
        else if \<not> found \<and> \<not> is_package vs \<and> VolumeSource_HostPath vs = None
        then return err_no_volume
        else return None
        }}}}
      })"

(* src: pkg/mount/mount.go 314-361 DeleteMount *)
definition DeleteMount :: "string \<Rightarrow> Volume \<Rightarrow> ('a os_scheme, error) state" where
  "DeleteMount basedir volume =
     (let mountpath = filepath_Join [basedir, ''..'', ''mounts'', Volume_Name volume];
          vs = Volume_VolumeSource volume;
          found = (VolumeSource_EmptyDir vs \<noteq> None)
      in do {
        os_try (Os_Stat mountpath);
        err \<leftarrow> (case VolumeSource_EmptyDir vs of
                  None \<Rightarrow> return None
                | Some ed \<Rightarrow>
                    if EmptyDir_Medium ed = StorageMediumDefault then os_do (Os_RemoveAll mountpath)
                    else if EmptyDir_Medium ed = StorageMediumMemory
                    then os_do (Sys_Unmount mountpath MNT_DETACH)
                    else return None);
        if err \<noteq> None then return err
        else if is_package vs \<or> VolumeSource_HostPath vs \<noteq> None then
          (if found then return (Some (Errorf ''Multiple volumes are specified''))
           else os_do (Os_RemoveAll mountpath))
        else if \<not> found then return (Some (Errorf ''No volume specified''))
        else return None
      })"

section \<open>Attaching\<close>

text \<open>
  \<open>resolve_loop n base target done todo path\<close> is the loop at the components \<open>todo\<close>, those before being
  \<open>done\<close> and \<open>path\<close> the last path checked; \<open>n\<close> is the number of absolute links still followed.
\<close>

(* src: pkg/mount/mount.go 363-395 resolveLinks *)
fun resolve_loop ::
  "nat \<Rightarrow> string \<Rightarrow> string \<Rightarrow> string list \<Rightarrow> string list \<Rightarrow> string \<Rightarrow>
   ('a os_scheme, (string \<times> error) option) state" where
  "resolve_loop n base target before [] path = return (Some (path, None))"
| "resolve_loop n base target before (c # todo) path =
     (let before = before @ [c];
          path = filepath_Join [base, filepath_Join before]
      in do {
        fi \<leftarrow> os_reply (Os_Lstat path);
        if reply_err fi \<noteq> None then
          (if IsNotExist (reply_err fi) then return (Some (filepath_Join [base, target], None))
           else return (Some ([], reply_err fi)))
        else if \<not> fi_ModeSymlink (reply_info fi) then resolve_loop n base target before todo path
        else do {
          rl \<leftarrow> os_reply (Os_Readlink path);
          let dst = reply_data rl in
          if reply_err rl \<noteq> None then return (Some ([], reply_err rl))
          else if HasPrefix dst ''/'' then
            (case n of
               0 \<Rightarrow> return None
             | Suc m \<Rightarrow>
                 let target = filepath_Join todo in
                 resolve_loop m (filepath_Join [base, dst]) target []
                   (split_on (CHR ''/'') target) [])
          else resolve_loop n base target before todo path
        }
      })"

(* src: pkg/mount/mount.go 363-395 resolveLinks *)
definition resolveLinks ::
  "nat \<Rightarrow> string \<Rightarrow> string \<Rightarrow> ('a os_scheme, (string \<times> error) option) state" where
  "resolveLinks n base target = resolve_loop n base target [] (split_on (CHR ''/'') target) []"

text \<open>What \<open>AttachMount\<close> does once the target is known.\<close>

(* src: pkg/mount/mount.go 414-461 AttachMount *)
definition attach_resolved ::
  "string \<Rightarrow> string \<Rightarrow> string \<Rightarrow> string \<Rightarrow> ('a os_scheme, error) state" where
  "attach_resolved base source target dst = do {
     fi \<leftarrow> os_reply (Os_Stat source);
     if reply_err fi \<noteq> None then return (reply_err fi)
     else
       let dir = (if fi_IsDir (reply_info fi) then filepath_Clean target
                  else filepath_Clean (filepath_Join [target, ''..'']))
       in if \<not> HasPrefix dir base
       then return (Some (Errorf (''Invalid mount target '' @ dst @ '' ('' @ dir @ '' is not in '' @
                                  base @ '')'')))
       else do {
         err \<leftarrow> os_do (Os_MkdirAll dir 493);
         if err \<noteq> None then return err
         else do {
           err \<leftarrow> (if dir \<noteq> target then os_do (Os_Create target) else return None);
           if err \<noteq> None then return err
           else do {
             err \<leftarrow> os_do (Sys_Mount source target [] (MS_BIND OR MS_REC) []);
             if err \<noteq> None then return err
             else ShareMount target (MS_SHARED OR MS_REC)
           }
         }
       }
   }"

(* src: pkg/mount/mount.go 402-462 AttachMount *)
definition AttachMount ::
  "nat \<Rightarrow> string \<Rightarrow> string \<Rightarrow> string \<Rightarrow> string \<Rightarrow> ('a os_scheme, error option) state" where
  "AttachMount n basedir unit src dst =
     (let source = filepath_Join [basedir, ''../mounts'', src];
          base = filepath_Join [basedir, unit, ''ROOTFS'']
      in do {
        r \<leftarrow> resolveLinks n base dst;
        case r of
          None \<Rightarrow> return None
        | Some (target, err) \<Rightarrow>
            if err \<noteq> None then return (Some err)
            else do { err \<leftarrow> attach_resolved base source target dst; return (Some err) }
      })"

(* src: pkg/mount/mount.go 464-477 DetachMount *)
definition DetachMount ::
  "nat \<Rightarrow> string \<Rightarrow> string \<Rightarrow> string \<Rightarrow> ('a os_scheme, error option) state" where
  "DetachMount n basedir unit dst =
     (let base = filepath_Join [basedir, unit, ''ROOTFS'']
      in do {
        r \<leftarrow> resolveLinks n base dst;
        case r of
          None \<Rightarrow> return None
        | Some (target, err) \<Rightarrow>
            if err \<noteq> None then return (Some err)
            else do { err \<leftarrow> os_do (Sys_Unmount target MNT_DETACH); return (Some err) }
      })"

section \<open>Properties\<close>

text \<open>The special mounts one by one: the calls of the first mounts, and of taking all of them down.\<close>

definition special_target :: "string \<Rightarrow> string \<Rightarrow> Mount \<Rightarrow> string" where
  "special_target b u m = filepath_Join [special_rootfs b u, Mount_Target m]"

definition mount_calls :: "string \<Rightarrow> string \<Rightarrow> Mount list \<Rightarrow> os_call list" where
  "mount_calls b u ms = concat (map (\<lambda>m.
     [Os_MkdirAll (special_target b u m) 448,
      Sys_Mount (Mount_Source m) (special_target b u m) (Mount_Fs m) (Mount_Flags m) (Mount_Data m)])
     ms)"

definition unmount_calls :: "string \<Rightarrow> string \<Rightarrow> os_call list" where
  "unmount_calls b u = map (\<lambda>m. Sys_Unmount (special_target b u m) MNT_DETACH) (rev Mounts)"

lemma for_each_os_try:
  "final (for_each (\<lambda>x. os_try (f x)) xs) w = w\<lparr>os_trace := os_trace w @ map f xs\<rparr>"
  by (induction xs arbitrary: w) simp_all

lemma final_UnmountSpecial:
  "final (UnmountSpecial b u) w = w\<lparr>os_trace := os_trace w @ unmount_calls b u\<rparr>"
  by (simp add: UnmountSpecial_def Let_def for_each_os_try unmount_calls_def special_target_def)

definition mount_one :: "string \<Rightarrow> string \<Rightarrow> Mount \<Rightarrow> ('a os_scheme, error) state" where
  "mount_one b u m = do {
     err \<leftarrow> os_do (Os_MkdirAll (special_target b u m) 448);
     case err of
       Some e \<Rightarrow> return (Some e)
     | None \<Rightarrow> do {
         err \<leftarrow> os_do (Sys_Mount (Mount_Source m) (special_target b u m) (Mount_Fs m) (Mount_Flags m)
                        (Mount_Data m));
         case err of
           Some e \<Rightarrow> do { UnmountSpecial b u; return (Some e) }
         | None \<Rightarrow> return None
       }
   }"

lemma MountSpecial_mount_one: "MountSpecial b u = for_err (mount_one b u) Mounts"
  by (simp add: MountSpecial_def mount_one_def [abs_def] special_target_def Let_def)

lemma mount_one_cases:
  "(result (mount_one b u m) w = None \<and>
      final (mount_one b u m) w = w\<lparr>os_trace := os_trace w @ mount_calls b u [m]\<rparr>) \<or>
   (result (mount_one b u m) w \<noteq> None \<and>
      (final (mount_one b u m) w =
         w\<lparr>os_trace := os_trace w @ [Os_MkdirAll (special_target b u m) 448]\<rparr> \<or>
       final (mount_one b u m) w =
         w\<lparr>os_trace := os_trace w @ mount_calls b u [m] @ unmount_calls b u\<rparr>))"
  by (simp add: mount_one_def mount_calls_def final_UnmountSpecial split: option.splits)

lemma for_err_mount_one:
  "(result (for_err (mount_one b u) ms) w = None \<and>
      final (for_err (mount_one b u) ms) w = w\<lparr>os_trace := os_trace w @ mount_calls b u ms\<rparr>) \<or>
   (result (for_err (mount_one b u) ms) w \<noteq> None \<and>
      (\<exists>k < length ms. \<exists>cs. final (for_err (mount_one b u) ms) w =
          w\<lparr>os_trace := os_trace w @ mount_calls b u (take k ms) @ cs\<rparr> \<and>
        (cs = [Os_MkdirAll (special_target b u (ms ! k)) 448] \<or>
         cs = mount_calls b u [ms ! k] @ unmount_calls b u)))"
proof (induction ms arbitrary: w)
  case Nil
  then show ?case by (simp add: mount_calls_def)
next
  case (Cons m ms)
  consider (ok) "result (mount_one b u m) w = None"
      "final (mount_one b u m) w = w\<lparr>os_trace := os_trace w @ mount_calls b u [m]\<rparr>"
    | (bad) cs where "result (mount_one b u m) w \<noteq> None"
      "final (mount_one b u m) w = w\<lparr>os_trace := os_trace w @ cs\<rparr>"
      "cs = [Os_MkdirAll (special_target b u m) 448] \<or> cs = mount_calls b u [m] @ unmount_calls b u"
    using mount_one_cases [of b u m w] by (elim disjE conjE) simp_all
  then show ?case
  proof cases
    case ok
    show ?thesis
    proof (cases "result (for_err (mount_one b u) ms) (final (mount_one b u m) w) = None")
      case True
      then show ?thesis
        using ok Cons.IH [of "final (mount_one b u m) w"] by (simp add: mount_calls_def)
    next
      case False
      then obtain k cs where
        cs: "cs = [Os_MkdirAll (special_target b u (ms ! k)) 448] \<or>
           cs = mount_calls b u [ms ! k] @ unmount_calls b u"
        and k: "k < length ms"
          "result (for_err (mount_one b u) ms) (final (mount_one b u m) w) \<noteq> None"
        and fin: "final (for_err (mount_one b u) ms) (final (mount_one b u m) w) =
          (final (mount_one b u m) w)
            \<lparr>os_trace := os_trace (final (mount_one b u m) w) @ mount_calls b u (take k ms) @ cs\<rparr>"
        using Cons.IH [of "final (mount_one b u m) w"] by (elim disjE conjE exE) (simp, blast, blast)
      then have step: "result (for_err (mount_one b u) (m # ms)) w \<noteq> None"
          "final (for_err (mount_one b u) (m # ms)) w =
           w\<lparr>os_trace := os_trace w @ mount_calls b u (take (Suc k) (m # ms)) @ cs\<rparr>"
        using ok by (simp_all add: mount_calls_def)
      show ?thesis
        apply (rule disjI2, rule conjI, rule step, rule exI [where x = "Suc k"], rule conjI)
         apply (simp add: k)
        apply (rule exI [where x = cs], rule conjI, rule step)
        using cs by simp
    qed
  next
    case bad
    then have step: "result (for_err (mount_one b u) (m # ms)) w \<noteq> None"
        "final (for_err (mount_one b u) (m # ms)) w =
         w\<lparr>os_trace := os_trace w @ mount_calls b u (take 0 (m # ms)) @ cs\<rparr>"
      by (auto simp: mount_calls_def)
    show ?thesis
      apply (rule disjI2, rule conjI, rule step, rule exI [where x = 0], rule conjI, simp)
      apply (rule exI [where x = cs], rule conjI, rule step)
      using bad(3) by simp
  qed
qed

text \<open>A host path that passes its check, by type.\<close>

lemma check_hostpath_special:
  assumes "HostPathVolumeSource_Type hp = Some t"
    and "r = os_env w (os_trace w) (Os_Stat (HostPathVolumeSource_Path hp))"
  shows "t = HostPathSocket \<Longrightarrow> result (check_hostpath hp) w = None \<longleftrightarrow>
           reply_err r = None \<and> \<not> fi_ModeSocket (reply_info r)"
    and "t = HostPathCharDev \<Longrightarrow> result (check_hostpath hp) w = None \<longleftrightarrow>
           reply_err r = None \<and> \<not> fi_ModeCharDevice (reply_info r)"
    and "t = HostPathBlockDev \<Longrightarrow> result (check_hostpath hp) w = None \<longleftrightarrow>
           reply_err r = None \<and> \<not> (fi_ModeDevice (reply_info r) \<and> \<not> fi_ModeCharDevice (reply_info r))"
    and "t = HostPathDirectory \<Longrightarrow> result (check_hostpath hp) w = None \<longleftrightarrow>
           reply_err r = None \<and> fi_IsDir (reply_info r)"
    and "t = HostPathFile \<Longrightarrow> result (check_hostpath hp) w = None \<longleftrightarrow>
           reply_err r = None \<and> \<not> fi_IsDir (reply_info r)"
  using assms by (auto simp: check_hostpath_def check_directory_def check_file_def Let_def)

definition source_groups :: "VolumeSource \<Rightarrow> nat" where
  "source_groups vs = (if VolumeSource_EmptyDir vs \<noteq> None then 1 else 0) +
     (if is_package vs then 1 else 0) + (if VolumeSource_HostPath vs \<noteq> None then 1 else 0)"

lemma CreateMount_ok_groups:
  "result (CreateMount b v) w = None \<Longrightarrow> source_groups (Volume_VolumeSource v) = 1"
  by (simp add: CreateMount_def Let_def source_groups_def err_multiple_def err_no_volume_def
      split: if_splits option.splits)

lemma DeleteMount_ok_groups:
  "result (DeleteMount b v) w = None \<Longrightarrow>
   (VolumeSource_EmptyDir (Volume_VolumeSource v) \<noteq> None) \<noteq>
   (is_package (Volume_VolumeSource v) \<or> VolumeSource_HostPath (Volume_VolumeSource v) \<noteq> None)"
  by (simp add: DeleteMount_def Let_def split: if_splits option.splits)

text \<open>Resolving only looks; attaching creates and mounts only below a directory with the prefix.\<close>

fun looks :: "os_call \<Rightarrow> bool" where
  "looks (Os_Lstat p) = True"
| "looks (Os_Readlink p) = True"
| "looks (Os_Stat p) = True"
| "looks c = False"

lemma resolve_loop_looks: "calls_within looks (resolve_loop n base target bef todo path)"
proof (induction n base target bef todo path rule: resolve_loop.induct)
  case (1 n base target bef path)
  then show ?case by (simp add: calls_intros)
next
  case (2 n base target bef c todo path)
  show ?case
    unfolding resolve_loop.simps by (intro calls_intros) (simp_all add: "2.IH")
qed

lemma resolveLinks_looks: "calls_within looks (resolveLinks n base target)"
  by (simp add: resolveLinks_def resolve_loop_looks)

text \<open>
  \<open>below base c\<close>: a call that creates or mounts does it at a directory with the prefix \<open>base\<close>, or at
  an entry of such a directory.
\<close>

definition target_below :: "string \<Rightarrow> string \<Rightarrow> bool" where
  "target_below base t \<longleftrightarrow>
     HasPrefix (filepath_Clean t) base \<or> HasPrefix (filepath_Clean (filepath_Join [t, ''..''])) base"

fun below :: "string \<Rightarrow> os_call \<Rightarrow> bool" where
  "below base (Os_MkdirAll d m) \<longleftrightarrow> HasPrefix d base"
| "below base (Os_Create p) \<longleftrightarrow> target_below base p"
| "below base (Sys_Mount s t fs f d) \<longleftrightarrow> target_below base t"
| "below base c \<longleftrightarrow> looks c"

lemma looks_below: "looks c \<Longrightarrow> below base c"
  by (cases c) simp_all

lemma attach_resolved_below: "calls_within (below base) (attach_resolved base source target dst)"
  unfolding attach_resolved_def ShareMount_def
  by (intro calls_intros) (auto simp: target_below_def split: if_splits)

lemma AttachMount_calls:
  "calls_within (below (filepath_Join [basedir, unit, ''ROOTFS''])) (AttachMount n basedir unit src dst)"
  unfolding AttachMount_def Let_def
  by (intro calls_intros attach_resolved_below calls_within_mono [OF resolveLinks_looks] looks_below)

end
