(* ===== verification/Users.thy ===== *)
theory Users
  imports Itzo_Prelude "HOL-Library.Word"
begin

text \<open>
  Users and groups: \<open>pkg/util/user.go\<close> (the lookup interface, the host's implementation and
  \<open>LookupUser\<close>), \<open>pkg/util/pwduser.go\<close> (lookups in a unit's own passwd and group files) and
  \<open>pkg/util/fake_user.go\<close>.  A lookup returns a pointer and an error, either of which may be nil.
  The parsed passwd and group files, and the host's user database, are parameters.
\<close>

section \<open>The lookup interface\<close>

text \<open>The fields of \<open>os/user\<close>'s structs that itzo reads or writes.\<close>

record User =
  User_Uid :: string
  User_Gid :: string
  User_Username :: string
  User_HomeDir :: string

record Group =
  Group_Gid :: string
  Group_Name :: string

definition zero_User :: User where
  "zero_User = \<lparr>User_Uid = [], User_Gid = [], User_Username = [], User_HomeDir = []\<rparr>"

definition zero_Group :: Group where
  "zero_Group = \<lparr>Group_Gid = [], Group_Name = []\<rparr>"

(* src: pkg/util/user.go 28-33 UserLookup *)
record UserLookup =
  Lookup :: "string \<Rightarrow> User option \<times> error"
  LookupId :: "string \<Rightarrow> User option \<times> error"
  LookupGroup :: "string \<Rightarrow> Group option \<times> error"
  LookupGroupId :: "string \<Rightarrow> Group option \<times> error"

section \<open>OsUserLookup\<close>

text \<open>\<open>host\<close> is the package \<open>os/user\<close> over the host's database.\<close>

definition numeric_id :: "string \<Rightarrow> string \<Rightarrow> go_error + int" where
  "numeric_id what s =
     (case ParseInt 32 s of
        Inl err \<Rightarrow> Inl err
      | Inr i \<Rightarrow> if i < 0 then Inl (Errorf (''Invalid '' @ what @ '' ID '' @ s)) else Inr i)"

(* src: pkg/util/user.go 45-69 LookupId *)
definition os_LookupId :: "UserLookup \<Rightarrow> string \<Rightarrow> User option \<times> error" where
  "os_LookupId host username =
     (case LookupId host username of
        (usr, None) \<Rightarrow> (usr, None)
      | (usr, Some e) \<Rightarrow>
          (case numeric_id ''user'' username of
             Inl err \<Rightarrow> (None, Some err)
           | Inr i \<Rightarrow>
               let homedir = (if username = ''0'' then ''/root'' else ''/'')
               in (Some \<lparr>User_Uid = username, User_Gid = username, User_Username = username,
                        User_HomeDir = homedir\<rparr>, None)))"

(* src: pkg/util/user.go 71-88 LookupGroupId *)
definition os_LookupGroupId :: "UserLookup \<Rightarrow> string \<Rightarrow> Group option \<times> error" where
  "os_LookupGroupId host name =
     (case LookupGroupId host name of
        (grp, None) \<Rightarrow> (grp, None)
      | (grp, Some e) \<Rightarrow>
          (case numeric_id ''group'' name of
             Inl err \<Rightarrow> (None, Some err)
           | Inr i \<Rightarrow> (Some (zero_Group\<lparr>Group_Gid := name\<rparr>), None)))"

(* src: pkg/util/user.go 35-43 OsUserLookup *)
definition OsUserLookup :: "UserLookup \<Rightarrow> UserLookup" where
  "OsUserLookup host =
     \<lparr>Lookup = Lookup host, LookupId = os_LookupId host,
      LookupGroup = LookupGroup host, LookupGroupId = os_LookupGroupId host\<rparr>"

section \<open>LookupUser\<close>

text \<open>
  The group part is looked up as an id and then as a name; a group that neither finds leaves the
  user's own group.  A lookup that returns no user and no error would be dereferenced: \<open>Panic\<close>.
\<close>

definition spec_group :: "UserLookup \<Rightarrow> string \<Rightarrow> string" where
  "spec_group lookup groupName =
     (case LookupGroupId lookup groupName of
        (grp, None) \<Rightarrow> (case grp of None \<Rightarrow> [] | Some g \<Rightarrow> Group_Gid g)
      | (_, Some _) \<Rightarrow>
          (case fst (LookupGroup lookup groupName) of None \<Rightarrow> [] | Some g \<Rightarrow> Group_Gid g))"

(* src: pkg/util/user.go 90-141 LookupUser *)
definition LookupUser ::
  "string \<Rightarrow> UserLookup \<Rightarrow> (go_error + nat \<times> nat \<times> string) outcome" where
  "LookupUser userspec lookup =
     (let (userName, gidStr) =
        (if CHR '':'' \<in> set userspec
         then (let parts = SplitN2 userspec (CHR '':'')
               in (parts ! 0, spec_group lookup (parts ! 1)))
         else (userspec, []));
          (usr, err) = (case LookupId lookup userName of
                          (u, None) \<Rightarrow> (u, None)
                        | (_, Some _) \<Rightarrow> Lookup lookup userName)
      in case err of
           Some e \<Rightarrow> Ret (Inl e)
         | None \<Rightarrow>
             (case usr of
                None \<Rightarrow> Panic
              | Some u \<Rightarrow>
                  (case Atoi (User_Uid u) of
                     Inl e \<Rightarrow>
                       Ret (Inl (Errorf (''Failed to parse user id '' @ User_Uid u @ '': '' @ Error e)))
                   | Inr uid \<Rightarrow>
                       let gidStr = (if gidStr = []
                                     then (if User_Gid u = [] then ''0'' else User_Gid u)
                                     else gidStr)
                       in case Atoi gidStr of
                            Inl e \<Rightarrow>
                              Ret (Inl (Errorf (''Failed to parse group id '' @ gidStr @ '' '' @ Error e)))
                          | Inr gid \<Rightarrow> Ret (Inr (uint32 uid, uint32 gid, User_HomeDir u)))))"

text \<open>
  What \<open>LookupUser\<close> needs of a database: an entry it returns has numeric ids (or, for the group
  of a user, none), and no lookup answers with neither an entry nor an error.
\<close>

definition numeric :: "string \<Rightarrow> bool" where
  "numeric s \<longleftrightarrow> (\<exists>i. Atoi s = Inr i)"

lemma numeric_zero: "numeric ''0''"
  by (simp add: numeric_def Atoi_def ParseInt_def is_digit_def digits_val_def Let_def)

locale user_database =
  fixes db :: UserLookup
  assumes id_total: "LookupId db s = (uo, None) \<Longrightarrow> uo \<noteq> None"
    and name_total: "Lookup db s = (uo, None) \<Longrightarrow> uo \<noteq> None"
    and id_numeric: "LookupId db s = (Some u, None) \<Longrightarrow>
        numeric (User_Uid u) \<and> (User_Gid u = [] \<or> numeric (User_Gid u))"
    and name_numeric: "Lookup db s = (Some u, None) \<Longrightarrow>
        numeric (User_Uid u) \<and> (User_Gid u = [] \<or> numeric (User_Gid u))"
    and gid_numeric: "LookupGroupId db s = (Some g, None) \<Longrightarrow> Group_Gid g = [] \<or> numeric (Group_Gid g)"
    and group_numeric: "fst (LookupGroup db s) = Some g \<Longrightarrow> Group_Gid g = [] \<or> numeric (Group_Gid g)"
begin

lemma spec_group_numeric: "spec_group db s = [] \<or> numeric (spec_group db s)"
  using gid_numeric [of s] group_numeric [of s]
  by (auto simp: spec_group_def split: prod.splits option.splits)

lemma LookupUser_total:
  "\<exists>r. LookupUser spec db = Ret r \<and>
     (\<forall>e. r = Inl e \<longrightarrow> (\<exists>s. snd (LookupId db s) \<noteq> None \<and> snd (Lookup db s) = Some e))"
proof -
  define name where "name = (if CHR '':'' \<in> set spec then SplitN2 spec (CHR '':'') ! 0 else spec)"
  define grp where
    "grp = (if CHR '':'' \<in> set spec then spec_group db (SplitN2 spec (CHR '':'') ! 1) else [])"
  define look where "look = (case LookupId db name of
      (u, None) \<Rightarrow> (u, None) | (_, Some _) \<Rightarrow> Lookup db name)"
  have pair: "(if CHR '':'' \<in> set spec
         then (let parts = SplitN2 spec (CHR '':'') in (parts ! 0, spec_group db (parts ! 1)))
         else (spec, [])) = (name, grp)"
    by (simp add: name_def grp_def Let_def)
  have grp: "grp = [] \<or> numeric grp"
    using spec_group_numeric by (simp add: grp_def)
  have zero: "numeric ''0''" by (simp add: numeric_zero)
  obtain usr err where look: "look = (usr, err)" by (cases look)
  show ?thesis
  proof (cases err)
    case (Some e)
    with look have "snd (LookupId db name) \<noteq> None" "snd (Lookup db name) = Some e"
      by (auto simp: look_def split: prod.splits option.splits)
    moreover have "LookupUser spec db = Ret (Inl e)"
      unfolding LookupUser_def pair using look Some by (simp add: look_def)
    ultimately show ?thesis by blast
  next
    case None
    with look have "usr \<noteq> None"
      using id_total name_total by (auto simp: look_def split: prod.splits option.splits)
    then obtain u where u: "usr = Some u" by blast
    with look None have num: "numeric (User_Uid u)" "User_Gid u = [] \<or> numeric (User_Gid u)"
      using id_numeric [of name u] name_numeric [of name u]
      by (auto simp: look_def split: prod.splits option.splits)
    define g where "g = (if grp = [] then (if User_Gid u = [] then ''0'' else User_Gid u) else grp)"
    have "numeric g" using num(2) grp zero by (auto simp: g_def)
    then obtain i j where "Atoi (User_Uid u) = Inr i" "Atoi g = Inr j"
      using num(1) by (auto simp: numeric_def)
    then have "LookupUser spec db = Ret (Inr (uint32 i, uint32 j, User_HomeDir u))"
      unfolding LookupUser_def pair using look None u by (simp add: look_def g_def)
    then show ?thesis by blast
  qed
qed

end

section \<open>PasswdUserLookup\<close>

text \<open>Entries of the parsed files; a Go \<open>int\<close> has 64 bits.\<close>

record pwd_User =
  pwd_User_Name :: string
  pwd_User_Uid :: "64 word"
  pwd_User_Gid :: "64 word"
  pwd_User_Home :: string

record pwd_Group =
  pwd_Group_Name :: string
  pwd_Group_Gid :: "64 word"

(* src: pkg/util/pwduser.go 27-33 PasswdUserLookup *)
record PasswdUserLookup =
  pul_RootFs :: string
  pul_users :: "string \<rightharpoonup> pwd_User"
  pul_uids :: "64 word \<rightharpoonup> pwd_User"
  pul_groups :: "string \<rightharpoonup> pwd_Group"
  pul_gids :: "64 word \<rightharpoonup> pwd_Group"

text \<open>\<open>parse_passwd\<close> and \<open>parse_group\<close> are the results of parsing the two files under \<open>path\<close>.\<close>

(* src: pkg/util/pwduser.go 35-64 NewPasswdUserLookup *)
definition NewPasswdUserLookup ::
  "string \<Rightarrow> (string \<Rightarrow> go_error + pwd_User list) \<Rightarrow> (string \<Rightarrow> go_error + pwd_Group list) \<Rightarrow>
   go_error + PasswdUserLookup" where
  "NewPasswdUserLookup path parse_passwd parse_group =
     (case parse_passwd (path @ ''/etc/passwd'') of
        Inl err \<Rightarrow> Inl err
      | Inr users \<Rightarrow>
          (case parse_group (path @ ''/etc/group'') of
             Inl err \<Rightarrow> Inl err
           | Inr groups \<Rightarrow>
               Inr \<lparr>pul_RootFs = path,
                    pul_users = foldl (\<lambda>m u. m(pwd_User_Name u \<mapsto> u)) Map.empty users,
                    pul_uids = foldl (\<lambda>m u. m(pwd_User_Uid u \<mapsto> u)) Map.empty users,
                    pul_groups = foldl (\<lambda>m g. m(pwd_Group_Name g \<mapsto> g)) Map.empty groups,
                    pul_gids = foldl (\<lambda>m g. m(pwd_Group_Gid g \<mapsto> g)) Map.empty groups\<rparr>))"

(* src: pkg/util/pwduser.go 66-78 Lookup *)
definition pul_Lookup :: "PasswdUserLookup \<Rightarrow> string \<Rightarrow> User option \<times> error" where
  "pul_Lookup l username =
     (case pul_users l username of
        None \<Rightarrow> (None, Some (Errorf (''No such user '' @ username @ '' in '' @ pul_RootFs l)))
      | Some entry \<Rightarrow>
          (Some \<lparr>User_Uid = Itoa (sint (pwd_User_Uid entry)), User_Gid = Itoa (sint (pwd_User_Gid entry)),
                 User_Username = pwd_User_Name entry, User_HomeDir = pwd_User_Home entry\<rparr>, None))"

(* src: pkg/util/pwduser.go 80-100 LookupId *)
definition pul_LookupId :: "PasswdUserLookup \<Rightarrow> string \<Rightarrow> User option \<times> error" where
  "pul_LookupId l username =
     (case numeric_id ''user'' username of
        Inl err \<Rightarrow> (None, Some err)
      | Inr i \<Rightarrow>
          (case pul_uids l (word_of_int i) of
             None \<Rightarrow> (Some (zero_User\<lparr>User_Uid := Itoa i\<rparr>), None)
           | Some entry \<Rightarrow>
               (Some \<lparr>User_Uid = Itoa (sint (pwd_User_Uid entry)),
                      User_Gid = Itoa (sint (pwd_User_Gid entry)),
                      User_Username = pwd_User_Name entry, User_HomeDir = pwd_User_Home entry\<rparr>, None)))"

(* src: pkg/util/pwduser.go 102-112 LookupGroup *)
definition pul_LookupGroup :: "PasswdUserLookup \<Rightarrow> string \<Rightarrow> Group option \<times> error" where
  "pul_LookupGroup l name =
     (case pul_groups l name of
        None \<Rightarrow> (None, Some (Errorf (''No such group '' @ name @ '' in '' @ pul_RootFs l)))
      | Some entry \<Rightarrow>
          (Some \<lparr>Group_Gid = Itoa (sint (pwd_Group_Gid entry)), Group_Name = pwd_Group_Name entry\<rparr>, None))"

text \<open>The source reads \<open>l.uids\<close> here, not \<open>l.gids\<close>.\<close>

(* src: pkg/util/pwduser.go 114-132 LookupGroupId *)
definition pul_LookupGroupId :: "PasswdUserLookup \<Rightarrow> string \<Rightarrow> Group option \<times> error" where
  "pul_LookupGroupId l name =
     (case numeric_id ''group'' name of
        Inl err \<Rightarrow> (None, Some err)
      | Inr i \<Rightarrow>
          (case pul_uids l (word_of_int i) of
             None \<Rightarrow> (Some (zero_Group\<lparr>Group_Gid := Itoa i\<rparr>), None)
           | Some entry \<Rightarrow>
               (Some \<lparr>Group_Gid = Itoa (sint (pwd_User_Gid entry)), Group_Name = pwd_User_Name entry\<rparr>,
                None)))"

definition passwd_lookup :: "PasswdUserLookup \<Rightarrow> UserLookup" where
  "passwd_lookup l =
     \<lparr>Lookup = pul_Lookup l, LookupId = pul_LookupId l,
      LookupGroup = pul_LookupGroup l, LookupGroupId = pul_LookupGroupId l\<rparr>"

lemma numeric_sint [simp]: "numeric (Itoa (sint (w :: 64 word)))"
proof -
  have "- 9223372036854775808 \<le> sint w" "sint w < 9223372036854775808"
    using sint_greater_eq [of w] sint_less [of w] by simp_all
  then show ?thesis unfolding numeric_def using Atoi_Itoa by blast
qed

lemma numeric_id_range: "numeric_id w s = Inr i \<Longrightarrow> 0 \<le> i \<and> i < 2147483648"
  by (auto simp: numeric_id_def ParseInt_def Let_def split: sum.splits if_splits)

lemma numeric_id_numeric: "numeric_id w s = Inr i \<Longrightarrow> numeric (Itoa i)"
  using numeric_id_range [of w s i] Atoi_Itoa [of i] by (auto simp: numeric_def)

interpretation pwd: user_database "passwd_lookup l"
  by unfold_locales
    (auto simp: passwd_lookup_def pul_Lookup_def pul_LookupId_def pul_LookupGroup_def
       pul_LookupGroupId_def zero_User_def zero_Group_def
       dest: numeric_id_numeric split: option.splits sum.splits)

section \<open>FakeUserLookup\<close>

(* src: pkg/util/fake_user.go 24-31 FakeUserLookup *)
record FakeUserLookup =
  ful_Uid :: "32 word"
  ful_UidGid :: "32 word"
  ful_UidErr :: error
  ful_Gid :: "32 word"
  ful_GidErr :: error
  ful_Homedir :: string

(* src: pkg/util/fake_user.go 33-38 Lookup *)
definition ful_Lookup :: "FakeUserLookup \<Rightarrow> string \<Rightarrow> User option \<times> error" where
  "ful_Lookup ful username =
     (Some (zero_User\<lparr>User_Uid := Itoa (uint (ful_Uid ful)), User_Gid := Itoa (uint (ful_UidGid ful))\<rparr>),
      ful_UidErr ful)"

(* src: pkg/util/fake_user.go 40-45 LookupId *)
definition ful_LookupId :: "FakeUserLookup \<Rightarrow> string \<Rightarrow> User option \<times> error" where
  "ful_LookupId ful username =
     (Some (zero_User\<lparr>User_Uid := Itoa (uint (ful_Uid ful)), User_Gid := Itoa (uint (ful_UidGid ful))\<rparr>),
      ful_UidErr ful)"

(* src: pkg/util/fake_user.go 47-51 LookupGroup *)
definition ful_LookupGroup :: "FakeUserLookup \<Rightarrow> string \<Rightarrow> Group option \<times> error" where
  "ful_LookupGroup ful name =
     (Some (zero_Group\<lparr>Group_Gid := Itoa (uint (ful_Gid ful))\<rparr>), ful_UidErr ful)"

(* src: pkg/util/fake_user.go 53-57 LookupGroupId *)
definition ful_LookupGroupId :: "FakeUserLookup \<Rightarrow> string \<Rightarrow> Group option \<times> error" where
  "ful_LookupGroupId ful name =
     (Some (zero_Group\<lparr>Group_Gid := Itoa (uint (ful_Gid ful))\<rparr>), ful_UidErr ful)"

definition fake_lookup :: "FakeUserLookup \<Rightarrow> UserLookup" where
  "fake_lookup ful =
     \<lparr>Lookup = ful_Lookup ful, LookupId = ful_LookupId ful,
      LookupGroup = ful_LookupGroup ful, LookupGroupId = ful_LookupGroupId ful\<rparr>"

lemma numeric_uint [simp]: "numeric (Itoa (uint (w :: 32 word)))"
proof -
  have "uint w < 4294967296" using uint_bounded [of w] by simp
  moreover have "0 \<le> uint w" by simp
  ultimately have "Atoi (Itoa (uint w)) = Inr (uint w)" by (intro Atoi_Itoa) linarith+
  then show ?thesis unfolding numeric_def by blast
qed

interpretation fake: user_database "fake_lookup ful"
  by unfold_locales
    (auto simp: fake_lookup_def ful_Lookup_def ful_LookupId_def ful_LookupGroup_def
       ful_LookupGroupId_def zero_User_def zero_Group_def)

end
