(* ===== verification/Caps.thy ===== *)
theory Caps
  imports Itzo_Prelude
begin

text \<open>
  Linux capabilities: \<open>pkg/caps/caps.go\<close>.  The list of capabilities the kernel knows comes from
  the \<open>capability\<close> package; it is a parameter, and the package variable \<open>capabilityList\<close> that
  \<open>init\<close> builds from it is the argument \<open>cl\<close> of the functions that read it.
\<close>

(* src: pkg/caps/caps.go 49-56 CapabilityMapping *)
record CapabilityMapping =
  CapabilityMapping_Key :: string
  CapabilityMapping_Value :: nat

text \<open>
  \<open>all_caps\<close> is \<open>capability.List()\<close> with each capability's \<open>String()\<close>; \<open>last_cap\<close> and
  \<open>block_suspend\<close> are \<open>CAP_LAST_CAP\<close> and \<open>CAP_BLOCK_SUSPEND\<close>.
\<close>

(* src: pkg/caps/caps.go 29-46 init *)
definition init_capabilityList :: "nat \<Rightarrow> nat \<Rightarrow> (nat \<times> string) list \<Rightarrow> CapabilityMapping list" where
  "init_capabilityList last_cap block_suspend all_caps =
     (let last = (if last_cap = 63 then block_suspend else last_cap)
      in map (\<lambda>(c, s). \<lparr>CapabilityMapping_Key = ''CAP_'' @ ToUpper s, CapabilityMapping_Value = c\<rparr>)
           (filter (\<lambda>(c, s). \<not> c > last) all_caps))"

(* src: pkg/caps/caps.go 66-75 GetCapability *)
fun GetCapability :: "CapabilityMapping list \<Rightarrow> string \<Rightarrow> CapabilityMapping option" where
  "GetCapability [] key = None"
| "GetCapability (capp # cl) key =
     (if CapabilityMapping_Key capp = key then Some capp else GetCapability cl key)"

(* src: pkg/caps/caps.go 77-84 GetAllCapabilities *)
definition GetAllCapabilities :: "CapabilityMapping list \<Rightarrow> string list" where
  "GetAllCapabilities cl = map CapabilityMapping_Key cl"

(* src: pkg/caps/caps.go 86-94 inSlice *)
fun inSlice :: "string list \<Rightarrow> string \<Rightarrow> bool" where
  "inSlice [] s = False"
| "inSlice (ss # slice) s = (if s = ss then True else inSlice slice s)"

(* src: pkg/caps/caps.go 96-96 allCapabilities *)
abbreviation (input) allCapabilities :: string where "allCapabilities \<equiv> ''ALL''"

fun normalize_loop :: "string list \<Rightarrow> string list \<Rightarrow> string list \<Rightarrow> go_error + string list" where
  "normalize_loop valids normalized [] = Inr normalized"
| "normalize_loop valids normalized (c # caps) =
     (let c = ToUpper c
      in if c = allCapabilities then normalize_loop valids (normalized @ [c]) caps
         else let c = (if \<not> HasPrefix c ''CAP_'' then ''CAP_'' @ c else c)
              in if \<not> inSlice valids c then Inl (Errorf (''unknown capability: '' @ c))
                 else normalize_loop valids (normalized @ [c]) caps)"

(* src: pkg/caps/caps.go 98-121 NormalizeLegacyCapabilities *)
definition NormalizeLegacyCapabilities ::
  "CapabilityMapping list \<Rightarrow> string list \<Rightarrow> go_error + string list" where
  "NormalizeLegacyCapabilities cl caps = normalize_loop (GetAllCapabilities cl) [] caps"

fun validate_loop :: "string list \<Rightarrow> string list \<Rightarrow> error" where
  "validate_loop valids [] = None"
| "validate_loop valids (c # caps) =
     (if \<not> inSlice valids c then Some (Errorf (''unknown capability: '' @ c))
      else validate_loop valids caps)"

(* src: pkg/caps/caps.go 123-132 ValidateCapabilities *)
definition ValidateCapabilities :: "CapabilityMapping list \<Rightarrow> string list \<Rightarrow> error" where
  "ValidateCapabilities cl caps = validate_loop (GetAllCapabilities cl) caps"

text \<open>\<open>capabilities\<close> is compared with nil, so it is an option of a list.\<close>

(* src: pkg/caps/caps.go 134-185 TweakCapabilities *)
definition TweakCapabilities ::
  "CapabilityMapping list \<Rightarrow> string list \<Rightarrow> string list \<Rightarrow> string list \<Rightarrow>
   string list option \<Rightarrow> bool \<Rightarrow> go_error + string list" where
  "TweakCapabilities cl basics adds drops capabilities privileged =
     (if privileged then Inr (GetAllCapabilities cl)
      else case capabilities of
        Some cs \<Rightarrow> (case ValidateCapabilities cl cs of Some err \<Rightarrow> Inl err | None \<Rightarrow> Inr cs)
      | None \<Rightarrow>
          if length adds = 0 \<and> length drops = 0 then Inr basics
          else case NormalizeLegacyCapabilities cl drops of
                 Inl err \<Rightarrow> Inl err
               | Inr capDrop \<Rightarrow>
                   (case NormalizeLegacyCapabilities cl adds of
                      Inl err \<Rightarrow> Inl err
                    | Inr capAdd \<Rightarrow>
                        Inr (if inSlice capAdd allCapabilities
                             then filter (\<lambda>c. \<not> inSlice capDrop c) (GetAllCapabilities cl)
                             else if inSlice capDrop allCapabilities then capAdd
                             else filter (\<lambda>c. \<not> inSlice capDrop c) basics @ capAdd)))"

section \<open>What the functions compute\<close>

lemma inSlice_iff [simp]: "inSlice xs s \<longleftrightarrow> s \<in> set xs"
  by (induction xs) auto

text \<open>The name a request stands for, and whether the host accepts it.\<close>

definition norm_cap :: "string \<Rightarrow> string" where
  "norm_cap c =
     (let u = ToUpper c
      in if u = allCapabilities \<or> HasPrefix u ''CAP_'' then u else ''CAP_'' @ u)"

definition known_cap :: "CapabilityMapping list \<Rightarrow> string \<Rightarrow> bool" where
  "known_cap cl c \<longleftrightarrow> norm_cap c = allCapabilities \<or> norm_cap c \<in> set (GetAllCapabilities cl)"

lemma norm_cap_ALL: "norm_cap c = allCapabilities \<longleftrightarrow> ToUpper c = allCapabilities"
  by (auto simp: norm_cap_def Let_def HasPrefix_def)

lemma normalize_loop_Cons:
  "normalize_loop (GetAllCapabilities cl) acc (c # caps) =
     (if known_cap cl c then normalize_loop (GetAllCapabilities cl) (acc @ [norm_cap c]) caps
      else Inl (Errorf (''unknown capability: '' @ norm_cap c)))"
proof -
  have "\<not> HasPrefix allCapabilities ''CAP_''" by (simp add: HasPrefix_def)
  then show ?thesis
    by (cases "ToUpper c = allCapabilities"; cases "HasPrefix (ToUpper c) ''CAP_''")
      (simp_all add: known_cap_def norm_cap_def)
qed

lemma normalize_loop_eq:
  "normalize_loop (GetAllCapabilities cl) acc caps =
     (case List.find (\<lambda>c. \<not> known_cap cl c) caps of
        None \<Rightarrow> Inr (acc @ map norm_cap caps)
      | Some c \<Rightarrow> Inl (Errorf (''unknown capability: '' @ norm_cap c)))"
  by (induction caps arbitrary: acc)
    (auto simp: normalize_loop_Cons split: option.split simp del: normalize_loop.simps(2))

lemma NormalizeLegacyCapabilities_Inr:
  "NormalizeLegacyCapabilities cl caps = Inr ns \<longleftrightarrow>
   (\<forall>c \<in> set caps. known_cap cl c) \<and> ns = map norm_cap caps"
  unfolding NormalizeLegacyCapabilities_def normalize_loop_eq
  by (auto split: option.splits simp: find_None_iff find_Some_iff)

lemma NormalizeLegacyCapabilities_idem:
  assumes "NormalizeLegacyCapabilities cl caps = Inr ns"
  shows "NormalizeLegacyCapabilities cl ns = Inr ns"
proof -
  have idem: "norm_cap (norm_cap c) = norm_cap c" for c
  proof -
    have "ToUpper ''CAP_'' = ''CAP_''" by (simp add: ToUpper_def upper_char_def)
    then have "ToUpper (norm_cap c) = norm_cap c"
      by (simp only: norm_cap_def Let_def ToUpper_append ToUpper_idem if_distrib [of ToUpper])
    moreover have "norm_cap c = allCapabilities \<or> HasPrefix (norm_cap c) ''CAP_''"
      using HasPrefix_append [of "''CAP_''"] by (auto simp: norm_cap_def Let_def)
    ultimately show ?thesis by (simp only: norm_cap_def [of "norm_cap c"] Let_def if_True)
  qed
  from assms have *: "\<forall>c \<in> set caps. known_cap cl c" "ns = map norm_cap caps"
    by (simp_all add: NormalizeLegacyCapabilities_Inr)
  then have "\<forall>c \<in> set ns. known_cap cl c"
    using idem by (auto simp: known_cap_def)
  moreover have "map norm_cap ns = ns"
    using * idem by simp
  ultimately show ?thesis by (simp add: NormalizeLegacyCapabilities_Inr)
qed

lemma validate_loop_None: "validate_loop valids caps = None \<longleftrightarrow> set caps \<subseteq> set valids"
  by (induction caps) auto

lemma GetCapability_find:
  "GetCapability cl key = List.find (\<lambda>m. CapabilityMapping_Key m = key) cl"
  by (induction cl) auto

end
