(* ===== verification/Unit_Status.thy ===== *)
theory Unit_Status
  imports Os_World Api_Types File_Tail Prog Mounts Users Caps Util_Names
begin

text \<open>
  A unit on disk: \<open>pkg/unit/unit.go\<close> up to the point where a unit is run, and \<open>pkg/unit/pipe.go\<close>.
  The state of a unit extends the world: its struct and its status file.  JSON keeps a
  status as it is, except that times lose their fraction of a second (\<open>pkg/api/time.go\<close>); the
  decoders of the two configuration files are parameters.
\<close>

section \<open>time.go\<close>

(* src: pkg/api/time.go 48-52 Rfc3339Copy *)
definition Rfc3339Copy :: "Time \<Rightarrow> Time" where
  "Rfc3339Copy t = t - t mod 1000000000"

text \<open>
  The JSON form: \<open>null\<close>, a string, or something else.  \<open>fmt\<close> and \<open>prs\<close> are \<open>time.Format\<close> and
  \<open>time.Parse\<close> with RFC 3339; a value that is not a string leaves the empty string to parse.
\<close>

datatype json_value = J_null | J_string string | J_other

(* src: pkg/api/time.go 73-81 MarshalJSON *)
definition Time_MarshalJSON :: "(Time \<Rightarrow> string) \<Rightarrow> Time \<Rightarrow> json_value" where
  "Time_MarshalJSON fmt t = (if Time_IsZero t then J_null else J_string (fmt t))"

(* src: pkg/api/time.go 54-71 UnmarshalJSON *)
definition Time_UnmarshalJSON :: "(string \<Rightarrow> Time option) \<Rightarrow> json_value \<Rightarrow> Time \<Rightarrow> Time \<times> error" where
  "Time_UnmarshalJSON prs j t =
     (case j of
        J_null \<Rightarrow> (0, None)
      | _ \<Rightarrow>
          (let str = (case j of J_string s \<Rightarrow> s | _ \<Rightarrow> [])
           in case prs str of
                None \<Rightarrow> (t, Some (Errorf ''parsing time''))
              | Some pt \<Rightarrow> (pt, None)))"

(* src: pkg/api/time.go 104-113 GetYAML *)
definition Time_GetYAML :: "(Time \<Rightarrow> string) \<Rightarrow> Time \<Rightarrow> string" where
  "Time_GetYAML fmt t = (if Time_IsZero t then ''null'' else fmt t)"

(* src: pkg/api/time.go 83-102 SetYAML *)
definition Time_SetYAML :: "(string \<Rightarrow> Time option) \<Rightarrow> json_value \<Rightarrow> Time \<Rightarrow> Time \<times> bool" where
  "Time_SetYAML prs value t =
     (case value of
        J_null \<Rightarrow> (0, True)
      | J_other \<Rightarrow> (t, False)
      | J_string str \<Rightarrow> (case prs str of None \<Rightarrow> (t, False) | Some pt \<Rightarrow> (pt, True)))"

lemma Time_JSON_roundtrip:
  assumes "prs (fmt t) = Some (Rfc3339Copy t)"
  shows "Time_UnmarshalJSON prs (Time_MarshalJSON fmt t) t0 = (Rfc3339Copy t, None)"
  using assms
  by (simp add: Time_UnmarshalJSON_def Time_MarshalJSON_def Time_IsZero_def Rfc3339Copy_def)

lemma Rfc3339Copy_idem [simp]: "Rfc3339Copy (Rfc3339Copy t) = Rfc3339Copy t"
  by (simp add: Rfc3339Copy_def mod_diff_left_eq [symmetric])

text \<open>A status after it has been through its file.\<close>

definition json_state :: "UnitState \<Rightarrow> UnitState" where
  "json_state s =
     s\<lparr>UnitState_Running := map_option
         (\<lambda>r. r\<lparr>UnitStateRunning_StartedAt := Rfc3339Copy (UnitStateRunning_StartedAt r)\<rparr>)
         (UnitState_Running s),
       UnitState_Terminated := map_option
         (\<lambda>t. t\<lparr>UnitStateTerminated_FinishedAt := Rfc3339Copy (UnitStateTerminated_FinishedAt t),
                UnitStateTerminated_StartedAt := Rfc3339Copy (UnitStateTerminated_StartedAt t)\<rparr>)
         (UnitState_Terminated s)\<rparr>"

definition json_status :: "UnitStatus \<Rightarrow> UnitStatus" where
  "json_status st =
     st\<lparr>UnitStatus_State := json_state (UnitStatus_State st),
        UnitStatus_LastTerminationState := json_state (UnitStatus_LastTerminationState st)\<rparr>"

lemma json_status_sel [simp]:
  "UnitStatus_Name (json_status st) = UnitStatus_Name st"
  "UnitStatus_Image (json_status st) = UnitStatus_Image st"
  "UnitStatus_RestartCount (json_status st) = UnitStatus_RestartCount st"
  "UnitStatus_Ready (json_status st) = UnitStatus_Ready st"
  "UnitStatus_Started (json_status st) = UnitStatus_Started st"
  "UnitStatus_State (json_status st) = json_state (UnitStatus_State st)"
  "UnitStatus_LastTerminationState (json_status st) = json_state (UnitStatus_LastTerminationState st)"
  by (simp_all add: json_status_def)

lemma json_state_sel [simp]:
  "UnitState_Waiting (json_state s) = UnitState_Waiting s"
  "UnitState_Running (json_state s) = None \<longleftrightarrow> UnitState_Running s = None"
  "UnitState_Terminated (json_state s) = None \<longleftrightarrow> UnitState_Terminated s = None"
  by (simp_all add: json_state_def)

lemma one_state_json [simp]: "one_state (json_state s) = one_state s"
  by (simp add: one_state_def)

lemma json_state_waiting [simp]: "json_state (waiting_state r b) = waiting_state r b"
  by (simp add: json_state_def waiting_state_def zero_UnitState_def)

lemma json_state_idem [simp]: "json_state (json_state s) = json_state s"
  by (cases s) (simp add: json_state_def option.map_comp comp_def)

lemma json_status_idem [simp]: "json_status (json_status st) = json_status st"
  by (simp add: json_status_def)

section \<open>The unit\<close>

(* src: pkg/unit/unit.go 83-90 HealthConfig *)
record HealthConfig =
  HealthConfig_Test :: "string list"
  HealthConfig_Interval :: int
  HealthConfig_Timeout :: int
  HealthConfig_StartPeriod :: int
  HealthConfig_Retries :: int

(* src: pkg/unit/unit.go 92-119 Config *)
record Config =
  Config_Hostname :: string
  Config_Domainname :: string
  Config_User :: string
  Config_AttachStdin :: bool
  Config_AttachStdout :: bool
  Config_AttachStderr :: bool
  Config_ExposedPorts :: "string list"
  Config_Tty :: bool
  Config_OpenStdin :: bool
  Config_StdinOnce :: bool
  Config_Env :: "string list"
  Config_Cmd :: "string list"
  Config_Healthcheck :: "HealthConfig option"
  Config_ArgsEscaped :: bool
  Config_Image :: string
  Config_Volumes :: "string list"
  Config_WorkingDir :: string
  Config_Entrypoint :: "string list"
  Config_NetworkDisabled :: bool
  Config_MacAddress :: string
  Config_OnBuild :: "string list"
  Config_Labels :: "(string \<times> string) list"
  Config_StopSignal :: string
  Config_StopTimeout :: "int option"
  Config_Shell :: "string list"

(* src: pkg/unit/unit.go 121-131 UnitConfig *)
record UnitConfig =
  UnitConfig_PodSecurityContext :: PodSecurityContext
  UnitConfig_SecurityContext :: SecurityContext
  UnitConfig_StartupProbe :: "Probe option"
  UnitConfig_ReadinessProbe :: "Probe option"
  UnitConfig_LivenessProbe :: "Probe option"
  UnitConfig_TerminationMessagePolicy :: TerminationMessagePolicy
  UnitConfig_TerminationMessagePath :: string
  UnitConfig_PodIP :: string
  UnitConfig_UseOverlayfs :: bool

definition zero_UnitConfig :: UnitConfig where
  "zero_UnitConfig =
     \<lparr>UnitConfig_PodSecurityContext = zero_PodSecurityContext,
      UnitConfig_SecurityContext = zero_SecurityContext,
      UnitConfig_StartupProbe = None, UnitConfig_ReadinessProbe = None,
      UnitConfig_LivenessProbe = None, UnitConfig_TerminationMessagePolicy = [],
      UnitConfig_TerminationMessagePath = [], UnitConfig_PodIP = [],
      UnitConfig_UseOverlayfs = False\<rparr>"

text \<open>The status file: absent, created but empty, or holding a status.\<close>

datatype status_file = Absent | Empty | Holds UnitStatus

(* src: pkg/unit/unit.go 133-143 Unit *)
record unit_os = os +
  u_Directory :: string
  u_Name :: string
  u_Image :: string
  u_statusPath :: string
  u_config :: "Config option"
  u_unitConfig :: UnitConfig
  u_stdinPath :: string
  u_Pipes :: "string \<Rightarrow> bool"
  u_file :: status_file

type_synonym 'a unit_m = "(unit_os, 'a) state"

section \<open>Log pipes\<close>

(* src: pkg/unit/pipe.go 30-35 UNIT_PIPES *)
definition UNIT_PIPES :: "string list" where
  "UNIT_PIPES = [''unit-stdout'', ''unit-stderr'']"

(* src: pkg/unit/pipe.go 42-49 checkName *)
definition checkName :: "string \<Rightarrow> unit outcome" where
  "checkName name = (if name \<in> set UNIT_PIPES then Ret () else Panic)"

(* src: pkg/unit/pipe.go 51-59 Chown *)
definition pipe_Chown :: "int \<Rightarrow> int \<Rightarrow> error unit_m" where
  "pipe_Chown uid gid = do {
     pipes \<leftarrow> gets u_Pipes;
     for_err (\<lambda>n. if pipes n then os_do (Os_Chown n uid gid) else return None) UNIT_PIPES
   }"

(* src: pkg/unit/pipe.go 61-73 OpenWriter *)
definition OpenWriter :: "string \<Rightarrow> error outcome unit_m" where
  "OpenWriter name =
     (case checkName name of
        Panic \<Rightarrow> return Panic
      | Ret _ \<Rightarrow> do {
          d \<leftarrow> gets u_Directory;
          err \<leftarrow> os_do (Os_OpenFile (filepath_Join [d, name]));
          if err \<noteq> None then return (Ret err)
          else do {
            modify (\<lambda>u. u\<lparr>u_Pipes := (u_Pipes u)(name := True)\<rparr>);
            return (Ret None)
          }
        })"

text \<open>
  Reading from a pipe: the lines handed to the callback, each with its newline.  What follows the
  last newline is dropped.
\<close>

(* src: pkg/unit/pipe.go 75-95 readFromPipe *)
fun read_lines :: "string \<Rightarrow> string \<Rightarrow> string list" where
  "read_lines partial [] = []"
| "read_lines partial (c # cs) =
     (if c = newline then (partial @ [c]) # read_lines [] cs else read_lines (partial @ [c]) cs)"

text \<open>
  \<open>data\<close> is what a reader reads from its pipe until the end; the readers run beside each other, each on
  its own pipe.
\<close>

(* src: pkg/unit/pipe.go 146-149 StartReader *)
definition StartReader :: "(string \<Rightarrow> string) \<Rightarrow> string \<Rightarrow> string list outcome" where
  "StartReader data name =
     (case checkName name of Panic \<Rightarrow> Panic | Ret _ \<Rightarrow> Ret (read_lines [] (data name)))"

(* src: pkg/unit/pipe.go 151-155 StartAllReaders *)
fun start_readers :: "(string \<Rightarrow> string) \<Rightarrow> string list \<Rightarrow> (string \<times> string list) list outcome" where
  "start_readers data [] = Ret []"
| "start_readers data (name # names) =
     (case StartReader data name of
        Panic \<Rightarrow> Panic
      | Ret lns \<Rightarrow>
          (case start_readers data names of Panic \<Rightarrow> Panic | Ret rest \<Rightarrow> Ret ((name, lns) # rest)))"

(* src: pkg/unit/pipe.go 151-155 StartAllReaders *)
definition StartAllReaders :: "(string \<Rightarrow> string) \<Rightarrow> (string \<times> string list) list outcome" where
  "StartAllReaders data = start_readers data UNIT_PIPES"

lemma StartAllReaders_Ret:
  "StartAllReaders data = Ret (map (\<lambda>name. (name, read_lines [] (data name))) UNIT_PIPES)"
  by (simp add: StartAllReaders_def StartReader_def checkName_def UNIT_PIPES_def)

(* src: pkg/unit/pipe.go 97-124 Remove *)
definition pipe_Remove :: "unit unit_m" where
  "pipe_Remove = do {
     d \<leftarrow> gets u_Directory;
     for_each (\<lambda>name.
       let pipepath = filepath_Join [d, name] in do {
         p \<leftarrow> gets (\<lambda>u. u_Pipes u name);
         modify (\<lambda>u. u\<lparr>u_Pipes := (u_Pipes u)(name := False)\<rparr>);
         if p then os_try (Os_Remove pipepath)
         else do {
           err \<leftarrow> os_do (Os_OpenFile pipepath);
           if IsNotExist err then return () else os_try (Os_Remove pipepath)
         }
       }) UNIT_PIPES
   }"

(* src: pkg/unit/pipe.go 126-144 NewLogPipe *)
definition NewLogPipe :: "string \<Rightarrow> error unit_m" where
  "NewLogPipe dir = do {
     modify (\<lambda>u. u\<lparr>u_Directory := dir, u_Pipes := (\<lambda>_. False)\<rparr>);
     for_err (\<lambda>name. do {
       err \<leftarrow> os_do (Sys_Mkfifo (filepath_Join [dir, name]) 384);
       if err \<noteq> None \<and> \<not> IsExist err then do { pipe_Remove; return err } else return None
     }) UNIT_PIPES
   }"

section \<open>The status file\<close>

text \<open>
  Reading and writing may fail as the world says; when they do not, they see and replace the file.
  An empty file does not decode: the zero status comes back with an error.
\<close>

(* src: pkg/unit/unit.go 484-496 GetStatus *)
definition GetStatus :: "(UnitStatus \<times> error) unit_m" where
  "GetStatus = do {
     path \<leftarrow> gets u_statusPath;
     fail \<leftarrow> os_do (Io_ReadFile path);
     file \<leftarrow> gets u_file;
     name \<leftarrow> gets u_Name;
     img \<leftarrow> gets u_Image;
     let err = (if fail \<noteq> None then fail
                else if file = Absent then Some (ErrNotExist path) else None) in
     if IsNotExist err then return (MakeStillCreatingStatus name img ''PodInitializing'', None)
     else if err \<noteq> None then return (zero_UnitStatus, err)
     else return (case file of
                    Holds st \<Rightarrow> (st, None)
                  | _ \<Rightarrow> (zero_UnitStatus, Some (Errorf ''unexpected end of JSON input'')))
   }"

(* src: pkg/unit/unit.go 456-467 SetStatus *)
definition SetStatus :: "UnitStatus \<Rightarrow> error unit_m" where
  "SetStatus st = do {
     path \<leftarrow> gets u_statusPath;
     err \<leftarrow> os_do (Io_WriteFile path [] 384);
     if err \<noteq> None then return err
     else do { modify (\<lambda>u. u\<lparr>u_file := Holds (json_status st)\<rparr>); return None }
   }"

(* src: pkg/unit/unit.go 469-482 UpdateStatusAttr *)
definition UpdateStatusAttr :: "bool option \<Rightarrow> bool option \<Rightarrow> error unit_m" where
  "UpdateStatusAttr ready started = do {
     (st, err) \<leftarrow> GetStatus;
     if err \<noteq> None then return err
     else do {
       let st = (case ready of None \<Rightarrow> st | Some b \<Rightarrow> st\<lparr>UnitStatus_Ready := b\<rparr>);
       let st = (case started of None \<Rightarrow> st | Some b \<Rightarrow> st\<lparr>UnitStatus_Started := Some b\<rparr>);
       SetStatus st
     }
   }"

(* src: pkg/unit/unit.go 498-516 SetState *)
definition SetState :: "UnitState \<Rightarrow> int option \<Rightarrow> error unit_m" where
  "SetState st restarts = do {
     (status, err) \<leftarrow> GetStatus;
     if err \<noteq> None then return err
     else do {
       let status = status\<lparr>UnitStatus_State := st\<rparr>;
       let status = (if UnitState_Terminated st \<noteq> None
                     then status\<lparr>UnitStatus_LastTerminationState := st\<rparr> else status);
       let status = (case restarts of
                       None \<Rightarrow> status
                     | Some r \<Rightarrow> if r \<ge> 0 then status\<lparr>UnitStatus_RestartCount := int32 r\<rparr> else status);
       SetStatus status
     }
   }"

(* src: pkg/unit/unit.go 342-350 SetImage *)
definition SetImage :: "string \<Rightarrow> error unit_m" where
  "SetImage img = do {
     modify (\<lambda>u. u\<lparr>u_Image := img\<rparr>);
     (st, err) \<leftarrow> GetStatus;
     if err \<noteq> None then return err else SetStatus (st\<lparr>UnitStatus_Image := img\<rparr>)
   }"

(* src: pkg/unit/unit.go 779-787 setStateToStartFailure *)
definition setStateToStartFailure :: "go_error \<Rightarrow> unit unit_m" where
  "setStateToStartFailure err = do {
     SetState (waiting_state (''Failed to start: '' @ Error err) True) None;
     return ()
   }"

section \<open>Opening and removing a unit\<close>

(* src: pkg/unit/unit.go 145-155 IsUnitExist *)
definition IsUnitExist :: "string \<Rightarrow> string \<Rightarrow> ('a os_scheme, bool) state" where
  "IsUnitExist rootdir name =
     (if length name = 0 then return False
      else do { err \<leftarrow> os_do (Os_OpenFile (filepath_Join [rootdir, name])); return (err = None) })"

(* src: pkg/unit/unit.go 203-213 createStdin *)
definition createStdin :: "error unit_m" where
  "createStdin = do {
     d \<leftarrow> gets u_Directory;
     let pipepath = filepath_Join [d, ''unit-stdin''];
     err \<leftarrow> os_do (Sys_Mkfifo pipepath 384);
     if err \<noteq> None \<and> \<not> IsExist err then return err
     else do { modify (\<lambda>u. u\<lparr>u_stdinPath := pipepath\<rparr>); return None }
   }"

(* src: pkg/unit/unit.go 218-237 OpenStdinReader *)
definition OpenStdinReader :: "error unit_m" where
  "OpenStdinReader = do { p \<leftarrow> gets u_stdinPath; os_do (Os_OpenFile p) }"

(* src: pkg/unit/unit.go 239-246 OpenStdinWriter *)
definition OpenStdinWriter :: "error unit_m" where
  "OpenStdinWriter = do { p \<leftarrow> gets u_stdinPath; os_do (Os_OpenFile p) }"

text \<open>
  The goroutine that keeps the pipe open for the command: it opens it for writing, which waits for the
  reader, and then waits for the message of \<open>closeStdin\<close>.  A channel without a buffer gives a message to
  one who waits for it and to nobody else: before the goroutine waits, closing does nothing.
\<close>

datatype stdin_writer = Stdin_opening | Stdin_waiting | Stdin_gone

(* src: pkg/unit/unit.go 248-254 closeStdin *)
definition closeStdin :: "stdin_writer \<Rightarrow> stdin_writer \<times> bool" where
  "closeStdin w = (if w = Stdin_waiting then (Stdin_gone, True) else (w, False))"

(* src: pkg/unit/unit.go 256-273 getUnitConfig *)
definition getUnitConfig :: "(string \<Rightarrow> UnitConfig \<times> error) \<Rightarrow> (UnitConfig \<times> error) unit_m" where
  "getUnitConfig decode = do {
     d \<leftarrow> gets u_Directory;
     r \<leftarrow> os_reply (Io_ReadFile (filepath_Join [d, ''unitConfig'']));
     return (if reply_err r \<noteq> None then (zero_UnitConfig, reply_err r) else decode (reply_data r))
   }"

(* src: pkg/unit/unit.go 275-291 SaveUnitConfig *)
definition SaveUnitConfig :: "(UnitConfig \<Rightarrow> go_error + string) \<Rightarrow> UnitConfig \<Rightarrow> error unit_m" where
  "SaveUnitConfig encode uc = do {
     d \<leftarrow> gets u_Directory;
     case encode uc of
       Inl err \<Rightarrow> return (Some err)
     | Inr buf \<Rightarrow> os_do (Io_WriteFile (filepath_Join [d, ''unitConfig'']) buf 493)
   }"

(* src: pkg/unit/unit.go 293-309 getConfig *)
definition getConfig :: "(string \<Rightarrow> go_error + Config) \<Rightarrow> (Config option \<times> error) unit_m" where
  "getConfig decode = do {
     d \<leftarrow> gets u_Directory;
     r \<leftarrow> os_reply (Io_ReadFile (filepath_Join [d, ''config'']));
     return (if reply_err r \<noteq> None then (None, reply_err r)
             else case decode (reply_data r) of
                    Inl err \<Rightarrow> (None, Some err)
                  | Inr c \<Rightarrow> (Some c, None))
   }"

(* src: pkg/unit/unit.go 157-197 OpenUnit *)
definition OpenUnit ::
  "(string \<Rightarrow> go_error + Config) \<Rightarrow> (string \<Rightarrow> UnitConfig \<times> error) \<Rightarrow> string \<Rightarrow> string \<Rightarrow>
   error unit_m" where
  "OpenUnit decode_config decode_unit rootdir name =
     (let directory = filepath_Join [rootdir, name] in do {
        err \<leftarrow> os_do (Os_MkdirAll directory 448);
        if err \<noteq> None then return err else do {
        err \<leftarrow> NewLogPipe directory;
        if err \<noteq> None then return err else do {
        modify (\<lambda>u. u\<lparr>u_Name := name, u_Image := [],
                      u_statusPath := filepath_Join [directory, ''status''],
                      u_config := None, u_unitConfig := zero_UnitConfig\<rparr>);
        err \<leftarrow> createStdin;
        if err \<noteq> None then do { pipe_Remove; return err } else do {
        (c, err) \<leftarrow> getConfig decode_config;
        modify (\<lambda>u. u\<lparr>u_config := c\<rparr>);
        (uc, err) \<leftarrow> getUnitConfig decode_unit;
        modify (\<lambda>u. u\<lparr>u_unitConfig := uc\<rparr>);
        (s, err) \<leftarrow> GetStatus;
        modify (\<lambda>u. if err \<noteq> None then u else u\<lparr>u_Image := UnitStatus_Image s\<rparr>);
        return None
        }}}})"

(* src: pkg/unit/unit.go 199-201 SetUnitConfigOverlayfs *)
definition SetUnitConfigOverlayfs :: "bool \<Rightarrow> unit unit_m" where
  "SetUnitConfigOverlayfs b =
     modify (\<lambda>u. u\<lparr>u_unitConfig := (u_unitConfig u)\<lparr>UnitConfig_UseOverlayfs := b\<rparr>\<rparr>)"

(* src: pkg/unit/unit.go 362-364 GetRootfs *)
definition GetRootfs :: "unit_os \<Rightarrow> string" where
  "GetRootfs u = filepath_Join [u_Directory u, ''ROOTFS'']"

(* src: pkg/unit/unit.go 352-360 Destroy *)
definition Destroy :: "error unit_m" where
  "Destroy = do {
     rootfs \<leftarrow> gets GetRootfs;
     Unmount rootfs;
     pipe_Remove;
     d \<leftarrow> gets u_Directory;
     err \<leftarrow> os_do (Os_RemoveAll d);
     modify (\<lambda>u. if err = None then u\<lparr>u_file := Absent\<rparr> else u);
     return err
   }"

section \<open>What an image says\<close>

(* src: pkg/unit/unit.go 311-326 CreateCommand *)
definition CreateCommand :: "Config option \<Rightarrow> string list \<Rightarrow> string list \<Rightarrow> string list" where
  "CreateCommand config command args =
     (case config of
        Some c \<Rightarrow>
          if length command = 0
          then Config_Entrypoint c @ (if length args = 0 then Config_Cmd c else args)
          else command @ args
      | None \<Rightarrow> command @ args)"

(* src: pkg/unit/unit.go 328-333 GetEnv *)
definition GetEnv :: "unit_os \<Rightarrow> string list" where
  "GetEnv u = (case u_config u of None \<Rightarrow> [] | Some c \<Rightarrow> Config_Env c)"

(* src: pkg/unit/unit.go 335-340 GetWorkingDir *)
definition GetWorkingDir :: "unit_os \<Rightarrow> string" where
  "GetWorkingDir u = (case u_config u of None \<Rightarrow> [] | Some c \<Rightarrow> Config_WorkingDir c)"

(* src: pkg/unit/unit.go 436-454 copyFileFromHost *)
definition copyFileFromHost :: "string \<Rightarrow> bool \<Rightarrow> error unit_m" where
  "copyFileFromHost hostpath overwrite = do {
     rootfs \<leftarrow> gets GetRootfs;
     let dpath = filepath_Join [rootfs, filepath_Dir hostpath];
     err \<leftarrow> os_do (Os_Stat dpath);
     err \<leftarrow> (if IsNotExist err then os_do (Os_MkdirAll dpath 493) else return None);
     if err \<noteq> None then return err
     else do {
       let fpath = filepath_Join [rootfs, hostpath];
       err \<leftarrow> os_do (Os_Stat fpath);
       if IsNotExist err \<or> overwrite then CopyFile hostpath fpath else return None
     }
   }"

(* src: pkg/unit/unit.go 366-400 PullAndExtractImage *)
definition PullAndExtractImage ::
  "(string \<Rightarrow> bool) \<Rightarrow> (string \<Rightarrow> string \<Rightarrow> int) \<Rightarrow> string \<Rightarrow> string \<Rightarrow> string \<Rightarrow> string \<Rightarrow>
   error unit_m" where
  "PullAndExtractImage is_semver compare img server username password = do {
     err \<leftarrow> SetImage img;
     case err of
       Some e \<Rightarrow> return (Some (Errorf (''setting image for unit: '' @ Error e)))
     | None \<Rightarrow> do {
         rootfs \<leftarrow> gets GetRootfs;
         d \<leftarrow> gets u_Directory;
         uc \<leftarrow> gets u_unitConfig;
         let cli = NewTosi;
         let cli = (if username \<noteq> [] \<or> password \<noteq> []
                    then snd (tosi_Login server username password cli) else cli);
         let cli = SetTosiExtractionType (UnitConfig_UseOverlayfs uc) cli;
         let cli = snd (tosi_Pull server img cli);
         (err, cli) \<leftarrow> tosi_Unpack is_semver compare img rootfs (filepath_Join [d, ''config'']) cli;
         if err \<noteq> None then return err
         else copyFileFromHost ''/etc/resolv.conf'' True
       }
   }"

section \<open>User, capabilities and kernel parameters\<close>

text \<open>
  The identity a unit runs with.  Each id is an \<open>int64\<close> of the specification converted to 32 bits;
  the unit's own security context comes last and wins.
\<close>

(* src: pkg/unit/unit.go 402-434 GetUser *)
definition GetUser ::
  "unit_os \<Rightarrow> UserLookup \<Rightarrow> (go_error + nat \<times> nat \<times> nat list \<times> string) outcome" where
  "GetUser u lookup =
     (let image_user = (case u_config u of
            Some c \<Rightarrow> if Config_User c \<noteq> [] then LookupUser (Config_User c) lookup
                      else Ret (Inr (0, 0, ''/''))
          | None \<Rightarrow> Ret (Inr (0, 0, ''/'')))
      in case image_user of
           Panic \<Rightarrow> Panic
         | Ret (Inl err) \<Rightarrow> Ret (Inl err)
         | Ret (Inr (uid, gid, homedir)) \<Rightarrow>
             let psc = UnitConfig_PodSecurityContext (u_unitConfig u);
                 sc = UnitConfig_SecurityContext (u_unitConfig u);
                 uid = (case PodSecurityContext_RunAsUser psc of None \<Rightarrow> uid | Some x \<Rightarrow> uint32 x);
                 gid = (case PodSecurityContext_RunAsGroup psc of None \<Rightarrow> gid | Some x \<Rightarrow> uint32 x);
                 groups = map uint32 (PodSecurityContext_SupplementalGroups psc);
                 uid = (case SecurityContext_RunAsUser sc of None \<Rightarrow> uid | Some x \<Rightarrow> uint32 x);
                 gid = (case SecurityContext_RunAsGroup sc of None \<Rightarrow> gid | Some x \<Rightarrow> uint32 x)
             in Ret (Inr (uid, gid, groups, homedir)))"

(* src: pkg/unit/unit.go 57-79 defaultCapabilities *)
definition defaultCapabilities :: "string list" where
  "defaultCapabilities =
     [''CAP_AUDIT_WRITE'', ''CAP_CHOWN'', ''CAP_DAC_OVERRIDE'', ''CAP_FOWNER'', ''CAP_FSETID'',
      ''CAP_KILL'', ''CAP_MKNOD'', ''CAP_NET_BIND_SERVICE'', ''CAP_NET_RAW'', ''CAP_SETFCAP'',
      ''CAP_SETGID'', ''CAP_SETPCAP'', ''CAP_SETUID'', ''CAP_SYS_CHROOT'']"

(* src: pkg/unit/unit.go 789-798 mapCapabilities *)
fun mapCapabilities :: "CapabilityMapping list \<Rightarrow> string list \<Rightarrow> nat list" where
  "mapCapabilities cl [] = []"
| "mapCapabilities cl (key # keys) =
     (case GetCapability cl key of
        None \<Rightarrow> mapCapabilities cl keys
      | Some v \<Rightarrow> CapabilityMapping_Value v # mapCapabilities cl keys)"

(* src: pkg/unit/unit.go 800-807 mapUintptrCapabilities *)
definition mapUintptrCapabilities :: "CapabilityMapping list \<Rightarrow> string list \<Rightarrow> nat list" where
  "mapUintptrCapabilities cl keys = map (\<lambda>c. c) (mapCapabilities cl keys)"

(* src: pkg/unit/unit.go 809-822 getCapabilities *)
definition getCapabilities :: "CapabilityMapping list \<Rightarrow> unit_os \<Rightarrow> go_error + string list" where
  "getCapabilities cl u =
     (let (addCaps, dropCaps) =
        (case SecurityContext_Capabilities (UnitConfig_SecurityContext (u_unitConfig u)) of
           None \<Rightarrow> ([], [])
         | Some c \<Rightarrow> (Capabilities_Add c, Capabilities_Drop c))
      in TweakCapabilities cl defaultCapabilities addCaps dropCaps None False)"

(* src: pkg/unit/unit.go 824-842 setCapabilities *)
definition setCapabilities :: "CapabilityMapping list \<Rightarrow> string list \<Rightarrow> error unit_m" where
  "setCapabilities cl capStringList = do {
     err \<leftarrow> os_do (Ext_Call ''capability.NewPid2'' []);
     if err \<noteq> None then return err else do {
     err \<leftarrow> os_do (Ext_Call ''capability.Load'' []);
     if err \<noteq> None then return err else do {
     err \<leftarrow> os_do (Ext_Call ''capability.Apply''
              (map (\<lambda>c. Itoa (int c)) (mapCapabilities cl capStringList)));
     if err \<noteq> None then return err
     else os_do (Ext_Call ''prctl.PR_SET_KEEPCAPS'' [])
     }}
   }"

(* src: pkg/unit/unit.go 844-857 applySysctls *)
definition applySysctls :: "error unit_m" where
  "applySysctls = do {
     uc \<leftarrow> gets u_unitConfig;
     for_err (\<lambda>sc. os_do (Ext_Call ''sysctl.Set'' [Sysctl_Name sc, Sysctl_Value sc]))
       (PodSecurityContext_Sysctls (UnitConfig_PodSecurityContext uc))
   }"

section \<open>Properties\<close>

text \<open>What reading the status answers and leaves.\<close>

definition status_of :: "unit_os \<Rightarrow> UnitStatus \<times> error" where
  "status_of u = result GetStatus u"

lemma final_GetStatus:
  "final GetStatus u = u\<lparr>os_trace := os_trace u @ [Io_ReadFile (u_statusPath u)]\<rparr>"
  by (simp add: GetStatus_def Let_def)

lemma status_of_cases:
  assumes "status_of u = (st, None)"
  shows "u_file u = Holds st \<or> st = MakeStillCreatingStatus (u_Name u) (u_Image u) ''PodInitializing''"
  using assms by (auto simp: status_of_def GetStatus_def Let_def split: if_splits status_file.splits)

lemma SetStatus_ok:
  "result (SetStatus st) u = None \<Longrightarrow> u_file (final (SetStatus st) u) = Holds (json_status st)"
  by (simp add: SetStatus_def split: if_splits)

lemma SetStatus_err:
  "result (SetStatus st) u \<noteq> None \<Longrightarrow> u_file (final (SetStatus st) u) = u_file u"
  by (simp add: SetStatus_def split: if_splits)

text \<open>The status after \<open>SetState\<close>, and the file after it.\<close>

definition with_state :: "UnitState \<Rightarrow> int option \<Rightarrow> UnitStatus \<Rightarrow> UnitStatus" where
  "with_state s restarts st =
     st\<lparr>UnitStatus_State := s,
        UnitStatus_LastTerminationState :=
          (if UnitState_Terminated s \<noteq> None then s else UnitStatus_LastTerminationState st),
        UnitStatus_RestartCount :=
          (case restarts of Some r \<Rightarrow> if r \<ge> 0 then int32 r else UnitStatus_RestartCount st
                          | None \<Rightarrow> UnitStatus_RestartCount st)\<rparr>"

lemma SetState_alt:
  "SetState s r = do {
     (st, err) \<leftarrow> GetStatus;
     if err \<noteq> None then return err else SetStatus (with_state s r st) }"
  by (auto simp: SetState_def with_state_def Let_def split: option.splits intro!: arg_cong2 [where f = State_Monad.bind])

lemma SetState_result:
  "result (SetState s r) u =
     (case status_of u of
        (st, Some e) \<Rightarrow> Some e
      | (st, None) \<Rightarrow> result (SetStatus (with_state s r st)) (final GetStatus u))"
  by (simp add: SetState_alt status_of_def split: prod.splits option.splits)

lemma SetState_ok:
  assumes "result (SetState s r) u = None"
  shows "\<exists>st. status_of u = (st, None) \<and>
     u_file (final (SetState s r) u) = Holds (json_status (with_state s r st))"
proof -
  obtain st err where st: "status_of u = (st, err)" by (cases "status_of u")
  with assms have err: "err = None"
    by (auto simp: SetState_result split: option.splits)
  have set: "result (SetStatus (with_state s r st)) (final GetStatus u) = None"
    using assms st err by (simp add: SetState_result)
  have "final (SetState s r) u = final (SetStatus (with_state s r st)) (final GetStatus u)"
    using st err by (simp add: SetState_alt status_of_def)
  with SetStatus_ok [OF set] st err show ?thesis by simp
qed

lemma SetState_err:
  assumes "result (SetState s r) u \<noteq> None"
  shows "u_file (final (SetState s r) u) = u_file u"
proof -
  obtain st err where st: "status_of u = (st, err)" by (cases "status_of u")
  show ?thesis
  proof (cases err)
    case None
    then have "final (SetState s r) u = final (SetStatus (with_state s r st)) (final GetStatus u)"
      and "result (SetStatus (with_state s r st)) (final GetStatus u) \<noteq> None"
      using st assms by (simp_all add: SetState_alt status_of_def SetState_result)
    then show ?thesis using SetStatus_err by (simp add: final_GetStatus)
  next
    case (Some e)
    then have "final (SetState s r) u = final GetStatus u"
      using st by (simp add: SetState_alt status_of_def)
    then show ?thesis by (simp add: final_GetStatus)
  qed
qed

text \<open>Lines read from a pipe: they end in their only newline, and nothing is lost before the last.\<close>

lemma read_lines_concat:
  "\<exists>rest. partial @ s = concat (read_lines partial s) @ rest \<and>
     (newline \<notin> set partial \<longrightarrow> newline \<notin> set rest)"
proof (induction s arbitrary: partial)
  case (Cons c cs)
  show ?case
  proof (cases "c = newline")
    case True
    obtain rest where "cs = concat (read_lines [] cs) @ rest" "newline \<notin> set rest"
      using Cons.IH [of "[]"] by auto
    with True show ?thesis by (intro exI [where x = rest]) simp
  next
    case False
    obtain rest where "(partial @ [c]) @ cs = concat (read_lines (partial @ [c]) cs) @ rest"
        "newline \<notin> set (partial @ [c]) \<longrightarrow> newline \<notin> set rest"
      using Cons.IH [of "partial @ [c]"] by blast
    with False show ?thesis by (intro exI [where x = rest]) auto
  qed
qed auto

lemma read_lines_shape:
  "newline \<notin> set partial \<Longrightarrow> l \<in> set (read_lines partial s) \<Longrightarrow>
   \<exists>b. l = b @ [newline] \<and> newline \<notin> set b"
proof (induction s arbitrary: partial)
  case (Cons c cs)
  then show ?case
    using Cons.IH [of "[]"] Cons.IH [of "partial @ [c]"] by (cases "c = newline") auto
qed simp

text \<open>Only known capabilities reach the kernel.\<close>

lemma mapCapabilities_known:
  "set (mapCapabilities cl keys) =
     {CapabilityMapping_Value v |v. \<exists>k \<in> set keys. GetCapability cl k = Some v}"
  by (induction keys) (auto split: option.splits)

end
