(* ===== verification/Logbuf.thy ===== *)
theory Logbuf
  imports Itzo_Prelude
begin

text \<open>
  The ring buffer of log lines of \<open>pkg/logbuf\<close>.  An index out of range, a division by a zero
  capacity and a negative \<open>make\<close> panic in Go; they are \<^term>\<open>None\<close> here.  The abstract view of a
  buffer is the list of every entry ever written: \<open>repr\<close> relates the two, and the reads are
  proved to return windows of that list.
\<close>

section \<open>Entries\<close>

(* src: pkg/logbuf/logbuf.go 32-32 LogSource *)
type_synonym LogSource = string

(* src: pkg/logbuf/logbuf.go 27-27 StdoutLogSource *)
abbreviation (input) StdoutLogSource :: LogSource where "StdoutLogSource \<equiv> ''stdout''"

(* src: pkg/logbuf/logbuf.go 28-28 StderrLogSource *)
abbreviation (input) StderrLogSource :: LogSource where "StderrLogSource \<equiv> ''stderr''"

(* src: pkg/logbuf/logbuf.go 29-29 HelperLogSource *)
abbreviation (input) HelperLogSource :: LogSource where "HelperLogSource \<equiv> ''helper''"

(* src: pkg/logbuf/logbuf.go 34-38 LogEntry *)
record LogEntry =
  LogEntry_Timestamp :: string
  LogEntry_Source :: LogSource
  LogEntry_Line :: string

definition zero_LogEntry :: LogEntry where
  "zero_LogEntry = \<lparr>LogEntry_Timestamp = [], LogEntry_Source = [], LogEntry_Line = []\<rparr>"

text \<open>
  The source computes \<open>line\<close>, the entry's line with a newline added where it lacks one, and then
  formats \<open>le.Line\<close>; \<open>line\<close> is not used.
\<close>

(* src: pkg/logbuf/logbuf.go 40-60 Format *)
definition LogEntry_Format :: "LogEntry \<Rightarrow> bool \<Rightarrow> string option" where
  "LogEntry_Format le withMetadata =
     (if \<not> withMetadata then Some (LogEntry_Line le)
      else let tags = ''F''; line = LogEntry_Line le
           in if line = [] then None
              else let line' = (if last line \<noteq> CHR 0x0A then line @ [CHR 0x0A] else line)
                   in Some (LogEntry_Timestamp le @ '' '' @ LogEntry_Source le @ '' '' @ tags @ '' ''
                            @ LogEntry_Line le))"

section \<open>The buffer\<close>

(* src: pkg/logbuf/logbuf.go 62-68 LogBuffer *)
record LogBuffer =
  LogBuffer_buf :: "LogEntry list"
  LogBuffer_capacity :: int
  LogBuffer_offset :: int

(* src: pkg/logbuf/logbuf.go 70-76 NewLogBuffer *)
definition NewLogBuffer :: "int \<Rightarrow> LogBuffer option" where
  "NewLogBuffer capacity =
     (if capacity < 0 then None
      else Some \<lparr>LogBuffer_buf = replicate (nat capacity) zero_LogEntry,
                 LogBuffer_capacity = int64 capacity, LogBuffer_offset = 0\<rparr>)"

(* src: pkg/logbuf/logbuf.go 78-80 GetOffset *)
definition GetOffset :: "LogBuffer \<Rightarrow> int" where
  "GetOffset lb = LogBuffer_offset lb"

text \<open>\<open>bufLoc := k % lb.capacity\<close>, checked as Go checks the index.\<close>

definition bufLoc :: "LogBuffer \<Rightarrow> int \<Rightarrow> nat option" where
  "bufLoc lb k =
     (if LogBuffer_capacity lb = 0 then None
      else let l = go_rem k (LogBuffer_capacity lb)
           in if l < 0 \<or> int (length (LogBuffer_buf lb)) \<le> l then None else Some (nat l))"

(* src: pkg/logbuf/logbuf.go 82-95 Write *)
definition Write :: "string \<Rightarrow> LogSource \<Rightarrow> string \<Rightarrow> string option \<Rightarrow> LogBuffer \<Rightarrow> LogBuffer option" where
  "Write now source line timestamp lb =
     (let ts = (case timestamp of None \<Rightarrow> now | Some t \<Rightarrow> t);
          e = \<lparr>LogEntry_Timestamp = ts, LogEntry_Source = source, LogEntry_Line = line\<rparr>
      in case bufLoc lb (LogBuffer_offset lb) of
           None \<Rightarrow> None
         | Some l \<Rightarrow> Some (lb\<lparr>LogBuffer_buf := (LogBuffer_buf lb)[l := e],
                              LogBuffer_offset := int64 (LogBuffer_offset lb + 1)\<rparr>))"

(* src: pkg/util/util.go 27-32 Minint64 *)
definition Minint64 :: "int \<Rightarrow> int \<Rightarrow> int" where
  "Minint64 a b = (if a < b then a else b)"

(* src: pkg/logbuf/logbuf.go 97-99 Length *)
definition LogBuffer_Length :: "LogBuffer \<Rightarrow> int" where
  "LogBuffer_Length lb = Minint64 (LogBuffer_capacity lb) (LogBuffer_offset lb)"

text \<open>
  The loop of \<open>Read\<close> fills \<open>entries\<close> from its last slot to its first while \<open>i\<close> counts from 1 to
  \<open>n\<close>: the accumulator is the part already filled.
\<close>

function read_loop :: "LogBuffer \<Rightarrow> int \<Rightarrow> int \<Rightarrow> LogEntry list \<Rightarrow> LogEntry list option" where
  "read_loop lb i n acc =
     (if i \<le> n then
        (case bufLoc lb (LogBuffer_offset lb - i) of
           None \<Rightarrow> None
         | Some l \<Rightarrow> read_loop lb (i + 1) n (LogBuffer_buf lb ! l # acc))
      else Some acc)"
  by pat_completeness auto
termination
  by (relation "measure (\<lambda>(lb, i, n, acc). nat (n + 1 - i))") auto

declare read_loop.simps [simp del]

(* src: pkg/logbuf/logbuf.go 101-121 Read *)
definition Read :: "LogBuffer \<Rightarrow> int \<Rightarrow> LogEntry list option" where
  "Read lb nn =
     (let n = (if nn > LogBuffer_capacity lb \<or> nn > LogBuffer_offset lb then 0 else nn)
      in if n < 0 then Some []
         else let n = (if n = 0 then Minint64 (LogBuffer_capacity lb) (LogBuffer_offset lb) else n)
              in read_loop lb 1 n [])"

function since_loop :: "LogBuffer \<Rightarrow> int \<Rightarrow> LogEntry list \<Rightarrow> LogEntry list option" where
  "since_loop lb i entries =
     (if i < LogBuffer_offset lb then
        (case bufLoc lb i of
           None \<Rightarrow> None
         | Some l \<Rightarrow> since_loop lb (i + 1) (entries @ [LogBuffer_buf lb ! l]))
      else Some entries)"
  by pat_completeness auto
termination
  by (relation "measure (\<lambda>(lb, i, entries). nat (LogBuffer_offset lb - i))") auto

declare since_loop.simps [simp del]

(* src: pkg/logbuf/logbuf.go 123-153 ReadSince *)
definition ReadSince :: "LogBuffer \<Rightarrow> int \<Rightarrow> (LogEntry list \<times> int) option" where
  "ReadSince lb i =
     (let offset = LogBuffer_offset lb
      in if i \<ge> offset then Some ([], offset)
         else let i = (if int64 (i + LogBuffer_capacity lb) < offset
                       then offset - LogBuffer_capacity lb else i)
              in map_option (\<lambda>es. (es, offset)) (since_loop lb i []))"

(* src: pkg/logbuf/logbuf.go 155-158 flush *)
definition flush :: "LogBuffer \<Rightarrow> LogBuffer" where
  "flush lb = lb\<lparr>LogBuffer_buf := replicate (nat (LogBuffer_capacity lb)) zero_LogEntry,
                 LogBuffer_offset := 0\<rparr>"

section \<open>The abstract log\<close>

text \<open>
  \<open>repr lb h\<close>: the buffer has seen exactly the entries \<open>h\<close>, and its slots hold the last
  \<open>capacity\<close> of them.  The offset stays within an int64.
\<close>

definition repr :: "LogBuffer \<Rightarrow> LogEntry list \<Rightarrow> bool" where
  "repr lb h \<longleftrightarrow>
     0 < LogBuffer_capacity lb \<and> LogBuffer_capacity lb < 2 ^ 62 \<and>
     length (LogBuffer_buf lb) = nat (LogBuffer_capacity lb) \<and>
     LogBuffer_offset lb = int (length h) \<and> length h < 2 ^ 62 \<and>
     (\<forall>k < length h. length h \<le> k + nat (LogBuffer_capacity lb) \<longrightarrow>
        LogBuffer_buf lb ! (k mod nat (LogBuffer_capacity lb)) = h ! k)"

lemma repr_bufLoc:
  assumes "repr lb h"
  shows "bufLoc lb (int k) = Some (k mod nat (LogBuffer_capacity lb))"
proof -
  let ?c = "nat (LogBuffer_capacity lb)"
  have c: "LogBuffer_capacity lb = int ?c" "0 < ?c" "length (LogBuffer_buf lb) = ?c"
    using assms by (auto simp: repr_def)
  obtain n where n: "LogBuffer_capacity lb = int n" "0 < n"
    using c(2) by (metis c(1))
  have "go_rem (int k) (int n) = int (k mod n)"
    using n(2) by (simp add: zmod_int)
  moreover have "\<not> n \<le> k mod n" using n(2) by (simp add: not_le)
  ultimately show ?thesis using c(3) n by (simp add: bufLoc_def Let_def)
qed

lemma mod_window_neq:
  fixes k n c :: nat
  assumes "k < n" "n < k + c"
  shows "k mod c \<noteq> n mod c"
proof
  assume "k mod c = n mod c"
  then have "c dvd n - k" using assms(1) by (metis mod_eq_dvd_iff_nat less_imp_le)
  with assms show False by (auto dest: dvd_imp_le)
qed

lemma repr_new:
  assumes "0 < c" "c < 2 ^ 62" "NewLogBuffer c = Some lb"
  shows "repr lb []"
  using assms by (auto simp: NewLogBuffer_def repr_def int64_id)

definition mk_entry :: "string \<Rightarrow> LogSource \<Rightarrow> string \<Rightarrow> string option \<Rightarrow> LogEntry" where
  "mk_entry now source line timestamp =
     \<lparr>LogEntry_Timestamp = (case timestamp of None \<Rightarrow> now | Some t \<Rightarrow> t),
      LogEntry_Source = source, LogEntry_Line = line\<rparr>"

lemma repr_Write:
  assumes r: "repr lb h" and len: "Suc (length h) < 2 ^ 62"
  obtains lb' where "Write now src line ts lb = Some lb'"
    "repr lb' (h @ [mk_entry now src line ts])"
    "LogBuffer_capacity lb' = LogBuffer_capacity lb"
proof -
  let ?c = "nat (LogBuffer_capacity lb)" and ?e = "mk_entry now src line ts"
  let ?l = "length h mod ?c"
  let ?lb = "lb\<lparr>LogBuffer_buf := (LogBuffer_buf lb)[?l := ?e],
                LogBuffer_offset := int64 (LogBuffer_offset lb + 1)\<rparr>"
  have off: "LogBuffer_offset lb = int (length h)" and c: "0 < ?c"
    and lb: "length (LogBuffer_buf lb) = ?c"
    and old: "\<And>k. k < length h \<Longrightarrow> length h \<le> k + ?c \<Longrightarrow> LogBuffer_buf lb ! (k mod ?c) = h ! k"
    using r by (auto simp: repr_def)
  have w: "Write now src line ts lb = Some ?lb"
    using repr_bufLoc [OF r, of "length h"]
    by (simp add: Write_def off mk_entry_def Let_def)
  have l: "?l < ?c" using c by simp
  have slot: "(LogBuffer_buf lb)[?l := ?e] ! (k mod ?c) = (h @ [?e]) ! k"
    if k: "k < Suc (length h)" "Suc (length h) \<le> k + ?c" for k
  proof (cases "k = length h")
    case True
    then show ?thesis using l lb by simp
  next
    case False
    with k have "k < length h" "length h < k + ?c" by auto
    then have "k mod ?c \<noteq> ?l" by (rule mod_window_neq)
    then show ?thesis using \<open>k < length h\<close> k old [of k] by (simp add: nth_append)
  qed
  have "int64 (int (length h) + 1) = int (length h) + 1"
    using len by (intro int64_id) auto
  then have "repr ?lb (h @ [?e])"
    using r len slot by (auto simp: repr_def)
  with w that show ?thesis by simp
qed

lemma since_loop_repr:
  assumes r: "repr lb h" and "i \<le> length h" "length h \<le> i + nat (LogBuffer_capacity lb)"
  shows "since_loop lb (int i) acc = Some (acc @ drop i h)"
  using assms(2,3)
proof (induction "length h - i" arbitrary: i acc)
  case 0
  with r show ?case by (subst since_loop.simps) (simp add: repr_def)
next
  case (Suc n)
  then have i: "i < length h" by simp
  have off: "LogBuffer_offset lb = int (length h)" using r by (simp add: repr_def)
  have "LogBuffer_buf lb ! (i mod nat (LogBuffer_capacity lb)) = h ! i"
    using r i Suc.prems by (simp add: repr_def)
  moreover have "since_loop lb (int (Suc i)) (acc @ [h ! i]) = Some ((acc @ [h ! i]) @ drop (Suc i) h)"
    using Suc.hyps(2) Suc.prems i by (intro Suc.hyps(1)) auto
  moreover have "drop i h = h ! i # drop (Suc i) h" using i by (rule Cons_nth_drop_Suc [symmetric])
  ultimately show ?case
    using i by (subst since_loop.simps) (simp add: off repr_bufLoc [OF r] add.commute)
qed

text \<open>\<open>ReadSince\<close> returns what was written from \<open>i\<close> on, less what the ring has overwritten.\<close>

lemma ReadSince_repr:
  assumes r: "repr lb h"
  shows "ReadSince lb (int i) =
    Some (drop (max i (length h - nat (LogBuffer_capacity lb))) h, int (length h))"
proof (cases "i < length h")
  case False
  with r show ?thesis by (auto simp: ReadSince_def repr_def Let_def)
next
  case True
  let ?c = "nat (LogBuffer_capacity lb)"
  let ?i = "max i (length h - ?c)"
  have off: "LogBuffer_offset lb = int (length h)" and c: "LogBuffer_capacity lb = int ?c"
    using r by (auto simp: repr_def)
  have "int64 (int i + LogBuffer_capacity lb) = int i + LogBuffer_capacity lb"
    using r True by (intro int64_id) (auto simp: repr_def)
  then have "(if int64 (int i + LogBuffer_capacity lb) < LogBuffer_offset lb
       then LogBuffer_offset lb - LogBuffer_capacity lb else int i) = int ?i"
    using off c True by (auto simp: max_def)
  moreover have "since_loop lb (int ?i) [] = Some ([] @ drop ?i h)"
    using r True by (intro since_loop_repr) auto
  ultimately have "since_loop lb (if int64 (int i + LogBuffer_capacity lb) < LogBuffer_offset lb
       then LogBuffer_offset lb - LogBuffer_capacity lb else int i) [] = Some (drop ?i h)"
    by simp
  with True show ?thesis by (simp only: ReadSince_def Let_def) (simp add: off)
qed

lemma read_loop_repr:
  assumes r: "repr lb h" and "j \<le> n" "n \<le> length h" "n \<le> nat (LogBuffer_capacity lb)"
  shows "read_loop lb (int (n - j) + 1) (int n) (drop (length h - (n - j)) h) =
         Some (drop (length h - n) h)"
  using assms(2)
proof (induction j)
  case 0
  then show ?case by (subst read_loop.simps) simp
next
  case (Suc j)
  define k where "k = length h - (n - j)"
  have off: "LogBuffer_offset lb = int (length h)" using r by (simp add: repr_def)
  have k: "k < length h" "length h \<le> k + nat (LogBuffer_capacity lb)"
    "length h - (n - Suc j) = Suc k"
    using Suc.prems assms(3,4) by (auto simp: k_def)
  have ints: "int (n - Suc j) + 1 = int (n - j)" using Suc.prems by auto
  have idx: "LogBuffer_offset lb - int (n - j) = int k"
    using off Suc.prems assms(3) by (auto simp: k_def)
  have "LogBuffer_buf lb ! (k mod nat (LogBuffer_capacity lb)) = h ! k"
    using r k by (simp add: repr_def)
  moreover have "h ! k # drop (Suc k) h = drop k h"
    using k(1) by (rule Cons_nth_drop_Suc)
  moreover have "read_loop lb (int (n - j) + 1) (int n) (drop k h) = Some (drop (length h - n) h)"
    using Suc by (simp add: k_def)
  ultimately show ?case
    unfolding k(3) ints by (subst read_loop.simps) (simp add: idx repr_bufLoc [OF r])
qed

text \<open>
  \<open>Read n\<close> returns the last \<open>n\<close> entries written; 0, or more than the buffer retains, means
  everything it retains; a negative \<open>n\<close> means nothing.
\<close>

lemma Read_repr:
  assumes r: "repr lb h"
  shows "Read lb nn =
    (let keep = min (nat (LogBuffer_capacity lb)) (length h)
     in if nn < 0 then Some []
        else if nn = 0 \<or> nn > int keep then Some (drop (length h - keep) h)
        else Some (drop (length h - nat nn) h))"
proof -
  define keep where "keep = min (nat (LogBuffer_capacity lb)) (length h)"
  have off: "LogBuffer_offset lb = int (length h)"
    using r by (simp add: repr_def)
  obtain n where n: "LogBuffer_capacity lb = int n"
    using r by (metis repr_def zero_less_imp_eq_int)
  have loop: "read_loop lb 1 (int m) [] = Some (drop (length h - m) h)" if "m \<le> keep" for m
    using read_loop_repr [OF r, of m m] that by (simp add: keep_def)
  have min: "Minint64 (LogBuffer_capacity lb) (LogBuffer_offset lb) = int keep"
    using off n by (auto simp: Minint64_def keep_def)
  have big: "nn > LogBuffer_capacity lb \<or> nn > LogBuffer_offset lb \<longleftrightarrow> nn > int keep"
    using off n by (auto simp: keep_def)
  show ?thesis
  proof (cases "nn < 0 \<or> nn = 0 \<or> nn > int keep")
    case True
    then show ?thesis
      unfolding Read_def Let_def min big keep_def [symmetric] using loop [of keep] by auto
  next
    case False
    then obtain m where "nn = int m" "m \<noteq> 0" "m \<le> keep"
      by (metis nat_0_le nat_int not_less of_nat_0 of_nat_le_iff)
    then show ?thesis
      unfolding Read_def Let_def min big keep_def [symmetric] using loop [of m] by simp
  qed
qed

section \<open>Sequences of writes\<close>

definition write_all ::
  "(string \<times> LogSource \<times> string \<times> string option) list \<Rightarrow> LogBuffer \<Rightarrow> LogBuffer option" where
  "write_all ws lb = foldl (\<lambda>r (now, src, line, ts). Option.bind r (Write now src line ts)) (Some lb) ws"

definition entries :: "(string \<times> LogSource \<times> string \<times> string option) list \<Rightarrow> LogEntry list" where
  "entries ws = map (\<lambda>(now, src, line, ts). mk_entry now src line ts) ws"

lemma length_entries [simp]: "length (entries ws) = length ws"
  by (simp add: entries_def)

lemma write_all_repr:
  assumes "0 < c" "c < 2 ^ 62" "NewLogBuffer c = Some lb" "length ws < 2 ^ 62"
  shows "\<exists>lb'. write_all ws lb = Some lb' \<and> repr lb' (entries ws) \<and> LogBuffer_capacity lb' = c"
  using assms(4)
proof (induction ws rule: rev_induct)
  case Nil
  have "LogBuffer_capacity lb = c"
    using assms(1-3) by (auto simp: NewLogBuffer_def int64_id split: if_splits)
  then show ?case using repr_new [OF assms(1-3)] by (simp add: write_all_def entries_def)
next
  case (snoc w ws)
  obtain lb1 where lb1: "write_all ws lb = Some lb1" "repr lb1 (entries ws)" "LogBuffer_capacity lb1 = c"
    using snoc by auto
  obtain now src line ts where w: "w = (now, src, line, ts)" by (cases w)
  obtain lb2 where "Write now src line ts lb1 = Some lb2"
      "repr lb2 (entries ws @ [mk_entry now src line ts])"
      "LogBuffer_capacity lb2 = LogBuffer_capacity lb1"
    by (rule repr_Write [OF lb1(2)]) (use snoc.prems in \<open>simp add: entries_def\<close>)
  then show ?case using lb1 by (auto simp: write_all_def entries_def w)
qed

section \<open>Following a log\<close>

text \<open>
  The interface a poller relies on: reading from an offset that is not too far behind returns
  everything written since then, and the new offset.
\<close>

locale append_log =
  fixes repr_of :: "'l \<Rightarrow> 'e list \<Rightarrow> bool"
    and window :: "'l \<Rightarrow> nat"
    and since :: "'l \<Rightarrow> int \<Rightarrow> ('e list \<times> int) option"
  assumes since_window:
    "repr_of l h \<Longrightarrow> i \<le> length h \<Longrightarrow> length h - i \<le> window l \<Longrightarrow>
     since l (int i) = Some (drop i h, int (length h))"

text \<open>A poller reads at every state of the log it sees and goes on from the offset it was given.\<close>

fun poll :: "('l \<Rightarrow> int \<Rightarrow> ('e list \<times> int) option) \<Rightarrow> int \<Rightarrow> 'l list \<Rightarrow> ('e list \<times> int) option" where
  "poll since i [] = Some ([], i)"
| "poll since i (l # ls) =
     (case since l i of
        None \<Rightarrow> None
      | Some (es, j) \<Rightarrow> map_option (\<lambda>(fs, k). (es @ fs, k)) (poll since j ls))"

text \<open>A log that grows: each state is the log after one more batch of entries.\<close>

fun grows :: "('l \<Rightarrow> 'e list \<Rightarrow> bool) \<Rightarrow> 'e list \<Rightarrow> ('l \<times> 'e list) list \<Rightarrow> bool" where
  "grows R h [] \<longleftrightarrow> True"
| "grows R h ((l, b) # lbs) \<longleftrightarrow> R l (h @ b) \<and> grows R (h @ b) lbs"

context append_log
begin

text \<open>Polling often enough loses nothing and repeats nothing.\<close>

lemma poll_complete:
  assumes "grows repr_of h lbs" "\<forall>(l, b) \<in> set lbs. length b \<le> window l"
  shows "poll since (int (length h)) (map fst lbs) =
    Some (concat (map snd lbs), int (length h + length (concat (map snd lbs))))"
  using assms
proof (induction lbs arbitrary: h)
  case (Cons lb lbs)
  obtain l b where lb: "lb = (l, b)" by (cases lb)
  with Cons.prems have "since l (int (length h)) = Some (drop (length h) (h @ b), int (length (h @ b)))"
    by (intro since_window) auto
  moreover have "poll since (int (length (h @ b))) (map fst lbs) =
      Some (concat (map snd lbs), int (length (h @ b) + length (concat (map snd lbs))))"
    using Cons.prems lb by (intro Cons.IH) auto
  ultimately show ?case using lb by simp
qed simp

end

interpretation logbuf: append_log repr "\<lambda>lb. nat (LogBuffer_capacity lb)" ReadSince
proof (unfold_locales, goal_cases)
  case (1 l h i)
  then have "max i (length h - nat (LogBuffer_capacity l)) = i" by auto
  with ReadSince_repr [OF 1(1), of i] show ?case by simp
qed

end
