(* ===== verification/Runtime_Itzo.thy ===== *)
theory Runtime_Itzo
  imports Pod_Controller Unit_Status Containers Logbuf
begin

text \<open>
  \<open>pkg/unit/unit_manager.go\<close> and \<open>pkg/runtime/itzo_linux.go\<close>: the runtime that runs units as
  processes of its own.  Its state has every unit's status file, the running units and their log
  buffers; \<open>on_unit\<close> runs an operation of a unit in it.  A mount path that leads through more than
  \<open>ip_links\<close> absolute links counts as an error.
\<close>

section \<open>State\<close>

(* src: pkg/unit/unit_manager.go 71-75 UnitManager *)
record itzo_os = os +
  it_rootdir :: string
  it_netNS :: string
  it_podIP :: string
  it_files :: "string \<Rightarrow> status_file"
  it_running :: "(string, int) KeyTypeValueType"
  it_logs :: "(string, LogBuffer) KeyTypeValueType"

type_synonym 'a itzo_m = "(itzo_os, 'a) state"

record itzo_params =
  ip_decode_config :: "string \<Rightarrow> go_error + Config"
  ip_decode_unit :: "string \<Rightarrow> UnitConfig \<times> error"
  ip_encode_unit :: "UnitConfig \<Rightarrow> go_error + string"
  ip_semver :: "string \<Rightarrow> bool"
  ip_compare :: "string \<Rightarrow> string \<Rightarrow> int"
  ip_quote :: "string list \<Rightarrow> string"
  ip_links :: nat

definition unit_view :: "string \<Rightarrow> itzo_os \<Rightarrow> unit_os" where
  "unit_view name w =
     \<lparr>os_env = os_env w, os_trace = os_trace w, u_Directory = [], u_Name = [], u_Image = [],
      u_statusPath = [], u_config = None, u_unitConfig = zero_UnitConfig, u_stdinPath = [],
      u_Pipes = (\<lambda>_. False), u_file = it_files w name\<rparr>"

definition on_unit :: "string \<Rightarrow> 'a unit_m \<Rightarrow> 'a itzo_m" where
  "on_unit name m = State (\<lambda>w.
     let (r, u) = run_state m (unit_view name w)
     in (r, w\<lparr>os_trace := os_trace u, it_files := (it_files w)(name := u_file u)\<rparr>))"

lemma result_on_unit [simp]: "result (on_unit name m) w = result m (unit_view name w)"
  by (simp add: on_unit_def result_def split_def Let_def)

lemma final_on_unit [simp]:
  "final (on_unit name m) w =
     w\<lparr>os_trace := os_trace (final m (unit_view name w)),
       it_files := (it_files w)(name := u_file (final m (unit_view name w)))\<rparr>"
  by (simp add: on_unit_def final_def split_def Let_def)

definition open_unit :: "itzo_params \<Rightarrow> string \<Rightarrow> string \<Rightarrow> error unit_m" where
  "open_unit ip rootdir name = OpenUnit (ip_decode_config ip) (ip_decode_unit ip) rootdir name"

section \<open>The unit manager\<close>

abbreviation (input) logBuffSize :: int where "logBuffSize \<equiv> 4096"

(* src: pkg/unit/unit_manager.go 77-84 NewUnitManager *)
definition NewUnitManager :: "string \<Rightarrow> unit itzo_m" where
  "NewUnitManager rootDir = do {
     os_try (Os_MkdirAll ''/var/log/containers'' 493);
     modify (\<lambda>w. w\<lparr>it_rootdir := rootDir, it_running := NewKeyTypeValueType,
                   it_logs := NewKeyTypeValueType\<rparr>)
   }"

(* src: pkg/unit/unit_manager.go 86-92 GetLogBuffer *)
definition um_GetLogBuffer :: "string \<Rightarrow> itzo_os \<Rightarrow> LogBuffer option \<times> error" where
  "um_GetLogBuffer unit w =
     (case conmap_GetOK (it_logs w) unit of
        None \<Rightarrow> (None, Some (Errorf (''Could not find logs for unit named '' @ unit)))
      | Some lb \<Rightarrow> (Some lb, None))"

(* src: pkg/unit/unit_manager.go 94-100 GetPid *)
definition um_GetPid :: "string \<Rightarrow> itzo_os \<Rightarrow> int \<times> bool" where
  "um_GetPid unitName w =
     (case conmap_GetOK (it_running w) unitName of None \<Rightarrow> (0, False) | Some pid \<Rightarrow> (pid, True))"

(* src: pkg/unit/unit_manager.go 102-111 ReadLogBuffer *)
definition um_ReadLogBuffer :: "string \<Rightarrow> int \<Rightarrow> itzo_os \<Rightarrow> (go_error + LogEntry list) outcome" where
  "um_ReadLogBuffer unit n w =
     (if unit = [] then Ret (Inl (Errorf ''Could not find unit''))
      else case conmap_GetOK (it_logs w) unit of
             None \<Rightarrow> Ret (Inl (Errorf (''Could not find logs for unit named '' @ unit)))
           | Some lb \<Rightarrow> (case Read lb n of None \<Rightarrow> Panic | Some es \<Rightarrow> Ret (Inr es)))"

(* src: pkg/unit/unit_manager.go 113-116 UnitRunning *)
definition um_UnitRunning :: "string \<Rightarrow> itzo_os \<Rightarrow> bool" where
  "um_UnitRunning unit w \<longleftrightarrow> conmap_GetOK (it_running w) unit \<noteq> None"

(* src: pkg/unit/unit_manager.go 121-140 StopUnit *)
definition um_StopUnit :: "itzo_params \<Rightarrow> string \<Rightarrow> error itzo_m" where
  "um_StopUnit ip name = do {
     running \<leftarrow> gets it_running;
     rootdir \<leftarrow> gets it_rootdir;
     case conmap_GetOK running name of
       None \<Rightarrow> return (Some (Errorf (''Could not stop unit '' @ name @ '': Unit does not exist'')))
     | Some pid \<Rightarrow> do {
         err \<leftarrow> on_unit name (open_unit ip rootdir name);
         case err of
           Some e \<Rightarrow> return (Some (Errorf (''Error opening unit '' @ name @ '' for termination: '' @ Error e)))
         | None \<Rightarrow> do {
             os_try (Ext_Call ''kill'' [Itoa pid]);
             modify (\<lambda>w. w\<lparr>it_running := conmap_Delete name (it_running w)\<rparr>);
             return None
           }
       }
   }"

(* src: pkg/unit/unit_manager.go 142-153 RemoveUnit *)
definition um_RemoveUnit :: "itzo_params \<Rightarrow> string \<Rightarrow> error itzo_m" where
  "um_RemoveUnit ip name = do {
     rootdir \<leftarrow> gets it_rootdir;
     on_unit name (do {
       err \<leftarrow> open_unit ip rootdir name;
       case err of
         Some e \<Rightarrow> return (Some (Errorf (''Error opening unit '' @ name @ '' for removal: '' @ Error e)))
       | None \<Rightarrow> do {
           err \<leftarrow> Destroy;
           return (case err of None \<Rightarrow> None
                   | Some e \<Rightarrow> Some (Errorf (''Error removing unit '' @ name @ '': '' @ Error e)))
         }
     })
   }"

(* src: pkg/unit/unit_manager.go 250-265 CaptureLogs *)
definition um_CaptureLogs :: "string \<Rightarrow> unit itzo_m" where
  "um_CaptureLogs unitName =
     modify (\<lambda>w. case NewLogBuffer logBuffSize of
                   None \<Rightarrow> w
                 | Some lb \<Rightarrow> w\<lparr>it_logs := conmap_Set unitName lb (it_logs w)\<rparr>)"

text \<open>A line read from one of the pipes, by the reader \<open>CaptureLogs\<close> has started.\<close>

(* src: pkg/unit/unit_manager.go 257-264 CaptureLogs *)
definition um_log_line :: "string \<Rightarrow> LogSource \<Rightarrow> string \<Rightarrow> string \<Rightarrow> itzo_os \<Rightarrow> itzo_os outcome" where
  "um_log_line unitName source now line w =
     (case conmap_GetOK (it_logs w) unitName of
        None \<Rightarrow> Panic
      | Some lb \<Rightarrow>
          (case Write now source line None lb of
             None \<Rightarrow> Panic
           | Some lb \<Rightarrow> Ret (w\<lparr>it_logs := conmap_Set unitName lb (it_logs w)\<rparr>)))"

text \<open>The environment of a unit; an entry with no equals sign panics.\<close>

(* src: pkg/unit/unit_manager.go 194-202 StartUnit *)
fun append_env :: "string list \<Rightarrow> string list \<Rightarrow> string list outcome" where
  "append_env env [] = Ret env"
| "append_env env (e # es) =
     (let items = SplitN2 e (CHR ''='')
      in if length items < 2 then Panic
         else append_env (AddToEnvList env (items ! 0) (items ! 1) True) es)"

(* src: pkg/unit/unit_manager.go 173-189 StartUnit *)
definition helper_args ::
  "itzo_params \<Rightarrow> string list \<Rightarrow> RestartPolicy \<Rightarrow> string \<Rightarrow> string \<Rightarrow> string \<Rightarrow> string \<Rightarrow> string \<Rightarrow>
   string \<Rightarrow> string list" where
  "helper_args ip unitcmd policy podname hostname unitname rootDir workingdir netns =
     [''--exec'', ip_quote ip unitcmd, ''--restartpolicy'', policy, ''--podname'', podname,
      ''--hostname'', hostname, ''--unit'', unitname, ''--rootdir'', rootDir,
      ''--workingdir'', workingdir, ''--netns'', netns]"

(* src: pkg/unit/unit_manager.go 158-248 StartUnit *)
definition um_StartUnit ::
  "itzo_params \<Rightarrow> string \<Rightarrow> string \<Rightarrow> string \<Rightarrow> string \<Rightarrow> string \<Rightarrow> string list \<Rightarrow> string list \<Rightarrow>
   string list \<Rightarrow> RestartPolicy \<Rightarrow> error outcome itzo_m" where
  "um_StartUnit ip podname hostname unitname workingdir netns command args appenv policy = do {
     rootdir \<leftarrow> gets it_rootdir;
     (err, config, rootfs, dir) \<leftarrow> on_unit unitname (do {
       err \<leftarrow> open_unit ip rootdir unitname;
       u \<leftarrow> gets (\<lambda>u. u);
       return (err, u_config u, GetRootfs u, (GetWorkingDir u, GetEnv u))
     });
     if err \<noteq> None then return (Ret err)
     else do {
       let workingdir = (if workingdir = [] then fst dir else workingdir);
       let unitcmd = CreateCommand config command args;
       let cmdline = helper_args ip unitcmd policy podname hostname unitname rootdir workingdir netns;
       case append_env (snd dir) appenv of
         Panic \<Rightarrow> return Panic
       | Ret env \<Rightarrow> do {
           (missing, err) \<leftarrow> IsEmptyDir rootfs;
           um_CaptureLogs unitname;
           r \<leftarrow> os_reply (Sys_Start (''/proc/self/exe'' # cmdline) env (\<not> missing));
           if reply_err r \<noteq> None then do {
             on_unit unitname (do {
               modify (\<lambda>u. u\<lparr>u_Directory := filepath_Join [rootdir, unitname]\<rparr>);
               pipe_Remove
             });
             return (Ret (reply_err r))
           }
           else do {
             modify (\<lambda>w. w\<lparr>it_running := conmap_Set unitname
                 (case reply_ints r of [] \<Rightarrow> 0 | p # _ \<Rightarrow> p) (it_running w)\<rparr>);
             return (Ret None)
           }
         }
     }
   }"

text \<open>The goroutine that waits for the helper process.\<close>

(* src: pkg/unit/unit_manager.go 235-246 StartUnit *)
definition um_exited :: "string \<Rightarrow> unit itzo_m" where
  "um_exited unitname = do {
     modify (\<lambda>w. w\<lparr>it_running := conmap_Delete unitname (it_running w)\<rparr>);
     os_try (Sys_Sleep 3000000000);
     rootdir \<leftarrow> gets it_rootdir;
     on_unit unitname (do {
       modify (\<lambda>u. u\<lparr>u_Directory := filepath_Join [rootdir, unitname]\<rparr>);
       pipe_Remove
     })
   }"

section \<open>The runtime\<close>

(* src: pkg/runtime/itzo_linux.go 36-45 PullImage *)
definition pull_source ::
  "string \<Rightarrow> (string \<rightharpoonup> RegistryCredentials) \<Rightarrow> string \<times> string \<times> string \<times> string" where
  "pull_source img registryCredentials =
     (let (server, repo) = ParseImageSpec img;
          (username, password) = GetRepoCreds server registryCredentials;
          server = (if server = ''docker.io'' then ''registry-1.docker.io'' else server);
          server = (if server \<noteq> [] \<and> \<not> HasPrefix server ''http'' then ''https://'' @ server else server)
      in (repo, server, username, password))"

(* src: pkg/runtime/itzo_linux.go 34-57 PullImage *)
definition PullImage ::
  "itzo_params \<Rightarrow> string \<Rightarrow> string \<Rightarrow> string \<Rightarrow> (string \<rightharpoonup> RegistryCredentials) \<Rightarrow> bool \<Rightarrow>
   error itzo_m" where
  "PullImage ip rootdir name img registryCredentials useOverlayfs =
     (let (repo, server, username, password) = pull_source img registryCredentials
      in on_unit name (do {
           err \<leftarrow> open_unit ip rootdir name;
           case err of
             Some e \<Rightarrow> return (Some (Errorf (''opening unit '' @ name @ '' for package deploy: '' @ Error e)))
           | None \<Rightarrow> do {
               SetUnitConfigOverlayfs useOverlayfs;
               err \<leftarrow> PullAndExtractImage (ip_semver ip) (ip_compare ip) repo server username password;
               return (case err of None \<Rightarrow> None
                       | Some e \<Rightarrow> Some (Errorf (''pulling image '' @ img @ '': '' @ Error e)))
             }
         }))"

definition follow :: "error option \<Rightarrow> error" where
  "follow r = (case r of None \<Rightarrow> Some (Errorf ''too many links'') | Some err \<Rightarrow> err)"

(* src: pkg/runtime/itzo_linux.go 79-90 RunPodSandbox *)
definition it_RunPodSandbox :: "PodSpec \<Rightarrow> (error \<times> PodSpec) itzo_m" where
  "it_RunPodSandbox spec = do {
     rootdir \<leftarrow> gets it_rootdir;
     err \<leftarrow> for_err (CreateMount rootdir) (PodSpec_Volumes spec);
     return (if err \<noteq> None then (err, spec) else (None, spec\<lparr>PodSpec_Phase := PodDispatching\<rparr>))
   }"

(* src: pkg/runtime/itzo_linux.go 159-187 RemoveContainer *)
definition it_RemoveContainer :: "itzo_params \<Rightarrow> Unit \<Rightarrow> error itzo_m" where
  "it_RemoveContainer ip unit = do {
     rootdir \<leftarrow> gets it_rootdir;
     um_StopUnit ip (Unit_Name unit);
     for_each (\<lambda>vm. do {
       DetachMount (ip_links ip) rootdir (Unit_Name unit) (VolumeMount_MountPath vm);
       return ()
     }) (Unit_VolumeMounts unit);
     um_RemoveUnit ip (Unit_Name unit)
   }"

(* src: pkg/runtime/itzo_linux.go 92-94 StopPodSandbox *)
definition it_StopPodSandbox :: "PodSpec \<Rightarrow> error itzo_m" where
  "it_StopPodSandbox spec = return None"

(* src: pkg/runtime/itzo_linux.go 96-112 RemovePodSandbox *)
definition it_RemovePodSandbox :: "itzo_params \<Rightarrow> PodSpec \<Rightarrow> error itzo_m" where
  "it_RemovePodSandbox ip spec = do {
     rootdir \<leftarrow> gets it_rootdir;
     err \<leftarrow> for_err (it_RemoveContainer ip) (PodSpec_InitUnits spec @ PodSpec_Units spec);
     if err \<noteq> None then return err
     else for_err (DeleteMount rootdir) (PodSpec_Volumes spec)
   }"

(* src: pkg/runtime/itzo_linux.go 239-252 saveUnitConfig *)
definition unit_config_of :: "string \<Rightarrow> Unit \<Rightarrow> PodSecurityContext option \<Rightarrow> UnitConfig" where
  "unit_config_of podIP unit psc =
     zero_UnitConfig\<lparr>
       UnitConfig_StartupProbe := TranslateProbePorts unit (Unit_StartupProbe unit),
       UnitConfig_ReadinessProbe := TranslateProbePorts unit (Unit_ReadinessProbe unit),
       UnitConfig_LivenessProbe := TranslateProbePorts unit (Unit_LivenessProbe unit),
       UnitConfig_TerminationMessagePolicy := Unit_TerminationMessagePolicy unit,
       UnitConfig_TerminationMessagePath := Unit_TerminationMessagePath unit,
       UnitConfig_PodIP := podIP,
       UnitConfig_PodSecurityContext := (case psc of None \<Rightarrow> zero_PodSecurityContext | Some c \<Rightarrow> c),
       UnitConfig_SecurityContext :=
         (case Unit_SecurityContext unit of None \<Rightarrow> zero_SecurityContext | Some c \<Rightarrow> c)\<rparr>"

(* src: pkg/runtime/itzo_linux.go 238-264 saveUnitConfig *)
definition saveUnitConfig :: "itzo_params \<Rightarrow> Unit \<Rightarrow> PodSecurityContext option \<Rightarrow> error itzo_m" where
  "saveUnitConfig ip unit psc = do {
     rootdir \<leftarrow> gets it_rootdir;
     podIP \<leftarrow> gets it_podIP;
     on_unit (Unit_Name unit) (do {
       err \<leftarrow> open_unit ip rootdir (Unit_Name unit);
       case err of
         Some e \<Rightarrow> return (Some (Errorf (''opening unit '' @ Unit_Name unit @
                      '' for saving unit configuration: '' @ Error e)))
       | None \<Rightarrow> do {
           err \<leftarrow> SaveUnitConfig (ip_encode_unit ip) (unit_config_of podIP unit psc);
           return (case err of None \<Rightarrow> None
                   | Some e \<Rightarrow> Some (Errorf (''saving unit '' @ Unit_Name unit @
                                  '' configuration: '' @ Error e)))
         }
     })
   }"

definition failed_status :: "Unit \<Rightarrow> string \<Rightarrow> go_error \<Rightarrow> UnitStatus option \<times> error" where
  "failed_status unit msg e =
     (Some (MakeFailedUpdateStatus (Unit_Name unit) (Unit_Image unit) (msg @ Error e)), Some e)"

(* src: pkg/runtime/itzo_linux.go 128-136 CreateContainer *)
fun attach_mounts ::
  "itzo_params \<Rightarrow> string \<Rightarrow> Unit \<Rightarrow> VolumeMount list \<Rightarrow> (UnitStatus option \<times> error) itzo_m" where
  "attach_mounts ip rootdir unit [] = return (None, None)"
| "attach_mounts ip rootdir unit (vm # vms) = do {
     r \<leftarrow> AttachMount (ip_links ip) rootdir (Unit_Name unit) (VolumeMount_Name vm)
            (VolumeMount_MountPath vm);
     case follow r of
       Some e \<Rightarrow> return (failed_status unit (''Error attaching mount '' @ VolumeMount_Name vm @
                    '' to unit '' @ Unit_Name unit @ '': '') e)
     | None \<Rightarrow> attach_mounts ip rootdir unit vms
   }"

(* src: pkg/runtime/itzo_linux.go 114-138 CreateContainer *)
definition it_CreateContainer ::
  "itzo_params \<Rightarrow> Unit \<Rightarrow> PodSpec \<Rightarrow> string \<Rightarrow> (string \<rightharpoonup> RegistryCredentials) \<Rightarrow> bool \<Rightarrow>
   (UnitStatus option \<times> error) itzo_m" where
  "it_CreateContainer ip unit spec podName registryCredentials useOverlayfs = do {
     rootdir \<leftarrow> gets it_rootdir;
     err \<leftarrow> PullImage ip rootdir (Unit_Name unit) (Unit_Image unit) registryCredentials useOverlayfs;
     case err of
       Some e \<Rightarrow> return (failed_status unit (''Bad image spec for unit '' @ Unit_Name unit @ '': '') e)
     | None \<Rightarrow> do {
         err \<leftarrow> saveUnitConfig ip unit (PodSpec_SecurityContext spec);
         case err of
           Some e \<Rightarrow> return (failed_status unit
                        (''Error saving unit '' @ Unit_Name unit @ '' configuration: '') e)
         | None \<Rightarrow> attach_mounts ip rootdir unit (Unit_VolumeMounts unit)
       }
   }"

(* src: pkg/runtime/itzo_linux.go 266-272 makeAppEnv *)
definition makeAppEnv :: "Unit \<Rightarrow> string list" where
  "makeAppEnv unit = map (\<lambda>ev. EnvVar_Name ev @ ''='' @ EnvVar_Value ev) (Unit_Env unit)"

(* src: pkg/runtime/itzo_linux.go 140-157 StartContainer *)
definition it_StartContainer ::
  "itzo_params \<Rightarrow> Unit \<Rightarrow> PodSpec \<Rightarrow> string \<Rightarrow> (UnitStatus option \<times> error) outcome itzo_m" where
  "it_StartContainer ip unit podSpec podName = do {
     netNS \<leftarrow> gets it_netNS;
     r \<leftarrow> um_StartUnit ip podName (PodSpec_Hostname podSpec) (Unit_Name unit) (Unit_WorkingDir unit)
            netNS (Unit_Command unit) (Unit_Args unit) (makeAppEnv unit)
            (PodSpec_RestartPolicy podSpec);
     return (case r of
               Panic \<Rightarrow> Panic
             | Ret (Some e) \<Rightarrow> Ret (failed_status unit (''Error starting unit '' @ Unit_Name unit @ '': '') e)
             | Ret None \<Rightarrow> Ret (None, None))
   }"

(* src: pkg/runtime/itzo_linux.go 190-200 ContainerStatus *)
definition running_status :: "string \<Rightarrow> string \<Rightarrow> UnitStatus" where
  "running_status unitName unitImage =
     zero_UnitStatus\<lparr>UnitStatus_Name := unitName, UnitStatus_State := running_state 0,
       UnitStatus_RestartCount := 0, UnitStatus_Image := unitImage, UnitStatus_Ready := True\<rparr>"

(* src: pkg/runtime/itzo_linux.go 189-219 ContainerStatus *)
definition it_ContainerStatus ::
  "itzo_params \<Rightarrow> string \<Rightarrow> string \<Rightarrow> (UnitStatus option \<times> error) itzo_m" where
  "it_ContainerStatus ip unitName unitImage = do {
     w \<leftarrow> gets (\<lambda>w. w);
     let creating = MakeStillCreatingStatus unitName unitImage ''PodInitializing'';
     if um_UnitRunning unitName w then return (Some (running_status unitName unitImage), None)
     else do {
       exists \<leftarrow> IsUnitExist (it_rootdir w) unitName;
       if \<not> exists then return (Some creating, None)
       else on_unit unitName (do {
         err \<leftarrow> open_unit ip (it_rootdir w) unitName;
         if err \<noteq> None then return (Some creating, err)
         else do {
           (us, err) \<leftarrow> GetStatus;
           if err \<noteq> None then return (Some creating, None) else return (Some us, None)
         }
       })
     }
   }"

(* src: pkg/runtime/itzo_linux.go 233-236 SetPodNetwork *)
definition it_SetPodNetwork :: "string \<Rightarrow> string \<Rightarrow> unit itzo_m" where
  "it_SetPodNetwork netNS podIP = modify (\<lambda>w. w\<lparr>it_podIP := podIP, it_netNS := netNS\<rparr>)"

text \<open>
  The runtime as the controller sees it.  Starting a container cannot panic
  (\<open>StartContainer_Ret\<close> below), so the value of that branch is never used.
\<close>

(* src: pkg/runtime/itzo_linux.go 59-77 NewItzoRuntime *)
definition itzo_runtime :: "itzo_params \<Rightarrow> itzo_os runtime" where
  "itzo_runtime ip =
     \<lparr>rt_RunPodSandbox = it_RunPodSandbox, rt_StopPodSandbox = it_StopPodSandbox,
      rt_RemovePodSandbox = it_RemovePodSandbox ip, rt_CreateContainer = it_CreateContainer ip,
      rt_StartContainer = (\<lambda>u spec podName. do {
        r \<leftarrow> it_StartContainer ip u spec podName;
        return (case r of Ret x \<Rightarrow> x | Panic \<Rightarrow> (None, None))
      }),
      rt_RemoveContainer = it_RemoveContainer ip, rt_ContainerStatus = it_ContainerStatus ip,
      rt_UnitRunning = (\<lambda>n. gets (um_UnitRunning n)), rt_GetPid = (\<lambda>n. gets (um_GetPid n)),
      rt_SetPodNetwork = it_SetPodNetwork\<rparr>"

section \<open>Properties\<close>

lemma append_env_Ret: "(\<And>e. e \<in> set es \<Longrightarrow> CHR ''='' \<in> set e) \<Longrightarrow> append_env env es \<noteq> Panic"
  by (induction es arbitrary: env) (auto simp: Let_def SplitN2_def)

lemma makeAppEnv_sep: "e \<in> set (makeAppEnv unit) \<Longrightarrow> CHR ''='' \<in> set e"
  by (auto simp: makeAppEnv_def)

lemma StartUnit_Ret:
  assumes "\<And>e. e \<in> set appenv \<Longrightarrow> CHR ''='' \<in> set e"
  shows "result (um_StartUnit ip podname hostname unitname workingdir netns command args appenv policy) w
     \<noteq> Panic"
  using append_env_Ret [OF assms] by (simp add: um_StartUnit_def Let_def split_def split: outcome.split)

lemma StartContainer_Ret: "result (it_StartContainer ip unit spec podName) w \<noteq> Panic"
  using StartUnit_Ret [OF makeAppEnv_sep]
  by (simp add: it_StartContainer_def split: outcome.splits option.splits)

lemma attach_mounts_status:
  "result (attach_mounts ip rootdir unit vms) w = (None, err) \<Longrightarrow> err = None"
  by (induction vms arbitrary: w) (auto simp: failed_status_def split: option.splits)

interpretation itzo: runtime_service "itzo_runtime ip"
proof (unfold_locales, goal_cases)
  case (1 u spec podName creds overlay s err)
  then show ?case
    by (auto simp: itzo_runtime_def it_CreateContainer_def failed_status_def
        dest: attach_mounts_status split: option.splits)
next
  case (2 u spec podName s err)
  then show ?case
    using StartContainer_Ret [of ip u spec podName s]
    by (auto simp: itzo_runtime_def it_StartContainer_def failed_status_def
        split: outcome.splits option.splits)
next
  case (3 name img s)
  then show ?case
    by (simp add: itzo_runtime_def it_ContainerStatus_def Let_def split_def)
qed

lemma running_unit_status:
  "um_UnitRunning name w \<Longrightarrow>
   result (it_ContainerStatus ip name img) w = (Some (running_status name img), None)"
  by (simp add: it_ContainerStatus_def Let_def)

text \<open>Removing a container: stop, then detach the mounts, then remove the files.\<close>

fun stop_phase :: "os_call \<Rightarrow> bool" where
  "stop_phase (Sys_Unmount t f) = False"
| "stop_phase (Os_RemoveAll p) = False"
| "stop_phase c = True"

fun detach_phase :: "os_call \<Rightarrow> bool" where
  "detach_phase (Sys_Unmount t f) = True"
| "detach_phase c = looks c"

fun remove_phase :: "os_call \<Rightarrow> bool" where
  "remove_phase (Ext_Call p args) = False"
| "remove_phase c = True"

lemma trace_within_on_unit: "trace_within P m \<Longrightarrow> trace_within P (on_unit name m)"
  unfolding trace_within_def
  by (simp add: unit_view_def) (metis (no_types, lifting) os.select_convs(2))

lemma OpenUnit_trace:
  assumes "\<And>p m. P (Os_MkdirAll p m)" "\<And>p m. P (Sys_Mkfifo p m)" "\<And>p. P (Os_OpenFile p)"
    "\<And>p. P (Os_Remove p)" "\<And>p. P (Io_ReadFile p)"
  shows "trace_within P (open_unit ip rootdir name)"
  unfolding open_unit_def OpenUnit_def NewLogPipe_def pipe_Remove_def createStdin_def
    getConfig_def getUnitConfig_def GetStatus_def
  by (intro trace_intros assms) simp_all

lemma StopUnit_trace: "trace_within stop_phase (um_StopUnit ip name)"
  unfolding um_StopUnit_def by (intro trace_intros trace_within_on_unit OpenUnit_trace) simp_all

lemma RemoveUnit_trace: "trace_within remove_phase (um_RemoveUnit ip name)"
  unfolding um_RemoveUnit_def Destroy_def Unmount_def pipe_Remove_def
  by (intro trace_intros trace_within_on_unit OpenUnit_trace) simp_all

lemma looks_detach: "looks c \<Longrightarrow> detach_phase c"
  by (cases c) simp_all

lemma DetachMount_trace: "trace_within detach_phase (DetachMount n basedir unit dst)"
proof -
  have "trace_within detach_phase (resolveLinks n b t)" for b t
    by (rule trace_within_calls, rule calls_within_mono [OF resolveLinks_looks]) (rule looks_detach)
  then show ?thesis unfolding DetachMount_def Let_def by (intro trace_intros) simp_all
qed

lemma RemoveContainer_phases:
  "\<exists>stops detaches removes. os_trace (final (it_RemoveContainer ip unit) w) =
     os_trace w @ stops @ detaches @ removes \<and>
     list_all stop_phase stops \<and> list_all detach_phase detaches \<and> list_all remove_phase removes"
proof -
  define stop where "stop = um_StopUnit ip (Unit_Name unit)"
  define detach where "detach = (\<lambda>vm :: VolumeMount. do {
       DetachMount (ip_links ip) (it_rootdir w) (Unit_Name unit) (VolumeMount_MountPath vm);
       return ()
     } :: unit itzo_m)"
  define w1 where "w1 = final stop w"
  define w2 where "w2 = final (for_each detach (Unit_VolumeMounts unit)) w1"
  obtain s where s: "os_trace w1 = os_trace w @ s" "list_all stop_phase s"
    using StopUnit_trace [of ip "Unit_Name unit"] unfolding trace_within_def w1_def stop_def by blast
  have "trace_within detach_phase (for_each detach (Unit_VolumeMounts unit))"
    unfolding detach_def by (intro trace_intros DetachMount_trace)
  then obtain d where d: "os_trace w2 = os_trace w1 @ d" "list_all detach_phase d"
    unfolding trace_within_def w2_def by blast
  obtain r where r: "os_trace (final (um_RemoveUnit ip (Unit_Name unit)) w2) = os_trace w2 @ r"
      "list_all remove_phase r"
    using RemoveUnit_trace [of ip "Unit_Name unit"] unfolding trace_within_def by blast
  have "final (it_RemoveContainer ip unit) w = final (um_RemoveUnit ip (Unit_Name unit)) w2"
    by (simp add: it_RemoveContainer_def w2_def w1_def stop_def detach_def)
  with s d r show ?thesis
    by (intro exI [where x = s] exI [where x = d] exI [where x = r]) simp
qed

end
