(* ===== verification/Itzo_Works.thy ===== *)
theory Itzo_Works
  imports Pod_Steps Runtime_Itzo
begin

text \<open>
  The runtime of this repository, on a machine whose calls succeed, is a runtime that works in the
  sense of \<open>Pod_Sync\<close>: the shelf is the status files of the units together with the table of
  running units.  So what \<open>Pod_Sync\<close> shows of the controller holds of the controller, the runtime, the
  unit manager and the unit's files together.
\<close>

section \<open>A machine whose calls succeed\<close>

text \<open>No call gives an error, and a download has the status code 200.\<close>

definition works :: "(os_call list \<Rightarrow> os_call \<Rightarrow> reply) \<Rightarrow> bool" where
  "works env \<longleftrightarrow> (\<forall>h c. reply_err (env h c) = None) \<and>
     (\<forall>h url. reply_ints (env h (Ext_Call ''http.Get'' [url])) = [200])"

definition machine :: "('a os_scheme \<Rightarrow> bool) \<Rightarrow> bool" where
  "machine I \<longleftrightarrow> traceless I \<and> (\<forall>w. I w \<longrightarrow> works (os_env w))"

text \<open>From a state with \<open>I\<close> a computation leads to such a state and gives an answer with \<open>Q\<close>.\<close>

definition gives :: "('s \<Rightarrow> bool) \<Rightarrow> ('s, 'a) state \<Rightarrow> ('a \<Rightarrow> bool) \<Rightarrow> bool" where
  "gives I m Q \<longleftrightarrow> (\<forall>w. I w \<longrightarrow> I (final m w) \<and> Q (result m w))"

named_theorems gives_intros \<open>rules for \<open>gives\<close>\<close>

lemma givesD: "gives I m Q \<Longrightarrow> I w \<Longrightarrow> I (final m w)" "gives I m Q \<Longrightarrow> I w \<Longrightarrow> Q (result m w)"
  by (simp_all add: gives_def)

lemma gives_weaken: "gives I m P \<Longrightarrow> (\<And>x. P x \<Longrightarrow> Q x) \<Longrightarrow> gives I m Q"
  by (simp add: gives_def)

lemma gives_return [gives_intros]: "Q x \<Longrightarrow> gives I (return x) Q"
  by (simp add: gives_def)

lemma gives_gets: "gives I (gets f) (\<lambda>x. True)"
  by (simp add: gives_def)

lemma gives_modify: "(\<And>w. I w \<Longrightarrow> I (f w)) \<Longrightarrow> gives I (modify f) (\<lambda>x. True)"
  by (simp add: gives_def)

lemma gives_bind:
  "gives I m P \<Longrightarrow> (\<And>x. P x \<Longrightarrow> gives I (f x) Q) \<Longrightarrow> gives I (State_Monad.bind m f) Q"
  by (simp add: gives_def)

text \<open>The rest of the computation after one that gives no error.\<close>

lemma gives_then: "gives I m (\<lambda>r. r = None) \<Longrightarrow> gives I (f None) Q \<Longrightarrow> gives I (State_Monad.bind m f) Q"
  by (simp add: gives_def)

lemma gives_any: "gives I m (\<lambda>r. True) \<Longrightarrow> (\<And>x. gives I (f x) Q) \<Longrightarrow> gives I (State_Monad.bind m f) Q"
  by (simp add: gives_def)

lemma gives_for_err [gives_intros]:
  "(\<And>x. x \<in> set xs \<Longrightarrow> gives I (f x) (\<lambda>r. r = None)) \<Longrightarrow> gives I (for_err f xs) (\<lambda>r. r = None)"
  by (induction xs) (auto simp: gives_def)

lemma gives_for_each:
  "(\<And>x. x \<in> set xs \<Longrightarrow> gives I (f x) (\<lambda>r. True)) \<Longrightarrow> gives I (for_each f xs) (\<lambda>r. True)"
  by (induction xs) (auto simp: gives_def)

lemma machine_reply [gives_intros]:
  "machine I \<Longrightarrow> gives I (os_reply c) (\<lambda>r. reply_err r = None \<and>
     (\<forall>url. c = Ext_Call ''http.Get'' [url] \<longrightarrow> reply_ints r = [200]))"
  by (auto simp: machine_def works_def traceless_def gives_def)

lemma machine_do [gives_intros]: "machine I \<Longrightarrow> gives I (os_do c) (\<lambda>r. r = None)"
  by (auto simp: machine_def works_def traceless_def gives_def)

lemma machine_try: "machine I \<Longrightarrow> gives I (os_try c) (\<lambda>r. True)"
  by (auto simp: machine_def works_def traceless_def gives_def)

text \<open>Go's \<open>if err != nil { return ... }\<close> after a computation that gives no error.\<close>

lemma gives_or:
  "gives I m (\<lambda>r. r = None) \<Longrightarrow> gives I (k None) Q \<Longrightarrow>
   gives I (State_Monad.bind m (\<lambda>err. if err \<noteq> None then x err else k err)) Q"
  by (simp add: gives_def)

lemma gives_or_and:
  "gives I m (\<lambda>r. r = None) \<Longrightarrow> gives I (k None) Q \<Longrightarrow>
   gives I (State_Monad.bind m (\<lambda>err. if err \<noteq> None \<and> c err then x err else k err)) Q"
  by (simp add: gives_def)

lemma gives_or_case:
  "gives I m (\<lambda>r. r = None) \<Longrightarrow> gives I k Q \<Longrightarrow>
   gives I (State_Monad.bind m (\<lambda>err. case err of None \<Rightarrow> k | Some e \<Rightarrow> x e)) Q"
  by (simp add: gives_def)

lemma gives_or_pair:
  "gives I m (\<lambda>r. snd r = None) \<Longrightarrow> (\<And>y. gives I (k y None) Q) \<Longrightarrow>
   gives I (State_Monad.bind m (\<lambda>(y, err). if err \<noteq> None then x y err else k y err)) Q"
  by (auto simp: gives_def split_def)

lemma gives_if: "(b \<Longrightarrow> gives I m Q) \<Longrightarrow> (\<not> b \<Longrightarrow> gives I m' Q) \<Longrightarrow> gives I (if b then m else m') Q"
  by simp

lemmas gives_rules = gives_or gives_or_and gives_or_case gives_or_pair gives_return gives_for_err

section \<open>Programs, files and mounts\<close>

lemma gives_RunProg:
  assumes "machine I"
  shows "gives I (RunProg prog bytes mx args) (\<lambda>r. r = None)"
proof -
  have "gives I (run_attempt prog bytes args n) (\<lambda>r. r = (None, False))" for n
    unfolding run_attempt_def
    by (rule gives_bind [OF machine_reply [OF assms]]) (auto intro: gives_return)
  then show ?thesis
    unfolding RunProg_def RunProg_loop.simps [of prog bytes mx args 0]
    by (rule gives_bind) (simp add: gives_return)
qed

lemma gives_InstallProg:
  assumes "machine I"
  shows "gives I (InstallProg url path) (\<lambda>r. r = None)"
proof -
  have rest: "gives I (do {
         os_try (Os_MkdirAll (filepath_Dir path) 493);
         err \<leftarrow> os_do (Os_OpenFile path);
         if err \<noteq> None then return (Some (Errorf (''opening '' @ path @ '' for writing'')))
         else do {
           err \<leftarrow> os_do (Io_Copy url path);
           if err \<noteq> None then return (Some (Errorf (''writing '' @ path))) else return None
         }
       }) (\<lambda>r. r = None)"
    by (intro gives_any [OF machine_try] gives_rules machine_do assms) simp
  show ?thesis
    unfolding InstallProg_def
    by (rule gives_bind [OF machine_reply [OF assms]]) (use rest in simp)
qed

lemma gives_EnsureProg:
  assumes "machine I"
  shows "gives I (EnsureProg is_semver compare prog url minVersion arg) (\<lambda>r. snd r = None)"
proof -
  have path: "gives I (ensurePath itzoBinPath) (\<lambda>r. True)"
    unfolding ensurePath_def Let_def
    by (rule gives_bind [OF machine_reply [OF assms]])
      (auto intro: gives_return machine_try [OF assms])
  have "gives I (versionMatch is_semver compare exe minVersion arg) (\<lambda>r. True)" for exe
    unfolding versionMatch_def by (rule gives_bind [OF machine_reply [OF assms]]) (simp add: gives_return)
  then have version: "gives I (if b then versionMatch is_semver compare exe minVersion arg else return False)
      (\<lambda>r. True)" for b exe by (simp add: gives_return)
  show ?thesis
    unfolding EnsureProg_def Let_def
    by (intro gives_any [OF path] gives_bind [OF machine_reply [OF assms]] gives_any [OF version] gives_if
        gives_rules gives_InstallProg assms) simp_all
qed

lemma gives_tosi_Unpack:
  assumes "machine I" "tosi_image t = img"
  shows "gives I (tosi_Unpack is_semver compare img dest configPath t) (\<lambda>r. fst r = None)"
proof -
  have "gives I (tosi_run is_semver compare t server img dest configPath user password) (\<lambda>r. fst r = None)"
    for server user password
    unfolding tosi_run_def Let_def
    by (intro gives_or_pair gives_EnsureProg gives_then [OF gives_RunProg] gives_return assms(1)) simp
  with assms(2) show ?thesis unfolding tosi_Unpack_def by simp
qed

lemma gives_CopyFile:
  assumes "machine I"
  shows "gives I (CopyFile src dst) (\<lambda>r. r = None)"
  unfolding CopyFile_def by (intro gives_rules machine_do assms)

text \<open>A volume of one source, in a medium there is, from a host path that needs no check.\<close>

definition plain_volume :: "Volume \<Rightarrow> bool" where
  "plain_volume v \<longleftrightarrow> (let vs = Volume_VolumeSource v in
     (case VolumeSource_EmptyDir vs of
        Some ed \<Rightarrow> EmptyDir_Medium ed \<in> {StorageMediumDefault, StorageMediumMemory} \<and>
          \<not> is_package vs \<and> VolumeSource_HostPath vs = None
      | None \<Rightarrow>
          (case VolumeSource_HostPath vs of
             Some hp \<Rightarrow> \<not> is_package vs \<and> HostPathVolumeSource_Type hp = None
           | None \<Rightarrow> is_package vs)))"

lemma gives_createEmptydir:
  assumes "machine I" "EmptyDir_Medium ed \<in> {StorageMediumDefault, StorageMediumMemory}"
  shows "gives I (createEmptydir dir ed) (\<lambda>r. r = None)"
  unfolding createEmptydir_def ShareMount_def createTmpfs_def
  by (intro gives_rules gives_if machine_do assms(1)) (use assms(2) in simp_all)

lemma gives_CreateMount:
  assumes "machine I" "plain_volume v"
  shows "gives I (CreateMount basedir v) (\<lambda>r. r = None)"
proof -
  let ?vs = "Volume_VolumeSource v"
  have link: "gives I (create_package_link basedir path v) (\<lambda>r. r = None)" for path
    unfolding create_package_link_def Let_def by (intro gives_rules machine_do assms(1))
  have host: "gives I (create_hostpath_link path hp) (\<lambda>r. r = None)"
    if "HostPathVolumeSource_Type hp = None" for path hp
  proof -
    have "gives I (check_hostpath hp) (\<lambda>r. r = None)"
      using that by (simp add: check_hostpath_def Let_def gives_return)
    then show ?thesis unfolding create_hostpath_link_def by (intro gives_or machine_do assms(1))
  qed
  let ?e = "VolumeSource_EmptyDir ?vs" and ?h = "VolumeSource_HostPath ?vs"
  let ?empty = "\<lambda>path. case ?e of None \<Rightarrow> return None | Some ed \<Rightarrow> createEmptydir path ed"
  let ?package = "\<lambda>path. if is_package ?vs
    then if ?e \<noteq> None then return err_multiple else create_package_link basedir path v else return None"
  let ?host = "\<lambda>path. case ?h of None \<Rightarrow> return None
    | Some hp \<Rightarrow> if ?e \<noteq> None \<or> is_package ?vs then return err_multiple else create_hostpath_link path hp"
  have sources: "gives I (?empty path) (\<lambda>r. r = None)" "gives I (?package path) (\<lambda>r. r = None)"
      "gives I (?host path) (\<lambda>r. r = None)" "\<not> (\<not> ?e \<noteq> None \<and> \<not> is_package ?vs \<and> ?h = None)" for path
    using assms(2) link host gives_createEmptydir [OF assms(1)]
    by (auto simp: plain_volume_def Let_def gives_return split: option.splits)
  show ?thesis
    unfolding CreateMount_def Let_def
    by (intro gives_or gives_or_and machine_do assms(1) sources(1-3))
      (use sources(4) in \<open>auto intro: gives_return\<close>)
qed

section \<open>The unit's files\<close>

definition unit_has :: "status_file \<Rightarrow> unit_os \<Rightarrow> bool" where
  "unit_has f u \<longleftrightarrow> works (os_env u) \<and> u_file u = f"

lemma machine_unit: "machine (unit_has f)"
  by (simp add: machine_def traceless_def unit_has_def)

lemma gives_set:
  assumes "\<And>u. os_env (g u) = os_env u \<and> u_file (g u) = u_file u"
  shows "gives (unit_has f) (modify g) (\<lambda>r. True)"
  by (rule gives_modify) (simp add: unit_has_def assms)

lemma gives_GetStatus: "gives (unit_has f) GetStatus (\<lambda>r. True)"
  unfolding GetStatus_def Let_def
  by (intro gives_any [OF gives_gets] gives_then [OF machine_do] gives_if gives_return machine_unit TrueI)

lemma gives_open_unit: "gives (unit_has f) (open_unit ip rootdir name) (\<lambda>r. r = None)"
proof -
  have pipes: "gives (unit_has f) (NewLogPipe dir) (\<lambda>r. r = None)" for dir
    unfolding NewLogPipe_def
    by (intro gives_any [OF gives_set] gives_rules machine_do machine_unit) simp_all
  have stdin: "gives (unit_has f) createStdin (\<lambda>r. r = None)"
    unfolding createStdin_def Let_def
    by (intro gives_any [OF gives_gets] gives_any [OF gives_set] gives_rules machine_do machine_unit) simp_all
  have read: "gives (unit_has f) (getConfig dc) (\<lambda>r. True)" "gives (unit_has f) (getUnitConfig du) (\<lambda>r. True)" for dc du
    unfolding getConfig_def getUnitConfig_def
    by (intro gives_any [OF gives_gets] gives_bind [OF machine_reply] gives_return machine_unit TrueI)+
  show ?thesis
    unfolding open_unit_def OpenUnit_def Let_def split_def
    by (intro gives_or machine_do machine_unit pipes stdin gives_any [OF gives_set] gives_any [OF read(1)]
        gives_any [OF read(2)] gives_any [OF gives_GetStatus] gives_return) simp_all
qed

text \<open>Setting the image of a unit writes it to the status file.\<close>

lemma SetImage_works:
  assumes "unit_has f u" "f \<noteq> Empty"
  shows "result (SetImage img) u = None"
    "\<exists>st. UnitStatus_Image st = img \<and> unit_has (Holds st) (final (SetImage img) u)"
  using assms
  by (cases f; auto simp: SetImage_def GetStatus_def SetStatus_def unit_has_def works_def Let_def split_def)+

lemma gives_copyFileFromHost: "gives (unit_has f) (copyFileFromHost path overwrite) (\<lambda>r. r = None)"
  unfolding copyFileFromHost_def Let_def
  by (intro gives_any [OF gives_gets] gives_then [OF machine_do] gives_or gives_if gives_CopyFile machine_do
      machine_unit gives_return HOL.refl)

text \<open>A computation that changes the state, after one that does not.\<close>

definition leads :: "('s \<Rightarrow> bool) \<Rightarrow> ('s, 'a) state \<Rightarrow> ('a \<Rightarrow> 's \<Rightarrow> bool) \<Rightarrow> bool" where
  "leads P m Q \<longleftrightarrow> (\<forall>w. P w \<longrightarrow> Q (result m w) (final m w))"

lemma leads_any: "gives P m (\<lambda>r. True) \<Longrightarrow> (\<And>x. leads P (f x) Q) \<Longrightarrow> leads P (State_Monad.bind m f) Q"
  by (simp add: gives_def leads_def)

lemma leads_bind:
  "gives P m R \<Longrightarrow> (\<And>x. R x \<Longrightarrow> leads P (f x) Q) \<Longrightarrow> leads P (State_Monad.bind m f) Q"
  by (simp add: gives_def leads_def)

lemma leads_or_case:
  "gives P m (\<lambda>r. r = None) \<Longrightarrow> leads P k Q \<Longrightarrow>
   leads P (State_Monad.bind m (\<lambda>err. case err of None \<Rightarrow> k | Some e \<Rightarrow> x e)) Q"
  by (simp add: gives_def leads_def)

lemma leads_then: "leads P m R \<Longrightarrow> (\<And>x. leads (R x) (f x) Q) \<Longrightarrow> leads P (State_Monad.bind m f) Q"
  by (simp add: leads_def)

lemma leads_gives: "gives P m Q \<Longrightarrow> leads P m (\<lambda>x w. Q x \<and> P w)"
  by (simp add: leads_def gives_def)

lemma leads_weaken: "leads P m Q \<Longrightarrow> (\<And>x w. Q x w \<Longrightarrow> R x w) \<Longrightarrow> leads P m R"
  by (simp add: leads_def)

definition has_image :: "string \<Rightarrow> unit_os \<Rightarrow> bool" where
  "has_image img u \<longleftrightarrow> (\<exists>st. unit_has (Holds st) u \<and> UnitStatus_Image st = img)"

lemma machine_image: "machine (has_image img)"
  by (auto simp: machine_def traceless_def has_image_def unit_has_def)

lemma gives_image: "(\<And>f. gives (unit_has f) m Q) \<Longrightarrow> gives (has_image img) m Q"
  by (auto simp: gives_def has_image_def)

lemma leads_SetImage:
  assumes "f \<noteq> Empty"
  shows "leads (unit_has f) (SetImage img) (\<lambda>r u. r = None \<and> has_image img u)"
  unfolding leads_def has_image_def using SetImage_works [OF _ assms] by metis

lemma gives_or_fst:
  "gives I m (\<lambda>r. fst r = None) \<Longrightarrow> (\<And>y. gives I (k None y) Q) \<Longrightarrow>
   gives I (State_Monad.bind m (\<lambda>(err, y). if err \<noteq> None then x err y else k err y)) Q"
  by (auto simp: gives_def split_def)

lemma leads_PullAndExtractImage:
  assumes "f \<noteq> Empty"
  shows "leads (unit_has f) (PullAndExtractImage is_semver compare img server username password)
    (\<lambda>r u. r = None \<and> has_image img u)"
proof -
  have rest: "gives (has_image img) (do {
         rootfs \<leftarrow> gets GetRootfs;
         d \<leftarrow> gets u_Directory;
         uc \<leftarrow> gets u_unitConfig;
         let cli = NewTosi;
         let cli = (if username \<noteq> [] \<or> password \<noteq> []
                    then snd (tosi_Login server username password cli) else cli);
         let cli = SetTosiExtractionType (UnitConfig_UseOverlayfs uc) cli;
         let cli = snd (tosi_Pull server img cli);
         (err, cli) \<leftarrow> tosi_Unpack is_semver compare img rootfs (filepath_Join [d, ''config'']) cli;
         if err \<noteq> None then return err
         else copyFileFromHost ''/etc/resolv.conf'' True
       }) (\<lambda>r. r = None)"
    unfolding Let_def
    by (intro gives_any [OF gives_gets] gives_or_fst gives_tosi_Unpack machine_image
        gives_image [OF gives_copyFileFromHost]) (simp add: tosi_Pull_def)
  show ?thesis
    unfolding PullAndExtractImage_def
    by (rule leads_then [OF leads_SetImage [OF assms]]) (use rest in \<open>auto simp: leads_def gives_def\<close>)
qed

lemma leads_Destroy: "leads (unit_has f) Destroy (\<lambda>r u. r = None \<and> unit_has Absent u)"
proof -
  have pipes: "gives (unit_has f) pipe_Remove (\<lambda>r. True)"
    unfolding pipe_Remove_def Let_def
    by (intro gives_any [OF gives_gets] gives_for_each gives_any [OF gives_set] gives_if machine_try
        gives_then [OF machine_do] gives_return machine_unit TrueI) simp_all
  have gone: "leads (unit_has f) (do {
     err \<leftarrow> os_do (Os_RemoveAll d);
     modify (\<lambda>u. if err = None then u\<lparr>u_file := Absent\<rparr> else u);
     return err }) (\<lambda>r u. r = None \<and> unit_has Absent u)" for d
    by (rule leads_bind [OF machine_do [OF machine_unit]]) (simp add: leads_def unit_has_def)
  show ?thesis
    unfolding Destroy_def Unmount_def
    by (rule leads_any [OF gives_gets], rule leads_any [OF gives_weaken [OF machine_do [OF machine_unit]]],
        rule TrueI, rule leads_any [OF pipes], rule leads_any [OF gives_gets], rule gone)
qed

section \<open>The runtime\<close>

text \<open>
  A good state of the runtime: the machine works, a configuration can be encoded, no status file is
  empty, and a unit that runs has a status.
\<close>

definition itzo_good :: "itzo_params \<Rightarrow> itzo_os \<Rightarrow> bool" where
  "itzo_good ip w \<longleftrightarrow> works (os_env w) \<and> (\<forall>uc. \<exists>b. ip_encode_unit ip uc = Inr b) \<and>
     (\<forall>n. it_files w n \<noteq> Empty) \<and> (\<forall>n. um_UnitRunning n w \<longrightarrow> it_files w n \<noteq> Absent)"

definition itzo_shelf :: "itzo_os \<Rightarrow> shelf" where
  "itzo_shelf w n =
     (case it_files w n of Holds st \<Rightarrow> Some (UnitStatus_Image st, um_UnitRunning n w) | _ \<Rightarrow> None)"

text \<open>The image in the status file is the part of the name that \<open>PullImage\<close> takes for the repository.\<close>

definition repo_of :: "string \<Rightarrow> string" where
  "repo_of img = snd (ParseImageSpec img)"

definition itzo_view :: "itzo_params \<Rightarrow> itzo_os shelf_view" where
  "itzo_view ip = \<lparr>sv_good = itzo_good ip, sv_shelf = itzo_shelf, sv_stored = repo_of,
     sv_takes = (\<lambda>u. Unit_VolumeMounts u = []),
     sv_sandbox = (\<lambda>spec. \<forall>v \<in> set (PodSpec_Volumes spec). plain_volume v)\<rparr>"

lemma itzo_view_sel [simp]:
  "sv_good (itzo_view ip) = itzo_good ip" "sv_shelf (itzo_view ip) = itzo_shelf"
  "sv_stored (itzo_view ip) = repo_of" "sv_takes (itzo_view ip) u \<longleftrightarrow> Unit_VolumeMounts u = []"
  "sv_sandbox (itzo_view ip) spec \<longleftrightarrow> (\<forall>v \<in> set (PodSpec_Volumes spec). plain_volume v)"
  by (simp_all add: itzo_view_def)

text \<open>A state up to the calls made and the log buffers.\<close>

definition like :: "itzo_os \<Rightarrow> itzo_os \<Rightarrow> bool" where
  "like w0 w \<longleftrightarrow> os_env w = os_env w0 \<and> it_rootdir w = it_rootdir w0 \<and>
     it_files w = it_files w0 \<and> it_running w = it_running w0"

lemma like_refl: "like w w"
  by (simp add: like_def)

lemma like_same:
  assumes "like w0 w"
  shows "itzo_good ip w = itzo_good ip w0" "itzo_shelf w = itzo_shelf w0"
proof -
  have "um_UnitRunning n w = um_UnitRunning n w0" for n
    using assms by (simp add: like_def um_UnitRunning_def)
  with assms show "itzo_good ip w = itzo_good ip w0" "itzo_shelf w = itzo_shelf w0"
    unfolding fun_eq_iff [of "itzo_shelf w"] by (simp_all add: like_def itzo_good_def) (auto simp: itzo_shelf_def split: status_file.split)
qed

lemma machine_like: "works (os_env w0) \<Longrightarrow> machine (like w0)"
  by (simp add: machine_def traceless_def like_def)

lemma gives_on_unit:
  assumes "works (os_env w0)" "\<And>f. gives (unit_has f) m Q"
  shows "gives (like w0) (on_unit name m) Q"
proof -
  have "Q (result m (unit_view name w)) \<and> u_file (final m (unit_view name w)) = it_files w name"
    if "like w0 w" for w
  proof -
    have "unit_has (it_files w name) (unit_view name w)"
      using assms(1) that by (simp add: unit_has_def unit_view_def like_def)
    with givesD [OF assms(2) this] show ?thesis by (simp add: unit_has_def)
  qed
  then show ?thesis by (auto simp: gives_def like_def)
qed

text \<open>The state after an operation that has changed the unit's file.\<close>

definition filed :: "itzo_os \<Rightarrow> string \<Rightarrow> (status_file \<Rightarrow> bool) \<Rightarrow> itzo_os \<Rightarrow> bool" where
  "filed w0 name F w \<longleftrightarrow> os_env w = os_env w0 \<and> it_rootdir w = it_rootdir w0 \<and>
     it_running w = it_running w0 \<and> (\<exists>f. F f \<and> it_files w = (it_files w0)(name := f))"

lemma leads_on_unit:
  assumes "works (os_env w0)" "leads (unit_has (it_files w0 name)) m (\<lambda>r u. Q r \<and> F (u_file u))"
  shows "leads (like w0) (on_unit name m) (\<lambda>r w. Q r \<and> filed w0 name F w)"
proof -
  have "Q (result m (unit_view name w)) \<and> F (u_file (final m (unit_view name w)))" if "like w0 w" for w
  proof -
    have "unit_has (it_files w0 name) (unit_view name w)"
      using assms(1) that by (simp add: unit_has_def unit_view_def like_def)
    with assms(2) show ?thesis by (simp add: leads_def)
  qed
  then show ?thesis by (auto simp: leads_def like_def filed_def)
qed

lemma leads_rest:
  "leads P m (\<lambda>r w. r = None \<and> R w) \<Longrightarrow> leads R k Q \<Longrightarrow>
   leads P (State_Monad.bind m (\<lambda>err. case err of None \<Rightarrow> k | Some e \<Rightarrow> x e)) Q"
  by (auto simp: leads_def)

subsection \<open>Creating\<close>

lemma leads_PullImage:
  assumes "works (os_env w0)" "it_files w0 name \<noteq> Empty"
  shows "leads (like w0) (PullImage ip rootdir name img creds overlay)
    (\<lambda>r w. r = None \<and> filed w0 name (\<lambda>f. \<exists>st. f = Holds st \<and> UnitStatus_Image st = repo_of img) w)"
proof -
  obtain repo server username password where src: "pull_source img creds = (repo, server, username, password)"
    by (metis prod_cases4)
  then have repo: "repo = repo_of img"
    by (auto simp: pull_source_def repo_of_def Let_def split_def)
  let ?f = "it_files w0 name"
  have "leads (unit_has ?f) (do {
           err \<leftarrow> open_unit ip rootdir name;
           case err of
             Some e \<Rightarrow> return (Some (Errorf (''opening unit '' @ name @ '' for package deploy: '' @ Error e)))
           | None \<Rightarrow> do {
               SetUnitConfigOverlayfs overlay;
               err \<leftarrow> PullAndExtractImage (ip_semver ip) (ip_compare ip) repo server username password;
               return (case err of None \<Rightarrow> None
                       | Some e \<Rightarrow> Some (Errorf (''pulling image '' @ img @ '': '' @ Error e)))
             }
         }) (\<lambda>r u. r = None \<and> (\<exists>st. u_file u = Holds st \<and> UnitStatus_Image st = repo_of img))"
    unfolding SetUnitConfigOverlayfs_def
    by (rule leads_or_case [OF gives_open_unit], rule leads_any [OF gives_set], simp,
        rule leads_then [OF leads_PullAndExtractImage [OF assms(2)]])
      (auto simp: leads_def has_image_def unit_has_def repo)
  note kept = leads_on_unit [where Q = "\<lambda>r. r = None" and
      F = "\<lambda>f. \<exists>st. f = Holds st \<and> UnitStatus_Image st = repo_of img", OF assms(1) this]
  show ?thesis unfolding PullImage_def src Let_def prod.case by (rule kept)
qed

lemma gives_saveUnitConfig:
  assumes "works (os_env w0)" "\<And>uc. \<exists>b. ip_encode_unit ip uc = Inr b"
  shows "gives (like w0) (saveUnitConfig ip unit psc) (\<lambda>r. r = None)"
proof -
  have save: "gives (unit_has f) (SaveUnitConfig (ip_encode_unit ip) uc) (\<lambda>r. r = None)" for f uc
  proof -
    obtain b where "ip_encode_unit ip uc = Inr b" using assms(2) by blast
    then show ?thesis
      unfolding SaveUnitConfig_def by (intro gives_any [OF gives_gets]) (simp add: machine_do machine_unit)
  qed
  show ?thesis
    unfolding saveUnitConfig_def
    by (intro gives_any [OF gives_gets] gives_on_unit assms(1) gives_or_case gives_open_unit
        gives_then [OF save] gives_return) simp
qed

lemma filed_trans:
  assumes "filed w0 n F w1" "like w1 w"
  shows "filed w0 n F w"
  using assms by (auto simp: filed_def like_def)

lemma filed_Holds:
  assumes "filed w0 n (\<lambda>f. \<exists>st. f = Holds st \<and> UnitStatus_Image st = img) w" "itzo_good ip w0"
    "itzo_shelf w0 n = None"
  shows "itzo_good ip w" "itzo_shelf w = (itzo_shelf w0)(n \<mapsto> (img, False))"
proof -
  obtain st where w: "os_env w = os_env w0" "it_running w = it_running w0" "UnitStatus_Image st = img"
      "it_files w = (it_files w0)(n := Holds st)"
    using assms(1) by (auto simp: filed_def)
  have running: "um_UnitRunning k w = um_UnitRunning k w0" for k
    using w(2) by (simp add: um_UnitRunning_def)
  have "it_files w0 n = Absent" "\<not> um_UnitRunning n w0"
    using assms(2,3) by (auto simp: itzo_shelf_def itzo_good_def split: status_file.splits)
  then show "itzo_shelf w = (itzo_shelf w0)(n \<mapsto> (img, False))"
    using w(3,4) running by (auto simp: itzo_shelf_def fun_eq_iff split: status_file.split)
  show "itzo_good ip w"
    using assms(2) w running by (auto simp: itzo_good_def)
qed

lemma create_works:
  assumes "itzo_good ip w0" "Unit_VolumeMounts u = []" "itzo_shelf w0 (Unit_Name u) = None"
  shows "snd (result (it_CreateContainer ip u spec podName creds overlay) w0) = None"
    "itzo_good ip (final (it_CreateContainer ip u spec podName creds overlay) w0)"
    "itzo_shelf (final (it_CreateContainer ip u spec podName creds overlay) w0) =
       (itzo_shelf w0)(Unit_Name u \<mapsto> (repo_of (Unit_Image u), False))"
proof -
  let ?n = "Unit_Name u" and ?F = "\<lambda>f. \<exists>st. f = Holds st \<and> UnitStatus_Image st = repo_of (Unit_Image u)"
  have good: "works (os_env w0)" "it_files w0 ?n \<noteq> Empty" "\<And>uc. \<exists>b. ip_encode_unit ip uc = Inr b"
    using assms(1) by (simp_all add: itzo_good_def)
  have save: "leads (filed w0 ?n ?F) (saveUnitConfig ip u psc) (\<lambda>r w. r = None \<and> filed w0 ?n ?F w)" for psc
    unfolding leads_def
  proof (intro allI impI)
    fix w assume w: "filed w0 ?n ?F w"
    then have "works (os_env w)" using good(1) by (simp add: filed_def)
    from givesD [OF gives_saveUnitConfig [OF this good(3)] like_refl] w
    show "result (saveUnitConfig ip u psc) w = None \<and> filed w0 ?n ?F (final (saveUnitConfig ip u psc) w)"
      using filed_trans by blast
  qed
  have "leads (like w0) (it_CreateContainer ip u spec podName creds overlay)
      (\<lambda>r w. snd r = None \<and> filed w0 ?n ?F w)"
    unfolding it_CreateContainer_def
    by (rule leads_any [OF gives_gets], rule leads_rest [OF leads_PullImage [OF good(1,2)]],
        rule leads_rest [OF save]) (simp add: leads_def assms(2))
  then have all: "snd (result (it_CreateContainer ip u spec podName creds overlay) w0) = None"
      "filed w0 ?n ?F (final (it_CreateContainer ip u spec podName creds overlay) w0)"
    using like_refl by (auto simp: leads_def)
  from all(1) filed_Holds [OF all(2) assms(1,3)]
  show "snd (result (it_CreateContainer ip u spec podName creds overlay) w0) = None"
    "itzo_good ip (final (it_CreateContainer ip u spec podName creds overlay) w0)"
    "itzo_shelf (final (it_CreateContainer ip u spec podName creds overlay) w0) =
       (itzo_shelf w0)(Unit_Name u \<mapsto> (repo_of (Unit_Image u), False))" by simp_all
qed

subsection \<open>Starting\<close>

lemma gives_IsEmptyDir: "machine I \<Longrightarrow> gives I (IsEmptyDir path) (\<lambda>r. True)"
  unfolding IsEmptyDir_def
  by (rule gives_then [OF machine_do], assumption, simp, rule gives_bind [OF machine_reply], assumption)
    (simp add: gives_return)

definition started :: "itzo_os \<Rightarrow> string \<Rightarrow> itzo_os \<Rightarrow> bool" where
  "started w0 n w \<longleftrightarrow> os_env w = os_env w0 \<and> it_rootdir w = it_rootdir w0 \<and> it_files w = it_files w0 \<and>
     (\<exists>pid. it_running w = conmap_Set n pid (it_running w0))"

lemma leads_StartUnit:
  assumes "works (os_env w0)" "\<And>e. e \<in> set appenv \<Longrightarrow> CHR ''='' \<in> set e"
  shows "leads (like w0) (um_StartUnit ip podname hostname n workingdir netns command args appenv policy)
    (\<lambda>r w. r = Ret None \<and> started w0 n w)"
proof -
  note m = machine_like [OF assms(1)]
  have opened: "gives (like w0) (on_unit n (do {
       err \<leftarrow> open_unit ip rootdir n;
       u \<leftarrow> gets (\<lambda>u. u);
       return (err, u_config u, GetRootfs u, (GetWorkingDir u, GetEnv u))
     })) (\<lambda>r. fst r = None)" for rootdir
    by (intro gives_on_unit assms(1) gives_then [OF gives_open_unit] gives_any [OF gives_gets] gives_return) simp
  have logs: "gives (like w0) (um_CaptureLogs n) (\<lambda>r. True)"
    unfolding um_CaptureLogs_def by (rule gives_modify) (simp add: like_def split: option.split)
  have run: "leads (like w0) (do {
           (missing, err) \<leftarrow> IsEmptyDir rootfs;
           um_CaptureLogs n;
           r \<leftarrow> os_reply (Sys_Start (''/proc/self/exe'' # cmdline) env (\<not> missing));
           if reply_err r \<noteq> None then do {
             on_unit n (do {
               modify (\<lambda>u. u\<lparr>u_Directory := filepath_Join [rootdir, n]\<rparr>);
               pipe_Remove
             });
             return (Ret (reply_err r))
           }
           else do {
             modify (\<lambda>w. w\<lparr>it_running := conmap_Set n
                 (case reply_ints r of [] \<Rightarrow> 0 | p # _ \<Rightarrow> p) (it_running w)\<rparr>);
             return (Ret None)
           }
         }) (\<lambda>r w. r = Ret None \<and> started w0 n w)" for rootfs cmdline env rootdir
    unfolding split_def
    by (rule leads_any [OF gives_IsEmptyDir [OF m]], rule leads_any [OF logs],
        rule leads_bind [OF machine_reply [OF m]]) (auto simp: leads_def like_def started_def)
  have env: "append_env env appenv \<noteq> Panic" for env using append_env_Ret [OF assms(2)] .
  show ?thesis
    unfolding um_StartUnit_def Let_def
    by (rule leads_any [OF gives_gets], rule leads_bind [OF opened])
      (use env run in \<open>auto simp: split_def split: outcome.split\<close>)
qed

lemma leads_StartContainer:
  assumes "works (os_env w0)"
  shows "leads (like w0) (rt_StartContainer (itzo_runtime ip) u spec podName)
    (\<lambda>r w. snd r = None \<and> started w0 (Unit_Name u) w)"
  unfolding itzo_runtime_def it_StartContainer_def
  by simp (rule leads_any [OF gives_gets], rule leads_then [OF leads_StartUnit [OF assms makeAppEnv_sep]],
      assumption, auto simp: leads_def)

lemma start_works:
  assumes "itzo_good ip w0" "itzo_shelf w0 (Unit_Name u) = Some (img, b)"
  shows "snd (result (rt_StartContainer (itzo_runtime ip) u spec podName) w0) = None \<and>
    itzo_good ip (final (rt_StartContainer (itzo_runtime ip) u spec podName) w0) \<and>
    itzo_shelf (final (rt_StartContainer (itzo_runtime ip) u spec podName) w0) =
      (itzo_shelf w0)(Unit_Name u \<mapsto> (img, True))"
proof -
  let ?m = "rt_StartContainer (itzo_runtime ip) u spec podName"
  let ?n = "Unit_Name u"
  have works: "works (os_env w0)" using assms(1) by (simp add: itzo_good_def)
  have ok: "snd (result ?m w0) = None" "started w0 ?n (final ?m w0)"
    using leads_StartContainer [OF works, of ip u spec podName] like_refl by (auto simp: leads_def)
  let ?w = "final ?m w0"
  have running: "um_UnitRunning k ?w \<longleftrightarrow> k = ?n \<or> um_UnitRunning k w0" for k
    using ok(2) by (auto simp: started_def um_UnitRunning_def)
  obtain st where st: "it_files w0 ?n = Holds st" "UnitStatus_Image st = img"
    using assms(2) by (auto simp: itzo_shelf_def split: status_file.splits)
  have "itzo_shelf ?w = (itzo_shelf w0)(?n \<mapsto> (img, True))"
    using ok(2) st running by (auto simp: started_def itzo_shelf_def fun_eq_iff split: status_file.split)
  moreover have "itzo_good ip ?w"
    using assms(1) ok(2) running st by (auto simp: itzo_good_def started_def)
  ultimately show ?thesis using ok(1) by simp
qed

subsection \<open>Removing\<close>

definition stopped :: "itzo_os \<Rightarrow> string \<Rightarrow> itzo_os \<Rightarrow> bool" where
  "stopped w0 n w \<longleftrightarrow> os_env w = os_env w0 \<and> it_rootdir w = it_rootdir w0 \<and> it_files w = it_files w0 \<and>
     (\<forall>k. um_UnitRunning k w \<longleftrightarrow> k \<noteq> n \<and> um_UnitRunning k w0)"

lemma machine_stopped: "works (os_env w0) \<Longrightarrow> machine (stopped w0 n)"
  by (simp add: machine_def traceless_def stopped_def um_UnitRunning_def)

lemma leads_gets:
  "(\<And>w. P w \<Longrightarrow> f w = c) \<Longrightarrow> leads P (k c) Q \<Longrightarrow> leads P (State_Monad.bind (gets f) k) Q"
  by (simp add: leads_def)

lemma leads_StopUnit:
  assumes "works (os_env w0)"
  shows "leads (like w0) (um_StopUnit ip n) (\<lambda>r w. stopped w0 n w)"
proof -
  note m = machine_like [OF assms]
  have kill: "leads (like w0) (do {
           os_try (Ext_Call ''kill'' [Itoa pid]);
           modify (\<lambda>w. w\<lparr>it_running := conmap_Delete n (it_running w)\<rparr>);
           return None }) (\<lambda>r w. stopped w0 n w)" for pid
    by (rule leads_any [OF machine_try [OF m]])
      (auto simp: leads_def like_def stopped_def um_UnitRunning_def)
  have opened: "gives (like w0) (on_unit n (open_unit ip rootdir n)) (\<lambda>r. r = None)" for rootdir
    by (intro gives_on_unit assms gives_open_unit)
  show ?thesis
    unfolding um_StopUnit_def
  proof (rule leads_gets [where c = "it_running w0"], simp add: like_def, rule leads_any [OF gives_gets], goal_cases)
    case (1 rootdir)
    show ?case
    proof (cases "conmap_GetOK (it_running w0) n")
      case None
      then show ?thesis by (auto simp: leads_def like_def stopped_def um_UnitRunning_def)
    next
      case (Some pid)
      show ?thesis unfolding Some option.case by (rule leads_or_case [OF opened kill])
    qed
  qed
qed

lemma gives_DetachMount:
  assumes "machine I"
  shows "gives I (DetachMount n basedir unit dst) (\<lambda>r. True)"
proof -
  have "gives I (resolveLinks n b t) (\<lambda>r. True)" for b t
    using preserves_calls [OF _ resolveLinks_looks, of I] assms
    by (simp add: gives_def preserves_def machine_def)
  note follow = this
  show ?thesis
    unfolding DetachMount_def Let_def
  proof (rule gives_any [OF follow], goal_cases)
    case (1 r)
    show ?case
      by (cases r) (auto simp: split_def intro!: gives_return gives_then [OF machine_do [OF assms]])
  qed
qed

lemma remove_works:
  assumes "itzo_good ip w0"
  shows "result (it_RemoveContainer ip u) w0 = None \<and> itzo_good ip (final (it_RemoveContainer ip u) w0) \<and>
    itzo_shelf (final (it_RemoveContainer ip u) w0) = (itzo_shelf w0)(Unit_Name u := None)"
proof -
  let ?n = "Unit_Name u" and ?m = "it_RemoveContainer ip u"
  let ?R = "\<lambda>w. \<exists>w1. stopped w0 ?n w1 \<and> filed w1 ?n (\<lambda>f. f = Absent) w"
  have works: "works (os_env w0)" using assms by (simp add: itzo_good_def)
  have detach: "gives (stopped w0 ?n) (for_each (\<lambda>vm. do {
       DetachMount (ip_links ip) rootdir ?n (VolumeMount_MountPath vm);
       return ()
     }) (Unit_VolumeMounts u)) (\<lambda>r. True)" for rootdir
    by (intro gives_for_each gives_any [OF gives_DetachMount] gives_return machine_stopped works TrueI)
  have destroy: "leads (unit_has f) (do {
       err \<leftarrow> open_unit ip rootdir ?n;
       case err of
         Some e \<Rightarrow> return (Some (Errorf (''Error opening unit '' @ ?n @ '' for removal: '' @ Error e)))
       | None \<Rightarrow> do {
           err \<leftarrow> Destroy;
           return (case err of None \<Rightarrow> None
                   | Some e \<Rightarrow> Some (Errorf (''Error removing unit '' @ ?n @ '': '' @ Error e)))
         }
     }) (\<lambda>r u. r = None \<and> u_file u = Absent)" for f rootdir
    by (rule leads_or_case [OF gives_open_unit], rule leads_then [OF leads_Destroy])
      (auto simp: leads_def unit_has_def)
  have "leads (stopped w0 ?n) (um_RemoveUnit ip ?n) (\<lambda>r w. r = None \<and> ?R w)"
    unfolding leads_def
  proof (intro allI impI)
    fix w assume w: "stopped w0 ?n w"
    then have "works (os_env w)" using works by (simp add: stopped_def)
    note kept = leads_on_unit [where Q = "\<lambda>r. r = None" and F = "\<lambda>f. f = Absent", OF this destroy]
    have "leads (like w) (um_RemoveUnit ip ?n) (\<lambda>r v. r = None \<and> filed w ?n (\<lambda>f. f = Absent) v)"
      unfolding um_RemoveUnit_def by (rule leads_any [OF gives_gets kept])
    with w show "result (um_RemoveUnit ip ?n) w = None \<and> ?R (final (um_RemoveUnit ip ?n) w)"
      using like_refl by (auto simp: leads_def)
  qed
  then have "leads (like w0) ?m (\<lambda>r w. r = None \<and> ?R w)"
    unfolding it_RemoveContainer_def
    by (intro leads_any [OF gives_gets] leads_then [OF leads_StopUnit [OF works]] leads_any [OF detach])
  then obtain w1 where r: "result ?m w0 = None" "stopped w0 ?n w1" "filed w1 ?n (\<lambda>f. f = Absent) (final ?m w0)"
    using like_refl by (auto simp: leads_def)
  let ?w = "final ?m w0"
  have w: "os_env ?w = os_env w0" "it_files ?w = (it_files w0)(?n := Absent)"
      "um_UnitRunning k ?w \<longleftrightarrow> k \<noteq> ?n \<and> um_UnitRunning k w0" for k
    using r(2,3) by (auto simp: stopped_def filed_def um_UnitRunning_def)
  have "itzo_shelf ?w = (itzo_shelf w0)(?n := None)"
    using w(2,3) by (auto simp: itzo_shelf_def fun_eq_iff split: status_file.split)
  moreover have "itzo_good ip ?w" using assms w by (auto simp: itzo_good_def)
  ultimately show ?thesis using r(1) by simp
qed

subsection \<open>The sandbox\<close>

lemma sandbox_works:
  assumes "itzo_good ip w0" "\<forall>v \<in> set (PodSpec_Volumes spec). plain_volume v"
  shows "result (it_RunPodSandbox spec) w0 = (None, spec\<lparr>PodSpec_Phase := PodDispatching\<rparr>)"
    "like w0 (final (it_RunPodSandbox spec) w0)"
proof -
  have works: "works (os_env w0)" using assms(1) by (simp add: itzo_good_def)
  have "gives (like w0) (it_RunPodSandbox spec) (\<lambda>r. r = (None, spec\<lparr>PodSpec_Phase := PodDispatching\<rparr>))"
    unfolding it_RunPodSandbox_def
    by (rule gives_any [OF gives_gets], rule gives_then [OF gives_for_err [OF gives_CreateMount]],
        rule machine_like [OF works]) (use assms(2) in \<open>auto intro: gives_return\<close>)
  from givesD [OF this like_refl]
  show "result (it_RunPodSandbox spec) w0 = (None, spec\<lparr>PodSpec_Phase := PodDispatching\<rparr>)"
    "like w0 (final (it_RunPodSandbox spec) w0)" by simp_all
qed

interpretation itzo_works: working_runtime "itzo_runtime ip" "itzo_view ip"
proof (unfold_locales, goal_cases)
  case (1 w spec)
  then show ?case using sandbox_works(1) [of ip w spec] by (simp add: itzo_runtime_def)
next
  case (2 w spec)
  then show ?case
    using sandbox_works(2) [of ip w spec] like_same [of w "final (it_RunPodSandbox spec) w"]
    by (simp add: itzo_runtime_def)
next
  case (3 w u spec podName creds overlay)
  then show ?case using create_works [of ip w u] by (simp add: itzo_runtime_def)
next
  case (4 w u img b spec podName)
  then show ?case using start_works [of ip w u img b spec podName] by simp
next
  case (5 w u)
  then show ?case using remove_works [of ip w u] by (simp add: itzo_runtime_def)
qed

lemmas itzo_alive_ctl_steps = runtime_service.alive_ctl_steps [OF itzo.runtime_service_axioms]

section \<open>A removed unit that comes back\<close>

text \<open>
  Starting a unit does not ask whether it has been created: the directory is made anew and the helper is
  started.  So the goroutine of an update that has been overtaken starts the units of its
  specification that the next update has just removed, and since that update's status does not name
  them, none that follows will stop them.
\<close>

lemma start_whatever:
  assumes "works (os_env w0)"
  shows "snd (result (rt_StartContainer (itzo_runtime ip) u spec podName) w0) = None"
    "started w0 (Unit_Name u) (final (rt_StartContainer (itzo_runtime ip) u spec podName) w0)"
  using leads_StartContainer [OF assms, of ip u spec podName] like_refl by (auto simp: leads_def)

lemma started_running:
  "started w0 n w \<Longrightarrow> um_UnitRunning k w \<longleftrightarrow> k = n \<or> um_UnitRunning k w0"
  by (auto simp: started_def um_UnitRunning_def)

lemma goroutine_starts_all:
  assumes "sys_worker s = Some \<lparr>g_spec = spec, g_task = T_units us, g_cancelled = c\<rparr>"
    "works (os_env (pc_world (sys_pc s)))"
  obtains t where "sys_steps (itzo_runtime ip) s t" "sys_main t = sys_main s" "sys_worker t = None"
    "sys_wg t = sys_wg s - 1" "pc_updateChan (sys_pc t) = pc_updateChan (sys_pc s)"
    "pc_podStatus (sys_pc t) = pc_podStatus (sys_pc s)" "works (os_env (pc_world (sys_pc t)))"
    "\<And>n. um_UnitRunning n (pc_world (sys_pc t)) \<longleftrightarrow>
       n \<in> Unit_Name ` set us \<or> um_UnitRunning n (pc_world (sys_pc s))"
proof -
  have "\<exists>t. sys_steps (itzo_runtime ip) s t \<and> sys_main t = sys_main s \<and> sys_worker t = None \<and>
    sys_wg t = sys_wg s - 1 \<and> pc_updateChan (sys_pc t) = pc_updateChan (sys_pc s) \<and>
    pc_podStatus (sys_pc t) = pc_podStatus (sys_pc s) \<and> works (os_env (pc_world (sys_pc t))) \<and>
    (\<forall>n. um_UnitRunning n (pc_world (sys_pc t)) \<longleftrightarrow>
       n \<in> Unit_Name ` set us \<or> um_UnitRunning n (pc_world (sys_pc s)))"
    using assms
  proof (induction us arbitrary: s)
    case Nil
    define t where "t = s\<lparr>sys_worker := None, sys_wg := sys_wg s - 1\<rparr>"
    have "sys_step (itzo_runtime ip) s t"
      using sys_step.ends [OF Nil(1), of "itzo_runtime ip" True "sys_pc s"]
      by (simp add: t_def run_task_quick)
    from sys_steps.step [OF sys_steps.refl this] show ?case
      using Nil(2) by (intro exI [of _ t]) (simp add: t_def)
  next
    case (Cons u us)
    let ?m = "rt_StartContainer (itzo_runtime ip) u spec (pc_podName (sys_pc s))"
    define w where "w = final ?m (pc_world (sys_pc s))"
    note ok = start_whatever [where ip = ip and u = u and spec = spec and podName = "pc_podName (sys_pc s)",
        OF Cons.prems(2), folded w_def]
    define pc where "pc = (sys_pc s)\<lparr>pc_world := w,
        pc_syncErrors := (pc_syncErrors (sys_pc s))(Unit_Name u := None)\<rparr>"
    have run: "run_state (run_task (itzo_runtime ip) spec (T_units (u # us))) (sys_pc s) = (Next (T_units us), pc)"
      using ok(1) by (simp add: run_state_result_final run_task_def start_unit_def clear_syncError_def split_def
          pc_def flip: w_def)
    define s' where "s' = s\<lparr>sys_pc := pc, sys_worker := Some \<lparr>g_spec = spec, g_task = T_units us, g_cancelled = c\<rparr>\<rparr>"
    have step: "sys_step (itzo_runtime ip) s s'"
      using sys_step.goes_on [OF Cons.prems(1), of "itzo_runtime ip" "T_units us" pc] run
      by (simp add: s'_def)
    have s': "sys_worker s' = Some \<lparr>g_spec = spec, g_task = T_units us, g_cancelled = c\<rparr>"
        "works (os_env (pc_world (sys_pc s')))" "sys_main s' = sys_main s" "sys_wg s' = sys_wg s"
        "pc_updateChan (sys_pc s') = pc_updateChan (sys_pc s)" "pc_podStatus (sys_pc s') = pc_podStatus (sys_pc s)"
        "um_UnitRunning n (pc_world (sys_pc s')) \<longleftrightarrow> n = Unit_Name u \<or> um_UnitRunning n (pc_world (sys_pc s))" for n
      using started_running [OF ok(2)] ok(2) Cons.prems(2) by (simp_all add: s'_def pc_def started_def)
    from Cons.IH [OF s'(1,2)] obtain t where t: "sys_steps (itzo_runtime ip) s' t" "sys_main t = sys_main s'"
        "sys_worker t = None" "sys_wg t = sys_wg s' - 1" "pc_updateChan (sys_pc t) = pc_updateChan (sys_pc s')"
        "pc_podStatus (sys_pc t) = pc_podStatus (sys_pc s')" "works (os_env (pc_world (sys_pc t)))"
        "\<forall>n. um_UnitRunning n (pc_world (sys_pc t)) \<longleftrightarrow>
           n \<in> Unit_Name ` set us \<or> um_UnitRunning n (pc_world (sys_pc s'))"
      by blast
    have "sys_steps (itzo_runtime ip) s t" by (rule sys_steps_head [OF t(1) step])
    with t(2-8) s'(3-7) show ?case by (intro exI [of _ t]) auto
  qed
  then show thesis using that by blast
qed

lemma removed_unit_runs:
  assumes w0: "itzo_good ip w0" "itzo_shelf w0 = Map.empty"
    and p1: "sv_accepts (itzo_view ip) p1" "u \<in> set (wanted p1)" and p2: "sv_accepts (itzo_view ip) p2"
    and first: "Unit_Name (hd (wanted p1)) \<notin> Unit_Name ` set (wanted p2)"
  shows "\<exists>s. ctl_steps (itzo_runtime ip) (init_ctl w0) s \<and> \<not> (\<exists>t. ctl_goes (itzo_runtime ip) s t) \<and>
     PodSpec_Units (pc_podStatus (ct_pc s)) = wanted p2 \<and> um_UnitRunning (Unit_Name u) (pc_world (ct_pc s))"
proof -
  let ?rt = "itzo_runtime ip" and ?add = "changed (wanted p2) (wanted p1)"
  obtain v rest where v: "wanted p1 = v # rest" using p1(2) by (cases "wanted p1") auto
  have good: "sv_good (itzo_view ip) w0" "sv_shelf (itzo_view ip) w0 = Map.empty" using w0 by simp_all
  have "Unit_Name v \<notin> Unit_Name ` set (wanted p2)" using first v by simp
  then obtain spec1 spec2 s6 where s6: "sys_steps ?rt (init_sys w0) s6"
      "overtaken_by (itzo_view ip) p1 p2 spec1 spec2 s6"
    by (rule itzo_works.overtaken_update [OF good p1(1) v p2])
  then have at6: "sys_main s6 = M_wait [] ?add spec2 p2"
      "sys_worker s6 = Some \<lparr>g_spec = spec1, g_task = T_units (wanted p1), g_cancelled = True\<rparr>"
      "sys_wg s6 = 1" "pc_updateChan (sys_pc s6) = []" "PodSpec_Units spec2 = wanted p2"
      "works (os_env (pc_world (sys_pc s6)))"
    by (simp_all add: overtaken_by_def itzo_good_def)
  obtain s7 where s7: "sys_steps ?rt s6 s7" "sys_main s7 = sys_main s6" "sys_worker s7 = None"
      "sys_wg s7 = sys_wg s6 - 1" "pc_updateChan (sys_pc s7) = pc_updateChan (sys_pc s6)"
      "works (os_env (pc_world (sys_pc s7)))" "um_UnitRunning (Unit_Name u) (pc_world (sys_pc s7))"
    by (rule goroutine_starts_all [where ip = ip, OF at6(2,6)]) (use p1(2) in auto)
  have at7: "sys_main s7 = M_wait [] ?add spec2 p2" "sys_wg s7 = 0" using s7(2,4) at6(1,3) by simp_all
  obtain s9 where s9: "sys_steps ?rt s7 s9" "sys_main s9 = M_idle"
      "sys_worker s9 = Some \<lparr>g_spec = spec2, g_task = T_units ?add, g_cancelled = False\<rparr>"
      "pc_world (sys_pc s9) = pc_world (sys_pc s7)" "pc_updateChan (sys_pc s9) = pc_updateChan (sys_pc s7)"
      "PodSpec_Units (pc_podStatus (sys_pc s9)) = PodSpec_Units spec2"
    by (rule resume_units [OF at7(1) s7(3) at7(2)]) blast
  have "works (os_env (pc_world (sys_pc s9)))" using s9(4) s7(6) by simp
  then obtain t where t: "sys_steps ?rt s9 t" "sys_main t = M_idle" "sys_worker t = None"
      "pc_updateChan (sys_pc t) = []" "PodSpec_Units (pc_podStatus (sys_pc t)) = wanted p2"
      "um_UnitRunning (Unit_Name u) (pc_world (sys_pc t))"
    by (rule goroutine_starts_all [where ip = ip, OF s9(3)]) (use s9(2,4,5,6) s7(5,7) at6(4,5) in auto)
  have "sys_steps ?rt (init_sys w0) t"
    by (intro sys_steps_trans [OF t(1)] sys_steps_trans [OF s9(1)] sys_steps_trans [OF s7(1)] s6(1))
  from init_steps [OF this] t(5,6) stuck_idle_ctl [OF t(2-4)] show ?thesis
    by (intro exI [of _ "embed t"]) simp
qed

section \<open>An exit that is noticed late\<close>

text \<open>
  The goroutine that waits for the helper of a unit removes the unit's name from the table when the
  helper has ended.  If the unit has been stopped and started again before that, the name stands
  for the new helper, which nobody can stop any more.
\<close>

lemma late_exit:
  assumes "works (os_env w0)" "w1 = final (rt_StartContainer (itzo_runtime ip) u spec podName) w0"
    "w2 = final (um_exited (Unit_Name u)) w1"
  shows "um_UnitRunning (Unit_Name u) w1 \<and> \<not> um_UnitRunning (Unit_Name u) w2 \<and>
     final (um_StopUnit ip (Unit_Name u)) w2 = w2 \<and> result (um_StopUnit ip (Unit_Name u)) w2 \<noteq> None"
proof -
  have "um_UnitRunning (Unit_Name u) w1"
    using started_running [OF start_whatever(2) [OF assms(1)]] assms(2) by simp
  moreover have "\<not> um_UnitRunning (Unit_Name u) w2"
    using assms(3) by (simp add: um_exited_def um_UnitRunning_def)
  ultimately show ?thesis by (simp add: um_StopUnit_def um_UnitRunning_def)
qed

section \<open>What the shelf says\<close>

lemma itzo_shelf_running:
  assumes "itzo_good ip w" "itzo_shelf w = all_running repo_of us" "distinct (unit_names us)"
  shows "um_UnitRunning n w \<longleftrightarrow> n \<in> Unit_Name ` set us"
    "u \<in> set us \<Longrightarrow> \<exists>st. it_files w (Unit_Name u) = Holds st \<and> UnitStatus_Image st = repo_of (Unit_Image u)"
proof -
  have at: "itzo_shelf w (Unit_Name u) = Some (repo_of (Unit_Image u), True)" if "u \<in> set us" for u
    using all_running_at [OF assms(3) that] assms(2) by simp
  show "um_UnitRunning n w \<longleftrightarrow> n \<in> Unit_Name ` set us"
  proof
    assume run: "um_UnitRunning n w"
    with assms(1) have "it_files w n \<noteq> Absent" "it_files w n \<noteq> Empty" by (simp_all add: itzo_good_def)
    then have "n \<in> dom (itzo_shelf w)" by (cases "it_files w n") (simp_all add: itzo_shelf_def dom_def)
    then show "n \<in> Unit_Name ` set us" by (simp only: assms(2) dom_all_running)
  next
    assume "n \<in> Unit_Name ` set us"
    then obtain u where "u \<in> set us" "n = Unit_Name u" by blast
    with at [of u] show "um_UnitRunning n w" by (simp add: itzo_shelf_def split: status_file.splits)
  qed
  show "\<exists>st. it_files w (Unit_Name u) = Holds st \<and> UnitStatus_Image st = repo_of (Unit_Image u)"
    if "u \<in> set us"
    using at [OF that] by (auto simp: itzo_shelf_def split: status_file.splits)
qed

text \<open>What a client is told of units that all run.\<close>

lemma running_collected:
  assumes "\<forall>u \<in> set us. um_UnitRunning (Unit_Name u) (pc_world pc)" "pc_syncErrors pc = Map.empty"
  shows "result (collect (unit_status (itzo_runtime ip)) us) pc =
      Ret (map (\<lambda>u. running_status (Unit_Name u) (Unit_Image u)) us)"
    and "final (collect (unit_status (itzo_runtime ip)) us) pc = pc"
proof -
  have one: "result (unit_status (itzo_runtime ip) u) pc = Some (running_status (Unit_Name u) (Unit_Image u))"
    "final (unit_status (itzo_runtime ip) u) pc = pc" if "u \<in> set us" for u
    using assms that
    by (simp_all add: unit_status_def itzo_runtime_def it_ContainerStatus_def Let_def)
  have "result (collect (unit_status (itzo_runtime ip)) vs) pc =
      Ret (map (\<lambda>u. running_status (Unit_Name u) (Unit_Image u)) vs) \<and>
    final (collect (unit_status (itzo_runtime ip)) vs) pc = pc" if "set vs \<subseteq> set us" for vs
    using that by (induction vs) (simp_all add: one)
  then show "result (collect (unit_status (itzo_runtime ip)) us) pc =
      Ret (map (\<lambda>u. running_status (Unit_Name u) (Unit_Image u)) us)"
    and "final (collect (unit_status (itzo_runtime ip)) us) pc = pc" by simp_all
qed

lemma all_up_status:
  assumes "all_up (itzo_view ip) pc"
  shows "result (pc_GetStatus (itzo_runtime ip)) pc =
    Ret (map (\<lambda>u. running_status (Unit_Name u) (Unit_Image u)) (PodSpec_Units (pc_podStatus pc)), [])"
proof -
  have up: "itzo_good ip (pc_world pc)" "pc_syncErrors pc = Map.empty" "PodSpec_InitUnits (pc_podStatus pc) = []"
      "itzo_shelf (pc_world pc) = all_running repo_of (PodSpec_Units (pc_podStatus pc))"
      "distinct (unit_names (PodSpec_Units (pc_podStatus pc)))"
    using assms by (simp_all add: all_up_def)
  have "\<forall>u \<in> set (PodSpec_Units (pc_podStatus pc)). um_UnitRunning (Unit_Name u) (pc_world pc)"
    using itzo_shelf_running(1) [OF up(1,4,5)] by blast
  from running_collected [OF this up(2)] up(3) show ?thesis by (simp add: pc_GetStatus_def)
qed

text \<open>The updates in the channel of a pod whose units all run are carried through.\<close>

lemma itzo_settles:
  assumes "ct_loop s = L_idle" "ct_worker s = None" "ct_wg s = 0"
    "pc_updateChan (ct_pc s) = ps @ [params]" "all_up (itzo_view ip) (ct_pc s)"
    "sv_accepts (itzo_view ip) params"
  shows "\<not> (\<exists>f. f 0 = s \<and> (\<forall>i. ctl_goes (itzo_runtime ip) (f i) (f (Suc i))))"
    and "(ctl_goes (itzo_runtime ip))\<^sup>*\<^sup>* s t \<Longrightarrow> \<not> (\<exists>u. ctl_goes (itzo_runtime ip) t u) \<Longrightarrow>
      \<exists>d. t = embed d \<and> settled (itzo_view ip) params d"
proof -
  define c where "c = \<lparr>sys_pc = ct_pc s, sys_main = M_idle, sys_worker = None, sys_wg = 0\<rparr>"
  have s: "s = embed c" using assms(1-3) by (simp add: c_def embed_def)
  have queued: "in_phase (itzo_view ip) params (Ph_queued (length ps)) c" using assms(4,5) by (simp add: c_def)
  note settles = itzo_works.ctl_settles [OF queued assms(6)]
  show "\<not> (\<exists>f. f 0 = s \<and> (\<forall>i. ctl_goes (itzo_runtime ip) (f i) (f (Suc i))))"
    unfolding s by (rule settles(1))
  assume "(ctl_goes (itzo_runtime ip))\<^sup>*\<^sup>* s t" "\<not> (\<exists>u. ctl_goes (itzo_runtime ip) t u)"
  then show "\<exists>d. t = embed d \<and> settled (itzo_view ip) params d" unfolding s by (rule settles(2))
qed

end
