(* ===== verification/Prober.thy ===== *)
theory Prober
  imports Api_Types Util_Names
begin

text \<open>
  Probes: \<open>pkg/prober/prober.go\<close> (one probe, with retries), \<open>runner.go\<close> (running the command of an
  exec probe), \<open>results.go\<close> and \<open>worker.go\<close> (the loop that turns probe results into emitted
  results).  The Kubernetes probers are third-party: they are fields of the prober's record, each a
  computation over a world \<open>'w\<close>.  An empty exec command panics.
\<close>

section \<open>results.go and the probe types\<close>

(* src: pkg/prober/results.go 19-26 Result *)
datatype Result = Unknown | Success | Failure

(* src: pkg/prober/results.go 28-37 String *)
fun Result_String :: "Result \<Rightarrow> string" where
  "Result_String Success = ''Success''"
| "Result_String Failure = ''Failure''"
| "Result_String Unknown = ''UNKNOWN''"

text \<open>A Go variable of type \<open>Result\<close> starts as 0, which is \<open>Success\<close>.\<close>

definition Result_int :: "Result \<Rightarrow> int" where
  "Result_int r = (case r of Unknown \<Rightarrow> -1 | Success \<Rightarrow> 0 | Failure \<Rightarrow> 1)"

instantiation Result :: linorder
begin

definition less_eq_Result :: "Result \<Rightarrow> Result \<Rightarrow> bool" where
  "r \<le> r' \<longleftrightarrow> Result_int r \<le> Result_int r'"

definition less_Result :: "Result \<Rightarrow> Result \<Rightarrow> bool" where
  "r < r' \<longleftrightarrow> Result_int r < Result_int r'"

instance
proof
  fix x y z :: Result
  show "(x < y) = (x \<le> y \<and> \<not> y \<le> x)"
    by (auto simp: less_eq_Result_def less_Result_def)
  show "x \<le> x" by (simp add: less_eq_Result_def)
  show "x \<le> y \<Longrightarrow> y \<le> z \<Longrightarrow> x \<le> z" by (simp add: less_eq_Result_def)
  show "x \<le> y \<Longrightarrow> y \<le> x \<Longrightarrow> x = y"
    by (cases x; cases y) (simp_all add: less_eq_Result_def Result_int_def)
  show "x \<le> y \<or> y \<le> x" by (auto simp: less_eq_Result_def)
qed

end

(* src: pkg/prober/worker.go 29-35 ProbeType *)
datatype ProbeType = Liveness | Readiness | Startup

(* src: pkg/prober/worker.go 37-49 String *)
fun ProbeType_String :: "ProbeType \<Rightarrow> string" where
  "ProbeType_String Readiness = ''Readiness''"
| "ProbeType_String Liveness = ''Liveness''"
| "ProbeType_String Startup = ''Startup''"

section \<open>runner.go\<close>

text \<open>
  \<open>os_exec cmd deadline\<close> runs a command: its output, its error and whether the deadline passed.  The
  error of a command that ended with a status other than 0 is an \<open>*exec.ExitError\<close>.
\<close>

datatype run_error = Exit_status int | Run_failed go_error

(* src: pkg/prober/runner.go 34-51 RunWithTimeout *)
definition RunWithTimeout ::
  "(string list \<Rightarrow> int option \<Rightarrow> ('w, string \<times> run_error option \<times> bool) state) \<Rightarrow> string list \<Rightarrow> int \<Rightarrow>
   ('w, (string \<times> run_error option) outcome) state" where
  "RunWithTimeout os_exec cmd timeout =
     (if cmd = [] then return Panic
      else do {
        (out, err, late) \<leftarrow> os_exec cmd (if timeout > 0 then Some timeout else None);
        if late then return (Ret (''Command timed out'', Some (Run_failed (Errorf ''Command timed out''))))
        else return (Ret (out, err))
      })"

section \<open>prober.go\<close>

text \<open>The results of \<open>k8s.io/kubernetes/pkg/probe\<close>.\<close>

datatype probe_Result = probe_Success | probe_Warning | probe_Failure | probe_Unknown

type_synonym probe_answer = "probe_Result \<times> string \<times> error"

record URL =
  URL_Scheme :: string
  URL_Host :: string
  URL_Path :: string
  URL_RawQuery :: string

(* src: pkg/prober/prober.go 42-42 maxProbeRetries *)
abbreviation (input) maxProbeRetries :: nat where "maxProbeRetries \<equiv> 3"

text \<open>
  What an exec prober is given: the interface \<open>exec.Cmd\<close> of Kubernetes, implemented by \<open>execCmd\<close>.  All
  its methods have a value receiver, so each works on a copy of the struct: what a method assigns to a
  field is gone when it returns.
\<close>

(* src: pkg/prober/prober.go 202-210 execCmd *)
record 'w execCmd =
  ec_run :: "('w, (string \<times> run_error option) outcome) state"
  ec_writer :: "(string \<Rightarrow> ('w, unit) state) option"

datatype kube_error = ExitErrorWrapper int | Kube_error go_error

(* src: pkg/prober/prober.go 222-233 CombinedOutput *)
definition execCmd_CombinedOutput :: "'w execCmd \<Rightarrow> ('w, (string \<times> kube_error option) outcome) state" where
  "execCmd_CombinedOutput eic = do {
     r \<leftarrow> ec_run eic;
     return (case r of
         Panic \<Rightarrow> Panic
       | Ret (output, err) \<Rightarrow>
           Ret (output, case err of
                  None \<Rightarrow> None
                | Some (Exit_status n) \<Rightarrow> Some (ExitErrorWrapper n)
                | Some (Run_failed e) \<Rightarrow> Some (Kube_error e)))
   }"

(* src: pkg/prober/prober.go 263-269 Start *)
definition execCmd_Start :: "'w execCmd \<Rightarrow> ('w, kube_error option outcome) state" where
  "execCmd_Start eic = do {
     r \<leftarrow> execCmd_CombinedOutput eic;
     case r of
       Panic \<Rightarrow> return Panic
     | Ret (data, err) \<Rightarrow> do {
         (case ec_writer eic of Some write \<Rightarrow> write data | None \<Rightarrow> return ());
         return (Ret err)
       }
   }"

(* src: pkg/prober/prober.go 247-249 SetStdout *)
definition execCmd_SetStdout :: "(string \<Rightarrow> ('w, unit) state) \<Rightarrow> 'w execCmd \<Rightarrow> 'w execCmd" where
  "execCmd_SetStdout out eic = eic\<lparr>ec_writer := Some out\<rparr>"

(* src: pkg/prober/prober.go 251-253 SetStderr *)
definition execCmd_SetStderr :: "(string \<Rightarrow> ('w, unit) state) \<Rightarrow> 'w execCmd \<Rightarrow> 'w execCmd" where
  "execCmd_SetStderr out eic = eic\<lparr>ec_writer := Some out\<rparr>"

text \<open>
  \<open>value_receiver f e\<close> is the call of a method that does \<open>f\<close> to its receiver: it is given a copy of \<open>e\<close>,
  which the caller's \<open>e\<close> does not share.  The calls a client can make:
\<close>

definition value_receiver :: "('w execCmd \<Rightarrow> 'w execCmd) \<Rightarrow> 'w execCmd \<Rightarrow> 'w execCmd" where
  "value_receiver f e = (let copy = f e in e)"

datatype 'w cmd_call =
    Call_Run | Call_CombinedOutput | Call_Output | Call_SetDir string | Call_SetStdin string
  | Call_SetStdout "string \<Rightarrow> ('w, unit) state" | Call_SetStderr "string \<Rightarrow> ('w, unit) state"
  | Call_SetEnv "string list" | Call_Stop | Call_Start | Call_Wait | Call_StdoutPipe | Call_StderrPipe

text \<open>What a call answers: its output, if it has one, and its error.\<close>

type_synonym cmd_answer = "string option \<times> kube_error option"

definition unimplemented :: "kube_error option" where
  "unimplemented = Some (Kube_error (Errorf ''unimplemented''))"

(* src: pkg/prober/prober.go 218-281 execCmd *)
fun execCmd_call :: "'w cmd_call \<Rightarrow> 'w execCmd \<Rightarrow> ('w, (cmd_answer \<times> 'w execCmd) outcome) state" where
  "execCmd_call Call_Run e = return (Ret ((None, unimplemented), e))"
| "execCmd_call Call_CombinedOutput e = do {
     r \<leftarrow> execCmd_CombinedOutput e;
     return (case r of Panic \<Rightarrow> Panic | Ret (output, err) \<Rightarrow> Ret ((Some output, err), e))
   }"
| "execCmd_call Call_Output e = return (Ret ((None, unimplemented), e))"
| "execCmd_call (Call_SetDir dir) e = return (Ret ((None, None), e))"
| "execCmd_call (Call_SetStdin i) e = return (Ret ((None, None), e))"
| "execCmd_call (Call_SetStdout out) e =
     return (Ret ((None, None), value_receiver (execCmd_SetStdout out) e))"
| "execCmd_call (Call_SetStderr out) e =
     return (Ret ((None, None), value_receiver (execCmd_SetStderr out) e))"
| "execCmd_call (Call_SetEnv env) e = return (Ret ((None, None), e))"
| "execCmd_call Call_Stop e = return (Ret ((None, None), e))"
| "execCmd_call Call_Start e = do {
     r \<leftarrow> execCmd_Start e;
     return (case r of Panic \<Rightarrow> Panic | Ret err \<Rightarrow> Ret ((None, err), e))
   }"
| "execCmd_call Call_Wait e = return (Ret ((None, None), e))"
| "execCmd_call Call_StdoutPipe e = return (Ret ((None, unimplemented), e))"
| "execCmd_call Call_StderrPipe e = return (Ret ((None, unimplemented), e))"

text \<open>
  The struct, with the third-party probers as fields.  The prober of commands is given an \<open>execCmd\<close>.
\<close>

type_synonym 'w http_prober =
  "URL \<Rightarrow> (string \<rightharpoonup> string list) \<Rightarrow> int \<Rightarrow> ('w, probe_answer) state"

(* src: pkg/prober/prober.go 44-58 prober *)
record 'w prober =
  pb_unitName :: string
  pb_unitEnv :: "EnvVar list"
  pb_podIP :: string
  pb_exec :: "'w execCmd \<Rightarrow> ('w, probe_answer outcome) state"
  pb_readinessHttp :: "'w http_prober"
  pb_livenessHttp :: "'w http_prober"
  pb_tcp :: "string \<Rightarrow> int \<Rightarrow> int \<Rightarrow> ('w, probe_answer) state"
  pb_runner :: "string list \<Rightarrow> int \<Rightarrow> ('w, (string \<times> run_error option) outcome) state"
  pb_expand :: "(string \<rightharpoonup> string) \<Rightarrow> string \<Rightarrow> string"
  pb_url_Parse :: "string \<Rightarrow> URL option"

text \<open>
  The packages \<open>newProber\<close> calls: \<open>httprobe.New\<close> makes an instance, with a pool of connections of its
  own, for a flag that says whether to follow redirects to other hosts; instances are numbered.
\<close>

record 'w probe_lib =
  pl_exec :: "'w execCmd \<Rightarrow> ('w, probe_answer outcome) state"
  pl_http :: "bool \<Rightarrow> nat \<Rightarrow> 'w http_prober"
  pl_tcp :: "string \<Rightarrow> int \<Rightarrow> int \<Rightarrow> ('w, probe_answer) state"
  pl_os_exec :: "string list \<Rightarrow> int option \<Rightarrow> ('w, string \<times> run_error option \<times> bool) state"
  pl_expand :: "(string \<rightharpoonup> string) \<Rightarrow> string \<Rightarrow> string"
  pl_url_Parse :: "string \<Rightarrow> URL option"

(* src: pkg/prober/prober.go 60-78 newProber *)
definition newProber :: "'w probe_lib \<Rightarrow> string \<Rightarrow> string \<Rightarrow> EnvVar list \<Rightarrow> 'w prober" where
  "newProber lib unitName podIP env =
     (let followNonLocalRedirects = False
      in \<lparr>pb_unitName = unitName, pb_unitEnv = env, pb_podIP = podIP,
          pb_exec = pl_exec lib,
          pb_readinessHttp = pl_http lib followNonLocalRedirects 0,
          pb_livenessHttp = pl_http lib followNonLocalRedirects 1,
          pb_tcp = pl_tcp lib,
          pb_runner = RunWithTimeout (pl_os_exec lib),
          pb_expand = pl_expand lib, pb_url_Parse = pl_url_Parse lib\<rparr>)"

(* src: pkg/prober/prober.go 212-216 newExecCmd *)
definition newExecCmd :: "'w prober \<Rightarrow> string list \<Rightarrow> int \<Rightarrow> 'w execCmd" where
  "newExecCmd pb cmd timeout = \<lparr>ec_run = pb_runner pb cmd timeout, ec_writer = None\<rparr>"

(* src: pkg/prober/prober.go 119-127 buildHeader *)
fun buildHeader_loop :: "(string \<rightharpoonup> string list) \<Rightarrow> HTTPHeader list \<Rightarrow> (string \<rightharpoonup> string list)" where
  "buildHeader_loop headers [] = headers"
| "buildHeader_loop headers (h # hs) =
     buildHeader_loop
       (headers(HTTPHeader_Name h \<mapsto>
          (case headers (HTTPHeader_Name h) of None \<Rightarrow> [] | Some vs \<Rightarrow> vs) @ [HTTPHeader_Value h]))
       hs"

(* src: pkg/prober/prober.go 119-127 buildHeader *)
definition buildHeader :: "HTTPHeader list \<Rightarrow> (string \<rightharpoonup> string list)" where
  "buildHeader headerList = buildHeader_loop Map.empty headerList"

(* src: pkg/prober/prober.go 173-186 extractPort *)
definition extractPort :: "IntOrString \<Rightarrow> int \<times> error" where
  "extractPort param =
     (if IntOrString_Type param = intstr_String then
        (-1, Some (Errorf (''could not find port named '' @ IntOrString_StrVal param @ '' in unit'')))
      else if IntOrString_Type param = intstr_Int then
        (let port = IntOrString_IntVal param
         in if port > 0 \<and> port < 65536 then (port, None)
            else (-1, Some (Errorf (''invalid port number: '' @ Itoa port))))
      else (-1, Some (Errorf ''intOrString had no kind'')))"

text \<open>\<open>net.JoinHostPort\<close> brackets a host with a colon.\<close>

definition JoinHostPort :: "string \<Rightarrow> string \<Rightarrow> string" where
  "JoinHostPort host port =
     (if CHR '':'' \<in> set host then ''['' @ host @ '']:'' @ port else host @ '':'' @ port)"

(* src: pkg/prober/prober.go 188-200 formatURL *)
definition formatURL :: "(string \<Rightarrow> URL option) \<Rightarrow> string \<Rightarrow> string \<Rightarrow> int \<Rightarrow> string \<Rightarrow> URL" where
  "formatURL url_Parse scheme host port path =
     (let u = (case url_Parse path of
                 Some u \<Rightarrow> u
               | None \<Rightarrow> \<lparr>URL_Scheme = [], URL_Host = [], URL_Path = path, URL_RawQuery = []\<rparr>)
      in u\<lparr>URL_Scheme := scheme, URL_Host := JoinHostPort host (Itoa port)\<rparr>)"

(* src: pkg/prober/prober.go 129-171 runProbe *)
definition runProbe :: "'w prober \<Rightarrow> ProbeType \<Rightarrow> Probe \<Rightarrow> ('w, probe_answer outcome) state" where
  "runProbe pb probeType p =
     (let timeout = Probe_TimeoutSeconds p * 1000000000;
          h = Probe_Handler p
      in case Handler_Exec h of
        Some e \<Rightarrow>
          (let command = ExpandContainerCommandOnlyStatic (pb_expand pb) (ExecAction_Command e)
                           (pb_unitEnv pb)
           in pb_exec pb (newExecCmd pb command timeout))
      | None \<Rightarrow>
      (case Handler_HTTPGet h of
        Some g \<Rightarrow>
          (let scheme = ToLower (HTTPGetAction_Scheme g);
               host = (if HTTPGetAction_Host g = [] then pb_podIP pb else HTTPGetAction_Host g)
           in case extractPort (HTTPGetAction_Port g) of
                (_, Some err) \<Rightarrow> return (Ret (probe_Unknown, [], Some err))
              | (port, None) \<Rightarrow>
                  (let url = formatURL (pb_url_Parse pb) scheme host port (HTTPGetAction_Path g);
                       headers = buildHeader (HTTPGetAction_HTTPHeaders g)
                   in do {
                     answer \<leftarrow> (if probeType = Liveness then pb_livenessHttp pb else pb_readinessHttp pb)
                                url headers timeout;
                     return (Ret answer)
                   }))
      | None \<Rightarrow>
      (case Handler_TCPSocket h of
        Some t \<Rightarrow>
          (case extractPort (TCPSocketAction_Port t) of
             (_, Some err) \<Rightarrow> return (Ret (probe_Unknown, [], Some err))
           | (port, None) \<Rightarrow>
               (let host = (if TCPSocketAction_Host t = [] then pb_podIP pb
                            else TCPSocketAction_Host t)
                in do { answer \<leftarrow> pb_tcp pb host port timeout; return (Ret answer) }))
      | None \<Rightarrow>
          return (Ret (probe_Unknown, [],
                       Some (Errorf (''Missing probe handler for '' @ pb_unitName pb)))))))"

(* src: pkg/prober/prober.go 104-117 runProbeWithRetries *)
fun runProbe_loop ::
  "'w prober \<Rightarrow> ProbeType \<Rightarrow> Probe \<Rightarrow> nat \<Rightarrow> probe_answer \<Rightarrow> ('w, probe_answer outcome) state" where
  "runProbe_loop pb t p 0 acc = return (Ret acc)"
| "runProbe_loop pb t p (Suc n) acc = do {
     r \<leftarrow> runProbe pb t p;
     case r of
       Panic \<Rightarrow> return Panic
     | Ret (res, output, err) \<Rightarrow>
         if err = None then return (Ret (res, output, None))
         else runProbe_loop pb t p n (res, output, err)
   }"

(* src: pkg/prober/prober.go 104-117 runProbeWithRetries *)
definition runProbeWithRetries ::
  "'w prober \<Rightarrow> ProbeType \<Rightarrow> Probe \<Rightarrow> nat \<Rightarrow> ('w, probe_answer outcome) state" where
  "runProbeWithRetries pb t p retries = runProbe_loop pb t p retries (probe_Unknown, [], None)"

(* src: pkg/prober/prober.go 80-102 probe *)
definition probe ::
  "'w prober \<Rightarrow> ProbeType \<Rightarrow> Probe option \<Rightarrow> ('w, (Result \<times> error) outcome) state" where
  "probe pb probeType probeSpec =
     (case probeSpec of
        None \<Rightarrow> return (Ret (Success, None))
      | Some spec \<Rightarrow> do {
          r \<leftarrow> runProbeWithRetries pb probeType spec maxProbeRetries;
          case r of
            Panic \<Rightarrow> return Panic
          | Ret (res, output, err) \<Rightarrow>
              if err \<noteq> None \<or> (res \<noteq> probe_Success \<and> res \<noteq> probe_Warning)
              then return (Ret (Failure, err))
              else return (Ret (Success, None))
        })"

section \<open>worker.go\<close>

text \<open>
  The two channels are buffered: \<open>stopCh\<close> holds one token, \<open>results\<close> two results.  Times are
  nanoseconds; the number of seconds since the start is converted to an \<open>int32\<close>.
\<close>

(* src: pkg/prober/worker.go 51-80 worker *)
record worker =
  w_stopCh :: bool
  w_spec :: "Probe option"
  w_probeType :: ProbeType
  w_initialValue :: Result
  w_startedAt :: int
  w_lastResult :: Result
  w_resultRun :: int
  w_results :: "Result list"

text \<open>An environment entry with no equals sign panics.\<close>

(* src: pkg/prober/worker.go 82-118 NewWorker *)
definition NewWorker ::
  "'w probe_lib \<Rightarrow> string list \<Rightarrow> string \<Rightarrow> string \<Rightarrow> ProbeType \<Rightarrow>
   Probe option \<Rightarrow> (worker \<times> 'w prober) option" where
  "NewWorker lib environ unitName podIP probeType spec =
     map_option (\<lambda>apiEnv.
       (\<lparr>w_stopCh = False, w_spec = spec, w_probeType = probeType,
         w_initialValue = (case probeType of Readiness \<Rightarrow> Failure | Liveness \<Rightarrow> Success
                                            | Startup \<Rightarrow> Unknown),
         w_startedAt = 0, w_lastResult = Success, w_resultRun = 0, w_results = []\<rparr>,
        newProber lib unitName podIP apiEnv))
     (EnvironToAPIEnvVar environ)"

(* src: pkg/prober/worker.go 157-162 Stop *)
definition worker_Stop :: "worker \<Rightarrow> worker" where
  "worker_Stop w = w\<lparr>w_stopCh := True\<rparr>"

(* src: pkg/prober/worker.go 193-201 emit *)
definition worker_emit :: "Result \<Rightarrow> worker \<Rightarrow> worker" where
  "worker_emit r w = (if length (w_results w) < 2 then w\<lparr>w_results := w_results w @ [r]\<rparr> else w)"

(* src: pkg/prober/worker.go 178-190 doProbe *)
definition note_result :: "Probe \<Rightarrow> Result \<Rightarrow> worker \<Rightarrow> (bool \<times> Result) \<times> worker" where
  "note_result spec r w =
     (let w = (if w_lastResult w = r then w\<lparr>w_resultRun := w_resultRun w + 1\<rparr>
               else w\<lparr>w_lastResult := r, w_resultRun := 1\<rparr>)
      in if (r = Failure \<and> w_resultRun w < Probe_FailureThreshold spec) \<or>
            (r = Success \<and> w_resultRun w < Probe_SuccessThreshold spec)
         then ((False, r), w)
         else ((True, r), w))"

text \<open>A panic is recovered and leaves the named results at their zero values.\<close>

(* src: pkg/prober/worker.go 164-191 doProbe *)
definition doProbe ::
  "'w prober \<Rightarrow> int \<Rightarrow> worker \<Rightarrow> 'w \<Rightarrow> (bool \<times> Result) \<times> worker \<times> 'w" where
  "doProbe pb now w x =
     (case w_spec w of
        None \<Rightarrow> ((False, Success), w, x)
      | Some spec \<Rightarrow>
          if int32 ((now - w_startedAt w) div 1000000000) < Probe_InitialDelaySeconds spec
          then ((True, w_initialValue w), w, x)
          else (case run_state (probe pb (w_probeType w) (Some spec)) x of
                  (Panic, x') \<Rightarrow> ((False, Success), w, x')
                | (Ret (r, Some err), x') \<Rightarrow> ((False, r), w, x')
                | (Ret (r, None), x') \<Rightarrow>
                    (let (res, w') = note_result spec r w in (res, w', x'))))"

text \<open>
  One turn of the loop, and the run of a worker: the loop wakes with a stop token or with a tick, and
  the unit receives results meanwhile.  A worker with no spec is not started.
\<close>

(* src: pkg/prober/worker.go 141-144 run *)
definition probe_turn :: "'w prober \<Rightarrow> int \<Rightarrow> worker \<times> 'w \<Rightarrow> worker \<times> 'w" where
  "probe_turn pb now wx =
     (case doProbe pb now (fst wx) (snd wx) of
        ((hasResult, r), w', x') \<Rightarrow> (if hasResult then worker_emit r w' else w', x'))"

datatype worker_phase = Created | Looping | Ended

(* src: pkg/prober/worker.go 120-153 run *)
inductive worker_step ::
  "'w prober \<Rightarrow> worker_phase \<times> worker \<times> 'w \<Rightarrow> worker_phase \<times> worker \<times> 'w \<Rightarrow> bool"
  for pb :: "'w prober" where
  start: "w_spec w \<noteq> None \<Longrightarrow>
     worker_step pb (Created, w, x) (Looping, probe_turn pb now (w\<lparr>w_startedAt := t0\<rparr>, x))"
| tick: "worker_step pb (Looping, w, x) (Looping, probe_turn pb now (w, x))"
| stopped: "w_stopCh w \<Longrightarrow> worker_step pb (Looping, w, x) (Ended, w\<lparr>w_stopCh := False\<rparr>, x)"
| Stop: "worker_step pb (ph, w, x) (ph, worker_Stop w, x)"
| receive: "w_results w = r # rs \<Longrightarrow> worker_step pb (ph, w, x) (ph, w\<lparr>w_results := rs\<rparr>, x)"

inductive_cases worker_step_Ended: "worker_step pb (Ended, w, x) s"

inductive worker_reach ::
  "'w prober \<Rightarrow> worker_phase \<times> worker \<times> 'w \<Rightarrow> worker_phase \<times> worker \<times> 'w \<Rightarrow> bool"
  for pb :: "'w prober" where
  refl: "worker_reach pb s s"
| step: "worker_reach pb s t \<Longrightarrow> worker_step pb t u \<Longrightarrow> worker_reach pb s u"

section \<open>Properties\<close>

text \<open>
  The writers a client sets are never written to: whatever it calls, in whatever order, and whatever
  writers it passes, the world and the answers are those of the same calls with other writers.
\<close>

fun execCmd_calls :: "'w execCmd \<Rightarrow> 'w cmd_call list \<Rightarrow> ('w, cmd_answer list outcome) state" where
  "execCmd_calls e [] = return (Ret [])"
| "execCmd_calls e (c # cs) = do {
     r \<leftarrow> execCmd_call c e;
     case r of
       Panic \<Rightarrow> return Panic
     | Ret (a, e') \<Rightarrow> do {
         rs \<leftarrow> execCmd_calls e' cs;
         return (case rs of Panic \<Rightarrow> Panic | Ret as \<Rightarrow> Ret (a # as))
       }
   }"

fun other_writer :: "(string \<Rightarrow> ('w, unit) state) \<Rightarrow> 'w cmd_call \<Rightarrow> 'w cmd_call" where
  "other_writer out (Call_SetStdout _) = Call_SetStdout out"
| "other_writer out (Call_SetStderr _) = Call_SetStderr out"
| "other_writer out c = c"

lemma execCmd_call_other: "execCmd_call (other_writer out c) e = execCmd_call c e"
  by (cases c) (simp_all add: value_receiver_def)

lemma execCmd_calls_other: "execCmd_calls e (map (other_writer out) cs) = execCmd_calls e cs"
proof (induction cs arbitrary: e)
  case (Cons c cs)
  then show ?case by (simp only: list.map execCmd_calls.simps execCmd_call_other)
qed simp

text \<open>Starting the command of an exec probe runs it once and gives its error, with an exit status kept.\<close>

lemma execCmd_Start_new:
  "run_state (execCmd_Start (newExecCmd pb cmd timeout)) x =
     (case run_state (pb_runner pb cmd timeout) x of
        (Panic, x') \<Rightarrow> (Panic, x')
      | (Ret (out, err), x') \<Rightarrow>
          (Ret (map_option (\<lambda>e. case e of Exit_status n \<Rightarrow> ExitErrorWrapper n
                                  | Run_failed e \<Rightarrow> Kube_error e) err), x'))"
  by (auto simp: execCmd_Start_def execCmd_CombinedOutput_def newExecCmd_def run_state_bind
      split: outcome.splits prod.splits option.splits run_error.splits)


lemma run_probe_Ret:
  "result (probe pb t (Some p)) x =
     (case result (runProbeWithRetries pb t p maxProbeRetries) x of
        Panic \<Rightarrow> Panic
      | Ret (res, out, err) \<Rightarrow>
          Ret (if err = None \<and> (res = probe_Success \<or> res = probe_Warning) then Success else Failure,
               err))"
  by (auto simp: probe_def split: outcome.splits prod.splits)

text \<open>
  The retries: \<open>runs pb t p x n\<close> are the answers of \<open>n\<close> runs in a row.  The loop answers with the
  first one that is not an error, or with the last.
\<close>

fun runs :: "'w prober \<Rightarrow> ProbeType \<Rightarrow> Probe \<Rightarrow> 'w \<Rightarrow> nat \<Rightarrow> probe_answer outcome list" where
  "runs pb t p x 0 = []"
| "runs pb t p x (Suc n) =
     result (runProbe pb t p) x # runs pb t p (final (runProbe pb t p) x) n"

definition failed :: "probe_answer outcome \<Rightarrow> bool" where
  "failed r \<longleftrightarrow> (\<exists>res out e. r = Ret (res, out, Some e))"

definition first_or_last :: "'a \<Rightarrow> ('a \<Rightarrow> bool) \<Rightarrow> 'a list \<Rightarrow> 'a" where
  "first_or_last d P xs =
     (case find (\<lambda>y. \<not> P y) xs of Some y \<Rightarrow> y | None \<Rightarrow> if xs = [] then d else last xs)"

lemma runProbe_loop_answer:
  "result (runProbe_loop pb t p n acc) x = first_or_last (Ret acc) failed (runs pb t p x n)"
proof (induction n arbitrary: acc x)
  case 0
  then show ?case by (simp add: first_or_last_def)
next
  case (Suc n)
  show ?case
  proof (cases "result (runProbe pb t p) x")
    case (Ret a)
    obtain res out err where a: "a = (res, out, err)" by (cases a)
    show ?thesis
    proof (cases err)
      case None
      then show ?thesis using Ret a by (simp add: first_or_last_def failed_def)
    next
      case (Some e)
      with Ret a have "failed (result (runProbe pb t p) x)" by (simp add: failed_def)
      then show ?thesis
        using Ret a Some Suc [of "(res, out, Some e)" "final (runProbe pb t p) x"]
        by (simp add: first_or_last_def split: option.splits)
    qed
  qed (simp add: first_or_last_def failed_def)
qed

text \<open>The length of the run of \<open>r\<close> that ends a list of results.\<close>

definition trailing :: "'a \<Rightarrow> 'a list \<Rightarrow> nat" where
  "trailing r rs = length (takeWhile (\<lambda>y. y = r) (rev rs))"

lemma trailing_Nil [simp]: "trailing r [] = 0"
  by (simp add: trailing_def)

lemma trailing_snoc [simp]: "trailing r (rs @ [y]) = (if y = r then Suc (trailing r rs) else 0)"
  by (simp add: trailing_def)

text \<open>
  \<open>probed pb w0 w x rs\<close>: probing from the new worker \<open>w0\<close> has led to \<open>w\<close>, and \<open>rs\<close> are the results
  of the probes so far that were neither delayed nor errors.
\<close>

inductive probed :: "'w prober \<Rightarrow> worker \<Rightarrow> worker \<Rightarrow> 'w \<Rightarrow> Result list \<Rightarrow> bool"
  for pb :: "'w prober" and w0 :: worker where
  new: "probed pb w0 w0 x []"
| silent: "probed pb w0 w x rs \<Longrightarrow> doProbe pb now w x = (res, w, x') \<Longrightarrow> probed pb w0 w x' rs"
| noted: "probed pb w0 w x rs \<Longrightarrow> w_spec w = Some spec \<Longrightarrow>
     Probe_InitialDelaySeconds spec \<le> int32 ((now - w_startedAt w) div 1000000000) \<Longrightarrow>
     run_state (probe pb (w_probeType w) (Some spec)) x = (Ret (r, None), x') \<Longrightarrow>
     probed pb w0 (snd (note_result spec r w)) x' (rs @ [r])"

definition fresh :: "worker \<Rightarrow> bool" where
  "fresh w \<longleftrightarrow> w_lastResult w = Success \<and> w_resultRun w = 0"

lemma NewWorker_fresh: "NewWorker lib env u ip t spec = Some (w, pb) \<Longrightarrow> fresh w \<and> w_spec w = spec"
  by (auto simp: NewWorker_def fresh_def)

lemma note_result_spec: "w_spec (snd (note_result spec r w)) = w_spec w"
  by (simp add: note_result_def Let_def)

lemma note_result_run:
  "w_resultRun (snd (note_result spec r w)) =
     (if w_lastResult w = r then w_resultRun w + 1 else 1)"
  "w_lastResult (snd (note_result spec r w)) = r"
  by (simp_all add: note_result_def Let_def)

lemma note_result_emits:
  "fst (fst (note_result spec r w)) \<longleftrightarrow>
     (let n = (if w_lastResult w = r then w_resultRun w + 1 else 1)
      in (r = Failure \<longrightarrow> Probe_FailureThreshold spec \<le> n) \<and>
         (r = Success \<longrightarrow> Probe_SuccessThreshold spec \<le> n))"
  by (auto simp: note_result_def Let_def)

lemma probed_run:
  assumes "probed pb w0 w x rs" "fresh w0"
  shows "w_resultRun w = int (trailing (w_lastResult w) rs) \<and>
         (rs \<noteq> [] \<longrightarrow> w_lastResult w = last rs) \<and> w_spec w = w_spec w0"
  using assms
proof (induction rule: probed.induct)
  case (noted w x rs spec now r x')
  have "trailing r rs = 0" if "r \<noteq> w_lastResult w"
  proof (cases rs rule: rev_cases)
    case (snoc ys y)
    with noted that show ?thesis by simp
  qed simp
  with noted show ?case by (auto simp: note_result_run note_result_spec)
qed (auto simp: fresh_def)

lemma probed_emits:
  assumes "probed pb w0 w x rs" "fresh w0"
  shows "fst (fst (note_result spec r w)) \<longleftrightarrow>
     (r = Failure \<longrightarrow> Probe_FailureThreshold spec \<le> int (trailing r (rs @ [r]))) \<and>
     (r = Success \<longrightarrow> Probe_SuccessThreshold spec \<le> int (trailing r (rs @ [r])))"
proof -
  have *: "w_resultRun w = int (trailing (w_lastResult w) rs)" "rs \<noteq> [] \<longrightarrow> w_lastResult w = last rs"
    using probed_run [OF assms] by simp_all
  have "trailing r rs = 0" if "r \<noteq> w_lastResult w"
  proof (cases rs rule: rev_cases)
    case (snoc ys y)
    with * that show ?thesis by simp
  qed simp
  with * show ?thesis by (auto simp: note_result_emits Let_def)
qed

text \<open>The result channel never holds more than two results, and an ended worker probes no more.\<close>

lemma doProbe_results: "doProbe pb now w x = (res, w', x') \<Longrightarrow> w_results w' = w_results w"
  by (auto simp: doProbe_def note_result_def Let_def
      split: option.splits if_splits prod.splits outcome.splits)

lemma probe_turn_bound:
  assumes "length (w_results w) \<le> 2"
  shows "length (w_results (fst (probe_turn pb now (w, x)))) \<le> 2"
proof -
  obtain h r w' x' where d: "doProbe pb now w x = ((h, r), w', x')"
    by (metis prod.collapse)
  with assms doProbe_results [OF d] show ?thesis
    by (simp add: probe_turn_def worker_emit_def)
qed

lemma worker_step_bound:
  assumes "worker_step pb s t" "length (w_results (fst (snd s))) \<le> 2"
  shows "length (w_results (fst (snd t))) \<le> 2"
  using assms by (cases rule: worker_step.cases) (auto simp: probe_turn_bound worker_Stop_def)

lemma worker_reach_bound:
  assumes "worker_reach pb s t" "length (w_results (fst (snd s))) \<le> 2"
  shows "length (w_results (fst (snd t))) \<le> 2"
  using assms by (induction rule: worker_reach.induct) (auto dest: worker_step_bound)

lemma worker_ended:
  assumes "worker_step pb (Ended, w, x) t"
  shows "fst t = Ended \<and> snd (snd t) = x"
  using assms by (rule worker_step_Ended) auto

end
