(* ===== verification/Kill.thy ===== *)
theory Kill
  imports Itzo_Prelude
begin

text \<open>
  \<open>pkg/util/kill\<close>: killing a process and everything below it.  The \<open>ProcessHandler\<close> is a
  parameter: \<open>kp\<close> answers \<open>KillProcess\<close> for the pids already signalled and the pid at hand, so
  it may depend on what was done before.  \<open>madd\<close> is \<open>multierror.Append\<close>, which always returns
  a non-nil error.
\<close>

(* src: pkg/util/kill/kill.go 26-30 Process *)
record Process =
  Process_Pid :: int
  Process_PPid :: int
  Process_Executable :: string

fun copy_loop :: "nat \<Rightarrow> nat \<Rightarrow> Process list \<Rightarrow> Process list" where
  "copy_loop except i [] = []"
| "copy_loop except i (prc # processes) =
     (if i \<noteq> except then prc # copy_loop except (Suc i) processes
      else copy_loop except (Suc i) processes)"

(* src: pkg/util/kill/kill.go 81-89 copyExcept *)
definition copyExcept :: "Process list \<Rightarrow> nat \<Rightarrow> Process list" where
  "copyExcept processes except = copy_loop except 0 processes"

lemma copy_loop_past: "e < i \<Longrightarrow> copy_loop e i ps = ps"
  by (induction ps arbitrary: i) auto

lemma copy_loop_take_drop:
  "k < length ps \<Longrightarrow> copy_loop (i + k) i ps = take k ps @ drop (Suc k) ps"
proof (induction ps arbitrary: i k)
  case (Cons p ps)
  then show ?case
    using Cons.IH [of "k - 1" "Suc i"] by (cases k) (auto simp: copy_loop_past)
qed simp

lemma copyExcept_take_drop:
  "i < length ps \<Longrightarrow> copyExcept ps i = take i ps @ drop (Suc i) ps"
  using copy_loop_take_drop [of i ps 0] by (simp add: copyExcept_def)

lemma copyExcept_length [simp]: "i < length ps \<Longrightarrow> length (copyExcept ps i) < length ps"
  by (simp add: copyExcept_take_drop)

text \<open>
  The recursion and its \<open>range\<close> loop.  The loop runs over the caller's slice and hands each
  child the slice without it, so the recursion ends although the parent relation need not be
  a tree.
\<close>

type_synonym killer = "int list \<Rightarrow> int \<Rightarrow> error"

(* src: pkg/util/kill/kill.go 91-107 killProcessTree *)
function (sequential)
  killProcessTree ::
    "killer \<Rightarrow> (error \<Rightarrow> go_error \<Rightarrow> go_error) \<Rightarrow> int \<Rightarrow> Process list \<Rightarrow> error \<Rightarrow> int list \<Rightarrow>
     error \<times> int list" and
  kill_loop ::
    "killer \<Rightarrow> (error \<Rightarrow> go_error \<Rightarrow> go_error) \<Rightarrow> int \<Rightarrow> Process list \<Rightarrow> nat \<Rightarrow> error \<Rightarrow> int list \<Rightarrow>
     error \<times> int list"
where
  "killProcessTree kp madd ppid processes res killed =
     (let (res, killed) = kill_loop kp madd ppid processes 0 res killed
      in (case kp killed ppid of
            None \<Rightarrow> (res, killed @ [ppid])
          | Some err \<Rightarrow> (Some (madd res err), killed @ [ppid])))"
| "kill_loop kp madd ppid processes i res killed =
     (if i < length processes then
        (if Process_PPid (processes ! i) \<noteq> ppid
         then kill_loop kp madd ppid processes (Suc i) res killed
         else let reduced = copyExcept processes i;
                  (err, killed) =
                    killProcessTree kp madd (Process_Pid (processes ! i)) reduced res killed
              in kill_loop kp madd ppid processes (Suc i)
                   (case err of None \<Rightarrow> res | Some e \<Rightarrow> Some (madd res e)) killed)
      else (res, killed))"
  by pat_completeness auto
termination
  by (relation "measures
      [\<lambda>x. case x of Inl (kp, madd, ppid, ps, res, killed) \<Rightarrow> length ps
                   | Inr (kp, madd, ppid, ps, i, res, killed) \<Rightarrow> length ps,
       \<lambda>x. case x of Inl _ \<Rightarrow> 1 | Inr _ \<Rightarrow> 0,
       \<lambda>x. case x of Inl _ \<Rightarrow> 0
                   | Inr (kp, madd, ppid, ps, i, res, killed) \<Rightarrow> length ps - i]") auto

declare killProcessTree.simps [simp del] kill_loop.simps [simp del]

lemma killProcessTree_eq:
  "killProcessTree kp madd p ps r k =
     (let L = kill_loop kp madd p ps 0 r k
      in (case kp (snd L) p of None \<Rightarrow> fst L | Some err \<Rightarrow> Some (madd (fst L) err), snd L @ [p]))"
  by (simp add: killProcessTree.simps [of kp madd p ps r k] split_def Let_def split: option.split)

lemma kill_loop_child:
  assumes "i < length ps" "Process_PPid (ps ! i) = p"
    and "t = killProcessTree kp madd (Process_Pid (ps ! i)) (copyExcept ps i) r k"
  shows "kill_loop kp madd p ps i r k = kill_loop kp madd p ps (Suc i)
           (case fst t of None \<Rightarrow> r | Some e \<Rightarrow> Some (madd r e)) (snd t)"
  using assms(1,2) by (subst kill_loop.simps) (simp add: split_def Let_def assms(3))

lemma kill_loop_other:
  "i < length ps \<Longrightarrow> Process_PPid (ps ! i) \<noteq> p \<Longrightarrow>
   kill_loop kp madd p ps i r k = kill_loop kp madd p ps (Suc i) r k"
  by (subst kill_loop.simps) simp

lemma kill_loop_end: "length ps \<le> i \<Longrightarrow> kill_loop kp madd p ps i r k = (r, k)"
  by (subst kill_loop.simps) simp

(* src: pkg/util/kill/kill.go 73-79 KillProcessTree *)
definition KillProcessTree ::
  "(go_error + Process list) \<Rightarrow> killer \<Rightarrow> (error \<Rightarrow> go_error \<Rightarrow> go_error) \<Rightarrow> int \<Rightarrow> error \<times> int list" where
  "KillProcessTree listed kp madd ppid =
     (case listed of
        Inl err \<Rightarrow> (Some err, [])
      | Inr processes \<Rightarrow> killProcessTree kp madd ppid processes None [])"

section \<open>The handler of the operating system\<close>

(* src: pkg/util/kill/kill.go 32-35 ProcessHandler *)
record ProcessHandler =
  ph_ListProcesses :: "go_error + Process list"
  ph_KillProcess :: killer

text \<open>A process as the package \<open>go-ps\<close> answers it; \<open>find_process\<close> and \<open>signal\<close> are those of the package \<open>os\<close>.\<close>

record ps_Process =
  ps_Pid :: int
  ps_PPid :: int
  ps_Executable :: string

(* src: pkg/util/kill/kill.go 39-53 ListProcesses *)
definition OS_ListProcesses :: "go_error + ps_Process list \<Rightarrow> go_error + Process list" where
  "OS_ListProcesses ps =
     (case ps of
        Inl err \<Rightarrow> Inl err
      | Inr found \<Rightarrow>
          Inr (map (\<lambda>p. \<lparr>Process_Pid = ps_Pid p, Process_PPid = ps_PPid p,
                          Process_Executable = ps_Executable p\<rparr>) found))"

(* src: pkg/util/kill/kill.go 55-61 KillProcess *)
definition OS_KillProcess :: "(int list \<Rightarrow> int \<Rightarrow> go_error + 'p) \<Rightarrow> (int list \<Rightarrow> 'p \<Rightarrow> error) \<Rightarrow> killer" where
  "OS_KillProcess find_process signal killed pid =
     (case find_process killed pid of Inl err \<Rightarrow> Some err | Inr process \<Rightarrow> signal killed process)"

(* src: pkg/util/kill/kill.go 37-37 OSProcessHandler *)
definition OSProcessHandler ::
  "go_error + ps_Process list \<Rightarrow> (int list \<Rightarrow> int \<Rightarrow> go_error + 'p) \<Rightarrow> (int list \<Rightarrow> 'p \<Rightarrow> error) \<Rightarrow>
   ProcessHandler" where
  "OSProcessHandler ps find_process signal =
     \<lparr>ph_ListProcesses = OS_ListProcesses ps, ph_KillProcess = OS_KillProcess find_process signal\<rparr>"

(* src: pkg/util/kill/kill.go 63-79 NewProcessTreeKiller *)
definition handler_KillProcessTree ::
  "ProcessHandler \<Rightarrow> (error \<Rightarrow> go_error \<Rightarrow> go_error) \<Rightarrow> int \<Rightarrow> error \<times> int list" where
  "handler_KillProcessTree h madd ppid = KillProcessTree (ph_ListProcesses h) (ph_KillProcess h) madd ppid"

section \<open>Everything below the process is killed, and it is killed last\<close>

definition child_rel :: "Process list \<Rightarrow> (int \<times> int) set" where
  "child_rel ps = (\<lambda>p. (Process_PPid p, Process_Pid p)) ` set ps"

definition descendants :: "Process list \<Rightarrow> int \<Rightarrow> int set" where
  "descendants ps p = {q. (p, q) \<in> (child_rel ps)\<^sup>*}"

lemma child_rel_copyExcept:
  assumes "i < length ps" "Process_PPid (ps ! i) = p"
  shows "child_rel (copyExcept ps i) \<subseteq> child_rel ps"
    and "{(a, b) \<in> child_rel ps. a \<noteq> p} \<subseteq> child_rel (copyExcept ps i)"
proof -
  have "set ps = insert (ps ! i) (set (copyExcept ps i))"
    using assms(1) by (metis copyExcept_take_drop id_take_nth_drop list.simps(15) set_append
        Un_insert_right)
  then show "child_rel (copyExcept ps i) \<subseteq> child_rel ps"
    "{(a, b) \<in> child_rel ps. a \<noteq> p} \<subseteq> child_rel (copyExcept ps i)"
    using assms(2) by (auto simp: child_rel_def)
qed

text \<open>A path can be shortened so that it never comes back to where it began.\<close>

lemma rtrancl_first_step:
  assumes "(a, q) \<in> E\<^sup>*" "q \<noteq> a"
  shows "\<exists>c. (a, c) \<in> E \<and> (c, q) \<in> {(x, y) \<in> E. x \<noteq> a}\<^sup>*"
  using assms
proof (induction rule: rtrancl_induct)
  case (step y z)
  show ?case
  proof (cases "y = a")
    case True
    with step.hyps(2) show ?thesis by blast
  next
    case False
    then obtain c where c: "(a, c) \<in> E" "(c, y) \<in> {(x, y) \<in> E. x \<noteq> a}\<^sup>*"
      using step.IH by blast
    have "(y, z) \<in> {(x, y) \<in> E. x \<noteq> a}" using step.hyps(2) False by simp
    with c show ?thesis by (blast intro: rtrancl_into_rtrancl)
  qed
qed simp

lemma descendants_split:
  "descendants ps p =
     insert p (\<Union>i \<in> {i. i < length ps \<and> Process_PPid (ps ! i) = p}.
                 descendants (copyExcept ps i) (Process_Pid (ps ! i)))"
  (is "_ = ?R")
proof (intro equalityI subsetI)
  fix q assume q: "q \<in> descendants ps p"
  show "q \<in> ?R"
  proof (cases "q = p")
    case False
    with q obtain c where c: "(p, c) \<in> child_rel ps"
      "(c, q) \<in> {(x, y) \<in> child_rel ps. x \<noteq> p}\<^sup>*"
      using rtrancl_first_step [of p q "child_rel ps"] by (auto simp: descendants_def)
    then obtain i where i: "i < length ps" "Process_PPid (ps ! i) = p" "Process_Pid (ps ! i) = c"
      by (auto simp: child_rel_def in_set_conv_nth)
    from c(2) have "(c, q) \<in> (child_rel (copyExcept ps i))\<^sup>*"
      by (rule rtrancl_mono [OF child_rel_copyExcept(2) [OF i(1,2)], THEN subsetD])
    with i show ?thesis by (auto simp: descendants_def)
  qed simp
next
  fix q assume "q \<in> ?R"
  then show "q \<in> descendants ps p"
  proof
    assume "q = p"
    then show ?thesis by (simp add: descendants_def)
  next
    assume "q \<in> (\<Union>i \<in> {i. i < length ps \<and> Process_PPid (ps ! i) = p}.
                 descendants (copyExcept ps i) (Process_Pid (ps ! i)))"
    then obtain i where i: "i < length ps" "Process_PPid (ps ! i) = p"
      "(Process_Pid (ps ! i), q) \<in> (child_rel (copyExcept ps i))\<^sup>*"
      by (auto simp: descendants_def)
    have "(p, Process_Pid (ps ! i)) \<in> child_rel ps"
      using i(1,2) by (force simp: child_rel_def)
    moreover have "(Process_Pid (ps ! i), q) \<in> (child_rel ps)\<^sup>*"
      using i(3) by (rule rtrancl_mono [OF child_rel_copyExcept(1) [OF i(1,2)], THEN subsetD])
    ultimately show ?thesis by (simp add: descendants_def converse_rtrancl_into_rtrancl)
  qed
qed

lemma kill_killed:
  "\<exists>ks. snd (killProcessTree kp madd p ps r k) = k @ ks @ [p] \<and>
        insert p (set ks) = descendants ps p"
  "\<exists>ks. snd (kill_loop kp madd p ps i r k) = k @ ks \<and>
        set ks = (\<Union>j \<in> {j. i \<le> j \<and> j < length ps \<and> Process_PPid (ps ! j) = p}.
                    descendants (copyExcept ps j) (Process_Pid (ps ! j)))"
proof (induction kp madd p ps r k and kp madd p ps i r k
    rule: killProcessTree_kill_loop.induct)
  case (1 kp madd p ps r k)
  then obtain ks where ks: "snd (kill_loop kp madd p ps 0 r k) = k @ ks"
    "set ks = (\<Union>j \<in> {j. 0 \<le> j \<and> j < length ps \<and> Process_PPid (ps ! j) = p}.
                 descendants (copyExcept ps j) (Process_Pid (ps ! j)))"
    by blast
  then have "insert p (set ks) = descendants ps p"
    by (subst descendants_split) simp
  with ks(1) show ?case
    by (intro exI [of _ ks]) (simp add: killProcessTree_eq [of kp madd p ps r k] Let_def)
next
  case (2 kp madd p ps i r k)
  show ?case
  proof (cases "i < length ps")
    case False
    then show ?thesis by (auto simp: kill_loop_end)
  next
    case i: True
    have ivl: "{j. i \<le> j \<and> j < length ps \<and> Process_PPid (ps ! j) = p} =
        (if Process_PPid (ps ! i) = p then {i} else {}) \<union>
        {j. Suc i \<le> j \<and> j < length ps \<and> Process_PPid (ps ! j) = p}"
      using i by (auto simp: le_eq_less_or_eq)
    show ?thesis
    proof (cases "Process_PPid (ps ! i) = p")
      case False
      with "2.IH"(1) [OF i] i show ?thesis by (simp add: kill_loop_other ivl)
    next
      case True
      let ?t = "killProcessTree kp madd (Process_Pid (ps ! i)) (copyExcept ps i) r k"
      let ?r = "case fst ?t of None \<Rightarrow> r | Some e \<Rightarrow> Some (madd r e)"
      have eq: "kill_loop kp madd p ps i r k = kill_loop kp madd p ps (Suc i) ?r (snd ?t)"
        using kill_loop_child [OF i True refl] .
      obtain ks where ks: "snd ?t = k @ ks @ [Process_Pid (ps ! i)]"
        "insert (Process_Pid (ps ! i)) (set ks) = descendants (copyExcept ps i) (Process_Pid (ps ! i))"
        using "2.IH"(2) [OF i] True by auto
      obtain ls where ls: "snd (kill_loop kp madd p ps (Suc i) ?r (snd ?t)) = snd ?t @ ls"
        "set ls = (\<Union>j \<in> {j. Suc i \<le> j \<and> j < length ps \<and> Process_PPid (ps ! j) = p}.
                    descendants (copyExcept ps j) (Process_Pid (ps ! j)))"
        using "2.IH"(3) [OF i, of "copyExcept ps i" ?t "fst ?t" "snd ?t"] True by auto
      show ?thesis
        using ks ls by (intro exI [of _ "ks @ [Process_Pid (ps ! i)] @ ls"]) (simp add: eq ivl True, blast)
    qed
  qed
qed

text \<open>The answer is nil exactly when every signal was delivered.\<close>

definition kills_ok :: "killer \<Rightarrow> int list \<Rightarrow> int list \<Rightarrow> bool" where
  "kills_ok kp before ks \<longleftrightarrow> (\<forall>j < length ks. kp (before @ take j ks) (ks ! j) = None)"

lemma kills_ok_append:
  "kills_ok kp b (xs @ ys) \<longleftrightarrow> kills_ok kp b xs \<and> kills_ok kp (b @ xs) ys"
proof (intro iffI conjI)
  assume l: "kills_ok kp b (xs @ ys)"
  show "kills_ok kp b xs"
    unfolding kills_ok_def
  proof (intro allI impI)
    fix j assume "j < length xs"
    with l show "kp (b @ take j xs) (xs ! j) = None"
      by (auto simp: kills_ok_def nth_append dest: spec [of _ j])
  qed
  show "kills_ok kp (b @ xs) ys"
    unfolding kills_ok_def
  proof (intro allI impI)
    fix j assume "j < length ys"
    with l show "kp ((b @ xs) @ take j ys) (ys ! j) = None"
      by (auto simp: kills_ok_def nth_append dest: spec [of _ "length xs + j"])
  qed
next
  assume r: "kills_ok kp b xs \<and> kills_ok kp (b @ xs) ys"
  show "kills_ok kp b (xs @ ys)"
    unfolding kills_ok_def
  proof (intro allI impI)
    fix j assume "j < length (xs @ ys)"
    then show "kp (b @ take j (xs @ ys)) ((xs @ ys) ! j) = None"
      using r by (cases "j < length xs") (auto simp: kills_ok_def nth_append)
  qed
qed

lemma kills_ok_single [simp]: "kills_ok kp b [p] \<longleftrightarrow> kp b p = None"
  by (simp add: kills_ok_def)

lemma kills_ok_Nil [simp]: "kills_ok kp b []"
  by (simp add: kills_ok_def)

lemma kill_result:
  "\<exists>ks. snd (killProcessTree kp madd p ps r k) = k @ ks \<and>
        (fst (killProcessTree kp madd p ps r k) = None \<longleftrightarrow> r = None \<and> kills_ok kp k ks)"
  "\<exists>ks. snd (kill_loop kp madd p ps i r k) = k @ ks \<and>
        (fst (kill_loop kp madd p ps i r k) = None \<longleftrightarrow> r = None \<and> kills_ok kp k ks)"
proof (induction kp madd p ps r k and kp madd p ps i r k
    rule: killProcessTree_kill_loop.induct)
  case (1 kp madd p ps r k)
  then obtain ks where "snd (kill_loop kp madd p ps 0 r k) = k @ ks"
    "fst (kill_loop kp madd p ps 0 r k) = None \<longleftrightarrow> r = None \<and> kills_ok kp k ks"
    by (elim exE conjE)
  moreover have "fst (killProcessTree kp madd p ps r k) = None \<longleftrightarrow>
      fst (kill_loop kp madd p ps 0 r k) = None \<and> kp (snd (kill_loop kp madd p ps 0 r k)) p = None"
    by (simp add: killProcessTree_eq [of kp madd p ps r k] Let_def split: option.split)
  moreover have "snd (killProcessTree kp madd p ps r k) = snd (kill_loop kp madd p ps 0 r k) @ [p]"
    by (simp add: killProcessTree_eq [of kp madd p ps r k] Let_def)
  ultimately show ?case
    by (intro exI [of _ "ks @ [p]"]) (simp add: kills_ok_append)
next
  case (2 kp madd p ps i r k)
  show ?case
  proof (cases "i < length ps")
    case False
    then show ?thesis by (simp add: kill_loop_end)
  next
    case i: True
    show ?thesis
    proof (cases "Process_PPid (ps ! i) = p")
      case False
      with "2.IH"(1) [OF i] i show ?thesis by (simp add: kill_loop_other)
    next
      case True
      let ?t = "killProcessTree kp madd (Process_Pid (ps ! i)) (copyExcept ps i) r k"
      let ?r = "case fst ?t of None \<Rightarrow> r | Some e \<Rightarrow> Some (madd r e)"
      have eq: "kill_loop kp madd p ps i r k = kill_loop kp madd p ps (Suc i) ?r (snd ?t)"
        using kill_loop_child [OF i True refl] .
      have "\<exists>ks. snd ?t = k @ ks \<and> (fst ?t = None \<longleftrightarrow> r = None \<and> kills_ok kp k ks)"
        using "2.IH"(2) [OF i] True by simp
      then obtain ks where ks: "snd ?t = k @ ks" "fst ?t = None \<longleftrightarrow> r = None \<and> kills_ok kp k ks"
        by (elim exE conjE)
      let ?rest = "kill_loop kp madd p ps (Suc i) ?r (snd ?t)"
      have "\<exists>ls. snd ?rest = snd ?t @ ls \<and> (fst ?rest = None \<longleftrightarrow> ?r = None \<and> kills_ok kp (snd ?t) ls)"
        using "2.IH"(3) [OF i, of "copyExcept ps i" ?t "fst ?t" "snd ?t"] True by simp
      then obtain ls where ls: "snd ?rest = snd ?t @ ls"
        "fst ?rest = None \<longleftrightarrow> ?r = None \<and> kills_ok kp (snd ?t) ls"
        by (elim exE conjE)
      have "?r = None \<longleftrightarrow> r = None \<and> kills_ok kp k ks"
      proof (cases "fst ?t")
        case None
        then show ?thesis using ks(2) by simp
      next
        case (Some e)
        then have "fst ?t \<noteq> None" by (simp only: not_None_eq) blast
        with ks(2) have "\<not> (r = None \<and> kills_ok kp k ks)" by (simp only: simp_thms)
        then show ?thesis using Some by (simp only: option.case(2) option.distinct(2) simp_thms)
      qed
      with ks(1) ls show ?thesis
        by (intro exI [of _ "ks @ ls"]) (simp add: eq kills_ok_append)
    qed
  qed
qed

end
