(* ===== verification/Unit_Run.thy ===== *)
theory Unit_Run
  imports Unit_Status Prober Kill
begin

text \<open>
  Running a unit: the rest of \<open>pkg/unit/unit.go\<close>.  \<open>RunUnitLoop\<close> starts the command again and again
  as the restart policy says, and \<open>Run\<close> prepares the process before it.  Both may run for ever, so
  the loop has fuel: \<open>Running\<close> is the answer when it, or a list of events, is used up.  What the
  processes and the probe workers do is the parameter \<open>cmd_env\<close>, by the number of the restart.
\<close>

section \<open>The clock and back-off\<close>

definition now_m :: "Time unit_m" where
  "now_m = do {
     r \<leftarrow> os_reply (Ext_Call ''time.Now'' []);
     return (case reply_ints r of [] \<Rightarrow> 0 | t # _ \<Rightarrow> t)
   }"

(* src: pkg/unit/unit.go 51-51 MAX_BACKOFF_TIME *)
abbreviation (input) MAX_BACKOFF_TIME :: int where "MAX_BACKOFF_TIME \<equiv> 300000000000"

(* src: pkg/unit/unit.go 52-52 BACKOFF_RESET_TIME *)
abbreviation (input) BACKOFF_RESET_TIME :: int where "BACKOFF_RESET_TIME \<equiv> 600000000000"

(* src: pkg/unit/unit.go 53-53 CHILD_OOM_SCORE *)
abbreviation (input) CHILD_OOM_SCORE :: int where "CHILD_OOM_SCORE \<equiv> 15"

(* src: pkg/unit/unit.go 54-54 MaxContainerTerminationMessageLength *)
abbreviation (input) MaxContainerTerminationMessageLength :: int where
  "MaxContainerTerminationMessageLength \<equiv> 4096"

(* src: pkg/unit/unit.go 518-527 maybeBackOff *)
definition next_backoff :: "bool \<Rightarrow> int \<Rightarrow> int \<Rightarrow> int" where
  "next_backoff ok backoff runningTime =
     (if ok \<or> runningTime \<ge> BACKOFF_RESET_TIME then time_Second
      else if backoff * 2 > MAX_BACKOFF_TIME then MAX_BACKOFF_TIME
      else backoff * 2)"

(* src: pkg/unit/unit.go 518-530 maybeBackOff *)
definition maybeBackOff :: "bool \<Rightarrow> int \<Rightarrow> int \<Rightarrow> int unit_m" where
  "maybeBackOff ok backoff runningTime =
     (let b = next_backoff ok backoff runningTime in do { os_try (Sys_Sleep b); return b })"

section \<open>Watching a command\<close>

text \<open>How a command ended: its exit status, or an error that is not one.\<close>

datatype cmd_error = ExitError int | WaitError string

datatype watch_event =
    Cmd_done "cmd_error option"
  | Startup_result Result
  | Liveness_result Result
  | Readiness_result Result

record cmd_env =
  ce_caps :: "CapabilityMapping list"
  ce_events :: "nat \<Rightarrow> watch_event list"
  ce_processes :: "nat \<Rightarrow> go_error + Process list"
  ce_kill :: killer
  ce_append :: "error \<Rightarrow> go_error \<Rightarrow> go_error"
  ce_fs :: "string \<Rightarrow> go_error + string"

type_synonym watched = "cmd_error option \<times> error"

text \<open>
  The two loops over the channels.  The first waits for the startup probe; \<open>Inr\<close> is what is left
  of the events when it succeeds.
\<close>

(* src: pkg/unit/unit.go 609-622 watchRunningCmd *)
fun wait_started :: "watch_event list \<Rightarrow> (watched + watch_event list) option" where
  "wait_started [] = None"
| "wait_started (Cmd_done e # es) = Some (Inl (e, None))"
| "wait_started (Startup_result r # es) =
     (if r = Failure then Some (Inl (None, Some (Errorf ''startup probe failed'')))
      else if r = Success then Some (Inr es)
      else wait_started es)"
| "wait_started (Liveness_result r # es) = wait_started es"
| "wait_started (Readiness_result r # es) = wait_started es"

(* src: pkg/unit/unit.go 638-652 watchRunningCmd *)
fun watch_loop :: "watch_event list \<Rightarrow> watched option unit_m" where
  "watch_loop [] = return None"
| "watch_loop (Cmd_done e # es) = return (Some (e, None))"
| "watch_loop (Liveness_result r # es) =
     (if r = Failure then return (Some (None, Some (Errorf ''liveness probe failed'')))
      else watch_loop es)"
| "watch_loop (Readiness_result r # es) =
     do { UpdateStatusAttr (Some (r = Success)) None; watch_loop es }"
| "watch_loop (Startup_result r # es) = watch_loop es"

(* src: pkg/unit/unit.go 601-654 watchRunningCmd *)
definition watchRunningCmd ::
  "watch_event list \<Rightarrow> Probe option \<Rightarrow> Probe option \<Rightarrow> Probe option \<Rightarrow> watched option unit_m" where
  "watchRunningCmd events startupProbe readinessProbe livenessProbe =
     (case (if startupProbe \<noteq> None then wait_started events else Some (Inr events)) of
        None \<Rightarrow> return None
      | Some (Inl r) \<Rightarrow> return (Some r)
      | Some (Inr events) \<Rightarrow> do {
          UpdateStatusAttr (Some (readinessProbe = None)) (Some True);
          watch_loop events
        })"

section \<open>After a command\<close>

(* src: pkg/unit/unit.go 731-745 getTerminationLog *)
definition getTerminationLog :: "(string \<Rightarrow> go_error + string) \<Rightarrow> UnitConfig \<Rightarrow> string" where
  "getTerminationLog fs uc =
     (if UnitConfig_TerminationMessagePolicy uc \<noteq> TerminationMessageReadFile \<or>
         UnitConfig_TerminationMessagePath uc = []
      then []
      else case TailFile fs (UnitConfig_TerminationMessagePath uc) 0
                  MaxContainerTerminationMessageLength of
             Panic \<Rightarrow> []
           | Ret (data, err) \<Rightarrow> if IsNotExist err then [] else data)"

(* src: pkg/unit/unit.go 720-729 setTerminatedState *)
definition setTerminatedState ::
  "(string \<Rightarrow> go_error + string) \<Rightarrow> int \<Rightarrow> string \<Rightarrow> Time \<Rightarrow> unit unit_m" where
  "setTerminatedState fs exitCode reason startedAt = do {
     now \<leftarrow> now_m;
     uc \<leftarrow> gets u_unitConfig;
     SetState (terminated_state
       \<lparr>UnitStateTerminated_ExitCode = int32 exitCode, UnitStateTerminated_FinishedAt = now,
        UnitStateTerminated_Reason = reason, UnitStateTerminated_Message = getTerminationLog fs uc,
        UnitStateTerminated_StartedAt = startedAt\<rparr>) None;
     return ()
   }"

text \<open>Exit code and reason, and whether the policy goes on.\<close>

(* src: pkg/unit/unit.go 667-699 handleCmdCleanup *)
definition exit_report :: "watched \<Rightarrow> bool \<times> int \<times> string" where
  "exit_report r =
     (case r of
        (Some (ExitError c), _) \<Rightarrow> (True, c, ''Error'')
      | (Some (WaitError m), _) \<Rightarrow> (True, 0, ''Error'')
      | (None, Some e) \<Rightarrow> (False, 0, ''Error'')
      | (None, None) \<Rightarrow> (False, 0, ''Completed''))"

(* src: pkg/unit/unit.go 713-717 handleCmdCleanup *)
definition keep_going :: "RestartPolicy \<Rightarrow> bool \<Rightarrow> bool" where
  "keep_going policy failure \<longleftrightarrow>
     \<not> (policy = RestartPolicyNever \<or> policy = RestartPolicyOnFailure \<and> \<not> failure)"

text \<open>The kills are recorded one by one; when the tree cannot be killed, the process itself is.\<close>

(* src: pkg/unit/unit.go 666-718 handleCmdCleanup *)
definition handleCmdCleanup ::
  "cmd_env \<Rightarrow> nat \<Rightarrow> int \<Rightarrow> watched \<Rightarrow> RestartPolicy \<Rightarrow> Time \<Rightarrow> bool unit_m" where
  "handleCmdCleanup env k pid r policy startTime =
     (let (failure, exitCode, reason) = exit_report r;
          (err, killed) = KillProcessTree (ce_processes env k) (ce_kill env) (ce_append env) pid
      in do {
        for_each (\<lambda>p. os_try (Ext_Call ''kill'' [Itoa p])) killed;
        (if err \<noteq> None then os_try (Ext_Call ''kill'' [Itoa pid]) else return ());
        UpdateStatusAttr (Some False) (Some False);
        setTerminatedState (ce_fs env) exitCode reason startTime;
        return (keep_going policy failure)
      })"

section \<open>The loop\<close>

datatype run_result = Running | Exited "cmd_error option" | Crashed

datatype turn = Again int | Stop "cmd_error option" | Waiting

(* src: pkg/unit/unit.go 537-597 RunUnitLoop *)
definition run_turn ::
  "cmd_env \<Rightarrow> string list \<Rightarrow> string list \<Rightarrow> nat \<Rightarrow> nat \<Rightarrow> nat list \<Rightarrow> RestartPolicy \<Rightarrow> nat \<Rightarrow> int \<Rightarrow>
   turn unit_m" where
  "run_turn env command caplist uid gid groups policy restarts backoff = do {
     startTime \<leftarrow> now_m;
     err \<leftarrow> (if length caplist > 0 then setCapabilities (ce_caps env) caplist else return None);
     case err of
       Some e \<Rightarrow> do {
         setStateToStartFailure e;
         b \<leftarrow> maybeBackOff False backoff 0;
         return (Again b)
       }
     | None \<Rightarrow> do {
         let ambient = (if length caplist > 0 then mapUintptrCapabilities (ce_caps env) caplist else []);
         let cred = (if uid > 0 \<or> gid > 0 \<or> groups \<noteq> [] then Some (uid, gid, groups) else None);
         UpdateStatusAttr (Some False) (Some False);
         r \<leftarrow> os_reply (Sys_Exec command ambient cred);
         case reply_err r of
           Some e \<Rightarrow> do {
             SetState (waiting_state (Error e) True) (Some (int restarts));
             b \<leftarrow> maybeBackOff False backoff 0;
             return (Again b)
           }
         | None \<Rightarrow> do {
             let pid = (case reply_ints r of [] \<Rightarrow> 0 | p # _ \<Rightarrow> p);
             started \<leftarrow> now_m;
             SetState (running_state started) (Some (int restarts));
             SetOOMScore pid CHILD_OOM_SCORE;
             uc \<leftarrow> gets u_unitConfig;
             w \<leftarrow> watchRunningCmd (ce_events env restarts) (UnitConfig_StartupProbe uc)
                    (UnitConfig_ReadinessProbe uc) (UnitConfig_LivenessProbe uc);
             case w of
               None \<Rightarrow> return Waiting
             | Some r \<Rightarrow> do {
                 keepGoing \<leftarrow> handleCmdCleanup env restarts pid r policy startTime;
                 if \<not> keepGoing then return (Stop (fst r))
                 else do {
                   now \<leftarrow> now_m;
                   b \<leftarrow> maybeBackOff (fst r = None) backoff (now - startTime);
                   return (Again b)
                 }
               }
           }
       }
   }"

fun run_turns ::
  "cmd_env \<Rightarrow> nat \<Rightarrow> string list \<Rightarrow> string list \<Rightarrow> nat \<Rightarrow> nat \<Rightarrow> nat list \<Rightarrow> RestartPolicy \<Rightarrow> nat \<Rightarrow>
   int \<Rightarrow> run_result unit_m" where
  "run_turns env 0 command caplist uid gid groups policy restarts backoff = return Running"
| "run_turns env (Suc n) command caplist uid gid groups policy restarts backoff = do {
     t \<leftarrow> run_turn env command caplist uid gid groups policy restarts backoff;
     case t of
       Waiting \<Rightarrow> return Running
     | Stop e \<Rightarrow> return (Exited e)
     | Again b \<Rightarrow> run_turns env n command caplist uid gid groups policy (Suc restarts) b
   }"

text \<open>The first thing the loop does is to index the command: an empty one panics.\<close>

(* src: pkg/unit/unit.go 532-599 RunUnitLoop *)
definition RunUnitLoop ::
  "cmd_env \<Rightarrow> nat \<Rightarrow> string list \<Rightarrow> string list \<Rightarrow> nat \<Rightarrow> nat \<Rightarrow> nat list \<Rightarrow> RestartPolicy \<Rightarrow>
   run_result unit_m" where
  "RunUnitLoop env n command caplist uid gid groups policy =
     (if command = [] then return Crashed
      else run_turns env n command caplist uid gid groups policy 0 time_Second)"

section \<open>Preparing the process\<close>

(* src: pkg/unit/unit.go 747-759 createDir *)
definition createDir :: "string \<Rightarrow> int \<Rightarrow> int \<Rightarrow> ('a os_scheme, error) state" where
  "createDir dir uid gid = do {
     err \<leftarrow> os_do (Os_MkdirAll dir 493);
     if err \<noteq> None then return err else os_do (Os_Chown dir uid gid)
   }"

(* src: pkg/unit/unit.go 761-777 changeToWorkdir *)
definition changeToWorkdir :: "string \<Rightarrow> nat \<Rightarrow> nat \<Rightarrow> ('a os_scheme, error) state" where
  "changeToWorkdir workingdir uid gid = do {
     os_try (Os_MkdirAll workingdir 493);
     err \<leftarrow> os_do (Os_Chdir workingdir);
     if err \<noteq> None then return err
     else if uid \<noteq> 0 \<or> gid \<noteq> 0 then os_do (Os_Chown workingdir (int uid) (int gid))
     else return None
   }"

(* src: pkg/unit/unit.go 1102-1110 createEmptyFile *)
definition createEmptyFile :: "string \<Rightarrow> nat \<Rightarrow> ('a os_scheme, error) state" where
  "createEmptyFile path mode = do {
     os_try (Os_MkdirAll (filepath_Dir path) 493);
     err \<leftarrow> os_do (Os_Create path);
     if err \<noteq> None then return err else do { os_try (Os_Chmod path mode); return None }
   }"

text \<open>
  The steps of \<open>Run\<close>.  A step that fails sets the status to a start failure and ends the run;
  \<open>cleanup\<close> is what the source does between the two.
\<close>

text \<open>\<open>run_result\<close> carries Go errors of \<open>Run\<close> itself as \<open>WaitError\<close>.\<close>

definition start_failure :: "go_error \<Rightarrow> run_result unit_m" where
  "start_failure e = do { setStateToStartFailure e; return (Exited (Some (WaitError (Error e)))) }"

definition step_cleanup ::
  "error unit_m \<Rightarrow> unit unit_m \<Rightarrow> run_result unit_m \<Rightarrow> run_result unit_m" where
  "step_cleanup m cleanup rest = do {
     err \<leftarrow> m;
     case err of
       None \<Rightarrow> rest
     | Some e \<Rightarrow> do { cleanup; start_failure e }
   }"

definition run_step :: "error unit_m \<Rightarrow> run_result unit_m \<Rightarrow> run_result unit_m" where
  "run_step m rest = step_cleanup m (return ()) rest"

definition deferred :: "run_result unit_m \<Rightarrow> unit unit_m \<Rightarrow> run_result unit_m" where
  "deferred m d = do { r \<leftarrow> m; d; return r }"

definition open_pipe :: "string \<Rightarrow> error unit_m" where
  "open_pipe name = do { r \<leftarrow> OpenWriter name; return (case r of Ret err \<Rightarrow> err | Panic \<Rightarrow> None) }"

record run_args =
  ra_podname :: string
  ra_hostname :: string
  ra_command :: "string list"
  ra_workingdir :: string
  ra_policy :: RestartPolicy
  ra_basedir :: string
  ra_environ :: "string list"

record run_params = cmd_env +
  rp_is_semver :: "string \<Rightarrow> bool"
  rp_compare :: "string \<Rightarrow> string \<Rightarrow> int"
  rp_host :: UserLookup
  rp_fuel :: nat

(* src: pkg/unit/unit.go 1085-1099 Run *)
definition run_caps ::
  "run_params \<Rightarrow> run_args \<Rightarrow> nat \<Rightarrow> nat \<Rightarrow> nat list \<Rightarrow> run_result unit_m" where
  "run_caps p a uid gid groups = do {
     u \<leftarrow> gets (\<lambda>u. u);
     case getCapabilities (ce_caps p) u of
       Inl e \<Rightarrow> start_failure e
     | Inr caplist \<Rightarrow>
         run_step applySysctls
           (RunUnitLoop (cmd_env.truncate p) (rp_fuel p) (ra_command a) caplist uid gid groups
             (ra_policy a))
   }"

(* src: pkg/unit/unit.go 1054-1083 Run *)
definition run_dirs ::
  "run_params \<Rightarrow> run_args \<Rightarrow> nat \<Rightarrow> nat \<Rightarrow> nat list \<Rightarrow> run_result unit_m" where
  "run_dirs p a uid gid groups =
     run_step (os_do (Os_Chmod ''/'' 493)) (do {
       config \<leftarrow> gets u_config;
       run_step (for_err (\<lambda>vol. createDir vol (int uid) (int gid))
                  (case config of None \<Rightarrow> [] | Some c \<Rightarrow> Config_Volumes c)) (do {
         uc \<leftarrow> gets u_unitConfig;
         (if UnitConfig_TerminationMessagePath uc \<noteq> []
          then do { createEmptyFile (UnitConfig_TerminationMessagePath uc) 438; return () }
          else return ());
         run_step (if ra_workingdir a \<noteq> [] then changeToWorkdir (ra_workingdir a) uid gid
                   else return None)
           (run_caps p a uid gid groups)
       })
     })"

text \<open>An environment entry with no equals sign panics.\<close>

(* src: pkg/unit/unit.go 1043-1052 Run *)
definition run_env :: "run_params \<Rightarrow> run_args \<Rightarrow> nat \<Rightarrow> nat \<Rightarrow> nat list \<Rightarrow> string \<Rightarrow> run_result unit_m" where
  "run_env p a uid gid groups homedir =
     (let env = EnsureDefaultEnviron (ra_environ a) (ra_podname a) homedir
      in if \<exists>e \<in> set env. CHR ''='' \<notin> set e then return Crashed
         else run_step
           (for_err (\<lambda>e. let items = SplitN2 e (CHR ''='')
                         in os_do (Os_Setenv (items ! 0) (items ! 1))) env)
           (run_dirs p a uid gid groups))"

(* src: pkg/unit/unit.go 1020-1041 Run *)
definition run_user :: "run_params \<Rightarrow> run_args \<Rightarrow> run_result unit_m" where
  "run_user p a =
     (let hostname = (if ra_hostname a = [] then MakeHostname (ra_podname a) else ra_hostname a)
      in run_step (os_do (Sys_Sethostname hostname)) (do {
           u \<leftarrow> gets (\<lambda>u. u);
           case GetUser u (OsUserLookup (rp_host p)) of
             Panic \<Rightarrow> return Crashed
           | Ret (Inl e) \<Rightarrow> start_failure e
           | Ret (Inr (uid, gid, groups, homedir)) \<Rightarrow> do {
               (if uid \<noteq> 0 \<or> gid \<noteq> 0
                then do { pipe_Chown (int uid) (int gid); return () } else return ());
               run_env p a uid gid groups homedir
             }
         }))"

(* src: pkg/unit/unit.go 996-1018 Run *)
definition run_pivoted :: "run_params \<Rightarrow> run_args \<Rightarrow> run_result unit_m" where
  "run_pivoted p a =
     deferred
       (run_step (os_do (Os_Chdir ''/''))
         (run_step (ShareMount ''/.oldrootfs'' (MS_PRIVATE OR MS_REC))
           (run_step (Unmount ''/.oldrootfs'') (do {
              os_try (Os_Remove ''/.oldrootfs'');
              modify (\<lambda>u. u\<lparr>u_statusPath := ''/status''\<rparr>);
              run_user p a
            }))))
       (UnmountSpecial (ra_basedir a) [])"

(* src: pkg/unit/unit.go 920-995 Run *)
definition run_rootfs :: "run_params \<Rightarrow> run_args \<Rightarrow> string \<Rightarrow> run_result unit_m" where
  "run_rootfs p a rootfs = do {
     name \<leftarrow> gets u_Name;
     uc \<leftarrow> gets u_unitConfig;
     statussrc \<leftarrow> gets u_statusPath;
     let statussrc = filepath_Join [statussrc];
     let oldrootfs = rootfs @ ''/.oldrootfs'';
     let recPriv = MS_PRIVATE OR MS_REC;
     run_step (if \<not> UnitConfig_UseOverlayfs uc then BindMount rootfs rootfs
               else ShareMount rootfs MS_PRIVATE)
     (run_step (if \<not> UnitConfig_UseOverlayfs uc then ShareMount ''/'' recPriv
                else ShareMount ''/'' MS_PRIVATE)
     (do {
       err \<leftarrow> EnsureFileExists statussrc;
       modify (\<lambda>u. if err = None \<and> u_file u = Absent then u\<lparr>u_file := Empty\<rparr> else u);
       EnsureFileExists (filepath_Join [rootfs, ''status'']);
       run_step (BindMount statussrc (filepath_Join [rootfs, ''status'']))
       (run_step (os_do (Os_MkdirAll oldrootfs 448))
       (run_step (MountSpecial (ra_basedir a) name)
       (step_cleanup (InitializeGPU (rp_is_semver p) (rp_compare p) rootfs)
          (UnmountSpecial (ra_basedir a) name)
       (step_cleanup (PivotRoot rootfs oldrootfs)
          (UnmountSpecial (ra_basedir a) name)
       (run_pivoted p a)))))
     }))
   }"

(* src: pkg/unit/unit.go 886-918 Run *)
definition run_pipes :: "run_params \<Rightarrow> run_args \<Rightarrow> run_result unit_m" where
  "run_pipes p a = do {
     rootfs \<leftarrow> gets GetRootfs;
     err \<leftarrow> os_do (Os_Stat rootfs);
     let rootfs = (if IsNotExist err then [] else rootfs);
     step_cleanup (open_pipe ''unit-stdout'') pipe_Remove
     (step_cleanup (open_pipe ''unit-stderr'') pipe_Remove
     (run_step OpenStdinReader
     (if rootfs \<noteq> [] then run_rootfs p a rootfs else run_user p a)))
   }"

(* src: pkg/unit/unit.go 863-1100 Run *)
definition Run :: "run_params \<Rightarrow> run_args \<Rightarrow> run_result unit_m" where
  "Run p a = do {
     SetState (waiting_state ''PodInitializing'' False) None;
     name \<leftarrow> gets u_Name;
     run_step (os_do (Ext_Call ''cgroups.New'' [''/'' @ name]))
     (deferred
       (run_step (os_do (Ext_Call ''cgroups.Add'' [''/'' @ name])) (run_pipes p a))
       (os_try (Ext_Call ''cgroups.Delete'' [''/'' @ name])))
   }"

section \<open>Properties\<close>

text \<open>Back-off stays between a second and five minutes.\<close>

definition backoff_ok :: "int \<Rightarrow> bool" where
  "backoff_ok b \<longleftrightarrow> time_Second \<le> b \<and> b \<le> MAX_BACKOFF_TIME"

lemma next_backoff_ok: "backoff_ok b \<Longrightarrow> backoff_ok (next_backoff ok b t)"
  by (auto simp: next_backoff_def backoff_ok_def)

text \<open>Every sleep of the loop is such a back-off.\<close>

fun sleep_ok :: "os_call \<Rightarrow> bool" where
  "sleep_ok (Sys_Sleep t) = backoff_ok t"
| "sleep_ok _ = True"

lemma status_sleep_ok:
  "trace_within sleep_ok GetStatus"
  "trace_within sleep_ok (SetStatus st)"
  "trace_within sleep_ok (UpdateStatusAttr a b)"
  "trace_within sleep_ok (SetState s r)"
  "trace_within sleep_ok (setStateToStartFailure e)"
  "trace_within sleep_ok (setCapabilities cl cs)"
  "trace_within sleep_ok (SetOOMScore pid score)"
  "trace_within sleep_ok now_m"
proof -
  show get: "trace_within sleep_ok GetStatus"
    unfolding GetStatus_def by (intro trace_intros) simp
  show set: "trace_within sleep_ok (SetStatus st)" for st
    unfolding SetStatus_def by (intro trace_intros) simp_all
  show "trace_within sleep_ok (UpdateStatusAttr a b)"
    unfolding UpdateStatusAttr_def by (intro trace_intros get set)
  show state: "trace_within sleep_ok (SetState s r)" for s r
    unfolding SetState_def by (intro trace_intros get set)
  show "trace_within sleep_ok (setStateToStartFailure e)"
    unfolding setStateToStartFailure_def by (intro trace_intros state)
  show "trace_within sleep_ok (setCapabilities cl cs)"
    unfolding setCapabilities_def by (intro trace_intros) simp_all
  show "trace_within sleep_ok (SetOOMScore pid score)"
    unfolding SetOOMScore_def by (intro trace_intros) simp
  show "trace_within sleep_ok now_m"
    unfolding now_m_def by (intro trace_intros) simp
qed

lemma watch_sleep_ok: "trace_within sleep_ok (watch_loop es)"
  by (induction es rule: watch_loop.induct) (auto intro!: trace_intros status_sleep_ok)

lemma watchRunningCmd_sleep_ok: "trace_within sleep_ok (watchRunningCmd es s r l)"
  unfolding watchRunningCmd_def
  by (auto intro!: trace_intros status_sleep_ok watch_sleep_ok split: option.split sum.split)

lemma handleCmdCleanup_sleep_ok: "trace_within sleep_ok (handleCmdCleanup env k pid r policy t)"
  unfolding handleCmdCleanup_def setTerminatedState_def
  by (intro trace_intros status_sleep_ok) simp_all

lemma maybeBackOff_sleep_ok:
  "backoff_ok b \<Longrightarrow> trace_within sleep_ok (maybeBackOff ok b t)"
  unfolding maybeBackOff_def by (intro trace_intros) (simp_all add: next_backoff_ok)

lemma result_maybeBackOff [simp]: "result (maybeBackOff ok b t) w = next_backoff ok b t"
  by (simp add: maybeBackOff_def Let_def)

lemma run_turn_sleep_ok:
  "backoff_ok b \<Longrightarrow> trace_within sleep_ok (run_turn env command caplist uid gid groups policy k b)"
  unfolding run_turn_def
  by (intro trace_intros status_sleep_ok maybeBackOff_sleep_ok watchRunningCmd_sleep_ok
        handleCmdCleanup_sleep_ok) simp_all

lemma run_turn_Again:
  "result (run_turn env command caplist uid gid groups policy k b) w = Again b' \<Longrightarrow>
   \<exists>ok t. b' = next_backoff ok b t"
  by (auto simp: run_turn_def Let_def split: option.splits if_splits)

lemma run_turns_sleep_ok:
  assumes "backoff_ok b" "c \<in> set (os_trace (final
     (run_turns env n command caplist uid gid groups policy k b) w))"
  shows "c \<in> set (os_trace w) \<or> sleep_ok c"
  using assms
proof (induction n arbitrary: k b w)
  case (Suc n)
  let ?t = "run_turn env command caplist uid gid groups policy k b"
  have here: "c \<in> set (os_trace (final ?t w)) \<Longrightarrow> c \<in> set (os_trace w) \<or> sleep_ok c"
    using trace_within_set [OF run_turn_sleep_ok [OF Suc.prems(1)]] .
  show ?case
  proof (cases "result ?t w")
    case (Again b')
    then obtain ok t where "b' = next_backoff ok b t" using run_turn_Again by blast
    then have "backoff_ok b'" using Suc.prems(1) by (simp add: next_backoff_ok)
    with Again Suc.prems(2) Suc.IH [of b' "Suc k" "final ?t w"] here show ?thesis by auto
  qed (use Suc.prems(2) here in auto)
qed simp

text \<open>What the policies make of a turn.\<close>

lemma run_turn_Stop:
  "result (run_turn env command caplist uid gid groups policy k b) w = Stop e \<Longrightarrow>
   policy = RestartPolicyNever \<or> policy = RestartPolicyOnFailure \<and> e = None"
  by (auto simp: run_turn_def handleCmdCleanup_def exit_report_def keep_going_def Let_def split_def
      split: option.splits if_splits cmd_error.splits)

lemma run_turns_Exited:
  assumes "result (run_turns env n command caplist uid gid groups policy k b) w = Exited e"
  shows "policy = RestartPolicyNever \<or> policy = RestartPolicyOnFailure \<and> e = None"
  using assms
proof (induction n arbitrary: k b w)
  case (Suc n)
  let ?t = "run_turn env command caplist uid gid groups policy k b"
  show ?case
  proof (cases "result ?t w")
    case (Again b')
    with Suc.prems Suc.IH show ?thesis by simp
  qed (use Suc.prems run_turn_Stop in \<open>auto dest: run_turn_Stop\<close>)
qed simp

text \<open>
  What every step of a run keeps: an invariant of the unit that only its name, its image, the
  status file and the world around it decide, and that the two operations writing the file keep.  The states written are
  waiting, running or terminated, one of them.
\<close>

locale unit_invariant =
  fixes I :: "unit_os \<Rightarrow> bool"
  assumes same_status: "I u \<Longrightarrow> u_Name u' = u_Name u \<Longrightarrow> u_Image u' = u_Image u \<Longrightarrow>
      u_file u' = u_file u \<Longrightarrow> os_env u' = os_env u \<Longrightarrow> I u'"
    and empty_file: "I u \<Longrightarrow> I (u\<lparr>u_file := Empty\<rparr>)"
    and set_state: "one_state s \<Longrightarrow> preserves I (SetState s r)"
    and update_attr: "preserves I (UpdateStatusAttr a b)"
begin

lemma traceless_I: "traceless I"
  by (auto simp: traceless_def elim: same_status)

lemmas status_keeps = one_state_cases [THEN set_state] update_attr


lemma calls_keeps:
  "preserves I (Mounts.ShareMount d f)"
  "preserves I (BindMount s d)"
  "preserves I (Unmount d)"
  "preserves I (PivotRoot s d)"
  "preserves I (UnmountSpecial b u)"
  "preserves I (MountSpecial b u)"
  "preserves I (SetOOMScore pid score)"
  "preserves I (EnsureFileExists path)"
  "preserves I now_m"
  "preserves I (setCapabilities cl cs)"
  "preserves I OpenStdinReader"
  "preserves I applySysctls"
  "preserves I (createDir d x y)"
  "preserves I (changeToWorkdir d x2 y2)"
  "preserves I (createEmptyFile d md)"
  "preserves I (pipe_Chown x y)"
  by (intro preserves_intros traceless_I |
      simp only: Mounts.ShareMount_def BindMount_def Unmount_def PivotRoot_def UnmountSpecial_def
        MountSpecial_def SetOOMScore_def EnsureFileExists_def now_m_def setCapabilities_def
        OpenStdinReader_def applySysctls_def createDir_def changeToWorkdir_def createEmptyFile_def
        pipe_Chown_def)+

lemma InitializeGPU_keeps: "preserves I (InitializeGPU sv cmp rootfs)"
  unfolding InitializeGPU_def EnsureProg_def InstallProg_def versionMatch_def ensurePath_def
  by (intro preserves_intros traceless_I)

lemma pipe_Remove_keeps: "preserves I pipe_Remove"
  unfolding pipe_Remove_def
  by (intro preserves_intros traceless_I) (simp_all add: same_status)

lemma open_pipe_keeps: "preserves I (open_pipe name)"
  unfolding open_pipe_def OpenWriter_def
  by (intro preserves_intros traceless_I) (simp_all add: same_status)

lemma setStateToStartFailure_keeps:
  "preserves I (setStateToStartFailure e)"
  unfolding setStateToStartFailure_def by (intro preserves_intros status_keeps)

lemma watch_keeps: "preserves I (watch_loop es)"
  by (induction es rule: watch_loop.induct) (auto intro!: preserves_intros status_keeps)

lemma watchRunningCmd_keeps: "preserves I (watchRunningCmd es s r l)"
  unfolding watchRunningCmd_def
  by (auto intro!: preserves_intros status_keeps watch_keeps split: option.split sum.split)

lemma handleCmdCleanup_keeps: "preserves I (handleCmdCleanup env k pid r policy t)"
  unfolding handleCmdCleanup_def setTerminatedState_def
  by (intro preserves_intros traceless_I status_keeps calls_keeps)

lemma run_turn_keeps:
  "preserves I (run_turn env command caplist uid gid groups policy k b)"
  unfolding run_turn_def maybeBackOff_def
  by (intro preserves_intros traceless_I status_keeps calls_keeps
        setStateToStartFailure_keeps watchRunningCmd_keeps handleCmdCleanup_keeps)

lemma run_turns_keeps:
  "preserves I (run_turns env m command caplist uid gid groups policy k b)"
proof (induction m arbitrary: k b)
  case (Suc m)
  have turn: "preserves I (run_turn env command caplist uid gid groups policy k b)"
    by (rule run_turn_keeps)
  have "preserves I (case t of Waiting \<Rightarrow> return Running | Stop e \<Rightarrow> return (Exited e)
      | Again b' \<Rightarrow> run_turns env m command caplist uid gid groups policy (Suc k) b')" for t
    by (cases t) (simp_all add: preserves_return Suc.IH)
  with turn show ?case by (simp add: preserves_bind)
qed (simp add: preserves_return)

lemma RunUnitLoop_keeps:
  "preserves I (RunUnitLoop env m command caplist uid gid groups policy)"
  by (simp add: RunUnitLoop_def preserves_return run_turns_keeps)

lemma step_cleanup_keeps:
  "preserves I m \<Longrightarrow> preserves I c \<Longrightarrow> preserves I r \<Longrightarrow>
   preserves I (step_cleanup m c r)"
  unfolding step_cleanup_def start_failure_def
  by (intro preserves_intros setStateToStartFailure_keeps)

lemma run_step_keeps:
  "preserves I m \<Longrightarrow> preserves I r \<Longrightarrow>
   preserves I (run_step m r)"
  unfolding run_step_def by (intro step_cleanup_keeps preserves_return)

lemma deferred_keeps:
  "preserves I m \<Longrightarrow> preserves I d \<Longrightarrow>
   preserves I (deferred m d)"
  unfolding deferred_def by (intro preserves_intros)

lemmas run_keeps_intros =
  step_cleanup_keeps run_step_keeps deferred_keeps preserves_intros
  traceless_I status_keeps calls_keeps InitializeGPU_keeps
  pipe_Remove_keeps open_pipe_keeps setStateToStartFailure_keeps
  RunUnitLoop_keeps

lemma run_caps_keeps: "preserves I (run_caps p a uid gid groups)"
  unfolding run_caps_def start_failure_def by (intro run_keeps_intros)

lemma run_env_keeps: "preserves I (run_env p a uid gid groups homedir)"
  unfolding run_env_def run_dirs_def by (intro run_keeps_intros run_caps_keeps)

lemma run_user_keeps: "preserves I (run_user p a)"
  unfolding run_user_def start_failure_def
  by (intro run_keeps_intros run_env_keeps)

lemma run_rootfs_keeps: "preserves I (run_rootfs p a rootfs)"
  unfolding run_rootfs_def run_pivoted_def
  by (intro run_keeps_intros run_user_keeps) (auto simp: empty_file same_status)

lemma Run_keeps: "preserves I (Run p a)"
  unfolding Run_def run_pipes_def
  by (intro run_keeps_intros run_rootfs_keeps run_user_keeps)

end

text \<open>
  A unit keeps its name and image: whatever fails, a status in the file has those of the struct.
\<close>

definition consistent :: "string \<Rightarrow> string \<Rightarrow> unit_os \<Rightarrow> bool" where
  "consistent n i u \<longleftrightarrow> u_Name u = n \<and> u_Image u = i \<and>
     (\<forall>st. u_file u = Holds st \<longrightarrow> UnitStatus_Name st = n \<and> UnitStatus_Image st = i)"

lemma consistent_traceless [simp]: "traceless (consistent n i)"
  by (simp add: traceless_def consistent_def)

lemma consistent_status:
  "consistent n i u \<Longrightarrow> result GetStatus u = (st, None) \<Longrightarrow>
   UnitStatus_Name st = n \<and> UnitStatus_Image st = i"
  using status_of_cases [of u st] by (auto simp: status_of_def consistent_def)

lemma final_GetStatus_consistent: "consistent n i u \<Longrightarrow> consistent n i (final GetStatus u)"
  by (simp add: final_GetStatus consistent_def)

lemma SetStatus_consistent:
  "consistent n i u \<Longrightarrow> UnitStatus_Name st = n \<Longrightarrow> UnitStatus_Image st = i \<Longrightarrow>
   consistent n i (final (SetStatus st) u)"
  by (auto simp: SetStatus_def consistent_def)

lemma SetState_consistent: "preserves (consistent n i) (SetState s r)"
  unfolding preserves_def
proof (intro allI impI)
  fix u assume c: "consistent n i u"
  obtain st err where st: "result GetStatus u = (st, err)" by (cases "result GetStatus u")
  show "consistent n i (final (SetState s r) u)"
  proof (cases err)
    case None
    with st c consistent_status have "UnitStatus_Name (with_state s r st) = n"
        "UnitStatus_Image (with_state s r st) = i"
      by (simp_all add: with_state_def)
    with st None c show ?thesis
      by (simp add: SetState_alt SetStatus_consistent final_GetStatus_consistent)
  next
    case (Some e)
    with st c show ?thesis by (simp add: SetState_alt final_GetStatus_consistent)
  qed
qed

lemma UpdateStatusAttr_consistent: "preserves (consistent n i) (UpdateStatusAttr a b)"
  unfolding preserves_def
proof (intro allI impI)
  fix u assume c: "consistent n i u"
  obtain st err where st: "result GetStatus u = (st, err)" by (cases "result GetStatus u")
  show "consistent n i (final (UpdateStatusAttr a b) u)"
    using st c consistent_status [OF c, of st]
    by (cases err) (auto simp: UpdateStatusAttr_def Let_def final_GetStatus_consistent
        split: option.split intro!: SetStatus_consistent)
qed

interpretation identity: unit_invariant "consistent n i" for n i
  by unfold_locales (auto simp: consistent_def SetState_consistent UpdateStatusAttr_consistent
      intro: SetState_consistent UpdateStatusAttr_consistent)

text \<open>
  The type of a status file: its state is one of the three, and the last termination, if there was
  one, is a terminated state.
\<close>

definition typed_status :: "UnitStatus \<Rightarrow> bool" where
  "typed_status st \<longleftrightarrow> one_state (UnitStatus_State st) \<and>
     UnitState_Waiting (UnitStatus_LastTerminationState st) = None \<and>
     UnitState_Running (UnitStatus_LastTerminationState st) = None"

definition typed_file :: "unit_os \<Rightarrow> bool" where
  "typed_file u \<longleftrightarrow> (\<forall>st. u_file u = Holds st \<longrightarrow> typed_status st)"

lemma typed_still_creating: "typed_status (MakeStillCreatingStatus n i r)"
  by (simp add: typed_status_def MakeStillCreatingStatus_def zero_UnitStatus_def zero_UnitState_def)

lemma typed_json [simp]: "typed_status (json_status st) = typed_status st"
  by (simp add: typed_status_def)

lemma typed_GetStatus: "typed_file u \<Longrightarrow> result GetStatus u = (st, None) \<Longrightarrow> typed_status st"
  using status_of_cases [of u st] typed_still_creating by (auto simp: status_of_def typed_file_def)

lemma final_GetStatus_typed: "typed_file u \<Longrightarrow> typed_file (final GetStatus u)"
  by (simp add: final_GetStatus typed_file_def)

lemma SetStatus_typed: "typed_file u \<Longrightarrow> typed_status st \<Longrightarrow> typed_file (final (SetStatus st) u)"
  by (auto simp: SetStatus_def typed_file_def)

lemma with_state_typed: "typed_status st \<Longrightarrow> one_state s \<Longrightarrow> typed_status (with_state s r st)"
  by (auto simp: with_state_def typed_status_def one_state_def split: if_splits option.split)

lemma SetState_typed: "one_state s \<Longrightarrow> preserves typed_file (SetState s r)"
  unfolding preserves_def SetState_alt
  by (auto simp: final_GetStatus_typed split: prod.split option.split
      intro!: SetStatus_typed with_state_typed dest: typed_GetStatus)

lemma UpdateStatusAttr_typed: "preserves typed_file (UpdateStatusAttr a b)"
  unfolding preserves_def
proof (intro allI impI)
  fix u assume c: "typed_file u"
  obtain st err where st: "result GetStatus u = (st, err)" by (cases "result GetStatus u")
  show "typed_file (final (UpdateStatusAttr a b) u)"
    using st c typed_GetStatus [OF c, of st]
    by (cases err) (auto simp: UpdateStatusAttr_def Let_def final_GetStatus_typed typed_status_def
        split: option.split intro!: SetStatus_typed)
qed

interpretation typed: unit_invariant typed_file
  by unfold_locales (auto simp: typed_file_def intro: SetState_typed UpdateStatusAttr_typed)

text \<open>
  On a disk that reads and writes, the status after a command: what it was, stopped, with the exit
  report as its state and as its last termination.
\<close>

definition disk_ok :: "unit_os \<Rightarrow> bool" where
  "disk_ok u \<longleftrightarrow>
     (\<forall>h p. reply_err (os_env u h (Io_ReadFile p)) = None) \<and>
     (\<forall>h p d m. reply_err (os_env u h (Io_WriteFile p d m)) = None) \<and> u_file u \<noteq> Empty"

definition current :: "unit_os \<Rightarrow> UnitStatus" where
  "current u = (case u_file u of Holds st \<Rightarrow> st
     | _ \<Rightarrow> MakeStillCreatingStatus (u_Name u) (u_Image u) ''PodInitializing'')"

lemma disk_ok_traceless [simp]: "disk_ok (u\<lparr>os_trace := cs\<rparr>) = disk_ok u"
  by (simp add: disk_ok_def)

lemma disk_ok_Holds [simp]: "disk_ok u \<Longrightarrow> disk_ok (u\<lparr>u_file := Holds st\<rparr>)"
  by (simp add: disk_ok_def)

lemma current_traceless [simp]: "current (u\<lparr>os_trace := cs\<rparr>) = current u"
  by (simp add: current_def split: status_file.split)

lemma current_Holds [simp]: "current (u\<lparr>u_file := Holds st\<rparr>) = st"
  by (simp add: current_def)

lemma GetStatus_current: "disk_ok u \<Longrightarrow> result GetStatus u = (current u, None)"
  by (auto simp: GetStatus_def Let_def disk_ok_def current_def split: status_file.splits)

lemma SetStatus_current:
  assumes "disk_ok u"
  shows "final (SetStatus st) u =
     u\<lparr>os_trace := os_trace u @ [Io_WriteFile (u_statusPath u) [] 384],
       u_file := Holds (json_status st)\<rparr>"
  using assms by (simp add: SetStatus_def disk_ok_def)

lemma SetState_current:
  assumes "disk_ok u"
  shows "\<exists>cs. final (SetState s r) u =
     u\<lparr>os_trace := os_trace u @ cs, u_file := Holds (json_status (with_state s r (current u)))\<rparr>"
proof -
  have "disk_ok (final GetStatus u)" using assms by (simp add: final_GetStatus)
  then show ?thesis
    using assms SetStatus_current [of "final GetStatus u"]
    by (intro exI [where x = "[Io_ReadFile (u_statusPath u), Io_WriteFile (u_statusPath u) [] 384]"])
      (simp add: SetState_alt GetStatus_current final_GetStatus)
qed

lemma UpdateStatusAttr_current:
  assumes "disk_ok u"
  shows "\<exists>cs. final (UpdateStatusAttr (Some r) (Some s)) u =
     u\<lparr>os_trace := os_trace u @ cs,
       u_file := Holds (json_status ((current u)\<lparr>UnitStatus_Ready := r, UnitStatus_Started := Some s\<rparr>))\<rparr>"
proof -
  have "disk_ok (final GetStatus u)" using assms by (simp add: final_GetStatus)
  then show ?thesis
    using assms SetStatus_current [of "final GetStatus u"]
    by (intro exI [where x = "[Io_ReadFile (u_statusPath u), Io_WriteFile (u_statusPath u) [] 384]"])
      (simp add: UpdateStatusAttr_def GetStatus_current final_GetStatus)
qed

lemma handleCmdCleanup_status:
  assumes "disk_ok u"
  shows "\<exists>st t. u_file (final (handleCmdCleanup env k pid r policy startTime) u) = Holds st \<and>
     UnitState_Terminated (UnitStatus_State st) = Some t \<and>
     UnitStatus_LastTerminationState st = UnitStatus_State st \<and>
     UnitStateTerminated_ExitCode t = int32 (fst (snd (exit_report r))) \<and>
     UnitStateTerminated_Reason t = snd (snd (exit_report r)) \<and>
     UnitState_Running (UnitStatus_State st) = None \<and> UnitState_Waiting (UnitStatus_State st) = None \<and>
     \<not> UnitStatus_Ready st \<and> UnitStatus_Started st = Some False \<and>
     UnitStatus_RestartCount st = UnitStatus_RestartCount (current u)"
proof -
  obtain failure exitCode reason where e: "exit_report r = (failure, exitCode, reason)"
    by (cases "exit_report r") auto
  obtain err killed where kl: "KillProcessTree (ce_processes env k) (ce_kill env) (ce_append env) pid =
      (err, killed)" by (cases "KillProcessTree (ce_processes env k) (ce_kill env) (ce_append env) pid")
  define kills where "kills = map (\<lambda>p. Ext_Call ''kill'' [Itoa p]) killed @
      (if err \<noteq> None then [Ext_Call ''kill'' [Itoa pid]] else [])"
  define u1 where "u1 = u\<lparr>os_trace := os_trace u @ kills\<rparr>"
  have u1: "disk_ok u1" "current u1 = current u" using assms by (simp_all add: u1_def)
  obtain cs where u2: "final (UpdateStatusAttr (Some False) (Some False)) u1 =
      u1\<lparr>os_trace := os_trace u1 @ cs, u_file := Holds (json_status ((current u1)
        \<lparr>UnitStatus_Ready := False, UnitStatus_Started := Some False\<rparr>))\<rparr>"
    using UpdateStatusAttr_current [OF u1(1)] by blast
  define u2 where "u2 = final now_m (final (UpdateStatusAttr (Some False) (Some False)) u1)"
  define t where "t = \<lparr>UnitStateTerminated_ExitCode = int32 exitCode,
      UnitStateTerminated_FinishedAt = result now_m (final (UpdateStatusAttr (Some False) (Some False)) u1),
      UnitStateTerminated_Reason = reason,
      UnitStateTerminated_Message = getTerminationLog (ce_fs env) (u_unitConfig u2),
      UnitStateTerminated_StartedAt = startTime\<rparr>"
  have u2': "disk_ok u2" "current u2 = json_status ((current u)
      \<lparr>UnitStatus_Ready := False, UnitStatus_Started := Some False\<rparr>)"
    using u1 u2 by (simp_all add: u2_def now_m_def)
  obtain cs' where "final (SetState (terminated_state t) None) u2 =
      u2\<lparr>os_trace := os_trace u2 @ cs',
         u_file := Holds (json_status (with_state (terminated_state t) None (current u2)))\<rparr>"
    using SetState_current [OF u2'(1)] by blast
  moreover have "final (handleCmdCleanup env k pid r policy startTime) u =
      final (SetState (terminated_state t) None) u2"
    by (auto simp: handleCmdCleanup_def setTerminatedState_def e kl for_each_os_try u1_def u2_def
        kills_def t_def)
  ultimately show ?thesis
    by (simp add: u2'(2) e with_state_def json_state_def terminated_state_def zero_UnitState_def t_def)
qed

text \<open>
  Termination.  Where the command can be started and each start of it ends, the loop reaches every
  restart; under the policy Never it returns at the first end, under OnFailure at the first clean one.
\<close>

definition starts :: "string list \<Rightarrow> string list \<Rightarrow> unit_os \<Rightarrow> bool" where
  "starts command caplist u \<longleftrightarrow>
     (\<forall>h ambient cred. reply_err (os_env u h (Sys_Exec command ambient cred)) = None) \<and>
     (caplist = [] \<or> (\<forall>h name args. reply_err (os_env u h (Ext_Call name args)) = None))"

lemma starts_env: "starts command caplist u \<Longrightarrow> os_env u' = os_env u \<Longrightarrow> starts command caplist u'"
  by (simp add: starts_def)

lemma starts_traceless [simp]: "traceless (starts command caplist)"
  by (simp add: traceless_def starts_def)

interpretation starting: unit_invariant "starts command caplist" for command caplist
proof unfold_locales
  show "preserves (starts command caplist) (SetState s r)" for s r
    unfolding SetState_def SetStatus_def GetStatus_def
    by (intro preserves_intros starts_traceless) (auto elim: starts_env)
  show "preserves (starts command caplist) (UpdateStatusAttr a b)" for a b
    unfolding UpdateStatusAttr_def SetStatus_def GetStatus_def
    by (intro preserves_intros starts_traceless) (auto elim: starts_env)
qed (auto elim: starts_env)

definition ends :: "watch_event list \<Rightarrow> bool" where
  "ends es \<longleftrightarrow> list_ex (\<lambda>ev. case ev of Cmd_done e \<Rightarrow> True | _ \<Rightarrow> False) es"

definition ends_clean :: "watch_event list \<Rightarrow> bool" where
  "ends_clean es \<longleftrightarrow> list_all (\<lambda>ev. case ev of Cmd_done e \<Rightarrow> e = None | _ \<Rightarrow> True) es"

lemma wait_started_ends:
  "ends es \<Longrightarrow>
   (\<exists>r. wait_started es = Some (Inl r) \<and> (ends_clean es \<longrightarrow> fst r = None)) \<or>
   (\<exists>es'. wait_started es = Some (Inr es') \<and> ends es' \<and> (ends_clean es \<longrightarrow> ends_clean es'))"
  by (induction es rule: wait_started.induct) (auto simp: ends_def ends_clean_def)

lemma watch_loop_ends:
  "ends es \<Longrightarrow> \<exists>r. result (watch_loop es) w = Some r \<and> (ends_clean es \<longrightarrow> fst r = None)"
  by (induction es arbitrary: w rule: watch_loop.induct) (auto simp: ends_def ends_clean_def)

lemma watchRunningCmd_ends:
  assumes "ends es"
  shows "\<exists>r. result (watchRunningCmd es sp rp lp) w = Some r \<and> (ends_clean es \<longrightarrow> fst r = None)"
proof (cases sp)
  case None
  then show ?thesis using watch_loop_ends [OF assms] by (simp add: watchRunningCmd_def)
next
  case (Some pr)
  from wait_started_ends [OF assms] show ?thesis
  proof (elim disjE exE conjE)
    fix es' assume "wait_started es = Some (Inr es')" "ends es'" "ends_clean es \<longrightarrow> ends_clean es'"
    then show ?thesis using Some watch_loop_ends [of es'] by (fastforce simp: watchRunningCmd_def)
  qed (use Some in \<open>simp add: watchRunningCmd_def\<close>)
qed

lemma starts_setCapabilities:
  "starts command caplist u \<Longrightarrow> caplist \<noteq> [] \<Longrightarrow> result (setCapabilities cl caplist) u = None"
  by (simp add: setCapabilities_def starts_def)

lemma run_turn_ends:
  assumes "starts command caplist u" "ends (ce_events env k)"
  shows "result (run_turn env command caplist uid gid groups policy k b) u \<noteq> Waiting" and
    "policy = RestartPolicyNever \<or> policy = RestartPolicyOnFailure \<and> ends_clean (ce_events env k) \<Longrightarrow>
     \<exists>e. result (run_turn env command caplist uid gid groups policy k b) u = Stop e"
proof -
  define I where "I = starts command caplist"
  have u: "I u" using assms(1) by (simp add: I_def)
  note keeps = starting.calls_keeps(9) [of command caplist] starting.calls_keeps(10) [of command caplist]
    starting.update_attr [of command caplist]
  have kept: "I (final now_m v)" "I (final (setCapabilities cl caplist) v)"
      "I (final (UpdateStatusAttr x y) v)" if "I v" for v cl x y
    using that unfolding I_def by (auto intro: preservesD [OF keeps(1)] preservesD [OF keeps(2)] preservesD [OF keeps(3)])
  have exec: "reply_err (os_env v h (Sys_Exec command ambient cred)) = None" if "I v" for v h ambient cred
    using that by (simp add: I_def starts_def)
  have caps: "result (setCapabilities cl caplist) v = None" if "I v" "caplist \<noteq> []" for v cl
    using that starts_setCapabilities by (auto simp: I_def)
  define r where "r sp rp lp v = the (result (watchRunningCmd (ce_events env k) sp rp lp) v)" for sp rp lp v
  have r: "result (watchRunningCmd (ce_events env k) sp rp lp) v = Some (r sp rp lp v)"
      "ends_clean (ce_events env k) \<Longrightarrow> fst (r sp rp lp v) = None" for sp rp lp v
    using watchRunningCmd_ends [OF assms(2), of sp rp lp v] by (auto simp: r_def)
  have clean: "fst (exit_report x) = (fst x \<noteq> None)" for x
    by (cases x) (auto simp: exit_report_def split: option.split cmd_error.split)
  have result: "result (handleCmdCleanup env k pid x policy t) v = keep_going policy (fst x \<noteq> None)"
    for pid x t v
    by (simp add: handleCmdCleanup_def split_def Let_def clean)
  show "result (run_turn env command caplist uid gid groups policy k b) u \<noteq> Waiting"
    using u by (cases "caplist = []") (simp_all add: run_turn_def Let_def caps kept exec r result)
  show "\<exists>e. result (run_turn env command caplist uid gid groups policy k b) u = Stop e"
    if "policy = RestartPolicyNever \<or> policy = RestartPolicyOnFailure \<and> ends_clean (ce_events env k)"
    using u that
    by (cases "caplist = []") (auto simp: run_turn_def Let_def caps kept exec r result keep_going_def)
qed

lemma run_turns_returns:
  assumes "starts command caplist u" "\<And>j. k \<le> j \<Longrightarrow> j \<le> k + n \<Longrightarrow> ends (ce_events env j)" "n < m"
    "policy = RestartPolicyNever \<or> policy = RestartPolicyOnFailure \<and> ends_clean (ce_events env (k + n))"
  shows "\<exists>e. result (run_turns env m command caplist uid gid groups policy k b) u = Exited e"
  using assms
proof (induction n arbitrary: m k b u)
  case 0
  obtain m' where "m = Suc m'" using 0(3) by (cases m) auto
  then show ?case
    using run_turn_ends(2) [OF 0(1), of env k policy uid gid groups b] 0(2) [of k] 0(4) by auto
next
  case (Suc n)
  obtain m' where m: "m = Suc m'" using Suc.prems(3) by (cases m) auto
  let ?t = "run_turn env command caplist uid gid groups policy k b"
  have "starts command caplist (final ?t u)"
    using Suc.prems(1) by (rule preservesD [OF starting.run_turn_keeps])
  moreover have "ends (ce_events env j)" if "Suc k \<le> j" "j \<le> Suc k + n" for j
    using Suc.prems(2) [of j] that by simp
  ultimately have rest: "\<exists>e. result (run_turns env m' command caplist uid gid groups policy (Suc k) b')
      (final ?t u) = Exited e" for b'
    using Suc.prems(3,4) m by (intro Suc.IH) auto
  have "ends (ce_events env k)" using Suc.prems(2) [of k] by simp
  then have "result ?t u \<noteq> Waiting" by (rule run_turn_ends(1) [OF Suc.prems(1)])
  then show ?case using m rest by (cases "result ?t u") auto
qed

end
