(* ===== verification/Paths.thy ===== *)
theory Paths
  imports Itzo_Prelude
begin

text \<open>
  Facts about \<open>path/filepath\<close>: what \<open>Clean\<close> and \<open>Join\<close> do to the components of a rooted path, and when
  the result of joining a relative path to a directory stays inside that directory.
\<close>

section \<open>Components\<close>

definition comps :: "string \<Rightarrow> string list" where
  "comps p = clean_comps True [] (split_on (CHR ''/'') p)"

definition rooted :: "string \<Rightarrow> bool" where
  "rooted p \<longleftrightarrow> p \<noteq> [] \<and> hd p = CHR ''/''"

text \<open>The path with the given components.\<close>

definition abs_path :: "string list \<Rightarrow> string" where
  "abs_path cs = CHR ''/'' # strings_Join cs ''/''"

definition proper :: "string \<Rightarrow> bool" where
  "proper c \<longleftrightarrow> c \<noteq> [] \<and> c \<noteq> ''.'' \<and> c \<noteq> ''..'' \<and> CHR ''/'' \<notin> set c"

lemma Clean_rooted: "rooted p \<Longrightarrow> filepath_Clean p = abs_path (comps p)"
  by (simp add: filepath_Clean_def rooted_def comps_def abs_path_def)

lemma split_on_append_sep: "split_on c (a @ c # b) = split_on c a @ split_on c b"
  by (induction a) (auto split: list.splits)

lemma split_on_Join:
  "list_all (\<lambda>w. c \<notin> set w) ws \<Longrightarrow> ws \<noteq> [] \<Longrightarrow> split_on c (strings_Join ws [c]) = ws"
proof (induction ws rule: induct_list012)
  case (3 x y zs)
  then show ?case by (simp add: split_on_append)
qed (simp_all add: split_on_single)

lemma clean_comps_append:
  "clean_comps True st (xs @ ys) = clean_comps True (rev (clean_comps True st xs)) ys"
proof (induction xs arbitrary: st)
  case (Cons x xs)
  then show ?case by (auto split: list.splits)
qed simp

lemma clean_comps_plain:
  "''..'' \<notin> set cs \<Longrightarrow> clean_comps True st cs = rev st @ filter (\<lambda>c. c \<noteq> [] \<and> c \<noteq> ''.'') cs"
  by (induction cs arbitrary: st) auto

lemma comps_proper: "list_all proper (comps p)"
proof -
  have "set (comps p) \<subseteq> set (split_on (CHR ''/'') p) - {[], ''.''}"
    using clean_comps_parts [of True "[]" "split_on (CHR ''/'') p"] by (simp add: comps_def)
  moreover have "''..'' \<notin> set (comps p)"
    unfolding comps_def by (rule clean_comps_rooted_no_dotdot) simp
  ultimately show ?thesis
    using split_on_no_sep by (fastforce simp: list_all_iff proper_def)
qed

lemma proper_sep: "list_all proper cs \<Longrightarrow> list_all (\<lambda>w. CHR ''/'' \<notin> set w) cs"
  by (auto simp: list_all_iff proper_def)

lemma comps_abs_path:
  assumes "list_all proper cs"
  shows "comps (abs_path cs) = cs"
proof (cases "cs = []")
  case True
  then show ?thesis by (simp add: comps_def abs_path_def)
next
  case False
  have "split_on (CHR ''/'') (abs_path cs) = [] # cs"
    using split_on_Join [OF proper_sep [OF assms] False] by (simp add: abs_path_def)
  moreover have "''..'' \<notin> set ([] # cs)" "filter (\<lambda>c. c \<noteq> [] \<and> c \<noteq> ''.'') cs = cs"
    using assms by (auto simp: list_all_iff proper_def)
  ultimately show ?thesis
    unfolding comps_def by (simp add: clean_comps_plain)
qed

lemma rooted_abs_path [simp]: "rooted (abs_path cs)"
  by (simp add: rooted_def abs_path_def)

text \<open>\<open>Clean\<close> of a rooted path is idempotent.\<close>

lemma Clean_idem: "rooted p \<Longrightarrow> filepath_Clean (filepath_Clean p) = filepath_Clean p"
  by (simp add: Clean_rooted comps_abs_path comps_proper)

section \<open>Joining\<close>

lemma Join_rooted:
  assumes "rooted d"
  shows "filepath_Join [d, r] = abs_path (clean_comps True (rev (comps d)) (split_on (CHR ''/'') r))"
proof -
  from assms have d: "d \<noteq> []" by (auto simp: rooted_def)
  have "filepath_Join [d, r] = filepath_Clean (d @ CHR ''/'' # r)"
    using d by (simp add: filepath_Join_def)
  moreover have "rooted (d @ CHR ''/'' # r)" using assms by (auto simp: rooted_def)
  ultimately show ?thesis
    by (simp add: Clean_rooted comps_def split_on_append_sep clean_comps_append)
qed

definition no_dotdot :: "string \<Rightarrow> bool" where
  "no_dotdot r \<longleftrightarrow> ''..'' \<notin> set (split_on (CHR ''/'') r)"

text \<open>A path inside a directory: its components begin with those of the directory.\<close>

definition inside :: "string \<Rightarrow> string \<Rightarrow> bool" where
  "inside d p \<longleftrightarrow> rooted p \<and> take (length (comps d)) (comps p) = comps d"

lemma inside_abs_path:
  "list_all proper rs \<Longrightarrow> inside d (abs_path (comps d @ rs))"
  by (simp add: inside_def comps_abs_path comps_proper)

lemma Join_inside:
  assumes "rooted d" "no_dotdot r"
  shows "inside d (filepath_Join [d, r])"
proof -
  have "filepath_Join [d, r] =
      abs_path (comps d @ filter (\<lambda>c. c \<noteq> [] \<and> c \<noteq> ''.'') (split_on (CHR ''/'') r))"
    using assms by (simp add: Join_rooted clean_comps_plain no_dotdot_def)
  moreover have "list_all proper (filter (\<lambda>c. c \<noteq> [] \<and> c \<noteq> ''.'') (split_on (CHR ''/'') r))"
    using assms(2) split_on_no_sep by (fastforce simp: list_all_iff proper_def no_dotdot_def)
  ultimately show ?thesis by (simp add: inside_abs_path)
qed

lemma rooted_Clean: "rooted p \<Longrightarrow> rooted (filepath_Clean p)"
  by (simp add: Clean_rooted)

lemma rooted_append: "rooted d \<Longrightarrow> rooted (d @ s)"
  by (auto simp: rooted_def)

lemma rooted_Join: "rooted d \<Longrightarrow> rooted (filepath_Join (d # es))"
proof -
  assume d: "rooted d"
  then have "rooted (strings_Join (d # es) ''/'')"
    by (cases es) (simp_all add: rooted_append)
  moreover have "dropWhile (\<lambda>e. e = []) (d # es) = d # es"
    using d by (cases d) (simp_all add: rooted_def)
  ultimately show ?thesis
    by (simp only: filepath_Join_def Let_def rooted_Clean list.distinct if_False)
qed

section \<open>The directory of a path\<close>

lemma Dir_abs_path:
  assumes "list_all proper (cs @ [c])"
  shows "filepath_Dir (abs_path (cs @ [c])) = abs_path cs"
proof -
  have c: "CHR ''/'' \<notin> set c" using assms by (simp add: proper_def)
  have j: "abs_path (cs @ [c]) = abs_path cs @ (if cs = [] then [] else ''/'') @ c"
  proof (induction cs)
    case (Cons x xs)
    then show ?case by (cases xs) (auto simp: abs_path_def)
  qed (simp add: abs_path_def)
  have dw: "dropWhile (\<lambda>x. x \<noteq> CHR ''/'') (rev c @ ys) = dropWhile (\<lambda>x. x \<noteq> CHR ''/'') ys" for ys
    by (rule dropWhile_append2) (use c in auto)
  have "filepath_Dir (abs_path (cs @ [c])) =
      filepath_Clean (abs_path cs @ (if cs = [] then [] else ''/''))"
    unfolding filepath_Dir_def j by (simp add: dw abs_path_def)
  also have "\<dots> = abs_path cs"
  proof (cases "cs = []")
    case True
    then show ?thesis by (simp add: abs_path_def filepath_Clean_def)
  next
    case False
    have p: "list_all proper cs" using assms by simp
    have "rooted (abs_path cs @ ''/'')" by (simp add: rooted_def abs_path_def)
    moreover have "comps (abs_path cs @ ''/'') = cs"
      using comps_abs_path [OF p] split_on_append_sep [of "CHR ''/''" "abs_path cs" "[]"]
      by (simp add: comps_def clean_comps_append)
    ultimately show ?thesis using False by (simp add: Clean_rooted)
  qed
  finally show ?thesis .
qed

text \<open>The directory of a path that is strictly inside is inside.\<close>

lemma Dir_inside:
  assumes "list_all proper rs" "rs \<noteq> []"
  shows "inside d (filepath_Dir (abs_path (comps d @ rs)))"
proof -
  obtain ss c where rs: "rs = ss @ [c]" using assms(2) by (metis rev_exhaust)
  have "filepath_Dir (abs_path ((comps d @ ss) @ [c])) = abs_path (comps d @ ss)"
    by (rule Dir_abs_path) (use assms(1) comps_proper [of d] rs in simp)
  then show ?thesis using assms(1) rs inside_abs_path [of ss d] by simp
qed

end
