(* ===== verification/Deploy.thy ===== *)
theory Deploy
  imports Os_World Paths Prog
begin

text \<open>
  \<open>pkg/server/util.go\<close>: growing the root volume, deploying a package from a tar file, and killing
  the helper processes at exit.  The tar reader of the library is the list of what it answers; the
  programs \<open>lsblk\<close>, \<open>growpart\<close> and \<open>resize2fs\<close> are \<open>Ext_Call\<close>s of the world.
\<close>

section \<open>Growing the root volume\<close>

(* src: pkg/server/util.go 41-46 getPartitionNumber *)
definition getPartitionNumber :: "string \<Rightarrow> go_error + string" where
  "getPartitionNumber dev =
     (if length dev = 0
      then Inl (Errorf ''could not get partition number from empty string'')
      else Inr [last dev])"

text \<open>\<open>strings.TrimSpace\<close>, and the lines of a \<open>bufio.Scanner\<close>: a last line needs no newline.\<close>

definition TrimSpace :: "string \<Rightarrow> string" where
  "TrimSpace s = rev (dropWhile is_space (rev (dropWhile is_space s)))"

definition scan_lines :: "string \<Rightarrow> string list" where
  "scan_lines s =
     (let ls = split_on (CHR 0x0A) s in if last ls = [] then butlast ls else ls)"

(* src: pkg/server/util.go 72-83 resizeVolume *)
fun find_root :: "string list \<Rightarrow> string" where
  "find_root [] = []"
| "find_root (line # ls) =
     (let parts = split_on (CHR '' '') line
      in if length parts < 2 \<or> parts ! 1 \<noteq> ''/'' then find_root ls else parts ! 0)"

text \<open>
  \<open>madd\<close> is \<open>multierror.Append\<close> and \<open>quote\<close> the verb \<open>%q\<close>.  \<open>time.Sleep(1)\<close> sleeps for a nanosecond.
\<close>

(* src: pkg/server/util.go 111-132 resizeVolume *)
fun grow_loop ::
  "(error \<Rightarrow> go_error \<Rightarrow> go_error) \<Rightarrow> (string \<Rightarrow> string) \<Rightarrow> string \<Rightarrow> string \<Rightarrow> nat \<Rightarrow> error \<Rightarrow>
   ('a os_scheme, error) state" where
  "grow_loop madd quote dev number 0 res = return res"
| "grow_loop madd quote dev number (Suc n) res = do {
     r \<leftarrow> os_reply (Ext_Call ''growpart'' [dev, number]);
     case reply_err r of
       None \<Rightarrow> return None
     | Some e \<Rightarrow>
         if Contains (reply_data r) ''NOCHANGE'' \<and> Contains (reply_data r) ''cannot be grown'' then do {
           os_try (Sys_Sleep 1);
           grow_loop madd quote dev number n
             (Some (madd res (Errorf (''partition cannot be grown: '' @ Error e @ ''; output: '' @
                                      quote (reply_data r)))))
         }
         else return (Some (Errorf (''could not grow root partition: '' @ Error e @ ''; output: '' @
                                    quote (reply_data r))))
   }"

text \<open>
  One run of \<open>resize2fs\<close> is its start, its end with what it wrote to its output, and what it wrote to
  its error output.  The answer to reading \<open>/proc/mounts\<close> has the text scanned and what
  \<open>scanner.Err\<close> gives after the loop.
\<close>

(* src: pkg/server/util.go 135-168 resizeVolume *)
fun resize_loop ::
  "(error \<Rightarrow> go_error \<Rightarrow> go_error) \<Rightarrow> (string \<Rightarrow> string) \<Rightarrow> string \<Rightarrow> nat \<Rightarrow> error \<Rightarrow>
   ('a os_scheme, error) state" where
  "resize_loop madd quote part 0 res =
     return (Some (Errorf (''no resizing performed; does '' @ part @ '' have new capacity? '' @
                           (case res of None \<Rightarrow> ''<nil>'' | Some e \<Rightarrow> Error e))))"
| "resize_loop madd quote part (Suc n) res = do {
     err \<leftarrow> os_do (Sys_Start [''resize2fs'', part] [] False);
     case err of
       Some e \<Rightarrow> return (Some (Errorf (''resize2fs '' @ part @ '': '' @ Error e)))
     | None \<Rightarrow> do {
         out \<leftarrow> os_reply (Ext_Call ''resize2fs.Wait'' [part]);
         errout \<leftarrow> os_reply (Ext_Call ''resize2fs.Stderr'' [part]);
         let said = ''resize2fs '' @ part @ '': stdout: '' @ quote (reply_data out) @ '' stderr: '' @
                    quote (reply_data errout);
         case reply_err out of
           Some e \<Rightarrow> return (Some (Errorf (said @ '': '' @ Error e)))
         | None \<Rightarrow>
             if Contains (reply_data out) ''resizing required'' \<or>
                Contains (reply_data errout) ''resizing required''
             then return None
             else do {
               os_try (Sys_Sleep time_Second);
               resize_loop madd quote part n (Some (madd res (Errorf said)))
             }
       }
   }"

(* src: pkg/server/util.go 101-168 resizeVolume *)
definition resize_partition ::
  "(error \<Rightarrow> go_error \<Rightarrow> go_error) \<Rightarrow> (string \<Rightarrow> string) \<Rightarrow> string \<Rightarrow> string \<Rightarrow> ('a os_scheme, error) state"
  where
  "resize_partition madd quote rootDevice rootPartition = do {
     err \<leftarrow> (if rootDevice \<noteq> rootPartition
             then (case getPartitionNumber rootPartition of
                     Inl e \<Rightarrow> return (Some e)
                   | Inr number \<Rightarrow> grow_loop madd quote rootDevice number 30 None)
             else return None);
     if err \<noteq> None then return err else resize_loop madd quote rootPartition 15 None
   }"

(* src: pkg/server/util.go 63-169 resizeVolume *)
definition resizeVolume ::
  "(error \<Rightarrow> go_error \<Rightarrow> go_error) \<Rightarrow> (string \<Rightarrow> string) \<Rightarrow> ('a os_scheme, error) state" where
  "resizeVolume madd quote = do {
     err \<leftarrow> os_do (Os_OpenFile ''/proc/mounts'');
     case err of
       Some e \<Rightarrow> return (Some (Errorf (''opening /proc/mounts: '' @ Error e)))
     | None \<Rightarrow> do {
         m \<leftarrow> os_reply (Io_ReadFile ''/proc/mounts'');
         let rootPartition = find_root (scan_lines (reply_data m));
         case reply_err m of
           Some e \<Rightarrow> return (Some (Errorf (''reading /proc/mounts: '' @ Error e)))
         | None \<Rightarrow>
             if rootPartition = []
             then return (Some (Errorf
                    ''can't find device the root filesystem partition is mounted on''))
             else do {
               out \<leftarrow> os_reply (Ext_Call ''lsblk'' [''-no'', ''pkname'', rootPartition]);
               case reply_err out of
                 Some e \<Rightarrow> return (Some (Errorf
                   (''Could not get the root partition's root block device:: '' @ Error e)))
               | None \<Rightarrow>
                   resize_partition madd quote (''/dev/'' @ TrimSpace (reply_data out)) rootPartition
             }
       }
   }"

section \<open>Deploying a package\<close>

(* src: pkg/server/util.go 171-178 Link *)
record Link =
  Link_dst :: string
  Link_src :: string
  Link_symlink :: bool
  Link_mode :: nat
  Link_uid :: int
  Link_gid :: int

datatype Typeflag = TypeDir | TypeReg | TypeLink | TypeSymlink | TypeOther nat

text \<open>
  A header of the tar file with what reading the entry's data gives, call by call: a piece and an
  error.  \<open>io.EOF\<close> is an error like others except that the loop goes on.
\<close>

record tar_header =
  th_Name :: string
  th_Typeflag :: Typeflag
  th_Mode :: nat
  th_Uid :: int
  th_Gid :: int
  th_Linkname :: string
  th_Size :: nat
  th_Reads :: "(string \<times> error) list"

datatype tar_next = Header tar_header | Next_error go_error

definition io_EOF :: go_error where "io_EOF = ErrOther ''EOF''"

datatype tar_data = Data string | Read_error go_error | Endless

text \<open>The loop that reads a file; it never ends when the reader has no more to give and no error.\<close>

(* src: pkg/server/util.go 248-257 doDeployPackage *)
fun read_data :: "nat \<Rightarrow> string \<Rightarrow> (string \<times> error) list \<Rightarrow> tar_data" where
  "read_data sz acc [] = (if sz \<le> length acc then Data acc else Endless)"
| "read_data sz acc ((piece, err) # rs) =
     (if sz \<le> length acc then Data acc
      else case err of
        Some e \<Rightarrow> if e \<noteq> io_EOF then Read_error e
                  else read_data sz (acc @ take (sz - length acc) piece) rs
      | None \<Rightarrow> read_data sz (acc @ take (sz - length acc) piece) rs)"

definition ROOTFS_prefix :: string where "ROOTFS_prefix = ''ROOTFS/''"

text \<open>What one header does; \<open>None\<close> when its data is never read to the end.\<close>

datatype entry_result = Entry_done | Entry_link Link | Entry_failed go_error | Entry_endless

(* src: pkg/server/util.go 227-279 doDeployPackage *)
definition deploy_entry :: "string \<Rightarrow> tar_header \<Rightarrow> ('a os_scheme, entry_result) state" where
  "deploy_entry destdir h =
     (if th_Name h = ''ROOTFS'' \<or> length (th_Name h) < 7 \<or> take 7 (th_Name h) \<noteq> ROOTFS_prefix
      then return Entry_done
      else
        let name = filepath_Join [destdir, drop 7 (th_Name h)];
            dirname = filepath_Dir name
        in do {
          err \<leftarrow> os_do (Os_Stat dirname);
          (if IsNotExist err then os_try (Os_MkdirAll dirname 493) else return ());
          case th_Typeflag h of
            TypeDir \<Rightarrow> do {
              os_try (Os_Mkdir name (th_Mode h));
              os_try (Os_Chown name (th_Uid h) (th_Gid h));
              return Entry_done
            }
          | TypeReg \<Rightarrow>
              (case read_data (th_Size h) [] (th_Reads h) of
                 Read_error e \<Rightarrow> return (Entry_failed e)
               | Endless \<Rightarrow> return Entry_endless
               | Data d \<Rightarrow> do {
                   os_try (Io_WriteFile name d (th_Mode h));
                   os_try (Os_Chown name (th_Uid h) (th_Gid h));
                   return Entry_done
                 })
          | TypeOther k \<Rightarrow> return Entry_done
          | flag \<Rightarrow>
              let linkname = (if length (th_Linkname h) \<ge> 7 \<and> take 7 (th_Linkname h) = ROOTFS_prefix
                              then filepath_Join [destdir, drop 7 (th_Linkname h)]
                              else th_Linkname h)
              in return (Entry_link
                   \<lparr>Link_dst = linkname, Link_src = name, Link_symlink = (flag = TypeSymlink),
                    Link_mode = th_Mode h, Link_uid = th_Uid h, Link_gid = th_Gid h\<rparr>)
        })"

(* src: pkg/server/util.go 282-313 doDeployPackage *)
definition make_link :: "Link \<Rightarrow> ('a os_scheme, error) state" where
  "make_link l = do {
     os_try (Os_Remove (Link_src l));
     if Link_symlink l then do {
       err \<leftarrow> os_do (Os_Symlink (Link_dst l) (Link_src l));
       if err \<noteq> None then return err
       else do { os_try (Os_Lchown (Link_src l) (Link_uid l) (Link_gid l)); return None }
     }
     else do {
       err \<leftarrow> os_do (Os_Link (Link_dst l) (Link_src l));
       if err \<noteq> None then return err
       else do {
         err \<leftarrow> os_do (Os_Chmod (Link_src l) (Link_mode l));
         if err \<noteq> None then return err
         else do { os_try (Os_Chown (Link_src l) (Link_uid l) (Link_gid l)); return None }
       }
     }
   }"

text \<open>The result is \<^term>\<open>None\<close> when a file is never read to its end.\<close>

(* src: pkg/server/util.go 217-280 doDeployPackage *)
fun deploy_loop ::
  "string \<Rightarrow> tar_next list \<Rightarrow> Link list \<Rightarrow> ('a os_scheme, (error \<times> Link list) option) state" where
  "deploy_loop destdir [] links = return (Some (None, links))"
| "deploy_loop destdir (Next_error e # hs) links = return (Some (Some e, links))"
| "deploy_loop destdir (Header h # hs) links = do {
     r \<leftarrow> deploy_entry destdir h;
     case r of
       Entry_done \<Rightarrow> deploy_loop destdir hs links
     | Entry_link l \<Rightarrow> deploy_loop destdir hs (links @ [l])
     | Entry_failed e \<Rightarrow> return (Some (Some e, links))
     | Entry_endless \<Rightarrow> return None
   }"

text \<open>\<open>untar\<close> gives the headers of the file, or that it is not compressed with gzip.\<close>

(* src: pkg/server/util.go 199-316 doDeployPackage *)
definition doDeployPackage ::
  "(string \<Rightarrow> go_error + tar_next list) \<Rightarrow> string \<Rightarrow> string \<Rightarrow> ('a os_scheme, error option) state" where
  "doDeployPackage untar filename destdir = do {
     err \<leftarrow> os_do (Os_OpenFile filename);
     if err \<noteq> None then return (Some err)
     else case untar filename of
       Inl e \<Rightarrow> return (Some (Some e))
     | Inr hs \<Rightarrow> do {
         r \<leftarrow> deploy_loop destdir hs [];
         case r of
           None \<Rightarrow> return None
         | Some (err, links) \<Rightarrow>
             if err \<noteq> None then return (Some err)
             else do { err \<leftarrow> for_err make_link links; return (Some err) }
       }
   }"

(* src: pkg/server/util.go 180-197 DeployPackage *)
definition DeployPackage ::
  "(string \<Rightarrow> go_error + tar_next list) \<Rightarrow> string \<Rightarrow> string \<Rightarrow> string \<Rightarrow>
   ('a os_scheme, error option) state" where
  "DeployPackage untar filename rootdir pkgname =
     (let destdir = filepath_Join [rootdir, ''..'', ''packages'', pkgname] in do {
        err \<leftarrow> os_do (Os_MkdirAll destdir 448);
        if err \<noteq> None then return (Some err) else doDeployPackage untar filename destdir
      })"

section \<open>Killing the helpers\<close>

text \<open>An entry of \<open>/proc\<close>, and what its \<open>stat\<close> file holds.\<close>

record proc_entry =
  pe_IsDir :: bool
  pe_Name :: string
  pe_Stat :: "go_error + string"

text \<open>\<open>Sscanf\<close> of \<open>%c %d\<close> on what follows the program's name; \<open>0\<close> when it does not match.\<close>

definition scan_int :: "string \<Rightarrow> int" where
  "scan_int s =
     (let t = dropWhile is_space s;
          neg = (t \<noteq> [] \<and> hd t = CHR ''-'');
          u = (if t \<noteq> [] \<and> (hd t = CHR ''-'' \<or> hd t = CHR ''+'') then tl t else t);
          ds = takeWhile is_digit u
      in if ds = [] then 0 else if neg then - digits_val ds else digits_val ds)"

(* src: pkg/server/util.go 358-366 KillChildren *)
definition stat_ppid :: "string \<Rightarrow> int outcome" where
  "stat_ppid data =
     (let binStart = nat (IndexByte data (CHR ''('') + 1);
          binEnd = IndexByte (drop binStart data) (CHR '')'');
          from = int binStart + binEnd + 2
      in if int (length data) < from then Panic
         else let rest = drop (nat from) data
              in Ret (if rest = [] then 0 else scan_int (tl rest)))"

(* src: pkg/server/util.go 340-373 KillChildren *)
fun kill_scan :: "proc_entry list \<Rightarrow> int set \<Rightarrow> ('a os_scheme, unit outcome) state" where
  "kill_scan [] pids = return (Ret ())"
| "kill_scan (fi # fis) pids =
     (if \<not> pe_IsDir fi then kill_scan fis pids
      else case pe_Name fi of
        [] \<Rightarrow> return Panic
      | c # _ \<Rightarrow>
          if \<not> is_digit c then kill_scan fis pids
          else case ParseInt 64 (pe_Name fi) of
            Inl e \<Rightarrow> kill_scan fis pids
          | Inr pid \<Rightarrow>
              (case pe_Stat fi of
                 Inl e \<Rightarrow> kill_scan fis pids
               | Inr data \<Rightarrow>
                   (case stat_ppid data of
                      Panic \<Rightarrow> return Panic
                    | Ret ppid \<Rightarrow>
                        if ppid \<in> pids then do {
                          os_try (Ext_Call ''kill'' [Itoa pid, ''9'']);
                          kill_scan fis (insert pid pids)
                        }
                        else kill_scan fis pids)))"

text \<open>The entries of \<open>/proc\<close> are those read before the first error, in the order of the reads.\<close>

(* src: pkg/server/util.go 320-375 KillChildren *)
definition KillChildren :: "int \<Rightarrow> proc_entry list \<Rightarrow> ('a os_scheme, unit outcome) state" where
  "KillChildren self fis = do {
     err \<leftarrow> os_do (Os_OpenFile ''/proc'');
     if err \<noteq> None then return (Ret ()) else kill_scan fis {self}
   }"

section \<open>Where a package is written\<close>

lemma calls_within_bind_post:
  assumes "calls_within P m" "\<And>w. Q (result m w)" "\<And>x. Q x \<Longrightarrow> calls_within P (f x)"
  shows "calls_within P (State_Monad.bind m f)"
proof (rule calls_withinI)
  fix w
  obtain as where as: "final m w = w\<lparr>os_trace := os_trace w @ as\<rparr>" "list_all P as"
    using assms(1) by (auto simp: calls_within_def)
  obtain bs where bs: "final (f (result m w)) (final m w) =
      (final m w)\<lparr>os_trace := os_trace (final m w) @ bs\<rparr>" "list_all P bs"
    using assms(3) [OF assms(2), of w] unfolding calls_within_def by meson
  show "\<exists>cs. final (State_Monad.bind m f) w = w\<lparr>os_trace := os_trace w @ cs\<rparr> \<and> list_all P cs"
    using as bs by (intro exI [where x = "as @ bs"]) simp
qed

text \<open>A call that changes nothing outside the directory; making its parent is allowed.\<close>

fun confined :: "string \<Rightarrow> os_call \<Rightarrow> bool" where
  "confined d (Os_Stat p) = True"
| "confined d (Os_OpenFile p) = True"
| "confined d (Os_MkdirAll p m) = (inside d p \<or> p = filepath_Dir d)"
| "confined d (Os_Mkdir p m) = inside d p"
| "confined d (Io_WriteFile p c m) = inside d p"
| "confined d (Os_Chown p u g) = inside d p"
| "confined d (Os_Lchown p u g) = inside d p"
| "confined d (Os_Chmod p m) = inside d p"
| "confined d (Os_Remove p) = inside d p"
| "confined d (Os_Symlink t p) = inside d p"
| "confined d (Os_Link t p) = inside d p"
| "confined d c = False"

text \<open>An entry of the tar file whose name does not climb.\<close>

fun tame :: "tar_next \<Rightarrow> bool" where
  "tame (Header h) = no_dotdot (drop 7 (th_Name h))"
| "tame (Next_error e) = True"

lemma make_link_confined: "inside d (Link_src l) \<Longrightarrow> calls_within (confined d) (make_link l)"
  unfolding make_link_def by (intro calls_intros) simp_all

lemma Dir_Join_inside:
  assumes "rooted d" "no_dotdot r"
  shows "inside d (filepath_Dir (filepath_Join [d, r])) \<or>
         filepath_Dir (filepath_Join [d, r]) = filepath_Dir (filepath_Clean d)"
proof -
  define rs where "rs = filter (\<lambda>c. c \<noteq> [] \<and> c \<noteq> ''.'') (split_on (CHR ''/'') r)"
  have j: "filepath_Join [d, r] = abs_path (comps d @ rs)"
    using assms by (simp add: Join_rooted clean_comps_plain no_dotdot_def rs_def)
  have p: "list_all proper rs"
    using assms(2) split_on_no_sep
    by (fastforce simp: list_all_iff proper_def no_dotdot_def rs_def)
  show ?thesis
  proof (cases "rs = []")
    case True
    with j assms(1) show ?thesis by (simp add: Clean_rooted)
  next
    case False
    with j p show ?thesis using Dir_inside [of rs d] by simp
  qed
qed

lemma deploy_entry_confined:
  assumes "rooted d" "filepath_Clean d = d" "no_dotdot (drop 7 (th_Name h))"
  shows "calls_within (confined d) (deploy_entry d h)"
    and "result (deploy_entry d h) w = Entry_link l \<Longrightarrow> inside d (Link_src l)"
proof -
  let ?n = "filepath_Join [d, drop 7 (th_Name h)]"
  have i: "inside d ?n" using Join_inside [OF assms(1,3)] .
  have dir: "inside d (filepath_Dir ?n) \<or> filepath_Dir ?n = filepath_Dir d"
    using Dir_Join_inside [OF assms(1,3)] assms(2) by simp
  show "calls_within (confined d) (deploy_entry d h)"
    unfolding deploy_entry_def Let_def
    by (intro calls_intros)
      (use i dir in \<open>auto intro!: calls_intros split: Typeflag.split tar_data.split\<close>)
  show "inside d (Link_src l)" if "result (deploy_entry d h) w = Entry_link l"
    using that i
    by (auto simp: deploy_entry_def Let_def split: if_splits Typeflag.splits tar_data.splits)
qed

definition links_inside :: "string \<Rightarrow> (error \<times> Link list) option \<Rightarrow> bool" where
  "links_inside d r \<longleftrightarrow> (\<forall>e ls. r = Some (e, ls) \<longrightarrow> list_all (\<lambda>l. inside d (Link_src l)) ls)"

lemma links_inside_simps [simp]:
  "links_inside d None"
  "links_inside d (Some (e, ls)) \<longleftrightarrow> list_all (\<lambda>l. inside d (Link_src l)) ls"
  by (simp_all add: links_inside_def)

lemma deploy_loop_confined:
  assumes "rooted d" "filepath_Clean d = d" "list_all tame hs" "list_all (\<lambda>l. inside d (Link_src l)) ls"
  shows "calls_within (confined d) (deploy_loop d hs ls ::
      ('a os_scheme, (error \<times> Link list) option) state)"
    and "links_inside d (result (deploy_loop d hs ls) (w :: 'a os_scheme))"
  using assms(3,4)
proof (induction hs arbitrary: ls w)
  case (Cons h hs)
  let ?ok = "\<lambda>r. \<forall>l. r = Entry_link l \<longrightarrow> inside d (Link_src l)"
  { case 1
    show ?case
    proof (cases h)
      case (Header th)
      then have "no_dotdot (drop 7 (th_Name th))" using 1 by simp
      note entry = deploy_entry_confined [OF assms(1,2) this]
      show ?thesis unfolding Header deploy_loop.simps
      proof (rule calls_within_bind_post [where Q = ?ok, OF entry(1)])
        show "?ok (result (deploy_entry d th) w)" for w :: "'a os_scheme" using entry(2) by blast
        show "calls_within (confined d) (case r of
             Entry_done \<Rightarrow> (deploy_loop d hs ls :: ('a os_scheme, (error \<times> Link list) option) state)
           | Entry_link l \<Rightarrow> deploy_loop d hs (ls @ [l])
           | Entry_failed e \<Rightarrow> return (Some (Some e, ls))
           | Entry_endless \<Rightarrow> return None)" if "?ok r" for r
          using that Cons.IH(1) 1 by (cases r) (simp_all add: calls_intros)
      qed
    qed (simp add: calls_intros)
  next
    case 2
    show ?case
    proof (cases h)
      case (Header th)
      then have "no_dotdot (drop 7 (th_Name th))" using 2 by simp
      note entry = deploy_entry_confined(2) [OF assms(1,2) this]
      have "links_inside d (result (deploy_loop d hs ls2) w2)"
        if "list_all (\<lambda>l. inside d (Link_src l)) ls2" for ls2 and w2 :: "'a os_scheme"
        using Cons.IH(2) 2 that by simp
      then show ?thesis
        using entry [of w] 2 by (cases "result (deploy_entry d th) w") (simp_all add: Header)
    qed (use 2 in simp) }
qed (simp_all add: calls_intros)

lemma doDeployPackage_confined:
  assumes "rooted d" "filepath_Clean d = d" "untar filename = Inr hs" "list_all tame hs"
  shows "calls_within (confined d) (doDeployPackage untar filename d ::
      ('a os_scheme, error option) state)"
proof -
  note loop = deploy_loop_confined [OF assms(1,2,4), of "[]", simplified]
  have "calls_within (confined d) (for_err make_link ls :: ('a os_scheme, error) state)"
    if "list_all (\<lambda>l. inside d (Link_src l)) ls" for ls
    by (intro calls_intros make_link_confined) (use that in \<open>auto simp: list_all_iff\<close>)
  then have "calls_within (confined d) (case r of None \<Rightarrow> (return None :: ('a os_scheme, error option) state)
       | Some (err, links) \<Rightarrow> if err \<noteq> None then return (Some err)
           else do { err \<leftarrow> for_err make_link links; return (Some err) })"
    if "links_inside d r" for r
    using that by (auto intro!: calls_within_bind calls_within_return split: option.split)
  then show ?thesis
    unfolding doDeployPackage_def assms(3) sum.case
    by (intro calls_within_bind calls_within_os_do calls_within_if calls_within_return
        calls_within_bind_post [where Q = "links_inside d", OF loop(1)] loop(2)) simp_all
qed

lemma package_dir:
  assumes "rooted rootdir"
  shows "rooted (filepath_Join (rootdir # es))"
    and "filepath_Clean (filepath_Join (rootdir # es)) = filepath_Join (rootdir # es)"
proof -
  show r: "rooted (filepath_Join (rootdir # es))" using assms by (rule rooted_Join)
  have "rooted (strings_Join (rootdir # es) ''/'')"
    using assms by (cases es) (simp_all add: rooted_append)
  moreover have "filepath_Join (rootdir # es) = filepath_Clean (strings_Join (rootdir # es) ''/'')"
    using assms by (cases rootdir) (simp_all add: filepath_Join_def rooted_def)
  ultimately show "filepath_Clean (filepath_Join (rootdir # es)) = filepath_Join (rootdir # es)"
    using Clean_idem by simp
qed

lemma inside_refl: "rooted d \<Longrightarrow> inside d d"
  by (simp add: inside_def)

lemma DeployPackage_confined:
  assumes "rooted rootdir" "untar filename = Inr hs" "list_all tame hs"
  shows "calls_within (confined (filepath_Join [rootdir, ''..'', ''packages'', pkgname]))
     (DeployPackage untar filename rootdir pkgname)"
  unfolding DeployPackage_def Let_def
  using package_dir [OF assms(1)] assms(2,3)
  by (intro calls_intros doDeployPackage_confined) (simp_all add: inside_refl)

section \<open>How often the volume is resized\<close>

fun growing :: "os_call \<Rightarrow> bool" where
  "growing (Ext_Call p args) \<longleftrightarrow> p = ''growpart''"
| "growing c = False"

fun resizing :: "os_call \<Rightarrow> bool" where
  "resizing (Sys_Start args env b) \<longleftrightarrow> True"
| "resizing c = False"

definition tries :: "(os_call \<Rightarrow> bool) \<Rightarrow> os_call list \<Rightarrow> nat" where
  "tries P cs = length (filter P cs)"

lemma tries_simps [simp]:
  "tries P [] = 0" "tries P (a @ b) = tries P a + tries P b"
  "tries P (c # cs) = (if P c then 1 else 0) + tries P cs"
  by (simp_all add: tries_def)

text \<open>Computations that run the two programs at most so often.\<close>

definition spends :: "nat \<Rightarrow> nat \<Rightarrow> ('a os_scheme, 'b) state \<Rightarrow> bool" where
  "spends g r m \<longleftrightarrow> (\<forall>w. \<exists>cs. final m w = w\<lparr>os_trace := os_trace w @ cs\<rparr> \<and>
     tries growing cs \<le> g \<and> tries resizing cs \<le> r)"

lemma spends_bind:
  assumes "spends g r m" "\<And>x. spends g' r' (f x)"
  shows "spends (g + g') (r + r') (State_Monad.bind m f)"
  unfolding spends_def
proof
  fix w
  obtain as where as: "final m w = w\<lparr>os_trace := os_trace w @ as\<rparr>" "tries growing as \<le> g"
      "tries resizing as \<le> r"
    using assms(1) unfolding spends_def by blast
  obtain bs where bs: "final (f (result m w)) (final m w) =
      (final m w)\<lparr>os_trace := os_trace (final m w) @ bs\<rparr>" "tries growing bs \<le> g'" "tries resizing bs \<le> r'"
    using assms(2) unfolding spends_def by blast
  show "\<exists>cs. final (State_Monad.bind m f) w = w\<lparr>os_trace := os_trace w @ cs\<rparr> \<and>
      tries growing cs \<le> g + g' \<and> tries resizing cs \<le> r + r'"
    using as bs by (intro exI [where x = "as @ bs"]) simp
qed

lemma spends_return: "spends g r (return x)"
  unfolding spends_def by (intro allI exI [where x = "[]"]) simp

lemma spends_reply: "tries growing [c] \<le> g \<Longrightarrow> tries resizing [c] \<le> r \<Longrightarrow> spends g r (os_reply c)"
  unfolding spends_def by (intro allI exI [where x = "[c]"]) simp

lemma spends_do: "tries growing [c] \<le> g \<Longrightarrow> tries resizing [c] \<le> r \<Longrightarrow> spends g r (os_do c)"
  unfolding spends_def by (intro allI exI [where x = "[c]"]) simp

lemma spends_try: "tries growing [c] \<le> g \<Longrightarrow> tries resizing [c] \<le> r \<Longrightarrow> spends g r (os_try c)"
  unfolding spends_def by (intro allI exI [where x = "[c]"]) simp

lemmas spends_calls = spends_return spends_reply spends_do spends_try

lemma grow_loop_spends: "spends n 0 (grow_loop madd quote dev number n res)"
proof (induction n arbitrary: res)
  case (Suc n)
  note again = spends_bind [of 0 0 _ n 0, simplified, OF _ Suc.IH]
  show ?case
    unfolding grow_loop.simps
    by (rule spends_bind [of 1 0 _ n 0, simplified])
      (auto intro!: spends_calls again split: option.split)
qed (simp add: spends_return)

lemma resize_loop_spends: "spends 0 n (resize_loop madd quote part n res)"
proof (induction n arbitrary: res)
  case (Suc n)
  note again = spends_bind [of 0 0 _ 0 n, simplified, OF _ Suc.IH]
  note next_call = spends_bind [of 0 0 _ 0 n, simplified]
  show ?case
    unfolding resize_loop.simps Let_def
    by (rule spends_bind [of 0 1 _ 0 n, simplified])
      (auto intro!: spends_calls again next_call split: option.split)
qed (simp add: spends_return)

lemma resize_partition_spends: "spends 30 15 (resize_partition madd quote dev part)"
  unfolding resize_partition_def
  by (rule spends_bind [of 30 0 _ 0 15, simplified])
    (auto intro!: spends_calls grow_loop_spends resize_loop_spends split: sum.split)

lemma resizeVolume_spends: "spends 30 15 (resizeVolume madd quote)"
proof -
  note next_call = spends_bind [of 0 0 _ 30 15, simplified]
  show ?thesis
    unfolding resizeVolume_def Let_def
    by (auto intro!: spends_calls next_call resize_partition_spends split: option.split)
qed

text \<open>What a run of \<open>resize2fs\<close> that was needed says.\<close>

definition resized :: "'a os_scheme \<Rightarrow> os_call list \<Rightarrow> string \<Rightarrow> bool" where
  "resized w cs part \<longleftrightarrow>
     (\<exists>pre. cs = pre @ [Ext_Call ''resize2fs.Wait'' [part], Ext_Call ''resize2fs.Stderr'' [part]] \<and>
        (Contains (reply_data (os_env w pre (Ext_Call ''resize2fs.Wait'' [part]))) ''resizing required'' \<or>
         Contains (reply_data (os_env w (pre @ [Ext_Call ''resize2fs.Wait'' [part]])
           (Ext_Call ''resize2fs.Stderr'' [part]))) ''resizing required''))"

lemma resize_loop_resized:
  "result (resize_loop madd quote part n res) w = None \<Longrightarrow>
   resized w (os_trace (final (resize_loop madd quote part n res) w)) part"
proof (induction n arbitrary: res w)
  case (Suc n)
  let ?s = "Sys_Start [''resize2fs'', part] [] False"
  let ?o = "Ext_Call ''resize2fs.Wait'' [part]" and ?e = "Ext_Call ''resize2fs.Stderr'' [part]"
  let ?out = "os_env w (os_trace w @ [?s]) ?o" and ?err = "os_env w (os_trace w @ [?s, ?o]) ?e"
  let ?told = "Contains (reply_data ?out) ''resizing required'' \<or>
    Contains (reply_data ?err) ''resizing required''"
  have ok: "reply_err (os_env w (os_trace w) ?s) = None" "reply_err ?out = None"
    using Suc.prems by (auto simp: Let_def split: option.splits)
  show ?case
  proof (cases ?told)
    case True
    then have "resized w (os_trace w @ [?s, ?o, ?e]) part"
      unfolding resized_def by (intro exI [where x = "os_trace w @ [?s]"]) simp
    with ok True show ?thesis by (auto simp: Let_def)
  next
    case False
    define w' where "w' = w\<lparr>os_trace := os_trace w @ [?s, ?o, ?e, Sys_Sleep time_Second]\<rparr>"
    obtain res' where step:
        "run_state (resize_loop madd quote part (Suc n) res) w = run_state (resize_loop madd quote part n res') w'"
      using ok False by (auto simp: w'_def run_state_result_final Let_def)
    have "resized w' = resized w" by (intro ext) (simp add: resized_def w'_def)
    with Suc.IH [of res' w'] Suc.prems step show ?thesis by (simp add: result_def final_def)
  qed
qed simp

lemma resize_partition_resized:
  assumes "result (resize_partition madd quote dev part) w = None"
  shows "resized w (os_trace (final (resize_partition madd quote dev part) w)) part"
proof -
  define grow where "grow = (if dev \<noteq> part
             then (case getPartitionNumber part of
                     Inl e \<Rightarrow> return (Some e)
                   | Inr number \<Rightarrow> grow_loop madd quote dev number 30 None)
             else (return None :: ('a os_scheme, error) state))"
  have "spends 30 0 grow"
    by (auto simp: grow_def intro!: spends_calls grow_loop_spends split: sum.split)
  then have "os_env (final grow w) = os_env w" unfolding spends_def by (metis os.select_convs(1) os.surjective os.update_convs(2))
  then have "resized (final grow w) = resized w" by (intro ext) (simp add: resized_def)
  moreover have "result (resize_loop madd quote part 15 None) (final grow w) = None"
      "final (resize_partition madd quote dev part) w =
       final (resize_loop madd quote part 15 None) (final grow w)"
    using assms by (auto simp: resize_partition_def grow_def [symmetric] split: if_splits)
  ultimately show ?thesis using resize_loop_resized by metis
qed

lemma resize_partition_resized_from:
  assumes "result (resize_partition madd quote dev part) (w\<lparr>os_trace := cs\<rparr>) = None"
  shows "resized w (os_trace (final (resize_partition madd quote dev part) (w\<lparr>os_trace := cs\<rparr>))) part"
proof -
  have "resized (w\<lparr>os_trace := cs\<rparr>) = resized w" by (intro ext) (simp add: resized_def)
  with resize_partition_resized [OF assms] show ?thesis by simp
qed

lemma resizeVolume_resized:
  "result (resizeVolume madd quote) w = None \<Longrightarrow>
   \<exists>part. resized w (os_trace (final (resizeVolume madd quote) w)) part"
  by (auto simp: resizeVolume_def Let_def split: option.splits if_splits
      intro!: exI resize_partition_resized_from)

section \<open>Which processes are killed\<close>

text \<open>The processes whose \<open>stat\<close> can be read, with their parents, in the order of \<open>/proc\<close>.\<close>

definition proc_of :: "proc_entry \<Rightarrow> (int \<times> int) option" where
  "proc_of fi =
     (if \<not> pe_IsDir fi \<or> pe_Name fi = [] \<or> \<not> is_digit (hd (pe_Name fi)) then None
      else case (ParseInt 64 (pe_Name fi), pe_Stat fi) of
        (Inr pid, Inr data) \<Rightarrow> (case stat_ppid data of Ret ppid \<Rightarrow> Some (pid, ppid) | Panic \<Rightarrow> None)
      | _ \<Rightarrow> None)"

definition procs :: "proc_entry list \<Rightarrow> (int \<times> int) list" where
  "procs fis = List.map_filter proc_of fis"

fun killed :: "int set \<Rightarrow> (int \<times> int) list \<Rightarrow> int list" where
  "killed pids [] = []"
| "killed pids ((pid, ppid) # ps) =
     (if ppid \<in> pids then pid # killed (insert pid pids) ps else killed pids ps)"

lemma kill_scan_killed:
  "result (kill_scan fis pids) (w :: 'a os_scheme) = Ret () \<Longrightarrow>
   final (kill_scan fis pids) w =
     w\<lparr>os_trace := os_trace w @ map (\<lambda>p. Ext_Call ''kill'' [Itoa p, ''9'']) (killed pids (procs fis))\<rparr>"
proof (induction fis arbitrary: pids w)
  case (Cons fi fis)
  have skip: "final (kill_scan fis pids) w =
     w\<lparr>os_trace := os_trace w @ map (\<lambda>p. Ext_Call ''kill'' [Itoa p, ''9'']) (killed pids (procs fis))\<rparr>"
    if same: "(kill_scan (fi # fis) pids :: ('a os_scheme, unit outcome) state) = kill_scan fis pids"
    using Cons.prems unfolding same by (rule Cons.IH)
  show ?case
  proof (cases "proc_of fi")
    case None
    then have "(kill_scan (fi # fis) pids :: ('a os_scheme, unit outcome) state) = kill_scan fis pids \<or>
        (kill_scan (fi # fis) pids :: ('a os_scheme, unit outcome) state) = return Panic"
      by (auto simp: proc_of_def split: list.split sum.splits outcome.splits if_splits)
    then have "(kill_scan (fi # fis) pids :: ('a os_scheme, unit outcome) state) = kill_scan fis pids"
      using Cons.prems by (auto simp del: kill_scan.simps)
    with skip None show ?thesis by (simp add: procs_def map_filter_simps del: kill_scan.simps)
  next
    case (Some pp)
    obtain pid ppid where pp: "pp = (pid, ppid)" by (cases pp)
    have step: "(kill_scan (fi # fis) pids :: ('a os_scheme, unit outcome) state) =
        (if ppid \<in> pids then do {
           os_try (Ext_Call ''kill'' [Itoa pid, ''9'']);
           kill_scan fis (insert pid pids) }
         else kill_scan fis pids)"
      using Some pp by (auto simp: proc_of_def split: list.split sum.splits outcome.splits if_splits)
    show ?thesis
    proof (cases "ppid \<in> pids")
      case True
      with Cons step Some pp show ?thesis
        by (simp add: procs_def map_filter_simps del: kill_scan.simps)
    next
      case False
      with skip step Some pp show ?thesis
        by (simp add: procs_def map_filter_simps del: kill_scan.simps)
    qed
  qed
qed (simp add: procs_def)

text \<open>A process that descends from one of \<open>S\<close>.\<close>

definition offspring :: "(int \<times> int) list \<Rightarrow> int set \<Rightarrow> int set" where
  "offspring ps S = {q. \<exists>s \<in> S. (s, q) \<in> ((\<lambda>(pid, ppid). (ppid, pid)) ` set ps)\<^sup>+}"

lemma offspring_mono: "set ps \<subseteq> set qs \<Longrightarrow> offspring ps S \<subseteq> offspring qs S"
proof -
  assume "set ps \<subseteq> set qs"
  then have "(\<lambda>(pid, ppid). (ppid, pid)) ` set ps \<subseteq> (\<lambda>(pid, ppid). (ppid, pid)) ` set qs" by blast
  then show ?thesis unfolding offspring_def using trancl_mono by blast
qed

lemma killed_offspring: "set (killed S ps) \<subseteq> offspring ps S"
proof (induction ps arbitrary: S)
  case (Cons p ps)
  obtain pid ppid where p: "p = (pid, ppid)" by (cases p)
  have mono: "offspring ps T \<subseteq> offspring (p # ps) T" for T by (rule offspring_mono) auto
  show ?case
  proof (cases "ppid \<in> S")
    case True
    then have pid: "pid \<in> offspring (p # ps) S" by (auto simp: offspring_def p)
    moreover have "offspring (p # ps) (insert pid S) \<subseteq> offspring (p # ps) S"
      using pid unfolding offspring_def by (auto intro: trancl_trans)
    ultimately show ?thesis using True Cons.IH [of "insert pid S"] mono by (fastforce simp: p)
  next
    case False
    then show ?thesis using Cons.IH [of S] mono by (auto simp: p)
  qed
qed simp

text \<open>When every parent is listed before its children, every descendant is killed.\<close>

fun parents_first :: "(int \<times> int) list \<Rightarrow> bool" where
  "parents_first [] = True"
| "parents_first ((pid, ppid) # ps) \<longleftrightarrow> ppid \<noteq> pid \<and> ppid \<notin> fst ` set ps \<and> parents_first ps"

lemma trancl_insert_source:
  assumes "(a, q) \<in> (insert (x, y) E)\<^sup>+" "x \<notin> Range E" "x \<noteq> y"
  shows "(a, q) \<in> E\<^sup>+ \<or> a = x \<and> (q = y \<or> (y, q) \<in> E\<^sup>+)"
  using assms(1)
proof (induction rule: trancl_induct)
  case (base q)
  then show ?case by auto
next
  case (step q r)
  have "q \<noteq> x" if "(a, q) \<in> E\<^sup>+ \<or> (y, q) \<in> E\<^sup>+"
    using that assms(2) by (meson RangeI tranclD2)
  with step assms(3) show ?case by (auto intro: trancl_into_trancl)
qed

lemma killed_complete:
  "parents_first ps \<Longrightarrow> offspring ps S \<subseteq> set (killed S ps)"
proof (induction ps arbitrary: S)
  case (Cons p ps)
  obtain pid ppid where p: "p = (pid, ppid)" by (cases p)
  let ?E = "(\<lambda>(pid, ppid). (ppid, pid)) ` set ps"
  have src: "ppid \<notin> Range ?E" "ppid \<noteq> pid" using Cons.prems p by force+
  have "q \<in> set (killed S (p # ps))" if q: "q \<in> offspring (p # ps) S" for q
  proof -
    obtain s where s: "s \<in> S" "(s, q) \<in> (insert (ppid, pid) ?E)\<^sup>+"
      using q by (auto simp: offspring_def p)
    have "(s, q) \<in> ?E\<^sup>+ \<or> s = ppid \<and> (q = pid \<or> (pid, q) \<in> ?E\<^sup>+)"
      using s(2) src by (rule trancl_insert_source)
    then have "q \<in> offspring ps S \<or> ppid \<in> S \<and> (q = pid \<or> q \<in> offspring ps (insert pid S))"
      using s(1) by (auto simp: offspring_def)
    moreover have "offspring ps S \<subseteq> offspring ps (insert pid S)" by (auto simp: offspring_def)
    ultimately show ?thesis
      using Cons.IH [of S] Cons.IH [of "insert pid S"] Cons.prems by (auto simp: p)
  qed
  then show ?case by blast
qed (simp add: offspring_def)

end
