(* ===== verification/Cloud.thy ===== *)
theory Cloud
  imports Prog "HOL-Library.Word"
begin

unbundle bit_operations_syntax

text \<open>
  \<open>pkg/cloud\<close>: the addresses of the instance from the metadata services of three clouds.  What a
  service answers is a parameter; a nil dereference is \<open>Panic\<close>.
\<close>

section \<open>IPv4 addresses\<close>

text \<open>The dotted form of \<open>net.ParseIP\<close> and the CIDR form of \<open>net.ParseCIDR\<close>, for IPv4.\<close>

definition octet :: "string \<Rightarrow> nat option" where
  "octet s =
     (if s = [] \<or> \<not> list_all is_digit s \<or> 3 < length s \<or> 255 < digits_val s
         \<or> (1 < length s \<and> hd s = CHR ''0'') then None
      else Some (nat (digits_val s)))"

definition parse_ip :: "string \<Rightarrow> 32 word option" where
  "parse_ip s =
     (case map octet (split_on (CHR ''.'') s) of
        [Some a, Some b, Some c, Some d] \<Rightarrow> Some (word_of_nat (((a * 256 + b) * 256 + c) * 256 + d))
      | _ \<Rightarrow> None)"

definition ip_string :: "32 word \<Rightarrow> string" where
  "ip_string a =
     (let n = unat a
      in strings_Join (map (\<lambda>k. Itoa (int (n div 256 ^ k mod 256))) [3, 2, 1, 0]) ''.'')"

definition net_mask :: "nat \<Rightarrow> 32 word" where
  "net_mask n = push_bit (32 - n) (mask n)"

definition parse_cidr :: "string \<Rightarrow> (32 word \<times> nat) option" where
  "parse_cidr s =
     (if CHR ''/'' \<notin> set s then None
      else let a = takeWhile (\<lambda>c. c \<noteq> CHR ''/'') s; m = tl (dropWhile (\<lambda>c. c \<noteq> CHR ''/'') s)
           in if m = [] \<or> \<not> list_all is_digit m \<or> 32 < digits_val m then None
              else map_option (\<lambda>ip. (ip AND net_mask (nat (digits_val m)), nat (digits_val m))) (parse_ip a))"

section \<open>The interface\<close>

(* src: pkg/cloud/cloud.go 21-24 CloudInfo *)
record CloudInfo =
  GetPodIPv4Address :: "(go_error + string) outcome"
  GetMainIPv4Address :: "(go_error + string) outcome"

section \<open>AWS\<close>

(* src: pkg/cloud/aws.go 27-31 metadataLocalIP *)
abbreviation (input) metadataLocalIP :: string where "metadataLocalIP \<equiv> ''local-ipv4''"

(* src: pkg/cloud/aws.go 27-31 metadataMACPath *)
abbreviation (input) metadataMACPath :: string where "metadataMACPath \<equiv> ''network/interfaces/macs/''"

(* src: pkg/cloud/aws.go 27-31 metadataIPv4s *)
abbreviation (input) metadataIPv4s :: string where "metadataIPv4s \<equiv> ''/local-ipv4s''"

text \<open>The metadata client: its session, whether it is there, and what it answers.\<close>

(* src: pkg/cloud/aws.go 33-35 AwsCloudInfo *)
record AwsCloudInfo =
  aws_session :: error
  aws_Available :: bool
  aws_GetMetadata :: "string \<Rightarrow> go_error + string"

(* src: pkg/cloud/aws.go 53-80 GetPodIPv4Address *)
definition aws_GetPodIPv4Address :: "AwsCloudInfo \<Rightarrow> go_error + string" where
  "aws_GetPodIPv4Address a =
     (case aws_GetMetadata a metadataLocalIP of
        Inl err \<Rightarrow> Inl err
      | Inr address \<Rightarrow>
     (case aws_GetMetadata a metadataMACPath of
        Inl err \<Rightarrow> Inl err
      | Inr macs \<Rightarrow>
          let maclist = Fields macs
          in if length maclist < 1 then Inl (Errorf ''unable to find instance MAC address'')
             else (case aws_GetMetadata a (metadataMACPath @ maclist ! 0 @ metadataIPv4s) of
                     Inl err \<Rightarrow> Inl err
                   | Inr addresses \<Rightarrow>
                       (case List.find (\<lambda>addr. addr \<noteq> address) (Fields addresses) of
                          Some addr \<Rightarrow> Inr addr
                        | None \<Rightarrow> Inl (Errorf (''unable to find pod IP, addresses: '' @ addresses))))))"

(* src: pkg/cloud/aws.go 83-89 GetMainIPv4Address *)
definition aws_GetMainIPv4Address :: "AwsCloudInfo \<Rightarrow> go_error + string" where
  "aws_GetMainIPv4Address a = aws_GetMetadata a metadataLocalIP"

(* src: pkg/cloud/aws.go 37-49 NewAwsCloudInfo *)
definition NewAwsCloudInfo :: "AwsCloudInfo \<Rightarrow> go_error + CloudInfo" where
  "NewAwsCloudInfo a =
     (case aws_session a of
        Some err \<Rightarrow> Inl err
      | None \<Rightarrow>
          if \<not> aws_Available a then Inl (Errorf ''unable to access EC2 metadata service'')
          else Inr \<lparr>GetPodIPv4Address = Ret (aws_GetPodIPv4Address a),
                    GetMainIPv4Address = Ret (aws_GetMainIPv4Address a)\<rparr>)"

section \<open>Azure\<close>

(* src: pkg/cloud/azure.go 60-63 IPAddress *)
record IPAddress =
  IPAddress_PrivateIPAddress :: string
  IPAddress_PublicIPAddress :: string

(* src: pkg/cloud/azure.go 65-68 Subnet *)
record Subnet =
  Subnet_Address :: string
  Subnet_Prefix :: string

(* src: pkg/cloud/azure.go 55-58 NetworkData *)
record NetworkData =
  NetworkData_IPAddress :: "IPAddress list"
  NetworkData_Subnet :: "Subnet list"

(* src: pkg/cloud/azure.go 49-53 NetworkInterface *)
record NetworkInterface =
  NetworkInterface_IPv4 :: NetworkData
  NetworkInterface_IPv6 :: NetworkData
  NetworkInterface_MACAddress :: string

(* src: pkg/cloud/azure.go 45-47 NetworkMetadata *)
record NetworkMetadata =
  NetworkMetadata_Interface :: "NetworkInterface list"

(* src: pkg/cloud/azure.go 30-43 ComputeMetadata *)
record ComputeMetadata =
  Compute_AZEnvironment :: string
  Compute_SKU :: string
  Compute_Name :: string
  Compute_Zone :: string
  Compute_VMSize :: string
  Compute_OSType :: string
  Compute_Location :: string
  Compute_PlatformFaultDomain :: string
  Compute_PlatformUpdateDomain :: string
  Compute_ResourceGroupName :: string
  Compute_VMScaleSetName :: string
  Compute_SubscriptionID :: string

(* src: pkg/cloud/azure.go 71-74 InstanceMetadata *)
record InstanceMetadata =
  InstanceMetadata_Compute :: "ComputeMetadata option"
  InstanceMetadata_Network :: "NetworkMetadata option"

text \<open>
  A request to the metadata service: an error making or sending it, a status with its text, and a body
  that is read, or not, and decoded, or not.
\<close>

record http_reply =
  hr_Do :: error
  hr_StatusCode :: int
  hr_Status :: string
  hr_Body :: "go_error + string"

(* src: pkg/cloud/azure.go 118-149 getInstanceMetadata *)
definition getInstanceMetadata ::
  "(string \<Rightarrow> go_error + InstanceMetadata) \<Rightarrow> (string \<Rightarrow> string) \<Rightarrow> http_reply \<Rightarrow> go_error + InstanceMetadata"
  where
  "getInstanceMetadata unmarshal quote r =
     (case hr_Do r of
        Some err \<Rightarrow> Inl err
      | None \<Rightarrow>
          if hr_StatusCode r \<noteq> 200
          then Inl (Errorf (''getting instance metadata: got response '' @ quote (hr_Status r)))
          else (case hr_Body r of Inl err \<Rightarrow> Inl err | Inr buf \<Rightarrow> unmarshal buf))"

(* src: pkg/cloud/azure.go 104-116 getIPv4Address *)
definition azure_getIPv4Address ::
  "(IPAddress list \<Rightarrow> string) \<Rightarrow> go_error + InstanceMetadata \<Rightarrow> nat \<Rightarrow> (go_error + string) outcome" where
  "azure_getIPv4Address pretty md n =
     (case md of
        Inl err \<Rightarrow> Ret (Inl err)
      | Inr metadata \<Rightarrow>
          (case InstanceMetadata_Network metadata of
             None \<Rightarrow> Panic
           | Some net \<Rightarrow>
               (case NetworkMetadata_Interface net of
                  [] \<Rightarrow> Panic
                | i # _ \<Rightarrow>
                    let ips = NetworkData_IPAddress (NetworkInterface_IPv4 i)
                    in if length ips < n + 1
                       then Ret (Inl (Errorf (''IP address #'' @ Itoa (int n) @ '' not found (addresses: '' @
                                              pretty ips @ '')'')))
                       else Ret (Inr (IPAddress_PrivateIPAddress (ips ! n))))))"

text \<open>\<open>md k\<close> is what the \<open>k\<close>th request gives; the first is made when the client is.\<close>

(* src: pkg/cloud/azure.go 80-102 NewAzureCloudInfo *)
definition NewAzureCloudInfo ::
  "(IPAddress list \<Rightarrow> string) \<Rightarrow> (nat \<Rightarrow> go_error + InstanceMetadata) \<Rightarrow> go_error + CloudInfo" where
  "NewAzureCloudInfo pretty md =
     (case md 0 of
        Inl err \<Rightarrow> Inl err
      | Inr _ \<Rightarrow> Inr \<lparr>GetPodIPv4Address = azure_getIPv4Address pretty (md 1) 1,
                     GetMainIPv4Address = azure_getIPv4Address pretty (md 1) 0\<rparr>)"

section \<open>GCE\<close>

(* src: pkg/cloud/gce.go 28-31 metadataAliasCIDR *)
abbreviation (input) metadataAliasCIDR :: string where
  "metadataAliasCIDR \<equiv> ''instance/network-interfaces/0/ip-aliases/0''"

(* src: pkg/cloud/gce.go 28-31 metadataIPv4 *)
abbreviation (input) metadataIPv4 :: string where
  "metadataIPv4 \<equiv> ''instance/network-interfaces/0/ip''"

text \<open>The transport sets one header and passes the request on; headers are a map here.\<close>

(* src: pkg/cloud/gce.go 33-41 RoundTrip *)
definition itzo_RoundTrip ::
  "string \<Rightarrow> ((string \<rightharpoonup> string) \<Rightarrow> 'resp) \<Rightarrow> (string \<rightharpoonup> string) \<Rightarrow> 'resp" where
  "itzo_RoundTrip userAgent base header = base (header(''User-Agent'' \<mapsto> userAgent))"

(* src: pkg/cloud/gce.go 43-45 GceCloudInfo *)
record GceCloudInfo =
  gce_OnGCE :: bool
  gce_Get :: "string \<Rightarrow> go_error + string"

text \<open>
  \<open>cidr6\<close> is \<open>net.ParseCIDR\<close> on what is not IPv4; it gives the address of the network and 128 bits.
\<close>

(* src: pkg/cloud/gce.go 69-89 GetPodIPv4Address *)
definition gce_GetPodIPv4Address ::
  "(string \<Rightarrow> go_error + string) \<Rightarrow> GceCloudInfo \<Rightarrow> go_error + string" where
  "gce_GetPodIPv4Address cidr6 g =
     (case gce_Get g metadataAliasCIDR of
        Inl err \<Rightarrow> Inl err
      | Inr cidr \<Rightarrow>
          (case parse_cidr cidr of
             Some (ipNet, ones) \<Rightarrow> Inr (ip_string ipNet)
           | None \<Rightarrow>
               (case cidr6 cidr of
                  Inl err \<Rightarrow> Inl err
                | Inr _ \<Rightarrow> Inl (Errorf ''cannot get pod ip over an ip range''))))"

(* src: pkg/cloud/gce.go 65-67 GetMainIPv4Address *)
definition gce_GetMainIPv4Address :: "GceCloudInfo \<Rightarrow> go_error + string" where
  "gce_GetMainIPv4Address g = gce_Get g metadataIPv4"

(* src: pkg/cloud/gce.go 47-63 NewGCECloudInfo *)
definition NewGCECloudInfo ::
  "(string \<Rightarrow> go_error + string) \<Rightarrow> GceCloudInfo \<Rightarrow> go_error + CloudInfo" where
  "NewGCECloudInfo cidr6 g =
     (if \<not> gce_OnGCE g
      then Inl (Errorf ''instance is not running inside GCE, could not retrieve Node IP'')
      else Inr \<lparr>GetPodIPv4Address = Ret (gce_GetPodIPv4Address cidr6 g),
                GetMainIPv4Address = Ret (gce_GetMainIPv4Address g)\<rparr>)"

(* src: pkg/cloud/cloud.go 26-40 NewCloudInfo *)
definition NewCloudInfo ::
  "go_error + CloudInfo \<Rightarrow> go_error + CloudInfo \<Rightarrow> go_error + CloudInfo \<Rightarrow> go_error + CloudInfo" where
  "NewCloudInfo aws azure gce =
     (case aws of
        Inr c \<Rightarrow> Inr c
      | Inl _ \<Rightarrow>
     (case azure of
        Inr c \<Rightarrow> Inr c
      | Inl _ \<Rightarrow>
     (case gce of
        Inr c \<Rightarrow> Inr c
      | Inl _ \<Rightarrow> Inl (Errorf ''unable to identify cloud platform''))))"

section \<open>Properties\<close>

lemma find_member: "List.find P xs = Some x \<Longrightarrow> x \<in> set xs \<and> P x"
  by (auto simp: find_Some_iff)

lemma aws_pod_address:
  assumes "aws_GetPodIPv4Address a = Inr ip"
  shows "\<exists>m addrs. aws_GetMainIPv4Address a = Inr m \<and> ip \<noteq> m \<and> ip \<in> set (Fields addrs) \<and>
     (\<exists>mac. aws_GetMetadata a (metadataMACPath @ mac @ metadataIPv4s) = Inr addrs)"
proof -
  obtain m macs addrs where "aws_GetMetadata a metadataLocalIP = Inr m"
      "aws_GetMetadata a (metadataMACPath @ Fields macs ! 0 @ metadataIPv4s) = Inr addrs"
      "List.find (\<lambda>addr. addr \<noteq> m) (Fields addrs) = Some ip"
    using assms
    by (simp add: aws_GetPodIPv4Address_def Let_def split: sum.splits if_splits option.splits)
  then show ?thesis
    using find_member [of "\<lambda>addr. addr \<noteq> m" "Fields addrs" ip] unfolding aws_GetMainIPv4Address_def
    by (intro exI [where x = m] exI [where x = addrs] conjI exI [where x = "Fields macs ! 0"]) simp_all
qed

text \<open>The message of the error dereferences what the test has found to be missing.\<close>

lemma azure_panics:
  "azure_getIPv4Address pretty md n = Panic \<longleftrightarrow>
     (\<exists>metadata. md = Inr metadata \<and>
        (InstanceMetadata_Network metadata = None \<or>
         (\<exists>net. InstanceMetadata_Network metadata = Some net \<and> NetworkMetadata_Interface net = [])))"
  by (auto simp: azure_getIPv4Address_def Let_def split: sum.splits option.splits list.splits)

text \<open>The pod's address on GCE is that of the network of the alias, whatever the address in it.\<close>

lemma gce_pod_network:
  assumes "gce_Get g metadataAliasCIDR = Inr cidr" "parse_cidr cidr = Some (net, n)"
  shows "gce_GetPodIPv4Address cidr6 g = Inr (ip_string net) \<and> net AND net_mask n = net"
  using assms
  by (auto simp: gce_GetPodIPv4Address_def parse_cidr_def Let_def and.assoc split: if_splits)

end
