(* ===== verification/Pod_Net.thy ===== *)
theory Pod_Net
  imports Os_World Cloud
begin

text \<open>
  \<open>pkg/net\<close>: the network namespace of the pod, its pair of links, and the rules that masquerade its
  traffic.  A call to netlink, netns, sysctl or \<open>net\<close> is logged with the namespace in which the
  thread makes it and answered by the environment; the state keeps the namespace of the thread, which
  \<open>netns.Set\<close> changes.  \<open>iptables\<close> is an interface whose implementation is a parameter.
\<close>

section \<open>The network as the code sees it\<close>

text \<open>What the code reads of \<open>net.Interface\<close> and of \<open>netlink.Link\<close>.\<close>

record Nic =
  Nic_Name :: string
  Nic_Flags :: "64 word"

record Link_Attrs =
  Link_Name :: string
  Link_Index :: int
  Link_HardwareAddr :: string

text \<open>An address or a route: \<open>net.ParseIP\<close> gives nil on what is not an address.\<close>

record Route =
  Route_LinkIndex :: int
  Route_IP :: "32 word option"
  Route_Ones :: nat
  Route_ScopeLink :: bool
  Route_Gw :: "32 word option"

datatype net_call =
    Netns_GetFromPid
  | Netns_GetFromName string
  | Netns_Set int
  | Netns_Close int
  | Net_Run_Cloned "string list"
  | Net_MkdirAll string nat
  | Net_CreateFile string
  | Link_Add string string
  | Link_ByName string
  | Link_SetUp Link_Attrs
  | Link_SetNsFd Link_Attrs int
  | Route_Add Route
  | Addr_Add Link_Attrs "32 word option" nat
  | Neigh_Add int "32 word option" string
  | Sysctl_Set string string
  | Net_Interfaces
  | Nic_Addrs string

text \<open>
  The answers: \<open>Link_Add\<close> also gives the attributes of the new link, which the library fills in.
\<close>

record net_reply =
  nr_err :: error
  nr_handle :: int
  nr_link :: Link_Attrs
  nr_nics :: "Nic list"
  nr_addrs :: "string list option"

type_synonym net_log = "(int \<times> net_call) list"

record net_os =
  net_ns :: int
  net_env :: "net_log \<Rightarrow> net_call \<Rightarrow> net_reply"
  net_log :: net_log

definition net_do :: "net_call \<Rightarrow> ('a net_os_scheme, net_reply) state" where
  "net_do c = State (\<lambda>w. (net_env w (net_log w) c, w\<lparr>net_log := net_log w @ [(net_ns w, c)]\<rparr>))"

definition net_err :: "net_call \<Rightarrow> ('a net_os_scheme, error) state" where
  "net_err c = do { r \<leftarrow> net_do c; return (nr_err r) }"

definition netns_Set :: "int \<Rightarrow> ('a net_os_scheme, error) state" where
  "netns_Set ns = do {
     err \<leftarrow> net_err (Netns_Set ns);
     if err = None then do { modify (\<lambda>w. w\<lparr>net_ns := ns\<rparr>); return None } else return err }"

lemma result_net_do [simp]: "result (net_do c) w = net_env w (net_log w) c"
  by (simp add: net_do_def result_def)

lemma final_net_do [simp]: "final (net_do c) w = w\<lparr>net_log := net_log w @ [(net_ns w, c)]\<rparr>"
  by (simp add: net_do_def final_def)

lemma result_net_err [simp]: "result (net_err c) w = nr_err (net_env w (net_log w) c)"
  by (simp add: net_err_def)

lemma final_net_err [simp]: "final (net_err c) w = w\<lparr>net_log := net_log w @ [(net_ns w, c)]\<rparr>"
  by (simp add: net_err_def)

section \<open>The primary interface\<close>

abbreviation (input) FlagUp :: "64 word" where "FlagUp \<equiv> 1"
abbreviation (input) FlagLoopback :: "64 word" where "FlagLoopback \<equiv> 4"
abbreviation (input) FlagPointToPoint :: "64 word" where "FlagPointToPoint \<equiv> 8"

text \<open>
  \<open>ParseIP\<close> knows the dotted form and, by \<open>parse6\<close>, that of IPv6, which has no slash either.  The
  tests of the code are false on nil.
\<close>

definition usable_ip :: "(string \<Rightarrow> 128 word option) \<Rightarrow> string \<Rightarrow> bool" where
  "usable_ip parse6 s =
     (if CHR ''/'' \<in> set s then True
      else case parse_ip s of
        Some ip \<Rightarrow> \<not> (drop_bit 24 ip = 127 \<or> drop_bit 28 ip = 14 \<or> ip = 0)
      | None \<Rightarrow>
          (case parse6 s of
             Some ip \<Rightarrow> \<not> (ip = 1 \<or> drop_bit 120 ip = 255 \<or> ip = 0)
           | None \<Rightarrow> True))"

(* src: pkg/net/netif.go 32-36 GetPrimaryNetworkInterface *)
definition nic_skipped :: "Nic \<Rightarrow> bool" where
  "nic_skipped nic \<longleftrightarrow>
     (Nic_Flags nic AND FlagUp \<noteq> 1 \<or> Nic_Flags nic AND FlagLoopback \<noteq> 0
      \<or> Nic_Flags nic AND FlagPointToPoint \<noteq> 0)"

(* src: pkg/net/netif.go 31-55 GetPrimaryNetworkInterface *)
fun nic_loop ::
  "(string \<Rightarrow> 128 word option) \<Rightarrow> Nic list \<Rightarrow> ('a net_os_scheme, go_error + string) state" where
  "nic_loop parse6 [] = return (Inl (Errorf ''No usable network interface found''))"
| "nic_loop parse6 (nic # nics) =
     (if nic_skipped nic then nic_loop parse6 nics
      else do {
        r \<leftarrow> net_do (Nic_Addrs (Nic_Name nic));
        case nr_err r of
          Some e \<Rightarrow> return (Inl (errorf (''Getting IP addresses from '' @ Nic_Name nic) e))
        | None \<Rightarrow>
            (case nr_addrs r of
               None \<Rightarrow> nic_loop parse6 nics
             | Some addrs \<Rightarrow>
                 if list_ex (usable_ip parse6) addrs then return (Inr (Nic_Name nic))
                 else nic_loop parse6 nics) })"

(* src: pkg/net/netif.go 26-56 GetPrimaryNetworkInterface *)
definition GetPrimaryNetworkInterface ::
  "(string \<Rightarrow> 128 word option) \<Rightarrow> ('a net_os_scheme, go_error + string) state" where
  "GetPrimaryNetworkInterface parse6 = do {
     r \<leftarrow> net_do Net_Interfaces;
     case nr_err r of
       Some e \<Rightarrow> return (Inl (errorf ''Could not get interfaces'' e))
     | None \<Rightarrow> nic_loop parse6 (nr_nics r) }"

section \<open>Namespaces\<close>

(* src: pkg/net/ns.go 34-38 NetnsPath *)
abbreviation (input) NetnsPath :: string where "NetnsPath \<equiv> ''/var/run/netns''"

(* src: pkg/net/ns.go 34-38 Veth0 *)
abbreviation (input) Veth0 :: string where "Veth0 \<equiv> ''veth0''"

(* src: pkg/net/ns.go 34-38 Veth1 *)
abbreviation (input) Veth1 :: string where "Veth1 \<equiv> ''veth1''"

(* src: pkg/net/ns.go 46-48 OSNetNamespacer *)
record OSNetNamespacer =
  NSName :: string

(* src: pkg/net/ns.go 50-54 NewOSNetNamespacer *)
definition NewOSNetNamespacer :: "string \<Rightarrow> OSNetNamespacer" where
  "NewOSNetNamespacer nsname = \<lparr>NSName = nsname\<rparr>"

(* src: pkg/net/ns.go 59-76 Create *)
definition ns_Create :: "OSNetNamespacer \<Rightarrow> ('a net_os_scheme, error) state" where
  "ns_Create n = do {
     net_err (Net_MkdirAll NetnsPath 448);
     let nspath = filepath_Join [NetnsPath, NSName n];
     or_return (net_err (Net_CreateFile nspath)) id
    (or_return (net_err (Net_Run_Cloned [''mount'', ''--bind'', ''/proc/self/ns/net'', nspath]))
       (errorf ''failed to start process for pod namespace'')
    (return None)) }"

(* src: pkg/net/ns.go 78-92 withNetNamespace *)
definition withNetNamespace ::
  "int \<Rightarrow> ('a net_os_scheme, error) state \<Rightarrow> ('a net_os_scheme, error) state" where
  "withNetNamespace ns cb = do {
     old \<leftarrow> net_do Netns_GetFromPid;
     case nr_err old of
       Some e \<Rightarrow> return (Some (errorf ''getting old net NS'' e))
     | None \<Rightarrow> do {
         err \<leftarrow> netns_Set ns;
         case err of
           Some e \<Rightarrow> do {
             net_err (Netns_Close (nr_handle old));
             return (Some (errorf ''setting new net NS'' e)) }
         | None \<Rightarrow> do {
             res \<leftarrow> cb;
             netns_Set (nr_handle old);
             net_err (Netns_Close (nr_handle old));
             return res } } }"

(* src: pkg/net/ns.go 95-102 WithNetNamespace *)
definition WithNetNamespace ::
  "OSNetNamespacer \<Rightarrow> ('a net_os_scheme, error) state \<Rightarrow> ('a net_os_scheme, error) state" where
  "WithNetNamespace n cb = do {
     ns \<leftarrow> net_do (Netns_GetFromName (NSName n));
     case nr_err ns of
       Some e \<Rightarrow> return (Some (errorf (''getting net NS from '' @ NSName n) e))
     | None \<Rightarrow> do {
         res \<leftarrow> withNetNamespace (nr_handle ns) cb;
         net_err (Netns_Close (nr_handle ns));
         return res } }"

definition link_by_name ::
  "string \<Rightarrow> (go_error \<Rightarrow> go_error) \<Rightarrow> (Link_Attrs \<Rightarrow> ('a net_os_scheme, error) state) \<Rightarrow>
   ('a net_os_scheme, error) state" where
  "link_by_name name wrap k = do {
     r \<leftarrow> net_do (Link_ByName name);
     case nr_err r of Some e \<Rightarrow> return (Some (wrap e)) | None \<Rightarrow> k (nr_link r) }"

(* src: pkg/net/ns.go 145-205 CreateVeth *)
definition veth_pod_end ::
  "(Link_Attrs \<Rightarrow> string) \<Rightarrow> OSNetNamespacer \<Rightarrow> string \<Rightarrow> Link_Attrs \<Rightarrow> ('a net_os_scheme, error) state"
  where
  "veth_pod_end pretty n ipaddr veth0 =
     link_by_name ''lo'' (errorf (''can't find lo in namespace '' @ NSName n)) (\<lambda>lo.
       or_return (net_err (Link_SetUp lo)) (errorf (''can't bring lo up in '' @ NSName n))
      (link_by_name Veth1 (errorf (''can't find '' @ Veth1 @ '' in namespace '' @ NSName n)) (\<lambda>veth1.
         or_return (net_err (Link_SetUp veth1))
           (errorf (''can't bring '' @ Veth1 @ '' up in '' @ NSName n))
        (or_return (net_err (Addr_Add veth1 (parse_ip ipaddr) 32))
           (errorf (''can't add IP address '' @ ipaddr @ '' to '' @ pretty veth1))
        (or_return (net_err (Route_Add \<lparr>Route_LinkIndex = Link_Index veth1,
             Route_IP = parse_ip ''169.254.1.1'', Route_Ones = 32, Route_ScopeLink = True,
             Route_Gw = None\<rparr>))
           (errorf ''can't add 169.254.1.1 route'')
        (or_return (net_err (Route_Add \<lparr>Route_LinkIndex = Link_Index veth1,
             Route_IP = parse_ip ''0.0.0.0'', Route_Ones = 0, Route_ScopeLink = False,
             Route_Gw = parse_ip ''169.254.1.1''\<rparr>))
           (errorf (''can't add default '' @ Veth1 @ '' route''))
        (or_return (net_err (Neigh_Add (Link_Index veth1) (parse_ip ''169.254.1.1'')
             (Link_HardwareAddr veth0)))
           (errorf (''can't add arp '' @ Veth0 @ '' entry''))
        (return None))))))))"

(* src: pkg/net/ns.go 111-208 CreateVeth *)
definition veth_setup ::
  "(Link_Attrs \<Rightarrow> string) \<Rightarrow> OSNetNamespacer \<Rightarrow> string \<Rightarrow> int \<Rightarrow> ('a net_os_scheme, error) state" where
  "veth_setup pretty n ipaddr ns = do {
     veth \<leftarrow> net_do (Link_Add Veth0 Veth1);
     or_return (return (nr_err veth)) (errorf ''can't create veth pair'')
    (link_by_name Veth0 (errorf (''can't find '' @ Veth0)) (\<lambda>veth0.
     link_by_name Veth1 (errorf (''can't find '' @ Veth1)) (\<lambda>peer.
       or_return (net_err (Link_SetUp (nr_link veth))) (errorf (''can't bring '' @ Veth0 @ '' up''))
      (or_return (net_err (Route_Add \<lparr>Route_LinkIndex = Link_Index (nr_link veth),
           Route_IP = parse_ip ipaddr, Route_Ones = 32, Route_ScopeLink = False, Route_Gw = None\<rparr>))
         (errorf (''can't add '' @ ipaddr @ '' '' @ Veth0 @ '' route''))
      (or_return (net_err (Link_SetNsFd peer ns))
         (errorf (''can't move '' @ Veth1 @ '' to '' @ NSName n))
      (withNetNamespace ns (veth_pod_end pretty n ipaddr veth0))))))) }"

(* src: pkg/net/ns.go 105-209 CreateVeth *)
definition CreateVeth ::
  "(Link_Attrs \<Rightarrow> string) \<Rightarrow> OSNetNamespacer \<Rightarrow> string \<Rightarrow> ('a net_os_scheme, error) state" where
  "CreateVeth pretty n ipaddr = do {
     ns \<leftarrow> net_do (Netns_GetFromName (NSName n));
     case nr_err ns of
       Some e \<Rightarrow> return (Some e)
     | None \<Rightarrow> do {
         res \<leftarrow> veth_setup pretty n ipaddr (nr_handle ns);
         net_err (Netns_Close (nr_handle ns));
         return res } }"

(* src: pkg/net/ns.go 40-44 NetNamespacer *)
record 'w NetNamespacer =
  nn_Create :: "('w, error) state"
  nn_WithNetNamespace :: "('w, error) state \<Rightarrow> ('w, error) state"
  nn_CreateVeth :: "string \<Rightarrow> ('w, error) state"

(* src: pkg/net/ns.go 211-228 NoopNetNamespacer *)
definition NoopNetNamespacer :: "'w NetNamespacer" where
  "NoopNetNamespacer = \<lparr>nn_Create = return None, nn_WithNetNamespace = (\<lambda>cb. cb),
     nn_CreateVeth = (\<lambda>ipaddr. return None)\<rparr>"

definition os_NetNamespacer ::
  "(Link_Attrs \<Rightarrow> string) \<Rightarrow> OSNetNamespacer \<Rightarrow> 'a net_os_scheme NetNamespacer" where
  "os_NetNamespacer pretty n = \<lparr>nn_Create = ns_Create n, nn_WithNetNamespace = WithNetNamespace n,
     nn_CreateVeth = CreateVeth pretty n\<rparr>"

section \<open>Masquerading and forwarding\<close>

text \<open>The operations of \<open>iptables.Interface\<close> that the code calls; the boolean says that the chain or rule was there.\<close>

record 'w iptables_Interface =
  EnsureChain :: "string \<Rightarrow> string \<Rightarrow> ('w, bool \<times> error) state"
  FlushChain :: "string \<Rightarrow> string \<Rightarrow> ('w, error) state"
  EnsureRule :: "string \<Rightarrow> string \<Rightarrow> string \<Rightarrow> string list \<Rightarrow> ('w, bool \<times> error) state"

abbreviation (input) TableNAT :: string where "TableNAT \<equiv> ''nat''"
abbreviation (input) ChainPostrouting :: string where "ChainPostrouting \<equiv> ''POSTROUTING''"
abbreviation (input) ipt_Append :: string where "ipt_Append \<equiv> ''-A''"

(* src: pkg/net/masq.go 21-23 podMasqChain *)
abbreviation (input) podMasqChain :: string where "podMasqChain \<equiv> ''POD_MASQ_CHAIN''"

definition snd_err :: "('w, bool \<times> error) state \<Rightarrow> ('w, error) state" where
  "snd_err m = do { r \<leftarrow> m; return (snd r) }"

(* src: pkg/net/masq.go 53-70 EnsurePodMasq *)
definition pod_masq_rules :: "string \<Rightarrow> string \<Rightarrow> string list list" where
  "pod_masq_rules mainNic podIP =
     [[''!'', ''-o'', mainNic, ''-j'', ''RETURN''],
      [''!'', ''-s'', podIP, ''-j'', ''RETURN''],
      [''-d'', ''10.0.0.0/8'', ''-j'', ''RETURN''],
      [''-d'', ''172.16.0.0/12'', ''-j'', ''RETURN''],
      [''-d'', ''192.168.0.0/16'', ''-j'', ''RETURN''],
      [''-j'', ''MASQUERADE'']]"

(* src: pkg/net/masq.go 44-71 EnsurePodMasq *)
definition masq_chain ::
  "'w iptables_Interface \<Rightarrow> string \<Rightarrow> string \<Rightarrow> ('w, error) state" where
  "masq_chain ipt mainNic podIP =
     or_return (snd_err (EnsureChain ipt TableNAT podMasqChain)) id
    (or_return (FlushChain ipt TableNAT podMasqChain) id
    (or_return (snd_err (EnsureRule ipt ipt_Append TableNAT ChainPostrouting [''-j'', podMasqChain])) id
    (for_err (\<lambda>r. snd_err (EnsureRule ipt ipt_Append TableNAT podMasqChain r))
       (pod_masq_rules mainNic podIP))))"

(* src: pkg/net/masq.go 36-72 EnsurePodMasq *)
definition EnsurePodMasq ::
  "(string \<Rightarrow> 128 word option) \<Rightarrow> 'a net_os_scheme iptables_Interface \<Rightarrow> string \<Rightarrow> string \<Rightarrow>
   ('a net_os_scheme, error) state" where
  "EnsurePodMasq parse6 ipt mainNic podIP =
     (if mainNic = ''''
      then do {
        r \<leftarrow> GetPrimaryNetworkInterface parse6;
        case r of Inl e \<Rightarrow> return (Some e) | Inr nic \<Rightarrow> masq_chain ipt nic podIP }
      else masq_chain ipt mainNic podIP)"

(* src: pkg/net/forwarding.go 21-23 EnableForwarding *)
definition EnableForwarding :: "('a net_os_scheme, error) state" where
  "EnableForwarding = net_err (Sysctl_Set ''net.ipv4.ip_forward'' ''1'')"

section \<open>The network of the pod\<close>

(* src: pkg/net/pod.go 31-33 PodNetNamespaceName *)
abbreviation (input) PodNetNamespaceName :: string where "PodNetNamespaceName \<equiv> ''pod''"

(* src: pkg/net/pod.go 35-66 setupPodNetwork *)
definition setupPodNetwork ::
  "(string \<Rightarrow> 128 word option) \<Rightarrow> (Link_Attrs \<Rightarrow> string) \<Rightarrow> 'a net_os_scheme iptables_Interface \<Rightarrow>
   string \<Rightarrow> ('a net_os_scheme, error) state" where
  "setupPodNetwork parse6 pretty ipt podIP = do {
     let nser = os_NetNamespacer pretty (NewOSNetNamespacer PodNetNamespaceName);
     netIf \<leftarrow> GetPrimaryNetworkInterface parse6;
     case netIf of
       Inl e \<Rightarrow> return (Some e)
     | Inr nic \<Rightarrow>
         or_return (EnsurePodMasq parse6 ipt nic podIP) id
        (or_return EnableForwarding id
        (or_return (nn_Create nser) id
        (or_return (nn_CreateVeth nser podIP) id
        (return None)))) }"

text \<open>\<open>cloud\<close> is what \<open>NewCloudInfo\<close> gives; a panic of the metadata client is one of the caller.\<close>

(* src: pkg/net/pod.go 68-86 SetupNetNamespace *)
definition SetupNetNamespace ::
  "(string \<Rightarrow> 128 word option) \<Rightarrow> (Link_Attrs \<Rightarrow> string) \<Rightarrow> 'a net_os_scheme iptables_Interface \<Rightarrow>
   go_error + CloudInfo \<Rightarrow> string \<Rightarrow>
   ('a net_os_scheme, (go_error + string \<times> string \<times> string) outcome) state" where
  "SetupNetNamespace parse6 pretty ipt cloud podIP =
     (case cloud of
        Inl e \<Rightarrow> return (Ret (Inl (errorf ''creating metadata client'' e)))
      | Inr cloudInfo \<Rightarrow>
     (case GetMainIPv4Address cloudInfo of
        Panic \<Rightarrow> return Panic
      | Ret (Inl e) \<Rightarrow> return (Ret (Inl e))
      | Ret (Inr mainIP) \<Rightarrow>
          if podIP = '''' then return (Ret (Inr (mainIP, mainIP, '''')))
          else do {
            err \<leftarrow> setupPodNetwork parse6 pretty ipt podIP;
            case err of
              Some e \<Rightarrow> return (Ret (Inl (errorf ''setting up pod network'' e)))
            | None \<Rightarrow> return (Ret (Inr (mainIP, podIP, PodNetNamespaceName))) }))"

section \<open>Properties of the primary interface\<close>

text \<open>
  An address of an interface is written with its prefix length, so \<open>ParseIP\<close> gives nil and no address
  is ever found to be a loopback, multicast or unspecified one.
\<close>

definition usable_nic :: "('a net_os_scheme \<Rightarrow> Nic \<Rightarrow> bool)" where
  "usable_nic w nic \<longleftrightarrow> \<not> nic_skipped nic \<and>
     (\<exists>as. as \<noteq> [] \<and> (\<forall>l. nr_addrs (net_env w l (Nic_Addrs (Nic_Name nic))) = Some as))"

definition addrs_answered :: "'a net_os_scheme \<Rightarrow> (string \<Rightarrow> string list option) \<Rightarrow> bool" where
  "addrs_answered w addrs \<longleftrightarrow>
     (\<forall>l nic. nr_err (net_env w l (Nic_Addrs nic)) = None \<and>
              nr_addrs (net_env w l (Nic_Addrs nic)) = addrs nic)"

lemma addrs_answered_log [simp]: "addrs_answered (w\<lparr>net_log := l\<rparr>) addrs = addrs_answered w addrs"
  by (simp add: addrs_answered_def)

lemma nic_loop_result:
  assumes "addrs_answered w addrs"
    "\<forall>nic as. addrs nic = Some as \<longrightarrow> list_all (\<lambda>a. CHR ''/'' \<in> set a) as"
  shows "result (nic_loop parse6 nics) w =
     (case List.find (\<lambda>nic. \<not> nic_skipped nic \<and> addrs (Nic_Name nic) \<notin> {None, Some []}) nics of
        Some nic \<Rightarrow> Inr (Nic_Name nic)
      | None \<Rightarrow> Inl (Errorf ''No usable network interface found''))"
  using assms
proof (induction nics arbitrary: w)
  case (Cons nic nics)
  have ex: "list_ex (usable_ip parse6) as \<longleftrightarrow> as \<noteq> []" if "addrs (Nic_Name nic) = Some as" for as
    using Cons.prems(2) [THEN spec [where x = "Nic_Name nic"]] that
    by (cases as) (auto simp: usable_ip_def)
  show ?case
    using Cons by (auto simp: addrs_answered_def ex split: option.splits)
qed simp

lemma primary_interface_first:
  assumes "addrs_answered w addrs"
    "\<forall>nic as. addrs nic = Some as \<longrightarrow> list_all (\<lambda>a. CHR ''/'' \<in> set a) as"
    "net_env w (net_log w) Net_Interfaces = r" "nr_err r = None"
  shows "result (GetPrimaryNetworkInterface parse6) w =
     (case List.find (\<lambda>nic. \<not> nic_skipped nic \<and> addrs (Nic_Name nic) \<notin> {None, Some []}) (nr_nics r) of
        Some nic \<Rightarrow> Inr (Nic_Name nic)
      | None \<Rightarrow> Inl (Errorf ''No usable network interface found''))"
  using assms nic_loop_result [of "w\<lparr>net_log := net_log w @ [(net_ns w, Net_Interfaces)]\<rparr>" addrs parse6]
  by (simp add: GetPrimaryNetworkInterface_def)

section \<open>Properties of namespaces\<close>

text \<open>
  What the code relies on: the handle of the process names the namespace in which its threads run,
  and a thread can go back to it.
\<close>

definition can_return :: "(net_log \<Rightarrow> net_call \<Rightarrow> net_reply) \<Rightarrow> int \<Rightarrow> bool" where
  "can_return env n \<longleftrightarrow>
     (\<forall>l. nr_err (env l (Netns_Set n)) = None \<and>
          (nr_err (env l Netns_GetFromPid) = None \<longrightarrow> nr_handle (env l Netns_GetFromPid) = n))"

text \<open>In namespace \<open>n\<close> a computation only makes calls of the given kind, and ends there.\<close>

definition in_ns ::
  "(net_log \<Rightarrow> net_call \<Rightarrow> net_reply) \<Rightarrow> int \<Rightarrow> (int \<times> net_call \<Rightarrow> bool) \<Rightarrow>
   ('a net_os_scheme, 'b) state \<Rightarrow> bool" where
  "in_ns env n P m \<longleftrightarrow>
     (\<forall>w. net_env w = env \<and> net_ns w = n \<longrightarrow>
        (\<exists>cs. final m w = w\<lparr>net_log := net_log w @ cs\<rparr> \<and> list_all P cs))"

named_theorems ns_intros \<open>rules for \<open>in_ns\<close>\<close>

lemma in_nsI:
  "(\<And>w. net_env w = env \<Longrightarrow> net_ns w = n \<Longrightarrow>
     \<exists>cs. final m w = w\<lparr>net_log := net_log w @ cs\<rparr> \<and> list_all P cs) \<Longrightarrow> in_ns env n P m"
  by (simp add: in_ns_def)

lemma in_nsD:
  "in_ns env n P m \<Longrightarrow> net_env w = env \<Longrightarrow> net_ns w = n \<Longrightarrow>
     \<exists>cs. final m w = w\<lparr>net_log := net_log w @ cs\<rparr> \<and> list_all P cs"
  by (simp add: in_ns_def)

lemma in_ns_return [ns_intros]: "in_ns env n P (return x)"
  by (rule in_nsI) (rule exI [where x = "[]"], simp)

lemma in_ns_net_do [ns_intros]: "P (n, c) \<Longrightarrow> in_ns env n P (net_do c)"
  by (rule in_nsI) auto

lemma in_ns_net_err [ns_intros]: "P (n, c) \<Longrightarrow> in_ns env n P (net_err c)"
  by (rule in_nsI) auto

lemma in_ns_bind [ns_intros]:
  assumes "in_ns env n P m" "\<And>x. in_ns env n P (f x)"
  shows "in_ns env n P (State_Monad.bind m f)"
proof (rule in_nsI)
  fix w :: "'a net_os_scheme"
  assume w: "net_env w = env" "net_ns w = n"
  obtain as where as: "final m w = w\<lparr>net_log := net_log w @ as\<rparr>" "list_all P as"
    using in_nsD [OF assms(1) w] by blast
  obtain bs where bs: "final (f (result m w)) (final m w) =
      (final m w)\<lparr>net_log := net_log (final m w) @ bs\<rparr>" "list_all P bs"
    using in_nsD [OF assms(2) [of "result m w"], of "final m w"] as w by auto
  show "\<exists>cs. final (State_Monad.bind m f) w = w\<lparr>net_log := net_log w @ cs\<rparr> \<and> list_all P cs"
    using as bs by (intro exI [where x = "as @ bs"]) simp
qed

lemma in_ns_option [ns_intros]:
  "(\<And>e. x = Some e \<Longrightarrow> in_ns env n P (f e)) \<Longrightarrow> (x = None \<Longrightarrow> in_ns env n P m) \<Longrightarrow>
   in_ns env n P (case x of Some e \<Rightarrow> f e | None \<Rightarrow> m)"
  by (cases x) simp_all

lemma in_ns_or_return [ns_intros]:
  "in_ns env n P m \<Longrightarrow> in_ns env n P k \<Longrightarrow> in_ns env n P (or_return m wrap k)"
  unfolding or_return_def by (intro ns_intros)

lemma in_ns_link_by_name [ns_intros]:
  "P (n, Link_ByName name) \<Longrightarrow> (\<And>l. in_ns env n P (k l)) \<Longrightarrow> in_ns env n P (link_by_name name wrap k)"
  unfolding link_by_name_def by (intro ns_intros)

text \<open>The callback runs in the other namespace; afterwards the thread is back.\<close>

lemma withNetNamespace_in_ns [ns_intros]:
  assumes "can_return env n" "in_ns env h P cb"
    "P (n, Netns_GetFromPid)" "P (n, Netns_Set h)" "P (h, Netns_Set n)" "P (n, Netns_Close n)"
  shows "in_ns env n P (withNetNamespace h cb)"
proof (rule in_nsI)
  fix w :: "'a net_os_scheme"
  assume w: "net_env w = env" "net_ns w = n"
  let ?l = "net_log w" and ?l1 = "net_log w @ [(n, Netns_GetFromPid)]"
  have pid: "nr_handle (env ?l Netns_GetFromPid) = n" if "nr_err (env ?l Netns_GetFromPid) = None"
    using assms(1) that by (simp add: can_return_def)
  have home: "nr_err (env l (Netns_Set n)) = None" for l
    using assms(1) by (simp add: can_return_def)
  consider (no_pid) "nr_err (env ?l Netns_GetFromPid) \<noteq> None"
    | (no_set) "nr_err (env ?l Netns_GetFromPid) = None" "nr_err (env ?l1 (Netns_Set h)) \<noteq> None"
    | (entered) "nr_err (env ?l Netns_GetFromPid) = None" "nr_err (env ?l1 (Netns_Set h)) = None"
    by blast
  then show "\<exists>cs. final (withNetNamespace h cb) w = w\<lparr>net_log := net_log w @ cs\<rparr> \<and> list_all P cs"
  proof cases
    case no_pid
    then show ?thesis
      using w assms by (auto simp: withNetNamespace_def intro!: exI [where x = "[(n, Netns_GetFromPid)]"])
  next
    case no_set
    then show ?thesis
      using w assms pid
      by (auto simp: withNetNamespace_def netns_Set_def
          intro!: exI [where x = "[(n, Netns_GetFromPid), (n, Netns_Set h), (n, Netns_Close n)]"])
  next
    case entered
    let ?w2 = "w\<lparr>net_log := ?l1 @ [(n, Netns_Set h)], net_ns := h\<rparr>"
    obtain cs where cs: "final cb ?w2 = ?w2\<lparr>net_log := net_log ?w2 @ cs\<rparr>" "list_all P cs"
      using in_nsD [OF assms(2), of ?w2] w by auto
    have cb_log: "final cb (w\<lparr>net_log := net_log w @ [(n, Netns_GetFromPid), (n, Netns_Set h)],
        net_ns := h\<rparr>) =
        w\<lparr>net_log := net_log w @ [(n, Netns_GetFromPid), (n, Netns_Set h)] @ cs, net_ns := h\<rparr>"
      using cs(1) by (cases w) simp
    have end_log: "final (withNetNamespace h cb) w =
        w\<lparr>net_log := net_log w @ ([(n, Netns_GetFromPid), (n, Netns_Set h)] @ cs @
          [(h, Netns_Set n), (n, Netns_Close n)])\<rparr>"
      using entered w pid home by (simp add: withNetNamespace_def netns_Set_def cb_log)
    show ?thesis
      by (intro exI conjI, rule end_log) (simp add: cs(2) assms)
  qed
qed

text \<open>Which namespace each step of \<open>CreateVeth\<close> belongs to, for the host \<open>n\<close> and the pod \<open>h\<close>.\<close>

fun placed :: "int \<Rightarrow> int \<Rightarrow> int \<times> net_call \<Rightarrow> bool" where
  "placed n h (k, Link_Add a b) = (k = n)"
| "placed n h (k, Link_SetNsFd l fd) = (k = n \<and> fd = h)"
| "placed n h (k, Addr_Add l a m) = (k = h)"
| "placed n h (k, Neigh_Add i a m) = (k = h)"
| "placed n h (k, Route_Add r) =
     (k = (if Route_ScopeLink r \<or> Route_Gw r \<noteq> None then h else n))"
| "placed n h (k, Netns_Set x) = (k = n \<and> x = h \<or> k = h \<and> x = n)"
| "placed n h (k, c) = (k = n \<or> k = h)"

lemma gateway_parses: "parse_ip ''169.254.1.1'' \<noteq> None"
  by (simp add: parse_ip_def octet_def is_digit_def digits_val_def)

lemma veth_setup_in_ns:
  assumes "can_return env n"
  shows "in_ns env n (placed n h) (veth_setup pretty ns ipaddr h)"
  unfolding veth_setup_def veth_pod_end_def
  by (intro ns_intros assms) (simp_all add: gateway_parses)

lemma veth_placed:
  assumes "can_return (net_env w) (net_ns w)"
    "h = nr_handle (net_env w (net_log w) (Netns_GetFromName (NSName ns)))"
  shows "\<exists>cs. final (CreateVeth pretty ns ipaddr) w = w\<lparr>net_log := net_log w @ cs\<rparr> \<and>
     list_all (placed (net_ns w) h) cs"
proof -
  let ?n = "net_ns w" and ?c = "(net_ns w, Netns_GetFromName (NSName ns))"
  let ?w1 = "w\<lparr>net_log := net_log w @ [?c]\<rparr>"
  obtain cs where cs: "final (veth_setup pretty ns ipaddr h) ?w1 = ?w1\<lparr>net_log := net_log ?w1 @ cs\<rparr>"
      "list_all (placed ?n h) cs"
    using in_nsD [OF veth_setup_in_ns [OF assms(1), of h pretty ns ipaddr], of ?w1] by auto
  show ?thesis
  proof (cases "nr_err (net_env w (net_log w) (Netns_GetFromName (NSName ns)))")
    case None
    then show ?thesis
      using cs assms(2) unfolding CreateVeth_def
      by (intro exI [where x = "?c # cs @ [(?n, Netns_Close h)]"]) simp
  next
    case (Some e)
    then show ?thesis
      unfolding CreateVeth_def by (intro exI [where x = "[?c]"]) simp
  qed
qed

section \<open>What the rules do to a packet\<close>

text \<open>
  The part of \<open>iptables(8)\<close> that the code uses: a rule is a list of matches, an exclamation mark negates
  the match after it, and \<open>-j\<close> names the target; the first rule that matches decides.
\<close>

record packet =
  pk_out :: string
  pk_src :: "32 word"
  pk_dst :: "32 word"

definition ipt_match :: "packet \<Rightarrow> string \<Rightarrow> string \<Rightarrow> bool" where
  "ipt_match p opt v =
     (if opt = ''-o'' then pk_out p = v
      else if opt = ''-s'' then parse_ip v = Some (pk_src p)
      else if opt = ''-d'' then
        (case parse_cidr v of None \<Rightarrow> False | Some (net, n) \<Rightarrow> pk_dst p AND net_mask n = net)
      else False)"

fun rule_target :: "packet \<Rightarrow> string list \<Rightarrow> string option" where
  "rule_target p (a # b # rest) =
     (if a = ''-j'' then Some b
      else if a = ''!''
      then (case rest of
              v # rest' \<Rightarrow> if ipt_match p b v then None else rule_target p rest'
            | [] \<Rightarrow> None)
      else if ipt_match p a b then rule_target p rest else None)"
| "rule_target p _ = None"

fun chain_verdict :: "packet \<Rightarrow> string list list \<Rightarrow> string option" where
  "chain_verdict p [] = None"
| "chain_verdict p (r # rs) =
     (case rule_target p r of Some t \<Rightarrow> Some t | None \<Rightarrow> chain_verdict p rs)"

text \<open>What the operations promise when they return no error, in terms of the chains of the table.\<close>

definition ipt_laws ::
  "'w iptables_Interface \<Rightarrow> ('w \<Rightarrow> string \<Rightarrow> string list list option) \<Rightarrow> bool" where
  "ipt_laws ipt tab \<longleftrightarrow>
     (\<forall>c w. snd (result (EnsureChain ipt TableNAT c) w) = None \<longrightarrow>
        tab (final (EnsureChain ipt TableNAT c) w) =
          (if tab w c = None then (tab w)(c \<mapsto> []) else tab w)) \<and>
     (\<forall>c w. result (FlushChain ipt TableNAT c) w = None \<longrightarrow>
        tab (final (FlushChain ipt TableNAT c) w) = (tab w)(c \<mapsto> [])) \<and>
     (\<forall>c r w. snd (result (EnsureRule ipt ipt_Append TableNAT c r) w) = None \<longrightarrow>
        (\<exists>rs. tab w c = Some rs \<and>
           tab (final (EnsureRule ipt ipt_Append TableNAT c r) w) =
             (tab w)(c \<mapsto> (if r \<in> set rs then rs else rs @ [r]))))"

section \<open>Private addresses\<close>

text \<open>RFC 1918.\<close>

definition private_ip :: "32 word \<Rightarrow> bool" where
  "private_ip ip \<longleftrightarrow> unat ip div 2 ^ 24 = 10 \<or> unat ip div 2 ^ 20 = 172 * 16 + 1
     \<or> unat ip div 2 ^ 16 = 192 * 256 + 168"

lemma and_net_mask:
  assumes "n \<le> 32"
  shows "ip AND net_mask n = push_bit (32 - n) (drop_bit (32 - n) ip)"
  using assms
  by (intro bit_word_eqI)
    (auto simp: net_mask_def bit_and_iff bit_push_bit_iff bit_drop_bit_eq bit_mask_iff)

lemma in_network:
  assumes "n \<le> 32" "c < 2 ^ n"
  shows "ip AND net_mask n = word_of_nat (c * 2 ^ (32 - n)) \<longleftrightarrow> unat ip div 2 ^ (32 - n) = c"
proof -
  let ?k = "32 - n"
  have ip: "take_bit 32 (unat ip) = unat ip"
    using unsigned_less [of ip] by (intro take_bit_nat_eq_self) simp
  have low: "unat ip div 2 ^ ?k * 2 ^ ?k < 2 ^ 32"
    using le_less_trans [OF div_times_less_eq_dividend unsigned_less [of ip]] by simp
  have "c * 2 ^ ?k < 2 ^ n * 2 ^ ?k"
    using assms(2) by simp
  also have "\<dots> = 2 ^ 32"
    using assms(1) by (simp flip: power_add)
  finally have c: "c * 2 ^ ?k < 2 ^ 32" .
  have "unat (ip AND net_mask n) = unat ip div 2 ^ ?k * 2 ^ ?k"
    using low ip unfolding and_net_mask [OF assms(1)]
    by (simp add: unsigned_push_bit_eq unsigned_drop_bit_eq push_bit_eq_mult [where 'a = nat]
        drop_bit_eq_div [where 'a = nat] take_bit_nat_eq_self)
  moreover have "unat (word_of_nat (c * 2 ^ ?k) :: 32 word) = c * 2 ^ ?k"
    using c unfolding unsigned_of_nat by (simp add: take_bit_nat_eq_self)
  ultimately show ?thesis
    by (metis mult_right_cancel power_not_zero unsigned_word_eqI zero_neq_numeral)
qed

lemma private_cidrs:
  "parse_cidr ''10.0.0.0/8'' = Some (word_of_nat (10 * 2 ^ 24), 8)"
  "parse_cidr ''172.16.0.0/12'' = Some (word_of_nat ((172 * 16 + 1) * 2 ^ 20), 12)"
  "parse_cidr ''192.168.0.0/16'' = Some (word_of_nat ((192 * 256 + 168) * 2 ^ 16), 16)"
  by (simp_all add: parse_cidr_def parse_ip_def octet_def is_digit_def digits_val_def net_mask_def
      Let_def mask_eq_exp_minus_1 push_bit_eq_mult)

lemma masq_verdict:
  "chain_verdict p (pod_masq_rules mainNic podIP) =
     Some (if pk_out p = mainNic \<and> parse_ip podIP = Some (pk_src p) \<and> \<not> private_ip (pk_dst p)
           then ''MASQUERADE'' else ''RETURN'')"
  using in_network [of 8 10 "pk_dst p"] in_network [of 12 "172 * 16 + 1" "pk_dst p"]
    in_network [of 16 "192 * 256 + 168" "pk_dst p"]
  by (simp add: pod_masq_rules_def ipt_match_def private_cidrs private_ip_def)

lemma ipt_FlushChainD:
  "ipt_laws ipt tab \<Longrightarrow> result (FlushChain ipt TableNAT c) w = None \<Longrightarrow>
   tab (final (FlushChain ipt TableNAT c) w) = (tab w)(c \<mapsto> [])"
  unfolding ipt_laws_def by blast

lemma ipt_EnsureRuleD:
  "ipt_laws ipt tab \<Longrightarrow> snd (result (EnsureRule ipt ipt_Append TableNAT c r) w) = None \<Longrightarrow>
   \<exists>rs. tab w c = Some rs \<and>
     tab (final (EnsureRule ipt ipt_Append TableNAT c r) w) =
       (tab w)(c \<mapsto> (if r \<in> set rs then rs else rs @ [r]))"
  unfolding ipt_laws_def by blast

lemma result_snd_err [simp]: "result (snd_err m) w = snd (result m w)"
  by (simp add: snd_err_def)

lemma final_snd_err [simp]: "final (snd_err m) w = final m w"
  by (simp add: snd_err_def)

lemma ensure_rules:
  assumes "ipt_laws ipt tab"
    "result (for_err (\<lambda>r. snd_err (EnsureRule ipt ipt_Append TableNAT c r)) rs) w = None"
    "tab w c = Some pre" "distinct (pre @ rs)"
  shows "tab (final (for_err (\<lambda>r. snd_err (EnsureRule ipt ipt_Append TableNAT c r)) rs) w) =
     (tab w)(c \<mapsto> pre @ rs)"
  using assms(2-)
proof (induction rs arbitrary: w pre)
  case Nil
  then show ?case by (simp add: fun_upd_idem)
next
  case (Cons r rs)
  let ?m = "EnsureRule ipt ipt_Append TableNAT c r"
  have ok: "snd (result ?m w) = None"
    using Cons.prems(1) by (simp split: option.splits)
  then have tab: "tab (final ?m w) = (tab w)(c \<mapsto> pre @ [r])"
    using ipt_EnsureRuleD [OF assms(1) ok] Cons.prems(2,3) by auto
  then show ?case
    using Cons.IH [of "final ?m w" "pre @ [r]"] Cons.prems ok
    by (simp add: fun_eq_iff)
qed

lemma masq_rules_distinct: "distinct (pod_masq_rules mainNic podIP)"
  by (simp add: pod_masq_rules_def)

lemma masq_chain_rules:
  assumes "ipt_laws ipt tab" "result (masq_chain ipt mainNic podIP) w = None"
  shows "tab (final (masq_chain ipt mainNic podIP) w) podMasqChain =
       Some (pod_masq_rules mainNic podIP)"
    "\<exists>rs. tab (final (masq_chain ipt mainNic podIP) w) ChainPostrouting = Some rs \<and>
       [''-j'', podMasqChain] \<in> set rs"
proof -
  let ?w1 = "final (EnsureChain ipt TableNAT podMasqChain) w"
  let ?w2 = "final (FlushChain ipt TableNAT podMasqChain) ?w1"
  let ?jump = "EnsureRule ipt ipt_Append TableNAT ChainPostrouting [''-j'', podMasqChain]"
  let ?w3 = "final ?jump ?w2"
  let ?rest = "for_err (\<lambda>r. snd_err (EnsureRule ipt ipt_Append TableNAT podMasqChain r))
    (pod_masq_rules mainNic podIP)"
  have oks: "snd (result (EnsureChain ipt TableNAT podMasqChain) w) = None"
      "result (FlushChain ipt TableNAT podMasqChain) ?w1 = None"
      "snd (result ?jump ?w2) = None" "result ?rest ?w3 = None"
    using assms(2) by (simp_all add: masq_chain_def or_return_None)
  have fin: "final (masq_chain ipt mainNic podIP) w = final ?rest ?w3"
    using oks by (simp add: masq_chain_def final_or_return)
  have w2: "tab ?w2 podMasqChain = Some []"
    using ipt_FlushChainD [OF assms(1) oks(2)] by simp
  obtain rs where rs: "tab ?w3 = (tab ?w2)(ChainPostrouting \<mapsto>
      (if [''-j'', podMasqChain] \<in> set rs then rs else rs @ [[''-j'', podMasqChain]]))"
    using ipt_EnsureRuleD [OF assms(1) oks(3)] by blast
  have w3: "tab ?w3 podMasqChain = Some []"
      "\<exists>rs. tab ?w3 ChainPostrouting = Some rs \<and> [''-j'', podMasqChain] \<in> set rs"
    using w2 unfolding rs by auto
  have "tab (final ?rest ?w3) = (tab ?w3)(podMasqChain \<mapsto> [] @ pod_masq_rules mainNic podIP)"
    using ensure_rules [where pre = "[]" and rs = "pod_masq_rules mainNic podIP" and w = ?w3,
        OF assms(1) oks(4) w3(1)] masq_rules_distinct
    by (simp only: append_Nil)
  then show "tab (final (masq_chain ipt mainNic podIP) w) podMasqChain =
       Some (pod_masq_rules mainNic podIP)"
    "\<exists>rs. tab (final (masq_chain ipt mainNic podIP) w) ChainPostrouting = Some rs \<and>
       [''-j'', podMasqChain] \<in> set rs"
    using w3(2) unfolding fin by simp_all
qed

text \<open>A table of chains that keeps the laws, for examples.\<close>

record ipt_os = net_os +
  ipt_table :: "string \<Rightarrow> string list list option"

definition nat_table :: "ipt_os iptables_Interface" where
  "nat_table = \<lparr>
     EnsureChain = (\<lambda>t c. do {
       old \<leftarrow> gets (\<lambda>w. ipt_table w c);
       modify (\<lambda>w. if old = None then w\<lparr>ipt_table := (ipt_table w)(c \<mapsto> [])\<rparr> else w);
       return (old \<noteq> None, None) }),
     FlushChain = (\<lambda>t c. do { modify (\<lambda>w. w\<lparr>ipt_table := (ipt_table w)(c \<mapsto> [])\<rparr>); return None }),
     EnsureRule = (\<lambda>a t c r. do {
       old \<leftarrow> gets (\<lambda>w. ipt_table w c);
       case old of
         None \<Rightarrow> return (False, Some (ErrOther ''No chain by that name''))
       | Some rs \<Rightarrow>
           if r \<in> set rs then return (True, None)
           else do {
             modify (\<lambda>w. w\<lparr>ipt_table := (ipt_table w)(c \<mapsto> rs @ [r])\<rparr>);
             return (False, None) } })\<rparr>"

lemma nat_table_laws: "ipt_laws nat_table ipt_table"
  by (auto simp: ipt_laws_def nat_table_def fun_upd_idem split: option.splits if_splits)

end
