(* ===== verification/String_Sets.thy ===== *)
theory String_Sets
  imports Containers "HOL-Library.List_Lexorder" "HOL-Library.Char_ord"
begin

text \<open>
  \<open>pkg/util/sets\<close>: sets of strings as maps to the empty struct.  Where the code ranges over a map,
  the order in which it does is an argument, as in \<open>Containers\<close>; the interface \<open>go_set\<close> is the
  algebra of finite sets, which the operations provide under every such order.
\<close>

section \<open>Operations\<close>

(* src: pkg/util/sets/empty.go 23-23 Empty *)
datatype Empty = Empty

(* src: pkg/util/sets/string.go 27-27 String *)
type_synonym String = "string \<rightharpoonup> Empty"

(* src: pkg/util/sets/string.go 49-53 Insert *)
definition set_Insert :: "string list \<Rightarrow> String \<Rightarrow> String" where
  "set_Insert items s = foldl (\<lambda>s item. s(item \<mapsto> Empty)) s items"

(* src: pkg/util/sets/string.go 30-34 NewString *)
definition NewString :: "string list \<Rightarrow> String" where
  "NewString items = set_Insert items Map.empty"

(* src: pkg/util/sets/string.go 38-46 StringKeySet *)
definition StringKeySet :: "string list \<Rightarrow> String" where
  "StringKeySet MapKeys = foldl (\<lambda>ret keyValue. set_Insert [keyValue] ret) Map.empty MapKeys"

(* src: pkg/util/sets/string.go 56-60 Delete *)
definition set_Delete :: "string list \<Rightarrow> String \<Rightarrow> String" where
  "set_Delete items s = foldl (\<lambda>s item. s(item := None)) s items"

(* src: pkg/util/sets/string.go 63-66 Has *)
definition Has :: "String \<Rightarrow> string \<Rightarrow> bool" where
  "Has s item \<longleftrightarrow> s item \<noteq> None"

(* src: pkg/util/sets/string.go 69-76 HasAll *)
fun HasAll :: "String \<Rightarrow> string list \<Rightarrow> bool" where
  "HasAll s [] = True"
| "HasAll s (item # items) = (if \<not> Has s item then False else HasAll s items)"

(* src: pkg/util/sets/string.go 79-86 HasAny *)
fun HasAny :: "String \<Rightarrow> string list \<Rightarrow> bool" where
  "HasAny s [] = False"
| "HasAny s (item # items) = (if Has s item then True else HasAny s items)"

(* src: pkg/util/sets/string.go 188-190 Len *)
definition set_Len :: "String \<Rightarrow> nat" where
  "set_Len s = card (dom s)"

text \<open>\<open>rng s\<close> is the order in which this run visits the keys of \<open>s\<close>.\<close>

(* src: pkg/util/sets/string.go 94-102 Difference *)
definition Difference :: "(String \<Rightarrow> string list) \<Rightarrow> String \<Rightarrow> String \<Rightarrow> String" where
  "Difference rng s s2 =
     foldl (\<lambda>res key. if \<not> Has s2 key then set_Insert [key] res else res) (NewString []) (rng s)"

(* src: pkg/util/sets/string.go 110-119 Union *)
definition set_Union :: "(String \<Rightarrow> string list) \<Rightarrow> String \<Rightarrow> String \<Rightarrow> String" where
  "set_Union rng s1 s2 =
     foldl (\<lambda>res key. set_Insert [key] res)
       (foldl (\<lambda>res key. set_Insert [key] res) (NewString []) (rng s1)) (rng s2)"

(* src: pkg/util/sets/string.go 126-142 Intersection *)
definition Intersection :: "(String \<Rightarrow> string list) \<Rightarrow> String \<Rightarrow> String \<Rightarrow> String" where
  "Intersection rng s1 s2 =
     (let (walk, other) = (if set_Len s1 < set_Len s2 then (s1, s2) else (s2, s1))
      in foldl (\<lambda>res key. if Has other key then set_Insert [key] res else res) (NewString [])
           (rng walk))"

(* src: pkg/util/sets/string.go 145-152 IsSuperset *)
definition IsSuperset :: "(String \<Rightarrow> string list) \<Rightarrow> String \<Rightarrow> String \<Rightarrow> bool" where
  "IsSuperset rng s1 s2 = HasAll s1 (rng s2)"

(* src: pkg/util/sets/string.go 157-159 Equal *)
definition set_Equal :: "(String \<Rightarrow> string list) \<Rightarrow> String \<Rightarrow> String \<Rightarrow> bool" where
  "set_Equal rng s1 s2 \<longleftrightarrow> set_Len s1 = set_Len s2 \<and> IsSuperset rng s1 s2"

(* src: pkg/util/sets/string.go 168-175 List *)
definition set_List :: "(String \<Rightarrow> string list) \<Rightarrow> String \<Rightarrow> string list" where
  "set_List rng s = sort (rng s)"

(* src: pkg/util/sets/string.go 178-185 PopAny *)
definition PopAny :: "(String \<Rightarrow> string list) \<Rightarrow> String \<Rightarrow> (string \<times> bool) \<times> String" where
  "PopAny rng s =
     (case rng s of key # _ \<Rightarrow> ((key, True), set_Delete [key] s) | [] \<Rightarrow> (('''', False), s))"

section \<open>The interface\<close>

locale go_set =
  fixes elems :: "'s \<Rightarrow> string set"
    and invar :: "'s \<Rightarrow> bool"
    and union inter diff :: "'s \<Rightarrow> 's \<Rightarrow> 's"
    and subset_of equal :: "'s \<Rightarrow> 's \<Rightarrow> bool"
  assumes elems_union: "invar s \<Longrightarrow> invar t \<Longrightarrow> elems (union s t) = elems s \<union> elems t"
    and elems_inter: "invar s \<Longrightarrow> invar t \<Longrightarrow> elems (inter s t) = elems s \<inter> elems t"
    and elems_diff: "invar s \<Longrightarrow> invar t \<Longrightarrow> elems (diff s t) = elems s - elems t"
    and subset_of: "invar s \<Longrightarrow> invar t \<Longrightarrow> subset_of s t \<longleftrightarrow> elems t \<subseteq> elems s"
    and equal: "invar s \<Longrightarrow> invar t \<Longrightarrow> equal s t \<longleftrightarrow> elems s = elems t"
    and invars: "invar s \<Longrightarrow> invar t \<Longrightarrow> invar (union s t) \<and> invar (inter s t) \<and> invar (diff s t)"
begin

lemmas elems_simps = elems_union elems_inter elems_diff subset_of equal invars

text \<open>A set is what it loses to another and what it shares with it.\<close>

lemma split_set: "invar s \<Longrightarrow> invar t \<Longrightarrow> equal (union (diff s t) (inter s t)) s"
  by (auto simp: elems_simps)

lemma diff_union: "invar s \<Longrightarrow> invar t \<Longrightarrow> invar u \<Longrightarrow> equal (diff s (union t u)) (diff (diff s t) u)"
  by (auto simp: elems_simps)

lemma union_comm: "invar s \<Longrightarrow> invar t \<Longrightarrow> equal (union s t) (union t s)"
  by (auto simp: elems_simps)

lemma equal_antisym: "invar s \<Longrightarrow> invar t \<Longrightarrow> equal s t \<longleftrightarrow> subset_of s t \<and> subset_of t s"
  by (auto simp: elems_simps)

end

section \<open>Elements\<close>

lemma dom_Insert [simp]: "dom (set_Insert items s) = set items \<union> dom s"
  by (induction items arbitrary: s) (auto simp: set_Insert_def)

lemma dom_Delete [simp]: "dom (set_Delete items s) = dom s - set items"
  by (induction items arbitrary: s) (auto simp: set_Delete_def)

lemma dom_NewString [simp]: "dom (NewString items) = set items"
  by (simp add: NewString_def)

lemma Has_dom: "Has s item \<longleftrightarrow> item \<in> dom s"
  by (auto simp: Has_def)

lemma HasAll_dom: "HasAll s items \<longleftrightarrow> set items \<subseteq> dom s"
  by (induction items) (auto simp: Has_dom)

lemma HasAny_dom: "HasAny s items \<longleftrightarrow> set items \<inter> dom s \<noteq> {}"
  by (induction items) (auto simp: Has_dom)

lemma dom_inserts:
  "dom (foldl (\<lambda>res key. if P key then set_Insert [key] res else res) s keys) =
   {k \<in> set keys. P k} \<union> dom s"
  by (induction keys arbitrary: s) auto

lemma StringKeySet_keys: "dom (StringKeySet keys) = set keys"
  using dom_inserts [of "\<lambda>_. True" Map.empty keys] by (simp add: StringKeySet_def)

lemma Empty_eq [simp]: "(a :: Empty) = b"
  by (cases a; cases b) simp

text \<open>Two such maps with the same keys are the same map.\<close>

lemma String_eq_iff: "s = (t :: String) \<longleftrightarrow> dom s = dom t"
proof
  assume dom: "dom s = dom t"
  show "s = t"
  proof
    fix k
    have "s k = None \<longleftrightarrow> t k = None"
      using dom by (metis domIff)
    then show "s k = t k"
      by (cases "s k"; cases "t k") simp_all
  qed
qed simp

section \<open>The operations provide the interface\<close>

text \<open>Under any way to range over finite maps.\<close>

locale ranging =
  fixes rng :: "String \<Rightarrow> string list"
  assumes rng: "finite (dom s) \<Longrightarrow> iterates (rng s) s"
begin

lemma set_rng: "finite (dom s) \<Longrightarrow> set (rng s) = dom s" "finite (dom s) \<Longrightarrow> distinct (rng s)"
  using rng by (simp_all add: iterates_def)

lemma dom_Difference: "finite (dom s) \<Longrightarrow> dom (Difference rng s t) = dom s - dom t"
  by (auto simp: Difference_def dom_inserts set_rng Has_dom)

lemma dom_Union:
  "finite (dom s) \<Longrightarrow> finite (dom t) \<Longrightarrow> dom (set_Union rng s t) = dom s \<union> dom t"
  using dom_inserts [of "\<lambda>_. True"] by (auto simp: set_Union_def set_rng)

lemma dom_Intersection:
  "finite (dom s) \<Longrightarrow> finite (dom t) \<Longrightarrow> dom (Intersection rng s t) = dom s \<inter> dom t"
  by (auto simp: Intersection_def dom_inserts set_rng Has_dom)

lemma IsSuperset_dom: "finite (dom t) \<Longrightarrow> IsSuperset rng s t \<longleftrightarrow> dom t \<subseteq> dom s"
  by (simp add: IsSuperset_def HasAll_dom set_rng)

text \<open>Comparing the sizes first makes one inclusion enough.\<close>

lemma Equal_eq:
  assumes "finite (dom s)" "finite (dom t)"
  shows "set_Equal rng s t \<longleftrightarrow> s = t"
proof
  assume "set_Equal rng s t"
  then have "dom t \<subseteq> dom s" "card (dom t) = card (dom s)"
    using assms by (simp_all add: set_Equal_def set_Len_def IsSuperset_dom)
  then have "dom t = dom s"
    using card_subset_eq assms(1) by blast
  then show "s = t" by (simp add: String_eq_iff)
qed (use assms in \<open>simp add: set_Equal_def IsSuperset_dom\<close>)

lemma List_sorted:
  "finite (dom s) \<Longrightarrow> set_List rng s = sorted_list_of_set (dom s)"
  using set_rng [of s] sorted_list_of_set_sort_remdups [of "rng s"]
  by (simp add: set_List_def distinct_remdups_id)

lemma PopAny_spec:
  assumes "finite (dom s)"
  shows "PopAny rng s = (('''', False), s) \<and> dom s = {} \<or>
    (\<exists>k \<in> dom s. PopAny rng s = ((k, True), s(k := None)))"
  using set_rng [OF assms]
  by (cases "rng s") (auto simp: PopAny_def set_Delete_def simp del: dom_eq_empty_conv)

end

sublocale ranging \<subseteq> sets: go_set dom "\<lambda>s. finite (dom s)" "set_Union rng" "Intersection rng"
  "Difference rng" "IsSuperset rng" "set_Equal rng"
  by unfold_locales
    (simp_all add: dom_Union dom_Intersection dom_Difference IsSuperset_dom Equal_eq String_eq_iff)

interpretation sorted_range: ranging "\<lambda>s. sorted_list_of_set (dom s)"
  by unfold_locales (simp add: iterates_def)

text \<open>A run visits each map in some order; the results do not depend on it.\<close>

lemma string_set_results:
  assumes "ranging rng" "finite (dom s)" "finite (dom t)"
  shows "dom (set_Union rng s t) = dom s \<union> dom t" "dom (Intersection rng s t) = dom s \<inter> dom t"
    "dom (Difference rng s t) = dom s - dom t" "IsSuperset rng s t \<longleftrightarrow> dom t \<subseteq> dom s"
    "set_Equal rng s t \<longleftrightarrow> s = t" "set_List rng s = sorted_list_of_set (dom s)"
  using assms
  by (simp_all add: ranging.dom_Union ranging.dom_Intersection ranging.dom_Difference
      ranging.IsSuperset_dom ranging.Equal_eq ranging.List_sorted)

end
