(* ===== verification/Convert.thy ===== *)
theory Convert
  imports Api_Types Os_World
begin

text \<open>
  \<open>pkg/convert/convert.go\<close>: from the pod's types to those of Kubernetes and of podman, and from the
  state of a container back.  The target types belong to other packages; the records have the fields
  that the code sets or reads, \<open>v1\<close> for Kubernetes.
\<close>

section \<open>The types of the other packages\<close>

record v1_KeyToPath =
  v1_Key :: string
  v1_Path :: string
  v1_Mode :: "int option"

record v1_SecretVolumeSource =
  v1_Secret_SecretName :: string
  v1_Secret_Items :: "v1_KeyToPath list"
  v1_Secret_DefaultMode :: "int option"
  v1_Secret_Optional :: "bool option"

record v1_ConfigMapVolumeSource =
  v1_ConfigMap_Name :: string
  v1_ConfigMap_Items :: "v1_KeyToPath list"
  v1_ConfigMap_DefaultMode :: "int option"
  v1_ConfigMap_Optional :: "bool option"

record v1_HostPathVolumeSource =
  v1_HostPath_Path :: string
  v1_HostPath_Type :: "string option"

record v1_EmptyDirVolumeSource =
  v1_EmptyDir_Medium :: string
  v1_EmptyDir_SizeLimit :: "int option"

record v1_Projection =
  v1_Projection_Name :: string
  v1_Projection_Items :: "v1_KeyToPath list"
  v1_Projection_Optional :: "bool option"

record v1_VolumeProjection =
  v1_VolumeProjection_Secret :: "v1_Projection option"
  v1_VolumeProjection_ConfigMap :: "v1_Projection option"

record v1_ProjectedVolumeSource =
  v1_Projected_Sources :: "v1_VolumeProjection list"
  v1_Projected_DefaultMode :: "int option"

record v1_VolumeSource =
  v1_Secret :: "v1_SecretVolumeSource option"
  v1_HostPath :: "v1_HostPathVolumeSource option"
  v1_ConfigMap :: "v1_ConfigMapVolumeSource option"
  v1_EmptyDir :: "v1_EmptyDirVolumeSource option"
  v1_Projected :: "v1_ProjectedVolumeSource option"

record v1_Volume = v1_VolumeSource +
  v1_Volume_Name :: string

record v1_HTTPGetAction =
  v1_HTTPGet_Path :: string
  v1_HTTPGet_Port :: IntOrString
  v1_HTTPGet_Host :: string
  v1_HTTPGet_Scheme :: string
  v1_HTTPGet_HTTPHeaders :: "(string \<times> string) list"

record v1_Probe =
  v1_Exec :: "string list option"
  v1_HTTPGet :: "v1_HTTPGetAction option"
  v1_TCPSocket :: "(IntOrString \<times> string) option"
  v1_InitialDelaySeconds :: int
  v1_TimeoutSeconds :: int
  v1_PeriodSeconds :: int
  v1_SuccessThreshold :: int
  v1_FailureThreshold :: int

record v1_ContainerPort =
  v1_Port_Name :: string
  v1_Port_ContainerPort :: int
  v1_Port_HostPort :: int
  v1_Port_Protocol :: string
  v1_Port_HostIP :: string

record v1_SecurityContext =
  v1_RunAsUser :: "int option"
  v1_RunAsGroup :: "int option"
  v1_Capabilities :: "(string list \<times> string list) option"

record v1_VolumeMount =
  v1_Mount_Name :: string
  v1_Mount_MountPath :: string
  v1_Mount_SubPath :: string

record v1_Container =
  v1_Name :: string
  v1_Image :: string
  v1_Command :: "string list"
  v1_Args :: "string list"
  v1_WorkingDir :: string
  v1_Env :: "EnvVar list"
  v1_Ports :: "v1_ContainerPort list"
  v1_SecurityContext :: "v1_SecurityContext option"
  v1_VolumeMounts :: "v1_VolumeMount list"
  v1_StartupProbe :: "v1_Probe option"
  v1_ReadinessProbe :: "v1_Probe option"
  v1_LivenessProbe :: "v1_Probe option"

record PortMapping =
  PortMapping_ContainerPort :: nat
  PortMapping_HostPort :: nat
  PortMapping_Protocol :: string

text \<open>What podman tells of a container.\<close>

record InspectContainerState =
  Inspect_Status :: string
  Inspect_Running :: bool
  Inspect_Dead :: bool
  Inspect_ExitCode :: int
  Inspect_Error :: string
  Inspect_StartedAt :: Time
  Inspect_FinishedAt :: Time

record InspectContainerData =
  Inspect_State :: "InspectContainerState option"
  Inspect_Image :: string

definition zero_VolumeSource :: v1_VolumeSource where
  "zero_VolumeSource = \<lparr>v1_Secret = None, v1_HostPath = None, v1_ConfigMap = None,
     v1_EmptyDir = None, v1_Projected = None\<rparr>"

definition v1_volume :: "string \<Rightarrow> v1_VolumeSource \<Rightarrow> v1_Volume" where
  "v1_volume name src = v1_VolumeSource.extend src \<lparr>v1_Volume_Name = name\<rparr>"

definition zero_Container :: v1_Container where
  "zero_Container = \<lparr>v1_Name = '''', v1_Image = '''', v1_Command = [], v1_Args = [],
     v1_WorkingDir = '''', v1_Env = [], v1_Ports = [], v1_SecurityContext = None,
     v1_VolumeMounts = [], v1_StartupProbe = None, v1_ReadinessProbe = None,
     v1_LivenessProbe = None\<rparr>"

section \<open>Volumes\<close>

(* src: pkg/convert/convert.go 16-18 packagePathBaseDirectory *)
abbreviation (input) packagePathBaseDirectory :: string where
  "packagePathBaseDirectory \<equiv> ''/tmp/itzo/packages''"

(* src: pkg/convert/convert.go 21-31 MilpaToK8sVolume *)
definition convertKeyToPath :: "KeyToPath list \<Rightarrow> v1_KeyToPath list" where
  "convertKeyToPath milpa =
     map (\<lambda>k. \<lparr>v1_Key = KeyToPath_Key k, v1_Path = KeyToPath_Path k, v1_Mode = KeyToPath_Mode k\<rparr>) milpa"

(* src: pkg/convert/convert.go 272-293 convertPackagePathToHostPath *)
definition convertPackagePathToHostPath ::
  "PackagePath \<Rightarrow> string \<Rightarrow> string \<Rightarrow> ('a os_scheme, v1_HostPathVolumeSource \<times> error) state" where
  "convertPackagePathToHostPath hostPath itzoPackagesPath volumeName = do {
     let path = filepath_Join [itzoPackagesPath, volumeName, PackagePath_Path hostPath];
     r \<leftarrow> os_reply (Os_Stat path);
     return (if reply_err r \<noteq> None
             then (\<lparr>v1_HostPath_Path = '''', v1_HostPath_Type = None\<rparr>, reply_err r)
             else (\<lparr>v1_HostPath_Path = path,
                    v1_HostPath_Type =
                      Some (if fi_IsDir (reply_info r) then ''Directory'' else ''File'')\<rparr>, None)) }"

(* src: pkg/convert/convert.go 92-112 MilpaToK8sVolume *)
definition convert_projection :: "VolumeProjection \<Rightarrow> v1_VolumeProjection" where
  "convert_projection src =
     (case VolumeProjection_Secret src of
        Some s \<Rightarrow>
          \<lparr>v1_VolumeProjection_Secret = Some
             \<lparr>v1_Projection_Name = LocalObjectReference_Name (SecretProjection_LocalObjectReference s),
              v1_Projection_Items = convertKeyToPath (SecretProjection_Items s),
              v1_Projection_Optional = SecretProjection_Optional s\<rparr>,
           v1_VolumeProjection_ConfigMap = None\<rparr>
      | None \<Rightarrow>
          \<lparr>v1_VolumeProjection_Secret = None,
           v1_VolumeProjection_ConfigMap = map_option (\<lambda>c.
             \<lparr>v1_Projection_Name = LocalObjectReference_Name (ConfigMapProjection_LocalObjectReference c),
              v1_Projection_Items = convertKeyToPath (ConfigMapProjection_Items c),
              v1_Projection_Optional = ConfigMapProjection_Optional c\<rparr>)
             (VolumeProjection_ConfigMap src)\<rparr>)"

text \<open>The branches of \<open>MilpaToK8sVolume\<close> that need no look at the file system.\<close>

(* src: pkg/convert/convert.go 32-118 MilpaToK8sVolume *)
definition convert_source :: "VolumeSource \<Rightarrow> v1_VolumeSource option" where
  "convert_source vs =
     (case VolumeSource_Secret vs of
        Some s \<Rightarrow> Some (zero_VolumeSource\<lparr>v1_Secret := Some
          \<lparr>v1_Secret_SecretName = SecretVolumeSource_SecretName s,
           v1_Secret_Items = convertKeyToPath (SecretVolumeSource_Items s),
           v1_Secret_DefaultMode = SecretVolumeSource_DefaultMode s,
           v1_Secret_Optional = SecretVolumeSource_Optional s\<rparr>\<rparr>)
      | None \<Rightarrow>
     (case VolumeSource_HostPath vs of
        Some h \<Rightarrow> Some (zero_VolumeSource\<lparr>v1_HostPath := Some
          \<lparr>v1_HostPath_Path = HostPathVolumeSource_Path h,
           v1_HostPath_Type = HostPathVolumeSource_Type h\<rparr>\<rparr>)
      | None \<Rightarrow>
     (case VolumeSource_ConfigMap vs of
        Some c \<Rightarrow> Some (zero_VolumeSource\<lparr>v1_ConfigMap := Some
          \<lparr>v1_ConfigMap_Name =
             LocalObjectReference_Name (ConfigMapVolumeSource_LocalObjectReference c),
           v1_ConfigMap_Items = convertKeyToPath (ConfigMapVolumeSource_Items c),
           v1_ConfigMap_DefaultMode = ConfigMapVolumeSource_DefaultMode c,
           v1_ConfigMap_Optional = ConfigMapVolumeSource_Optional c\<rparr>\<rparr>)
      | None \<Rightarrow>
     (case VolumeSource_EmptyDir vs of
        Some e \<Rightarrow> Some (zero_VolumeSource\<lparr>v1_EmptyDir := Some
          \<lparr>v1_EmptyDir_Medium = EmptyDir_Medium e,
           v1_EmptyDir_SizeLimit =
             (if EmptyDir_SizeLimit e \<noteq> 0 then Some (EmptyDir_SizeLimit e) else None)\<rparr>\<rparr>)
      | None \<Rightarrow>
          map_option (\<lambda>p. zero_VolumeSource\<lparr>v1_Projected := Some
            \<lparr>v1_Projected_Sources = map convert_projection (ProjectedVolumeSource_Sources p),
             v1_Projected_DefaultMode = ProjectedVolumeSource_DefaultMode p\<rparr>\<rparr>)
            (VolumeSource_Projected vs)))))"

(* src: pkg/convert/convert.go 20-134 MilpaToK8sVolume *)
definition MilpaToK8sVolume :: "Volume \<Rightarrow> ('a os_scheme, v1_Volume option) state" where
  "MilpaToK8sVolume vol =
     (case convert_source (Volume_VolumeSource vol) of
        Some src \<Rightarrow> return (Some (v1_volume (Volume_Name vol) src))
      | None \<Rightarrow>
     (case VolumeSource_PackagePath (Volume_VolumeSource vol) of
        Some p \<Rightarrow> do {
          r \<leftarrow> convertPackagePathToHostPath p packagePathBaseDirectory (Volume_Name vol);
          return (Some (v1_volume (Volume_Name vol)
            (zero_VolumeSource\<lparr>v1_HostPath := Some (fst r)\<rparr>))) }
      | None \<Rightarrow> return None))"

section \<open>Containers\<close>

(* src: pkg/convert/convert.go 136-171 milpaProbeToK8sProbe *)
definition milpaProbeToK8sProbe :: "Probe option \<Rightarrow> v1_Probe option" where
  "milpaProbeToK8sProbe mp =
     map_option (\<lambda>p. let h = Probe_Handler p in
       \<lparr>v1_Exec = map_option ExecAction_Command (Handler_Exec h),
        v1_HTTPGet =
          (if Handler_Exec h \<noteq> None then None
           else map_option (\<lambda>g.
             \<lparr>v1_HTTPGet_Path = HTTPGetAction_Path g, v1_HTTPGet_Port = HTTPGetAction_Port g,
              v1_HTTPGet_Host = HTTPGetAction_Host g, v1_HTTPGet_Scheme = HTTPGetAction_Scheme g,
              v1_HTTPGet_HTTPHeaders =
                map (\<lambda>x. (HTTPHeader_Name x, HTTPHeader_Value x)) (HTTPGetAction_HTTPHeaders g)\<rparr>)
             (Handler_HTTPGet h)),
        v1_TCPSocket =
          (if Handler_Exec h \<noteq> None \<or> Handler_HTTPGet h \<noteq> None then None
           else map_option (\<lambda>t. (TCPSocketAction_Port t, TCPSocketAction_Host t))
             (Handler_TCPSocket h)),
        v1_InitialDelaySeconds = Probe_InitialDelaySeconds p,
        v1_TimeoutSeconds = Probe_TimeoutSeconds p,
        v1_PeriodSeconds = Probe_PeriodSeconds p,
        v1_SuccessThreshold = Probe_SuccessThreshold p,
        v1_FailureThreshold = Probe_FailureThreshold p\<rparr>) mp"

(* src: pkg/convert/convert.go 199-221 UnitToContainer *)
definition convert_security_context ::
  "SecurityContext option \<Rightarrow> v1_SecurityContext option \<Rightarrow> v1_SecurityContext option" where
  "convert_security_context usc csc =
     (case usc of
        None \<Rightarrow> csc
      | Some u \<Rightarrow> Some
          \<lparr>v1_RunAsUser = SecurityContext_RunAsUser u, v1_RunAsGroup = SecurityContext_RunAsGroup u,
           v1_Capabilities =
             (case SecurityContext_Capabilities u of
                Some c \<Rightarrow> Some (Capabilities_Add c, Capabilities_Drop c)
              | None \<Rightarrow> Option.bind csc v1_Capabilities)\<rparr>)"

(* src: pkg/convert/convert.go 173-233 UnitToContainer *)
definition UnitToContainer :: "Unit \<Rightarrow> v1_Container option \<Rightarrow> v1_Container" where
  "UnitToContainer unit container =
     (let c = (case container of None \<Rightarrow> zero_Container | Some c \<Rightarrow> c)
      in \<lparr>v1_Name = Unit_Name unit, v1_Image = Unit_Image unit, v1_Command = Unit_Command unit,
          v1_Args = Unit_Args unit, v1_WorkingDir = Unit_WorkingDir unit,
          v1_Env = map (\<lambda>e. \<lparr>EnvVar_Name = EnvVar_Name e, EnvVar_Value = EnvVar_Value e,
                              EnvVar_ValueFrom = None\<rparr>) (Unit_Env unit),
          v1_Ports = v1_Ports c @ map (\<lambda>p.
            \<lparr>v1_Port_Name = ContainerPort_Name p, v1_Port_ContainerPort = ContainerPort_ContainerPort p,
             v1_Port_HostPort = ContainerPort_HostPort p, v1_Port_Protocol = ContainerPort_Protocol p,
             v1_Port_HostIP = ContainerPort_HostIP p\<rparr>) (Unit_Ports unit),
          v1_SecurityContext =
            convert_security_context (Unit_SecurityContext unit) (v1_SecurityContext c),
          v1_VolumeMounts = v1_VolumeMounts c @ map (\<lambda>vm.
            \<lparr>v1_Mount_Name = VolumeMount_Name vm, v1_Mount_MountPath = VolumeMount_MountPath vm,
             v1_Mount_SubPath = ''''\<rparr>) (Unit_VolumeMounts unit),
          v1_StartupProbe = milpaProbeToK8sProbe (Unit_StartupProbe unit),
          v1_ReadinessProbe = milpaProbeToK8sProbe (Unit_ReadinessProbe unit),
          v1_LivenessProbe = milpaProbeToK8sProbe (Unit_LivenessProbe unit)\<rparr>)"

(* src: pkg/convert/convert.go 235-237 UnitNameToContainerName *)
definition UnitNameToContainerName :: "string \<Rightarrow> string" where
  "UnitNameToContainerName unitName = PodName @ ''-'' @ unitName"

(* src: pkg/convert/convert.go 239-270 ContainerStateToUnit *)
definition ContainerStateToUnit :: "InspectContainerData \<Rightarrow> UnitState \<times> bool" where
  "ContainerStateToUnit ctrData =
     (case Inspect_State ctrData of
        None \<Rightarrow> (waiting_state ''waiting for container status'' False, False)
      | Some st \<Rightarrow>
          if Inspect_Running st then (running_state (Inspect_StartedAt st), True)
          else if Inspect_Dead st
          then (terminated_state
                  \<lparr>UnitStateTerminated_ExitCode = Inspect_ExitCode st,
                   UnitStateTerminated_FinishedAt = Inspect_FinishedAt st,
                   UnitStateTerminated_Reason = Inspect_Status st,
                   UnitStateTerminated_Message = Inspect_Error st,
                   UnitStateTerminated_StartedAt = Inspect_StartedAt st\<rparr>, False)
          else (waiting_state (Inspect_Status st) False, False))"

(* src: pkg/convert/convert.go 295-314 UnitPortsToPodmanPortMapping *)
fun UnitPortsToPodmanPortMapping :: "ContainerPort list \<Rightarrow> go_error + PortMapping list" where
  "UnitPortsToPodmanPortMapping [] = Inr []"
| "UnitPortsToPodmanPortMapping (port # ports) =
     (if ContainerPort_ContainerPort port = 0 then Inl (Errorf ''container port has to be set'')
      else case UnitPortsToPodmanPortMapping ports of
        Inl e \<Rightarrow> Inl e
      | Inr ms \<Rightarrow> Inr
          (\<lparr>PortMapping_ContainerPort = uint16 (ContainerPort_ContainerPort port),
            PortMapping_HostPort =
              (if ContainerPort_HostPort port \<noteq> 0 then uint16 (ContainerPort_HostPort port)
               else uint16 (ContainerPort_ContainerPort port)),
            PortMapping_Protocol = ToLower (ContainerPort_Protocol port)\<rparr> # ms))"

section \<open>Properties\<close>

lemma port_mapping_error:
  "(\<exists>e. UnitPortsToPodmanPortMapping ports = Inl e) \<longleftrightarrow>
     (\<exists>p \<in> set ports. ContainerPort_ContainerPort p = 0)"
  by (induction ports) (auto split: sum.splits)

lemma port_mappings:
  assumes "UnitPortsToPodmanPortMapping ports = Inr ms"
  shows "list_all2 (\<lambda>p m.
      PortMapping_ContainerPort m = uint16 (ContainerPort_ContainerPort p) \<and>
      PortMapping_HostPort m = uint16 (if ContainerPort_HostPort p = 0
         then ContainerPort_ContainerPort p else ContainerPort_HostPort p)) ports ms"
  using assms by (induction ports arbitrary: ms) (auto split: sum.splits if_splits)

lemma container_one_state: "one_state (fst (ContainerStateToUnit d))"
  by (simp add: ContainerStateToUnit_def split: option.split)

text \<open>A container is ready as soon as it runs, and terminated only if podman calls it dead.\<close>

lemma container_ready:
  "snd (ContainerStateToUnit d) \<longleftrightarrow> UnitState_Running (fst (ContainerStateToUnit d)) \<noteq> None"
  by (simp add: ContainerStateToUnit_def waiting_state_def running_state_def terminated_state_def
      zero_UnitState_def split: option.split)

lemma container_terminated:
  "UnitState_Terminated (fst (ContainerStateToUnit d)) \<noteq> None \<longleftrightarrow>
     (\<exists>st. Inspect_State d = Some st \<and> \<not> Inspect_Running st \<and> Inspect_Dead st)"
  by (auto simp: ContainerStateToUnit_def waiting_state_def running_state_def terminated_state_def
      zero_UnitState_def split: option.split)

text \<open>A probe keeps one handler, the first of exec, HTTP and TCP.\<close>

lemma probe_one_handler:
  "milpaProbeToK8sProbe mp = Some p \<Longrightarrow>
     \<not> (v1_Exec p \<noteq> None \<and> v1_HTTPGet p \<noteq> None) \<and> \<not> (v1_Exec p \<noteq> None \<and> v1_TCPSocket p \<noteq> None) \<and>
     \<not> (v1_HTTPGet p \<noteq> None \<and> v1_TCPSocket p \<noteq> None)"
  by (cases mp) (auto simp: milpaProbeToK8sProbe_def Let_def split: if_splits)

text \<open>The sub-path of a mount does not reach the container.\<close>

lemma no_subpath:
  "list_all (\<lambda>m. v1_Mount_SubPath m = '''') (v1_VolumeMounts (UnitToContainer unit None))"
  by (simp add: UnitToContainer_def zero_Container_def list_all_iff)

lemma MilpaToK8sVolume_only_calls [calls_intros]: "only_calls (MilpaToK8sVolume vol)"
  unfolding MilpaToK8sVolume_def convertPackagePathToHostPath_def
  by (cases "convert_source (Volume_VolumeSource vol)")
    (auto simp: Let_def intro!: calls_intros split: option.splits)

lemma MilpaToK8sVolume_nil:
  "result (MilpaToK8sVolume vol) w = None \<longleftrightarrow>
     convert_source (Volume_VolumeSource vol) = None \<and>
     VolumeSource_PackagePath (Volume_VolumeSource vol) = None"
  by (simp add: MilpaToK8sVolume_def split: option.split)

end
