(* ===== verification/Podman.thy ===== *)
theory Podman
  imports Convert Util_Names Logbuf Pod_Controller
begin

text \<open>
  \<open>pkg/runtime/podman/podman.go\<close>: the runtime that runs units as podman containers.  A request to
  podman is logged and answered by the environment; a nil dereference is \<open>Panic\<close>.
\<close>

section \<open>Requests and answers\<close>

record PodSpecGenerator =
  PodGen_Name :: string
  PodGen_Hostname :: string
  PodGen_NSMode :: string
  PodGen_NoManageResolvConf :: bool
  PodGen_NoManageHosts :: bool
  PodGen_PortMappings :: "PortMapping list"

record runtimespec_Mount =
  rs_Destination :: string
  rs_Type :: string
  rs_Source :: string

record SpecGenerator =
  Gen_Image :: string
  Gen_Name :: string
  Gen_Pod :: string
  Gen_Command :: "string list"
  Gen_RestartPolicy :: string
  Gen_Env :: "string \<rightharpoonup> string"
  Gen_Mounts :: "runtimespec_Mount list"

datatype podman_call =
    Pods_CreatePodFromSpec PodSpecGenerator
  | Pods_Stop string
  | Pods_Remove string
  | Images_Exists string
  | Images_Pull string string string
  | Images_Remove string bool
  | Containers_CreateWithSpec SpecGenerator
  | Containers_Start string
  | Containers_Stop string
  | Containers_Remove string bool bool
  | Containers_Inspect string
  | Containers_Logs string bool string

text \<open>
  An answer: the error of the call, whether an image exists, the errors inside a report when there is
  one, the data of a container when there is any, and the lines of a log.
\<close>

record podman_reply =
  pr_err :: error
  pr_exists :: bool
  pr_report :: "go_error list option"
  pr_data :: "InspectContainerData option"
  pr_lines :: "string list"

record podman_os = os +
  pm_env :: "podman_call list \<Rightarrow> podman_call \<Rightarrow> podman_reply"
  pm_log :: "podman_call list"

type_synonym 'a podman_m = "(podman_os, 'a) state"

definition pm_do :: "podman_call \<Rightarrow> podman_reply podman_m" where
  "pm_do c = State (\<lambda>w. (pm_env w (pm_log w) c, w\<lparr>pm_log := pm_log w @ [c]\<rparr>))"

lemma result_pm_do [simp]: "result (pm_do c) w = pm_env w (pm_log w) c"
  by (simp add: pm_do_def result_def)

lemma final_pm_do [simp]: "final (pm_do c) w = w\<lparr>pm_log := pm_log w @ [c]\<rparr>"
  by (simp add: pm_do_def final_def)

definition pm_err :: "podman_call \<Rightarrow> error podman_m" where
  "pm_err c = do { r \<leftarrow> pm_do c; return (pr_err r) }"

lemma result_pm_err [simp]: "result (pm_err c) w = pr_err (pm_env w (pm_log w) c)"
  by (simp add: pm_err_def)

lemma final_pm_err [simp]: "final (pm_err c) w = w\<lparr>pm_log := pm_log w @ [c]\<rparr>"
  by (simp add: pm_err_def)

section \<open>The sandbox\<close>

(* src: pkg/runtime/podman/podman.go 45-62 restartPolicyMap *)
definition restartPolicyMap :: "RestartPolicy \<Rightarrow> string" where
  "restartPolicyMap p =
     (if p = RestartPolicyAlways then ''always''
      else if p = RestartPolicyOnFailure then ''on-failure''
      else if p = RestartPolicyNever then ''no'' else '''')"

(* src: pkg/runtime/podman/podman.go 89-97 RunPodSandbox *)
fun pod_port_mappings :: "Unit list \<Rightarrow> go_error + PortMapping list" where
  "pod_port_mappings [] = Inr []"
| "pod_port_mappings (u # us) =
     (case UnitPortsToPodmanPortMapping (Unit_Ports u) of
        Inl e \<Rightarrow> Inl e
      | Inr ms \<Rightarrow> map_sum id (\<lambda>rest. ms @ rest) (pod_port_mappings us))"

(* src: pkg/runtime/podman/podman.go 70-104 RunPodSandbox *)
definition pm_RunPodSandbox :: "PodSpec \<Rightarrow> error podman_m" where
  "pm_RunPodSandbox spec =
     (case pod_port_mappings (PodSpec_Units spec) of
        Inl e \<Rightarrow> return (Some e)
      | Inr portMappings \<Rightarrow>
          pm_err (Pods_CreatePodFromSpec
            \<lparr>PodGen_Name = PodName,
             PodGen_Hostname =
               (if PodSpec_Hostname spec = '''' then PodName else PodSpec_Hostname spec),
             PodGen_NSMode =
               (if IsHostNetwork (PodSpec_SecurityContext spec) then ''host'' else ''default''),
             PodGen_NoManageResolvConf = True, PodGen_NoManageHosts = True,
             PodGen_PortMappings = portMappings\<rparr>))"

(* src: pkg/runtime/podman/podman.go 106-112 StopPodSandbox *)
definition pm_StopPodSandbox :: "PodSpec \<Rightarrow> error podman_m" where
  "pm_StopPodSandbox spec = do {
     r \<leftarrow> pm_do (Pods_Stop PodName);
     return (case pr_report r of
               Some (e # es) \<Rightarrow> Some (ErrOther ''TODO'')
             | _ \<Rightarrow> pr_err r) }"

(* src: pkg/runtime/podman/podman.go 113-119 RemovePodSandbox *)
definition pm_RemovePodSandbox :: "PodSpec \<Rightarrow> error podman_m" where
  "pm_RemovePodSandbox spec = do {
     r \<leftarrow> pm_do (Pods_Remove PodName);
     return (case pr_report r of Some (e # es) \<Rightarrow> Some e | _ \<Rightarrow> pr_err r) }"

section \<open>Images\<close>

(* src: pkg/runtime/podman/podman.go 125-145 PullImage *)
definition pm_PullImage ::
  "string \<Rightarrow> string \<Rightarrow> string \<Rightarrow> (string \<rightharpoonup> RegistryCredentials) \<Rightarrow> bool \<Rightarrow> error podman_m" where
  "pm_PullImage rootdir name img registryCredentials useOverlayfs = do {
     let server = fst (ParseImageSpec img);
     r \<leftarrow> pm_do (Images_Exists img);
     if pr_err r \<noteq> None then return (pr_err r)
     else if pr_exists r then return None
     else do {
       let (username, password) = GetRepoCreds server registryCredentials;
       pm_err (Images_Pull img username password) } }"

(* src: pkg/runtime/podman/podman.go 147-150 RemoveImage *)
definition pm_RemoveImage :: "string \<Rightarrow> string \<Rightarrow> error podman_m" where
  "pm_RemoveImage rootdir img = pm_err (Images_Remove img False)"

section \<open>Containers\<close>

text \<open>
  The source of a mount.  A name that no volume has leaves the zero volume, whose name is empty; a
  volume with no source that \<open>MilpaToK8sVolume\<close> knows is nil.
\<close>

(* src: pkg/runtime/podman/podman.go 184-199 CreateContainer *)
definition mount_source :: "Volume list \<Rightarrow> v1_VolumeMount \<Rightarrow> string outcome podman_m" where
  "mount_source volumes mount = do {
     vol \<leftarrow> (case List.find (\<lambda>v. Volume_Name v = v1_Mount_Name mount) volumes of
               None \<Rightarrow> return (Ret (v1_volume '''' zero_VolumeSource))
             | Some v \<Rightarrow> do {
                 r \<leftarrow> MilpaToK8sVolume v;
                 return (case r of None \<Rightarrow> Panic | Some k \<Rightarrow> Ret k) });
     return (case vol of
       Panic \<Rightarrow> Panic
     | Ret k \<Rightarrow>
         let path = (case v1_HostPath k of
                       Some h \<Rightarrow> v1_HostPath_Path h
                     | None \<Rightarrow> filepath_Join [''/tmp/itzo/packages'', v1_Volume_Name k])
         in Ret (if v1_Mount_SubPath mount \<noteq> ''''
                 then filepath_Join [path, v1_Mount_SubPath mount] else path)) }"

(* src: pkg/runtime/podman/podman.go 183-206 CreateContainer *)
fun container_mounts ::
  "Volume list \<Rightarrow> v1_VolumeMount list \<Rightarrow> runtimespec_Mount list outcome podman_m" where
  "container_mounts volumes [] = return (Ret [])"
| "container_mounts volumes (mount # mounts) = do {
     path \<leftarrow> mount_source volumes mount;
     case path of
       Panic \<Rightarrow> return Panic
     | Ret p \<Rightarrow> do {
         rest \<leftarrow> container_mounts volumes mounts;
         return (case rest of
           Panic \<Rightarrow> Panic
         | Ret ms \<Rightarrow> Ret (\<lparr>rs_Destination = v1_Mount_MountPath mount, rs_Type = ''bind'',
                           rs_Source = p\<rparr> # ms)) } }"

(* src: pkg/runtime/podman/podman.go 174-182 CreateContainer *)
definition container_env :: "EnvVar list \<Rightarrow> (string \<rightharpoonup> string)" where
  "container_env env =
     foldl (\<lambda>m e. if EnvVar_ValueFrom e = None then m(EnvVar_Name e \<mapsto> EnvVar_Value e) else m)
       Map.empty env"

(* src: pkg/runtime/podman/podman.go 161-214 CreateContainer *)
definition pm_CreateContainer ::
  "string \<Rightarrow> Unit \<Rightarrow> PodSpec \<Rightarrow> string \<Rightarrow> (string \<rightharpoonup> RegistryCredentials) \<Rightarrow> bool \<Rightarrow>
   (UnitStatus option \<times> error) outcome podman_m" where
  "pm_CreateContainer rootdir unit spec podName registryCredentials useOverlayfs = do {
     let container = UnitToContainer unit None;
     err \<leftarrow> pm_PullImage rootdir (Unit_Name unit) (Unit_Image unit) registryCredentials False;
     case err of
       Some e \<Rightarrow> return (Ret
         (Some (MakeFailedUpdateStatus (Unit_Name unit) (Unit_Image unit) ''Pulling image failed''),
          Some e))
     | None \<Rightarrow> do {
         mounts \<leftarrow> container_mounts (PodSpec_Volumes spec) (v1_VolumeMounts container);
         case mounts of
           Panic \<Rightarrow> return Panic
         | Ret ms \<Rightarrow> do {
             pm_err (Containers_CreateWithSpec
               \<lparr>Gen_Image = v1_Image container,
                Gen_Name = UnitNameToContainerName (Unit_Name unit), Gen_Pod = PodName,
                Gen_Command = Unit_Command unit,
                Gen_RestartPolicy = restartPolicyMap (PodSpec_RestartPolicy spec),
                Gen_Env = container_env (v1_Env container), Gen_Mounts = ms\<rparr>);
             return (Ret
               (Some (MakeStillCreatingStatus (Unit_Name unit) (Unit_Image unit) ''Container created''),
                None)) } } }"

(* src: pkg/runtime/podman/podman.go 216-223 StartContainer *)
definition pm_StartContainer ::
  "Unit \<Rightarrow> PodSpec \<Rightarrow> string \<Rightarrow> (UnitStatus option \<times> error) podman_m" where
  "pm_StartContainer unit spec podName = do {
     err \<leftarrow> pm_err (Containers_Start (UnitNameToContainerName (Unit_Name unit)));
     return (case err of
       Some e \<Rightarrow> (Some (MakeFailedUpdateStatus (Unit_Name unit) (Unit_Image unit)
                    ''runtime cannot start container''), Some e)
     | None \<Rightarrow> (None, None)) }"

(* src: pkg/runtime/podman/podman.go 225-235 RemoveContainer *)
definition pm_RemoveContainer :: "Unit \<Rightarrow> error podman_m" where
  "pm_RemoveContainer unit = do {
     let containerName = UnitNameToContainerName (Unit_Name unit);
     or_return (pm_err (Containers_Stop containerName)) id
       (pm_err (Containers_Remove containerName True False)) }"

(* src: pkg/runtime/podman/podman.go 237-259 ContainerStatus *)
definition pm_ContainerStatus ::
  "string \<Rightarrow> string \<Rightarrow> (UnitStatus option \<times> error) outcome podman_m" where
  "pm_ContainerStatus unitName unitImage = do {
     r \<leftarrow> pm_do (Containers_Inspect (UnitNameToContainerName unitName));
     return (case pr_data r of
       None \<Rightarrow> Panic
     | Some ctrData \<Rightarrow>
         if pr_err r \<noteq> None
         then Ret (Some (MakeStillCreatingStatus unitName (Inspect_Image ctrData)
                     ''Container stopped''), None)
         else let (st, ready) = ContainerStateToUnit ctrData
              in Ret (Some (zero_UnitStatus\<lparr>UnitStatus_Name := unitName, UnitStatus_State := st,
                   UnitStatus_RestartCount := 0, UnitStatus_Image := unitImage,
                   UnitStatus_Ready := ready\<rparr>), None)) }"

(* src: pkg/runtime/podman/podman.go 303-313 UnitRunning *)
definition pm_UnitRunning :: "string \<Rightarrow> bool outcome podman_m" where
  "pm_UnitRunning unitName = do {
     r \<leftarrow> pm_ContainerStatus unitName '''';
     return (case r of
       Panic \<Rightarrow> Panic
     | Ret (st, err) \<Rightarrow>
         if err \<noteq> None then Ret False
         else case st of
           None \<Rightarrow> Panic
         | Some s \<Rightarrow> Ret (UnitState_Running (UnitStatus_State s) \<noteq> None)) }"

(* src: pkg/runtime/podman/podman.go 315-317 GetPid *)
definition pm_GetPid :: "string \<Rightarrow> int \<times> bool" where
  "pm_GetPid unitName = (0, False)"

(* src: pkg/runtime/podman/podman.go 319-321 SetPodNetwork *)
definition pm_SetPodNetwork :: "string \<Rightarrow> string \<Rightarrow> unit podman_m" where
  "pm_SetPodNetwork netNS podIP = return ()"

section \<open>Logs\<close>

text \<open>A message of podman's log: a time stamp, a space and the line; one without a space is left out.\<close>

(* src: pkg/runtime/podman/podman.go 291-298 GetLogBuffer *)
definition podman_line :: "string \<Rightarrow> (string \<times> string) option" where
  "podman_line msg =
     (let logLine = split_on (CHR '' '') msg
      in if length logLine > 1
         then Some (logLine ! 0, strings_Join (drop 1 logLine) '''' @ [CHR 10]) else None)"

(* src: pkg/runtime/podman/podman.go 290-300 GetLogBuffer *)
fun write_lines :: "string \<Rightarrow> string list \<Rightarrow> LogBuffer \<Rightarrow> LogBuffer option" where
  "write_lines now [] lb = Some lb"
| "write_lines now (msg # msgs) lb =
     (case podman_line msg of
        None \<Rightarrow> write_lines now msgs lb
      | Some (ts, line) \<Rightarrow>
          Option.bind (Write now StdoutLogSource line (Some ts) lb) (write_lines now msgs))"

text \<open>\<open>None\<close> is a panic: a negative number of lines.\<close>

(* src: pkg/runtime/podman/podman.go 266-301 GetLogBuffer *)
definition pm_GetLogBuffer ::
  "string \<Rightarrow> string \<Rightarrow> bool \<Rightarrow> int \<Rightarrow> LogBuffer option podman_m" where
  "pm_GetLogBuffer now unitName follow lineNum = do {
     let tail = (if lineNum \<noteq> 0 then lineNum else 4096);
     case NewLogBuffer tail of
       None \<Rightarrow> return None
     | Some lb \<Rightarrow> do {
         r \<leftarrow> pm_do (Containers_Logs (UnitNameToContainerName unitName) follow (Itoa tail));
         return (write_lines now (pr_lines r) lb) } }"

section \<open>Connection\<close>

(* src: pkg/runtime/podman/podman.go 335-342 GetPodmanConnection *)
definition GetPodmanConnection :: "string \<Rightarrow> (string \<Rightarrow> go_error + 'c) \<Rightarrow> go_error + 'c" where
  "GetPodmanConnection podmanSocketPath NewConnection =
     NewConnection (if podmanSocketPath = '''' then ''unix:/run/podman/podman.sock''
                    else podmanSocketPath)"

(* src: pkg/runtime/podman/podman.go 323-333 NewRuntime *)
definition NewPodmanRuntime ::
  "string \<Rightarrow> (string \<Rightarrow> go_error + 'c) \<Rightarrow> string \<Rightarrow> go_error + ('c \<times> string)" where
  "NewPodmanRuntime socket NewConnection rootdir =
     map_sum id (\<lambda>ctx. (ctx, rootdir)) (GetPodmanConnection socket NewConnection)"

section \<open>Properties\<close>

lemma podman_status_panics:
  "result (pm_ContainerStatus name img) w = Panic \<longleftrightarrow>
     pr_data (pm_env w (pm_log w) (Containers_Inspect (UnitNameToContainerName name))) = None"
  by (simp add: pm_ContainerStatus_def split: option.split prod.split)

text \<open>A status is never an error, and always in exactly one state.\<close>

lemma podman_status:
  assumes "result (pm_ContainerStatus name img) w = Ret (st, err)"
  shows "err = None \<and> (\<exists>s. st = Some s \<and> UnitStatus_Name s = name \<and>
    one_state (UnitStatus_State s) \<and> UnitStatus_RestartCount s = 0)"
proof -
  let ?r = "pm_env w (pm_log w) (Containers_Inspect (UnitNameToContainerName name))"
  obtain d where d: "pr_data ?r = Some d"
    using assms podman_status_panics [of name img w] by (cases "pr_data ?r") auto
  show ?thesis
    using assms d container_one_state [of d]
    by (auto simp: pm_ContainerStatus_def zero_UnitStatus_def MakeStillCreatingStatus_def
        split: if_splits prod.splits)
qed

text \<open>
  An init unit that has exited is neither running nor, to podman, dead: its status is waiting, and the
  controller polls it again whatever its exit code was.
\<close>

lemma podman_exited_init:
  assumes "pm_env w (pm_log w) (Containers_Inspect (UnitNameToContainerName name)) = r"
    "pr_err r = None" "pr_data r = Some d" "Inspect_State d = Some st"
    "\<not> Inspect_Running st" "\<not> Inspect_Dead st"
  shows "\<exists>s. result (pm_ContainerStatus name img) w = Ret (Some s, None) \<and>
     UnitStatus_State s = waiting_state (Inspect_Status st) False \<and>
     poll_init policy (Some s) None = P_again"
  using assms
  by (simp add: pm_ContainerStatus_def ContainerStateToUnit_def zero_UnitStatus_def poll_init_def
      waiting_state_def zero_UnitState_def)

text \<open>Creating a container: the status says created whatever podman answers to the request.\<close>

lemma podman_create_error_ignored:
  assumes "result (pm_CreateContainer rootdir unit spec podName creds overlay) w = Ret (st, err)"
  shows "err = None \<longrightarrow> st = Some (MakeStillCreatingStatus (Unit_Name unit) (Unit_Image unit)
    ''Container created'')"
    "err \<noteq> None \<longrightarrow> st = Some (MakeFailedUpdateStatus (Unit_Name unit) (Unit_Image unit)
    ''Pulling image failed'')"
  using assms
  by (auto simp: pm_CreateContainer_def Let_def split: option.splits outcome.splits)

lemma podman_create_status:
  "result (pm_CreateContainer rootdir unit spec podName creds overlay) w = Ret (None, err) \<Longrightarrow> err = None"
  by (auto simp: pm_CreateContainer_def Let_def split: option.splits outcome.splits)

lemma podman_start_status:
  "result (pm_StartContainer unit spec podName) w = (None, err) \<Longrightarrow> err = None"
  by (auto simp: pm_StartContainer_def split: option.splits)

text \<open>A mount of a volume that the pod does not have is a mount of the directory of all packages.\<close>

lemma mount_unknown_volume:
  assumes "\<forall>v \<in> set volumes. Volume_Name v \<noteq> VolumeMount_Name vm"
  shows "result (container_mounts volumes [\<lparr>v1_Mount_Name = VolumeMount_Name vm,
      v1_Mount_MountPath = VolumeMount_MountPath vm, v1_Mount_SubPath = ''''\<rparr>]) w =
    Ret [\<lparr>rs_Destination = VolumeMount_MountPath vm, rs_Type = ''bind'',
          rs_Source = ''/tmp/itzo/packages''\<rparr>]"
proof -
  have "List.find (\<lambda>v. Volume_Name v = VolumeMount_Name vm) volumes = None"
    using assms by (auto simp: find_None_iff)
  moreover have "filepath_Join [''/tmp/itzo/packages'', ''''] = ''/tmp/itzo/packages''"
    by code_simp
  ultimately show ?thesis
    by (simp add: mount_source_def v1_volume_def v1_VolumeSource.defs zero_VolumeSource_def)
qed

text \<open>The spaces of a line are lost.\<close>

lemma join_split: "strings_Join (split_on c s) [] = filter (\<lambda>x. x \<noteq> c) s"
proof (induction s)
  case (Cons x xs)
  have ne: "split_on c xs \<noteq> []" by (cases xs) (auto split: list.split)
  have join: "strings_Join (w # ws) [] = w @ strings_Join ws []" for w ws
    by (cases ws) simp_all
  show ?case
    using Cons ne by (cases "split_on c xs") (auto simp: join simp del: strings_Join.simps(3))
qed simp

lemma split_on_first:
  "c \<notin> set ts \<Longrightarrow> split_on c (ts @ c # s) = ts # split_on c s"
  by (induction ts) auto

lemma podman_line_spaces:
  assumes "CHR '' '' \<notin> set ts"
  shows "podman_line (ts @ '' '' @ line) = Some (ts, filter (\<lambda>c. c \<noteq> CHR '' '') line @ [CHR 10])"
proof -
  have "split_on (CHR '' '') line \<noteq> []" by (cases line) (auto split: list.split)
  then show ?thesis
    using split_on_first [OF assms, of line] by (simp add: podman_line_def join_split)
qed

end
