(* ===== verification/Mac.thy ===== *)
theory Mac
  imports Pod_Controller Users Prog
begin

text \<open>
  \<open>pkg/runtime/mac\<close>: the runtime that runs units as virtual machines of Anka, through its command
  line and its registry.  A command is a recorded call whose output the environment gives; decoding
  JSON, parsing URLs and dates are parameters.
\<close>

section \<open>The answers of Anka\<close>

text \<open>The structs that only the requests to a registry would use are there for completeness.\<close>

(* src: pkg/runtime/mac/types.go 3-7 AnkaStatusOK *)
abbreviation (input) AnkaStatusOK :: string where "AnkaStatusOK \<equiv> ''OK''"

(* src: pkg/runtime/mac/types.go 58-61 VMRespBase *)
record VMRespBase =
  Resp_Message :: string
  Resp_Status :: string

(* src: pkg/runtime/mac/types.go 78-93 VMShowBody *)
record VMShowBody =
  Show_Base :: VMRespBase
  Show_Name :: string
  Show_CreationDate :: string
  Show_CPUCores :: int
  Show_CPUFrequency :: int
  Show_CPUHtt :: bool
  Show_RAM :: string
  Show_RAMSize :: int
  Show_FrameBuffers :: int
  Show_HardDrive :: int
  Show_ImageSize :: int
  Show_Encrypted :: bool
  Show_Status :: string
  Show_StopDate :: string

(* src: pkg/runtime/mac/types.go 9-19 StartVMBody *)
record StartVMBody =
  SB_VMID :: string
  SB_Tag :: string
  SB_Count :: int
  SB_Name :: string
  SB_CPU :: int
  SB_RAM :: int
  SB_NodeID :: string
  SB_NameTemplate :: string
  SB_Metadata :: "string \<rightharpoonup> string"

(* src: pkg/runtime/mac/types.go 21-23 DeleteVMBody *)
record DeleteVMBody =
  DB_VMID :: string

(* src: pkg/runtime/mac/types.go 25-28 StartVMResp *)
record StartVMResp = VMRespBase +
  StartResp_IDs :: "string list"

(* src: pkg/runtime/mac/types.go 30-32 VMInfoBase *)
record VMInfoBase =
  VMInfo_UUID :: string

(* src: pkg/runtime/mac/types.go 34-41 VMInfo *)
record VMInfo = VMInfoBase +
  VMInfo_NodeID :: string
  VMInfo_CpuCores :: int
  VMInfo_IP :: string
  VMInfo_Status :: string

(* src: pkg/runtime/mac/types.go 43-46 VMStatusBody *)
record VMStatusBody =
  StatusBody_Progress :: int
  StatusBody_VMInfo :: VMInfo

(* src: pkg/runtime/mac/types.go 48-51 VMStatusResp *)
record VMStatusResp = VMRespBase +
  StatusResp_Body :: VMStatusBody

(* src: pkg/runtime/mac/types.go 53-56 VMStatusEmptyResp *)
record VMStatusEmptyResp = VMRespBase +
  StatusEmpty_Body :: "string list"

(* src: pkg/runtime/mac/types.go 63-66 VMCreateOutput *)
record VMCreateOutput = VMRespBase +
  CreateOutput_Body :: VMInfoBase

(* src: pkg/runtime/mac/types.go 73-76 VMStopOutput *)
type_synonym VMStopOutput = VMRespBase

(* src: pkg/runtime/mac/types.go 101-103 VMPullOutput *)
type_synonym VMPullOutput = VMRespBase

(* src: pkg/runtime/mac/types.go 105-107 VMRunOutput *)
type_synonym VMRunOutput = VMRespBase

(* src: pkg/runtime/mac/types.go 95-99 VMShowOutput *)
record VMShowOutput = VMRespBase +
  Show_Body :: VMShowBody

(* src: pkg/runtime/mac/types.go 68-71 VMStartOutput *)
type_synonym VMStartOutput = VMShowOutput

record mac_params =
  mp_decode_base :: "string \<Rightarrow> go_error + VMRespBase"
  mp_decode_show :: "string \<Rightarrow> go_error + VMShowOutput"
  mp_parse_url :: "string \<Rightarrow> string option"
  mp_parse_time :: "string \<Rightarrow> Time option"
  mp_now :: Time

(* src: pkg/runtime/mac/mac.go 22-27 MacRuntime *)
record mac_os = os +
  UnitsVMIDs :: "string \<rightharpoonup> string"

type_synonym 'a mac_m = "(mac_os, 'a) state"

section \<open>The command line\<close>

abbreviation (input) ankaCLIPath :: string where "ankaCLIPath \<equiv> ''/usr/local/bin/anka''"
abbreviation (input) outputFlag :: string where "outputFlag \<equiv> ''--machine-readable''"

(* src: pkg/runtime/mac/anka_cli_util.go 188-198 buildCmd *)
definition anka_buildCmd :: "string \<Rightarrow> string list \<Rightarrow> os_call" where
  "anka_buildCmd ankaCommand extraArgs =
     Ext_Call ''sudo'' ([ankaCLIPath, outputFlag, ankaCommand] @ extraArgs)"

(* src: pkg/runtime/mac/anka_cli_util.go 179-186 run *)
definition anka_run :: "os_call \<Rightarrow> (go_error + string) mac_m" where
  "anka_run cmd = do {
     r \<leftarrow> os_reply cmd;
     return (case reply_err r of Some e \<Rightarrow> Inl e | None \<Rightarrow> Inr (reply_data r)) }"

text \<open>Run, then decode.\<close>

definition anka_output :: "(string \<Rightarrow> go_error + 'o) \<Rightarrow> os_call \<Rightarrow> (go_error + 'o) mac_m" where
  "anka_output decode cmd = do {
     r \<leftarrow> anka_run cmd;
     return (case r of Inl e \<Rightarrow> Inl e | Inr out \<Rightarrow> decode out) }"

(* src: pkg/runtime/mac/anka_cli_util.go 50-69 Show *)
definition anka_Show :: "mac_params \<Rightarrow> string \<Rightarrow> (go_error + VMShowOutput) mac_m" where
  "anka_Show mp vmID = do {
     r \<leftarrow> anka_output (mp_decode_show mp) (anka_buildCmd ''show'' [vmID]);
     return (case r of
       Inl e \<Rightarrow> Inl e
     | Inr out \<Rightarrow>
         if Resp_Status out \<noteq> AnkaStatusOK then Inl (Errorf (''vm '' @ vmID @ '' not found''))
         else Inr out) }"

(* src: pkg/runtime/mac/anka_cli_util.go 71-86 Start *)
definition anka_Start :: "mac_params \<Rightarrow> string \<Rightarrow> (go_error + VMStartOutput) mac_m" where
  "anka_Start mp vmId = anka_output (mp_decode_show mp) (anka_buildCmd ''start'' [vmId])"

(* src: pkg/runtime/mac/anka_cli_util.go 88-100 Stop *)
definition anka_Stop :: "mac_params \<Rightarrow> string \<Rightarrow> (go_error + VMRespBase) mac_m" where
  "anka_Stop mp vmId = anka_output (mp_decode_base mp) (anka_buildCmd ''stop'' [vmId])"

text \<open>The commands that only check the status of the answer.\<close>

definition anka_check ::
  "mac_params \<Rightarrow> os_call \<Rightarrow> (VMRespBase \<Rightarrow> error) \<Rightarrow> error mac_m" where
  "anka_check mp cmd ok = do {
     r \<leftarrow> anka_output (mp_decode_base mp) cmd;
     return (case r of Inl e \<Rightarrow> Some e | Inr out \<Rightarrow> ok out) }"

(* src: pkg/runtime/mac/anka_cli_util.go 102-119 PullImage *)
definition anka_PullImage :: "mac_params \<Rightarrow> string \<Rightarrow> error mac_m" where
  "anka_PullImage mp vmTemplateID =
     anka_check mp (anka_buildCmd ''registry'' [''pull'', ''-l'', vmTemplateID])
       (\<lambda>out. if Resp_Status out \<noteq> AnkaStatusOK
               then Some (Errorf (''pulling failed with '' @ Resp_Message out)) else None)"

(* src: pkg/runtime/mac/anka_cli_util.go 121-138 Exec *)
definition anka_Exec :: "mac_params \<Rightarrow> string \<Rightarrow> string list \<Rightarrow> error mac_m" where
  "anka_Exec mp vmID command =
     anka_check mp (anka_buildCmd ''run'' ([vmID] @ command))
       (\<lambda>out. if Resp_Status out \<noteq> AnkaStatusOK
               then Some (Errorf (''error running cmd in vm: '' @ Resp_Message out)) else None)"

(* src: pkg/runtime/mac/anka_cli_util.go 140-159 ActivateLicense *)
definition anka_ActivateLicense :: "mac_params \<Rightarrow> string \<Rightarrow> error mac_m" where
  "anka_ActivateLicense mp licenseKey =
     anka_check mp (anka_buildCmd ''license'' [''activate'', ''-f'', licenseKey])
       (\<lambda>out. if Resp_Status out = AnkaStatusOK \<and> Resp_Message out = ''License activated'' then None
               else Some (Errorf (''activating failed: '' @ Resp_Message out)))"

(* src: pkg/runtime/mac/anka_cli_util.go 161-177 ValidateLicense *)
definition anka_ValidateLicense :: "mac_params \<Rightarrow> error mac_m" where
  "anka_ValidateLicense mp =
     anka_check mp (anka_buildCmd ''license'' [''validate''])
       (\<lambda>out. if Resp_Message out = ''License is valid!'' \<and> Resp_Status out = AnkaStatusOK then None
               else Some (Errorf (''license not valid: '' @ Resp_Message out)))"

(* src: pkg/runtime/mac/anka_cli_util.go 208-212 EnsureAnkaBin *)
definition anka_EnsureAnkaBin :: "error mac_m" where
  "anka_EnsureAnkaBin = os_do (Ext_Call ''sudo'' [ankaCLIPath, ''version''])"

section \<open>The registry\<close>

(* src: pkg/runtime/mac/anka_client.go 13-15 listVMTemplatesPath *)
abbreviation (input) listVMTemplatesPath :: string where "listVMTemplatesPath \<equiv> ''/registry/v2/vm''"

text \<open>An image with no slash makes \<open>imageUrl[:ind]\<close> panic.\<close>

(* src: pkg/runtime/mac/anka_client.go 27-47 parseImageUrl *)
definition parseImageUrl :: "mac_params \<Rightarrow> string \<Rightarrow> (string \<times> string) outcome" where
  "parseImageUrl mp imageUrl =
     (let ind = LastIndexByte imageUrl (CHR ''/'')
      in if ind < 0 then Panic
         else let vmId = drop (nat (ind + 1)) imageUrl;
                  urlPart = take (nat ind) imageUrl;
                  baseUrl = urlPart @ listVMTemplatesPath @ ''?id='' @ vmId
              in case mp_parse_url mp baseUrl of
                   None \<Rightarrow> Ret (vmId, '''')
                 | Some fullUrl \<Rightarrow>
                     Ret (vmId, if \<not> HasPrefix fullUrl ''http://'' then ''http://'' @ fullUrl
                                else fullUrl))"

(* src: pkg/runtime/mac/anka_client.go 49-75 GetVMTemplate *)
definition GetVMTemplate :: "mac_params \<Rightarrow> string \<Rightarrow> (go_error + string) outcome mac_m" where
  "GetVMTemplate mp vmTemplateUrl =
     (case parseImageUrl mp vmTemplateUrl of
        Panic \<Rightarrow> return Panic
      | Ret (vmId, templateUrl) \<Rightarrow>
          if templateUrl = '''' then return (Ret (Inl (Errorf (''cannot parse '' @ vmTemplateUrl))))
          else do {
            resp \<leftarrow> os_reply (Ext_Call ''http.Get'' [templateUrl]);
            case reply_err resp of
              Some e \<Rightarrow> return (Ret (Inl e))
            | None \<Rightarrow>
                if 404 \<in> set (reply_ints resp)
                then return (Ret (Inl (Errorf (''cannot find vm template on '' @ templateUrl))))
                else do {
                  body \<leftarrow> os_reply (Ext_Call ''ioutil.ReadAll'' [templateUrl]);
                  return (Ret (case reply_err body of
                    Some e \<Rightarrow> Inl e
                  | None \<Rightarrow>
                      (case mp_decode_base mp (reply_data body) of
                         Inl e \<Rightarrow> Inl e
                       | Inr resp \<Rightarrow>
                           if Resp_Status resp \<noteq> AnkaStatusOK
                           then Inl (Errorf (''cannot find vm template on url '' @ templateUrl))
                           else Inr vmId))) } })"

section \<open>The runtime\<close>

(* src: pkg/runtime/mac/mac.go 29-35 NewMacRuntime *)
definition NewMacRuntime :: "os \<Rightarrow> mac_os" where
  "NewMacRuntime w = os.extend w \<lparr>UnitsVMIDs = Map.empty\<rparr>"

(* src: pkg/runtime/mac/mac.go 37-53 RunPodSandbox *)
definition mac_RunPodSandbox :: "PodSpec \<Rightarrow> (error \<times> PodSpec) mac_m" where
  "mac_RunPodSandbox spec = do { err \<leftarrow> anka_EnsureAnkaBin; return (err, spec) }"

(* src: pkg/runtime/mac/mac.go 55-57 StopPodSandbox *)
definition mac_StopPodSandbox :: "PodSpec \<Rightarrow> error mac_m" where
  "mac_StopPodSandbox spec = return None"

(* src: pkg/runtime/mac/mac.go 59-61 RemovePodSandbox *)
definition mac_RemovePodSandbox :: "PodSpec \<Rightarrow> error mac_m" where
  "mac_RemovePodSandbox spec = return None"

definition store_vm :: "string \<Rightarrow> string \<Rightarrow> unit mac_m" where
  "store_vm name vmId = modify (\<lambda>w. w\<lparr>UnitsVMIDs := (UnitsVMIDs w)(name \<mapsto> vmId)\<rparr>)"

(* src: pkg/runtime/mac/mac.go 63-82 CreateContainer *)
definition mac_CreateContainer ::
  "mac_params \<Rightarrow> Unit \<Rightarrow> PodSpec \<Rightarrow> string \<Rightarrow> (string \<rightharpoonup> RegistryCredentials) \<Rightarrow> bool \<Rightarrow>
   (UnitStatus option \<times> error) outcome mac_m" where
  "mac_CreateContainer mp unit spec podName registryCredentials useOverlayfs = do {
     let creating = (\<lambda>r. Ret (Some (MakeStillCreatingStatus (Unit_Name unit) (Unit_Image unit) r), None));
     let failed = (\<lambda>r e. Ret (Some (MakeFailedUpdateStatus (Unit_Name unit) (Unit_Image unit) r), Some e));
     case parseImageUrl mp (Unit_Image unit) of
       Panic \<Rightarrow> return Panic
     | Ret (vmId, _) \<Rightarrow> do {
         shown \<leftarrow> anka_Show mp vmId;
         case shown of
           Inr _ \<Rightarrow> do { store_vm (Unit_Name unit) vmId; return (creating ''VMCreated'') }
         | Inl _ \<Rightarrow> do {
             template \<leftarrow> GetVMTemplate mp (Unit_Image unit);
             case template of
               Panic \<Rightarrow> return Panic
             | Ret (Inl e) \<Rightarrow> return (failed ''VMTemplateNotFound'' e)
             | Ret (Inr vmId) \<Rightarrow> do {
                 err \<leftarrow> anka_PullImage mp vmId;
                 case err of
                   Some e \<Rightarrow> return (failed ''VMTemplatePullFailed'' e)
                 | None \<Rightarrow> do {
                     store_vm (Unit_Name unit) vmId;
                     return (creating ''VMTemplatePulled'') } } } } }"

definition no_vm :: "string \<Rightarrow> go_error" where
  "no_vm name = Errorf (''cannot find vm id for unit '' @ name)"

(* src: pkg/runtime/mac/mac.go 84-105 StartContainer *)
definition mac_StartContainer ::
  "mac_params \<Rightarrow> Unit \<Rightarrow> PodSpec \<Rightarrow> string \<Rightarrow> (UnitStatus option \<times> error) mac_m" where
  "mac_StartContainer mp unit spec podName = do {
     vms \<leftarrow> gets UnitsVMIDs;
     case vms (Unit_Name unit) of
       None \<Rightarrow> return (None, Some (no_vm (Unit_Name unit)))
     | Some vmID \<Rightarrow> do {
         r \<leftarrow> anka_Start mp vmID;
         return (case r of
           Inl e \<Rightarrow> (Some (MakeFailedUpdateStatus (Unit_Name unit) (Unit_Image unit) ''VMStartFailed''),
                    Some (Errorf ''cannot start vm: ''))
         | Inr out \<Rightarrow>
             if Resp_Status out \<noteq> AnkaStatusOK
             then (Some (MakeFailedUpdateStatus (Unit_Name unit) (Unit_Image unit) ''VMStartFailed''),
                   Some (Errorf (''cannot start vm: '' @ Resp_Message out)))
             else (Some (zero_UnitStatus\<lparr>UnitStatus_Name := Unit_Name unit,
                     UnitStatus_State := running_state (mp_now mp),
                     UnitStatus_Image := Unit_Image unit, UnitStatus_Ready := True,
                     UnitStatus_Started := Some True\<rparr>), None)) } }"

(* src: pkg/runtime/mac/mac.go 107-122 RemoveContainer *)
definition mac_RemoveContainer :: "mac_params \<Rightarrow> Unit \<Rightarrow> error mac_m" where
  "mac_RemoveContainer mp unit = do {
     vms \<leftarrow> gets UnitsVMIDs;
     case vms (Unit_Name unit) of
       None \<Rightarrow> return (Some (no_vm (Unit_Name unit)))
     | Some vmID \<Rightarrow> do {
         r \<leftarrow> anka_Stop mp vmID;
         case r of
           Inl e \<Rightarrow> return (Some e)
         | Inr out \<Rightarrow>
             if Resp_Status out \<noteq> AnkaStatusOK
             then return (Some (Errorf (''cannot stop vm with id '' @ vmID)))
             else do {
               modify (\<lambda>w. w\<lparr>UnitsVMIDs := (UnitsVMIDs w)(Unit_Name unit := None)\<rparr>);
               return None } } }"

(* src: pkg/runtime/mac/mac.go 135-164 ContainerStatus *)
definition vm_status :: "mac_params \<Rightarrow> string \<Rightarrow> string \<Rightarrow> VMShowOutput \<Rightarrow> UnitStatus" where
  "vm_status mp unitName unitImage out =
     (let st = Show_Status (Show_Body out); failed = MakeFailedUpdateStatus unitName unitImage
      in if st = ''stopped'' then failed ''VMStopped''
         else if st = ''suspended'' then failed ''VMSuspended''
         else if st = ''failed'' then failed ''VMFailed''
         else if st = ''running''
         then zero_UnitStatus\<lparr>UnitStatus_Name := unitName,
                UnitStatus_State :=
                  running_state (case mp_parse_time mp (Show_CreationDate (Show_Body out)) of
                                   None \<Rightarrow> 0 | Some t \<Rightarrow> t),
                UnitStatus_Image := unitImage, UnitStatus_Ready := True,
                UnitStatus_Started := Some True\<rparr>
         else MakeStillCreatingStatus unitName unitImage (Resp_Message out))"

(* src: pkg/runtime/mac/mac.go 124-165 ContainerStatus *)
definition mac_ContainerStatus ::
  "mac_params \<Rightarrow> string \<Rightarrow> string \<Rightarrow> (UnitStatus option \<times> error) mac_m" where
  "mac_ContainerStatus mp unitName unitImage = do {
     vms \<leftarrow> gets UnitsVMIDs;
     case vms unitName of
       None \<Rightarrow> return (None, Some (no_vm unitName))
     | Some vmID \<Rightarrow> do {
         r \<leftarrow> anka_Show mp vmID;
         return (case r of
           Inl e \<Rightarrow> (None, Some e)
         | Inr out \<Rightarrow> (Some (vm_status mp unitName unitImage out), None)) } }"

text \<open>
  The runtime as the controller sees it.  The panic of \<open>CreateContainer\<close> is an error with a nil
  status, on which the controller panics too.
\<close>

(* src: pkg/runtime/mac/mac.go 167-181 GetLogBuffer *)
definition anka_runtime :: "mac_params \<Rightarrow> mac_os runtime" where
  "anka_runtime mp =
     \<lparr>rt_RunPodSandbox = mac_RunPodSandbox, rt_StopPodSandbox = mac_StopPodSandbox,
      rt_RemovePodSandbox = mac_RemovePodSandbox,
      rt_CreateContainer = (\<lambda>u spec podName creds overlay. do {
        r \<leftarrow> mac_CreateContainer mp u spec podName creds overlay;
        return (case r of Ret x \<Rightarrow> x | Panic \<Rightarrow> (None, Some (ErrOther ''slice bounds out of range''))) }),
      rt_StartContainer = mac_StartContainer mp, rt_RemoveContainer = mac_RemoveContainer mp,
      rt_ContainerStatus = mac_ContainerStatus mp, rt_UnitRunning = (\<lambda>n. return True),
      rt_GetPid = (\<lambda>n. return (0, False)), rt_SetPodNetwork = (\<lambda>netNS podIP. return ())\<rparr>"

section \<open>Properties\<close>

text \<open>An image is the address of the registry, a slash and the name of a template.\<close>

lemma IndexByte_neg: "IndexByte s c < 0 \<longleftrightarrow> c \<notin> set s"
  by (induction s) (auto simp: Let_def)

lemma IndexByte_less: "IndexByte s c < int (length s) \<or> s = []"
  by (induction s) (auto simp: Let_def)

lemma IndexByte_append: "c \<notin> set p \<Longrightarrow> IndexByte (p @ c # q) c = int (length p)"
  by (induction p) (auto simp: Let_def)

lemma LastIndexByte_neg: "LastIndexByte s c < 0 \<longleftrightarrow> c \<notin> set s"
  using IndexByte_neg [of "rev s" c] IndexByte_less [of "rev s" c]
  by (auto simp: LastIndexByte_def Let_def)

lemma parseImageUrl_panics: "parseImageUrl mp img = Panic \<longleftrightarrow> CHR ''/'' \<notin> set img"
  by (simp add: parseImageUrl_def Let_def LastIndexByte_neg split: option.split)

lemma parseImageUrl_split:
  assumes "CHR ''/'' \<notin> set vm"
  shows "parseImageUrl mp (base @ ''/'' @ vm) =
    (case mp_parse_url mp (base @ listVMTemplatesPath @ ''?id='' @ vm) of
       None \<Rightarrow> Ret (vm, '''')
     | Some url \<Rightarrow> Ret (vm, if HasPrefix url ''http://'' then url else ''http://'' @ url))"
proof -
  have "IndexByte (rev (base @ ''/'' @ vm)) (CHR ''/'') = int (length vm)"
    using IndexByte_append [of "CHR ''/''" "rev vm" "rev base"] assms by simp
  then have "LastIndexByte (base @ ''/'' @ vm) (CHR ''/'') = int (length base)"
    by (simp add: LastIndexByte_def)
  then show ?thesis
    by (simp add: parseImageUrl_def Let_def nat_add_distrib split: option.split)
qed

text \<open>The address of a registry that is reached by \<open>https\<close> gets a second scheme.\<close>

lemma parseImageUrl_https:
  assumes "CHR ''/'' \<notin> set vm"
    "mp_parse_url mp (base @ listVMTemplatesPath @ ''?id='' @ vm) = Some (''https://'' @ url)"
  shows "parseImageUrl mp (base @ ''/'' @ vm) = Ret (vm, ''http://https://'' @ url)"
  unfolding parseImageUrl_split [OF assms(1)] assms(2) by (simp add: HasPrefix_def)

subsection \<open>Init units\<close>

text \<open>Only units for which a container was created have a machine.\<close>

definition vms_within :: "string set \<Rightarrow> mac_os \<Rightarrow> bool" where
  "vms_within N w \<longleftrightarrow> dom (UnitsVMIDs w) \<subseteq> N"

lemma traceless_vms [simp]: "traceless (vms_within N)"
  by (simp add: traceless_def vms_within_def)

lemma preserves_anka_output [preserves_intros]: "preserves (vms_within N) (anka_output decode cmd)"
  unfolding anka_output_def anka_run_def by (intro preserves_intros traceless_vms)

lemma preserves_anka_Show [preserves_intros]: "preserves (vms_within N) (anka_Show mp vm)"
  unfolding anka_Show_def by (intro preserves_intros)

lemma preserves_anka_PullImage [preserves_intros]: "preserves (vms_within N) (anka_PullImage mp vm)"
  unfolding anka_PullImage_def anka_check_def by (intro preserves_intros)

lemma preserves_GetVMTemplate [preserves_intros]: "preserves (vms_within N) (GetVMTemplate mp vm)"
  unfolding GetVMTemplate_def by (intro preserves_intros traceless_vms)

lemma preserves_store_vm [preserves_intros]: "name \<in> N \<Longrightarrow> preserves (vms_within N) (store_vm name vm)"
  unfolding store_vm_def by (intro preserves_intros) (auto simp: vms_within_def)

lemma vms_CreateContainer:
  "Unit_Name u \<in> N \<Longrightarrow>
   preserves (vms_within N) (rt_CreateContainer (anka_runtime mp) u spec podName creds overlay)"
  unfolding anka_runtime_def runtime.simps mac_CreateContainer_def Let_def
  by (intro preserves_intros)

lemma vms_RemoveContainer: "preserves (vms_within N) (rt_RemoveContainer (anka_runtime mp) u)"
  unfolding anka_runtime_def runtime.simps mac_RemoveContainer_def anka_Stop_def
  by (intro preserves_intros) (auto simp: vms_within_def)

lemma anka_sandbox:
  "rt_StopPodSandbox (anka_runtime mp) spec = return None"
  "rt_RemovePodSandbox (anka_runtime mp) spec = return None"
  "snd (result (rt_RunPodSandbox (anka_runtime mp) spec) w) = spec"
  "UnitsVMIDs (final (rt_RunPodSandbox (anka_runtime mp) spec) w) = UnitsVMIDs w"
  by (simp_all add: anka_runtime_def mac_StopPodSandbox_def mac_RemovePodSandbox_def
      mac_RunPodSandbox_def anka_EnsureAnkaBin_def)

abbreviation pc_vms :: "string set \<Rightarrow> mac_os pod_controller \<Rightarrow> bool" where
  "pc_vms N pc \<equiv> vms_within N (pc_world pc)"

lemma vms_on_rt: "preserves (vms_within N) m \<Longrightarrow> preserves (pc_vms N) (on_rt m)"
  by (simp add: preserves_def)

lemma vms_set_syncError: "preserves (pc_vms N) (set_syncError n st)"
  by (simp add: preserves_def set_syncError_def split: option.split)

lemma vms_create:
  assumes "\<And>u. preserves (pc_vms N) (f u)" "\<And>u. u \<in> set us \<Longrightarrow> Unit_Name u \<in> N"
  shows "preserves (pc_vms N) (create_units (anka_runtime mp) spec f us)"
  unfolding create_units_def
  by (intro preserves_intros vms_on_rt vms_CreateContainer vms_set_syncError assms)

lemma vms_prepare:
  assumes "\<And>u. u \<in> set (PodSpec_Units spec) \<Longrightarrow> Unit_Name u \<in> N"
  shows "preserves (pc_vms N) (sync_prepare (anka_runtime mp) spec status creds)"
proof -
  let ?rt = "anka_runtime mp"
  note intros = preserves_intros vms_on_rt vms_create vms_RemoveContainer
  have run: "pc_vms N (final (on_rt (rt_RunPodSandbox ?rt spec)) pc)" if "pc_vms N pc" for pc
    using that by (simp add: vms_within_def anka_sandbox)
  have made: "pc_vms N (final (create_units ?rt spec (\<lambda>_. return ()) (PodSpec_Units spec)) pc)"
    if "pc_vms N pc" for pc
    by (rule preservesD [where P = "pc_vms N", OF vms_create])
      (auto intro: preserves_intros assms that)
  have removed: "pc_vms N (final (for_err (\<lambda>u. on_rt (rt_RemoveContainer ?rt u)) us) pc)"
    if "pc_vms N pc" for us pc
    by (rule preservesD [where P = "pc_vms N", OF _ that]) (intro intros)
  have create: "preserves (pc_vms N) (CreatePod ?rt spec)"
    unfolding preserves_def CreatePod_def
    using run made by (auto simp: anka_sandbox split_def)
  have restart: "preserves (pc_vms N) (RestartPod ?rt spec status)"
    unfolding preserves_def RestartPod_def
    using run made removed by (auto simp: anka_sandbox split_def)
  have units: "preserves (pc_vms N) (RestartUnits ?rt spec status)"
    unfolding RestartUnits_def remove_unit_def [abs_def] diffUnits_changed Let_def prod.case
    by (intro intros) (auto intro: assms simp: changed_def)
  show ?thesis
    unfolding sync_prepare_def Let_def
    by (cases "detectChangeType spec status")
      (auto intro!: preserves_intros create restart units)
qed

lemma start_without_vm:
  assumes "UnitsVMIDs (pc_world pc) (Unit_Name u) = None"
  shows "result (start_unit (anka_runtime mp) spec u) pc = Some (no_vm (Unit_Name u))"
    "pc_crashed (final (start_unit (anka_runtime mp) spec u) pc)"
  using assms
  by (simp_all add: start_unit_def anka_runtime_def mac_StartContainer_def set_syncError_def)

lemma vms_update_prepare:
  assumes "UnitsVMIDs (pc_world pc) = Map.empty"
  shows "vms_within (Unit_Name ` set (PodSpec_Units (PodParameters_Spec params)))
    (pc_world (final (update_prepare (anka_runtime mp) params) pc))"
proof -
  let ?N = "Unit_Name ` set (PodSpec_Units (PodParameters_Spec params))"
  have names: "Unit_Name u \<in> ?N" if "u \<in> set (PodSpec_Units (merged_spec params))" for u
  proof -
    have "Unit_Name ` set (PodSpec_Units (merged_spec params)) = ?N"
      using arg_cong [OF merged_spec_sel(1) [of params], of set] by simp
    with that show ?thesis by blast
  qed
  have "vms_within ?N (pc_world pc)"
    using assms by (simp add: vms_within_def)
  then show ?thesis
    unfolding update_prepare_def
    by (simp add: preservesD [where P = "pc_vms ?N", OF vms_prepare] names)
qed

text \<open>So the first init unit of a first update takes the agent down.\<close>

lemma anka_crash_run:
  assumes "UnitsVMIDs w = Map.empty"
    "fst (snd (result (update_prepare (anka_runtime mp) params) (NewPodController w))) =
       Some (u # us, units)"
    "Unit_Name u \<notin> Unit_Name ` set (PodSpec_Units (PodParameters_Spec params))"
  shows "\<exists>s. sys_steps (anka_runtime mp) (init_sys w) s \<and> pc_crashed (sys_pc s)"
proof -
  let ?rt = "anka_runtime mp" and ?pc0 = "NewPodController w"
  obtain ev spec pc where run:
      "run_state (update_prepare ?rt params) ?pc0 = ((ev, Some (u # us, units), spec), pc)"
    using assms(2) by (cases "run_state (update_prepare ?rt params) ?pc0") (auto simp: result_def)
  have "vms_within (Unit_Name ` set (PodSpec_Units (PodParameters_Spec params))) (pc_world pc)"
    using vms_update_prepare [of ?pc0 params mp] run assms(1)
    by (simp add: final_def NewPodController_def)
  then have none: "UnitsVMIDs (pc_world pc) (Unit_Name u) = None"
    using assms(3) by (auto simp: vms_within_def)
  let ?pc = "final (update_finish params (spec\<lparr>PodSpec_Phase := PodRunning\<rparr>)) pc"
  have fail: "result (start_unit ?rt spec u) ?pc \<noteq> None" "pc_crashed (final (start_unit ?rt spec u) ?pc)"
    using start_without_vm [of ?pc u mp spec] none by (simp_all add: update_finish_def)
  have "run_state (run_task ?rt spec (T_inits (u # us) units)) ?pc =
      (Ended True, final (start_unit ?rt spec u) ?pc)"
    using fail(1) by (auto simp: run_task_def run_state_result_final)
  then show ?thesis
    using sys_steps.step [OF first_goroutine [OF run] sys_step.ends [where d = True]] fail(2) by fastforce
qed

text \<open>Without its machine a unit has no status either, and the controller's own status panics.\<close>

lemma anka_status_nil:
  assumes "UnitsVMIDs w name = None"
  shows "result (rt_ContainerStatus (anka_runtime mp) name img) w = (None, Some (no_vm name))"
  using assms by (simp add: anka_runtime_def mac_ContainerStatus_def)

lemma anka_GetStatus_panics:
  assumes "PodSpec_Units (pc_podStatus pc) = u # us" "UnitsVMIDs (pc_world pc) (Unit_Name u) = None"
    "pc_syncErrors pc (Unit_Name u) = None"
    "conmap_GetOK (pc_restarting pc) (Unit_Name u) = None"
  shows "result (pc_GetStatus (anka_runtime mp)) pc = Panic"
proof -
  have "result (unit_status (anka_runtime mp) u) pc = None"
    using assms by (simp add: unit_status_def anka_status_nil)
  then show ?thesis using assms(1) by (simp add: pc_GetStatus_def)
qed

end
