(* ===== verification/Agents.thy ===== *)
theory Agents
  imports Pod_Net Unit_Run
begin

text \<open>
  The processes around the server: \<open>cmd/itzo/itzo.go\<close>, which is the server or the helper of one unit;
  \<open>StartUnit\<close>, which runs the unit in the pod's network namespace; the network agent of
  \<open>pkg/host/networkagent.go\<close>; and the writer of container logs, \<open>pkg/containerlog/logger.go\<close>.
\<close>

section \<open>The helper of a unit\<close>

text \<open>The network and the unit, as one state; the result of the unit is kept beside them.\<close>

record start_os = net_os +
  so_unit :: unit_os
  so_result :: "run_result option"

definition run_in :: "run_result unit_m \<Rightarrow> (start_os, error) state" where
  "run_in m = State (\<lambda>w.
     let (r, u) = run_state m (so_unit w)
     in ((case r of Exited None \<Rightarrow> None | _ \<Rightarrow> Some (Errorf ''unit failed'')),
         w\<lparr>so_unit := u, so_result := Some r\<rparr>))"

definition on_so_unit :: "'a unit_m \<Rightarrow> (start_os, 'a) state" where
  "on_so_unit m = State (\<lambda>w. let (r, u) = run_state m (so_unit w) in (r, w\<lparr>so_unit := u\<rparr>))"

lemma on_so_unit_sel [simp]:
  "result (on_so_unit m) w = result m (so_unit w)"
  "final (on_so_unit m) w = w\<lparr>so_unit := final m (so_unit w)\<rparr>"
  by (simp_all add: on_so_unit_def result_def final_def split_def Let_def)

lemma run_in_final [simp]:
  "final (run_in m) w = w\<lparr>so_unit := final m (so_unit w), so_result := Some (result m (so_unit w))\<rparr>"
  by (simp add: run_in_def final_def result_def split_def Let_def)

lemma run_in_result:
  "result (run_in m) w = None \<longleftrightarrow> result m (so_unit w) = Exited None"
  by (simp add: run_in_def result_def split_def Let_def split: run_result.split option.split)

record start_params =
  st_decode_config :: "string \<Rightarrow> go_error + Config"
  st_decode_unit :: "string \<Rightarrow> UnitConfig \<times> error"
  st_pretty :: "Link_Attrs \<Rightarrow> string"
  st_run :: run_params
  st_environ :: "string list"

(* src: pkg/unit/unit_manager.go 59-63 StartUnit *)
definition unit_namespacer ::
  "(Link_Attrs \<Rightarrow> string) \<Rightarrow> string \<Rightarrow> PodSecurityContext \<Rightarrow> start_os NetNamespacer" where
  "unit_namespacer pretty netns psc =
     (if netns \<noteq> '''' \<and> \<not> IsHostNetwork (Some psc)
      then os_NetNamespacer pretty (NewOSNetNamespacer netns) else NoopNetNamespacer)"

(* src: pkg/unit/unit_manager.go 52-69 StartUnit *)
definition StartUnit ::
  "start_params \<Rightarrow> string \<Rightarrow> string \<Rightarrow> string \<Rightarrow> string \<Rightarrow> string \<Rightarrow> string \<Rightarrow> string list \<Rightarrow>
   RestartPolicy \<Rightarrow> (start_os, error) state" where
  "StartUnit sp rootdir podname hostname unitname workingdir netns command policy = do {
     err \<leftarrow> on_so_unit (OpenUnit (st_decode_config sp) (st_decode_unit sp) rootdir unitname);
     case err of
       Some e \<Rightarrow> return (Some e)
     | None \<Rightarrow> do {
         u \<leftarrow> gets so_unit;
         let nser = unit_namespacer (st_pretty sp) netns (UnitConfig_PodSecurityContext (u_unitConfig u));
         nn_WithNetNamespace nser (run_in (Run (st_run sp)
           \<lparr>ra_podname = podname, ra_hostname = hostname, ra_command = command,
            ra_workingdir = workingdir, ra_policy = policy, ra_basedir = rootdir,
            ra_environ = st_environ sp\<rparr>)) } }"

section \<open>The command line\<close>

(* src: cmd/itzo/itzo.go 38-53 main *)
record flags =
  fl_version :: bool
  fl_disableTLS :: bool
  fl_port :: int
  fl_rootdir :: string
  fl_podname :: string
  fl_hostname :: string
  fl_appunit :: string
  fl_appcmdline :: string
  fl_apprestartpolicy :: RestartPolicy
  fl_workingdir :: string
  fl_netns :: string
  fl_usePodman :: bool
  fl_useAnka :: bool

(* src: pkg/runtime/runtime.go 25-29 ItzoRuntimeName *)
abbreviation (input) ItzoRuntimeName :: string where "ItzoRuntimeName \<equiv> ''itzo''"

(* src: pkg/runtime/runtime.go 25-29 PodmanRuntimeName *)
abbreviation (input) PodmanRuntimeName :: string where "PodmanRuntimeName \<equiv> ''podman''"

(* src: pkg/runtime/runtime.go 25-29 AnkaRuntimeName *)
abbreviation (input) AnkaRuntimeName :: string where "AnkaRuntimeName \<equiv> ''anka''"

text \<open>The flags of a command line that sets none.\<close>

(* src: cmd/itzo/itzo.go 40-53 main *)
definition default_flags :: "string \<Rightarrow> flags" where
  "default_flags default_rootdir =
     \<lparr>fl_version = False, fl_disableTLS = False, fl_port = 6421, fl_rootdir = default_rootdir,
      fl_podname = [], fl_hostname = [], fl_appunit = [], fl_appcmdline = [],
      fl_apprestartpolicy = RestartPolicyAlways, fl_workingdir = [], fl_netns = [],
      fl_usePodman = False, fl_useAnka = False\<rparr>"

text \<open>\<open>glog.Fatalf\<close> exits with 255.\<close>

datatype main_action = Exit int | Serve string string string bool

(* src: cmd/itzo/itzo.go 82-98 main *)
definition main_server :: "flags \<Rightarrow> main_action" where
  "main_server f =
     (if fl_version f then Exit 0
      else
        let runtimeName = (if fl_usePodman f then PodmanRuntimeName else ItzoRuntimeName);
            runtimeName = (if fl_useAnka f then AnkaRuntimeName else runtimeName)
        in Serve (fl_rootdir f) runtimeName (''0.0.0.0:'' @ Itoa (fl_port f)) (fl_disableTLS f))"

(* src: cmd/itzo/itzo.go 60-98 main *)
definition itzo_main ::
  "(string \<Rightarrow> go_error + string list) \<Rightarrow> start_params \<Rightarrow> flags \<Rightarrow> (start_os, main_action) state" where
  "itzo_main split sp f =
     (if fl_appcmdline f \<noteq> '''' then
        if fl_usePodman f then return (Exit 1)
        else case split (fl_appcmdline f) of
          Inl e \<Rightarrow> return (Exit 255)
        | Inr cmdargs \<Rightarrow> do {
            err \<leftarrow> StartUnit sp (fl_rootdir f) (fl_podname f) (fl_hostname f) (fl_appunit f)
              (fl_workingdir f) (fl_netns f) cmdargs (fl_apprestartpolicy f);
            return (if err \<noteq> None then Exit 255 else Exit 0) }
      else return (main_server f))"

section \<open>The network agent\<close>

(* src: pkg/host/networkagent.go 29-33 KubeRouterProg *)
abbreviation (input) KubeRouterProg :: string where "KubeRouterProg \<equiv> ''kube-router''"

(* src: pkg/host/networkagent.go 29-33 KubeRouterURL *)
abbreviation (input) KubeRouterURL :: string where
  "KubeRouterURL \<equiv> ''https://milpa-builds.s3.amazonaws.com/kube-router''"

(* src: pkg/host/networkagent.go 29-33 KubeRouterMinimumVersion *)
abbreviation (input) KubeRouterMinimumVersion :: string where "KubeRouterMinimumVersion \<equiv> ''v0.3.1''"

text \<open>A visit of \<open>filepath.Walk\<close>: the path, its last part, whether it is a directory, or an error.\<close>

record walk_entry =
  we_path :: string
  we_name :: string
  we_IsDir :: bool
  we_err :: error

(* src: pkg/host/networkagent.go 46-60 EnsureNetworkAgent *)
fun walk_kubeconfig :: "walk_entry list \<Rightarrow> string \<Rightarrow> go_error + string" where
  "walk_kubeconfig [] kubeconfig = Inr kubeconfig"
| "walk_kubeconfig (e # es) kubeconfig =
     (case we_err e of
        Some err \<Rightarrow> Inl err
      | None \<Rightarrow> walk_kubeconfig es
          (if \<not> we_IsDir e \<and> we_name e = ''kubeconfig'' then we_path e else kubeconfig))"

(* src: pkg/host/networkagent.go 81-92 EnsureNetworkAgent *)
definition agent_args :: "string \<Rightarrow> string \<Rightarrow> string \<Rightarrow> string list" where
  "agent_args kubeconfig nodeName IP =
     [''--kubeconfig='' @ kubeconfig, ''--hostname-override='' @ nodeName,
      ''--ip-address-override='' @ IP, ''--hairpin-mode=true'', ''--disable-source-dest-check=false'',
      ''--enable-pod-egress=false'', ''--enable-cni=false'', ''--run-router=false'', ''--v=2'']"

text \<open>\<open>walk dir\<close> is what a walk of the directory visits; the value is the command, or nil.\<close>

(* src: pkg/host/networkagent.go 35-102 EnsureNetworkAgent *)
definition EnsureNetworkAgent ::
  "(string \<Rightarrow> bool) \<Rightarrow> (string \<Rightarrow> string \<Rightarrow> int) \<Rightarrow> (string \<Rightarrow> walk_entry list) \<Rightarrow>
   string \<Rightarrow> string \<Rightarrow> string \<Rightarrow> ('a os_scheme, string list option) state" where
  "EnsureNetworkAgent is_semver compare walk IP nodeName baseDir = do {
     (pth, err) \<leftarrow> EnsureProg is_semver compare KubeRouterProg KubeRouterURL
                     KubeRouterMinimumVersion ''--version'';
     if err \<noteq> None then return None
     else case walk_kubeconfig (walk (filepath_Join [baseDir, ''packages/kubeconfig''])) '''' of
       Inl e \<Rightarrow> return None
     | Inr kubeconfig \<Rightarrow>
         if kubeconfig = '''' then return None
         else do {
           os_try (Os_MkdirAll ''/var/log'' 493);
           os_try (Os_OpenFile ''/var/log/kube-router.log'');
           let cmd = pth # agent_args kubeconfig nodeName IP;
           err \<leftarrow> os_do (Sys_Start cmd [] False);
           return (if err \<noteq> None then None else Some cmd) } }"

section \<open>Container logs\<close>

(* src: pkg/containerlog/logger.go 10-10 LogStream *)
type_synonym LogStream = string

(* src: pkg/containerlog/logger.go 12-15 Stdout *)
abbreviation (input) Stdout :: LogStream where "Stdout \<equiv> ''stdout''"

(* src: pkg/containerlog/logger.go 12-15 Stderr *)
abbreviation (input) Stderr :: LogStream where "Stderr \<equiv> ''stderr''"

(* src: pkg/containerlog/logger.go 23-32 JSONLog *)
record JSONLog =
  JSONLog_Log :: string
  JSONLog_Stream :: string
  JSONLog_Created :: Time
  JSONLog_Attrs :: "string \<rightharpoonup> string"

text \<open>The file is written by a library; its state is the lines written, and it may refuse one.\<close>

(* src: pkg/containerlog/logger.go 17-20 Logger *)
record Logger =
  Logger_Filename :: string
  Logger_MaxSize :: int
  Logger_MaxBackups :: int
  Logger_MaxAge :: int
  Logger_attrs :: "string \<rightharpoonup> string"

(* src: pkg/containerlog/logger.go 34-49 NewLogger *)
definition NewLogger :: "string \<Rightarrow> int \<Rightarrow> int \<Rightarrow> int \<Rightarrow> (string \<rightharpoonup> string) \<Rightarrow> Logger" where
  "NewLogger filename maxSize maxBackups maxAge attrs =
     \<lparr>Logger_Filename = filename, Logger_MaxSize = maxSize, Logger_MaxBackups = maxBackups,
      Logger_MaxAge = maxAge, Logger_attrs = attrs\<rparr>"

(* src: pkg/containerlog/logger.go 51-64 Write *)
definition Logger_Write ::
  "(JSONLog \<Rightarrow> go_error + string) \<Rightarrow> Logger \<Rightarrow> Time \<Rightarrow> LogStream \<Rightarrow> string \<Rightarrow>
   ('a os_scheme, error) state" where
  "Logger_Write marshal l now stream line =
     (case marshal \<lparr>JSONLog_Log = line, JSONLog_Stream = stream, JSONLog_Created = now,
                    JSONLog_Attrs = Logger_attrs l\<rparr> of
        Inl err \<Rightarrow> return (Some err)
      | Inr buf \<Rightarrow> os_do (Io_WriteFile (Logger_Filename l) (buf @ [CHR 10]) 0))"

section \<open>Properties\<close>

text \<open>Every unit that does not use the host's network runs in the pod's namespace, and only there.\<close>

lemma StartUnit_runs_in:
  assumes "can_return (net_env w) (net_ns w)" "netns \<noteq> ''''"
    "\<not> IsHostNetwork (Some psc)"
    "h = nr_handle (net_env w (net_log w) (Netns_GetFromName netns))"
    "result (nn_WithNetNamespace (unit_namespacer pretty netns psc) (run_in m)) w = None"
  shows "so_result (final (nn_WithNetNamespace (unit_namespacer pretty netns psc) (run_in m)) w) =
      Some (Exited None)"
    "net_ns (final (nn_WithNetNamespace (unit_namespacer pretty netns psc) (run_in m)) w) = net_ns w"
    "(net_ns w, Netns_Set h) \<in> set (net_log
      (final (nn_WithNetNamespace (unit_namespacer pretty netns psc) (run_in m)) w))"
proof -
  note defs = unit_namespacer_def os_NetNamespacer_def WithNetNamespace_def withNetNamespace_def
    netns_Set_def NewOSNetNamespacer_def
  show "so_result (final (nn_WithNetNamespace (unit_namespacer pretty netns psc) (run_in m)) w) =
      Some (Exited None)"
    using assms(2-5)
    by (auto simp: defs run_in_result split: option.splits if_splits run_result.splits)
  show "net_ns (final (nn_WithNetNamespace (unit_namespacer pretty netns psc) (run_in m)) w) = net_ns w"
    using assms by (auto simp: defs can_return_def split: option.splits if_splits)
  show "(net_ns w, Netns_Set h) \<in> set (net_log
      (final (nn_WithNetNamespace (unit_namespacer pretty netns psc) (run_in m)) w))"
    using assms(2-5) by (auto simp: defs split: option.splits if_splits)
qed

text \<open>The last file of that name is the configuration.\<close>

lemma walk_kubeconfig_found:
  assumes "walk_kubeconfig es k = Inr p"
  shows "p = k \<or> (\<exists>e \<in> set es. we_path e = p \<and> we_name e = ''kubeconfig'' \<and> \<not> we_IsDir e)"
  using assms by (induction es arbitrary: k) (fastforce split: option.splits if_splits)+

text \<open>The agent is started with the address and the name it was given, and only with a configuration.\<close>

lemma agent_command:
  assumes "result (EnsureNetworkAgent is_semver compare walk IP nodeName baseDir) w = Some cmd"
  shows "\<exists>pth kubeconfig. cmd = pth # agent_args kubeconfig nodeName IP \<and> kubeconfig \<noteq> '''' \<and>
    walk_kubeconfig (walk (filepath_Join [baseDir, ''packages/kubeconfig''])) '''' = Inr kubeconfig"
  using assms
  by (auto simp: EnsureNetworkAgent_def Let_def split: sum.splits if_splits prod.splits)

lemma main_anka_wins:
  "\<not> fl_version f \<Longrightarrow> fl_useAnka f \<Longrightarrow>
   main_server f = Serve (fl_rootdir f) AnkaRuntimeName (''0.0.0.0:'' @ Itoa (fl_port f)) (fl_disableTLS f)"
  by (simp add: main_server_def)

end
