(* ===== verification/Log_Stream.thy ===== *)
theory Log_Stream
  imports Logbuf
begin

text \<open>
  Reading and following the logs of a unit: \<open>pkg/runtime/options.go\<close>, the paths of
  \<open>pkg/server/http_utils.go\<close>, and of \<open>pkg/server/server.go\<close> what the log handler sends, the loop of
  the log tailer and that of attach.  A loop is a function of the ticks of its timer: whether the unit
  ran, the log buffer each time it was read, and whether the message could be written.
\<close>

section \<open>Options\<close>

(* src: pkg/runtime/options.go 27-33 LogOptions *)
record LogOptions =
  Opt_UnitName :: string
  Opt_Follow :: bool
  Opt_WithMetadata :: bool
  Opt_LineNum :: int
  Opt_BytesNum :: int

text \<open>What the code reads of a \<open>url.URL\<close>; parsing gives a path and the first value of each key.\<close>

record RequestURL =
  ReqURL_RawQuery :: string
  ReqURL_Path :: string
  ReqURL_String :: string

type_synonym parse_url = "string \<Rightarrow> go_error + (string \<times> (string \<Rightarrow> string))"

definition path_parts :: "string \<Rightarrow> string list" where
  "path_parts path = split_on (CHR ''/'') (TrimPrefix path ''/'')"

(* src: pkg/server/http_utils.go 44-54 getUnitFromPath *)
definition getUnitFromPath :: "string \<Rightarrow> string" where
  "getUnitFromPath path =
     (let parts = path_parts path
      in if length parts > 3 then strings_Join (drop 3 parts) ''/'' else '''')"

(* src: pkg/server/http_utils.go 35-42 getURLPart *)
definition getURLPart :: "int \<Rightarrow> string \<Rightarrow> go_error + string" where
  "getURLPart i path =
     (let parts = path_parts path
      in if i < 1 \<or> i > int (length parts)
         then Inl (Errorf (''Could not find part '' @ Itoa i @ '' of url''))
         else Inr (parts ! nat (i - 1)))"

definition int_param :: "string \<Rightarrow> int" where
  "int_param s = (if s \<noteq> '''' then (case Atoi s of Inr i \<Rightarrow> i | Inl e \<Rightarrow> 0) else 0)"

(* src: pkg/runtime/options.go 35-91 NewLogOptionsFromURL *)
definition NewLogOptionsFromURL :: "parse_url \<Rightarrow> RequestURL \<Rightarrow> go_error + LogOptions" where
  "NewLogOptionsFromURL parse logUrl =
     (case parse (if ReqURL_RawQuery logUrl \<noteq> '''' then ReqURL_String logUrl else ReqURL_Path logUrl) of
        Inl err \<Rightarrow> Inl err
      | Inr (path, q) \<Rightarrow> Inr
          \<lparr>Opt_UnitName =
             (let parts = path_parts path
              in if length parts > 3 then strings_Join (drop 3 parts) ''/'' else ''''),
           Opt_Follow = (q ''follow'' \<noteq> ''''), Opt_WithMetadata = (q ''metadata'' = ''1''),
           Opt_LineNum = int_param (q ''lines''), Opt_BytesNum = int_param (q ''bytes'')\<rparr>)"

section \<open>One answer\<close>

text \<open>The formatted entries; \<^term>\<open>None\<close> is the panic of \<open>Format\<close> on an empty line.\<close>

fun format_all :: "bool \<Rightarrow> LogEntry list \<Rightarrow> string option" where
  "format_all withMetadata [] = Some ''''"
| "format_all withMetadata (e # es) =
     (case LogEntry_Format e withMetadata of
        None \<Rightarrow> None
      | Some s \<Rightarrow> map_option (\<lambda>rest. s @ rest) (format_all withMetadata es))"

(* src: pkg/server/server.go 269-281 logsHandler *)
definition logs_body :: "LogOptions \<Rightarrow> LogBuffer \<Rightarrow> string option" where
  "logs_body opts logBuffer =
     Option.bind (Read logBuffer (Opt_LineNum opts)) (\<lambda>logs.
       map_option (\<lambda>buffStr.
         if Opt_BytesNum opts > 0 \<and> int (length buffStr) > Opt_BytesNum opts
         then drop (nat (int (length buffStr) - Opt_BytesNum opts)) buffStr else buffStr)
         (format_all (Opt_WithMetadata opts) logs))"

section \<open>Following\<close>

datatype ws_chan = StdinChan | StdoutChan | StderrChan | ExitCodeChan

type_synonym ws_msg = "ws_chan \<times> string"

record tick =
  tk_running :: bool
  tk_peek :: LogBuffer
  tk_log :: LogBuffer
  tk_written :: bool

definition not_running :: "string \<Rightarrow> ws_msg" where
  "not_running unitName = (StderrChan, ''Unit '' @ unitName @ '' is not running'' @ [CHR 10])"

text \<open>What is sent until the client goes away, which ends the ticks; \<^term>\<open>None\<close> is a panic.\<close>

(* src: pkg/server/server.go 297-330 RunLogTailer *)
fun tail_ticks :: "string \<Rightarrow> bool \<Rightarrow> int \<Rightarrow> tick list \<Rightarrow> ws_msg list option" where
  "tail_ticks unitName withMetadata lastOffset [] = Some []"
| "tail_ticks unitName withMetadata lastOffset (t # ts) =
     (let finished = (if tk_running t then Some False
                      else map_option (\<lambda>r. fst r = []) (ReadSince (tk_peek t) lastOffset))
      in case finished of
           None \<Rightarrow> None
         | Some True \<Rightarrow> Some [not_running unitName]
         | Some False \<Rightarrow>
             (case ReadSince (tk_log t) lastOffset of
                None \<Rightarrow> None
              | Some (es, lastOffset) \<Rightarrow>
                  if es = [] then tail_ticks unitName withMetadata lastOffset ts
                  else (case format_all withMetadata es of
                          None \<Rightarrow> None
                        | Some msg \<Rightarrow>
                            if \<not> tk_written t then Some []
                            else map_option (\<lambda>ms. (StdoutChan, msg) # ms)
                                   (tail_ticks unitName withMetadata lastOffset ts))))"

(* src: pkg/server/server.go 287-331 RunLogTailer *)
definition RunLogTailer :: "error \<Rightarrow> string \<Rightarrow> bool \<Rightarrow> LogBuffer \<Rightarrow> tick list \<Rightarrow> ws_msg list option" where
  "RunLogTailer upgraded unitName withMetadata logBuffer ticks =
     (if upgraded \<noteq> None then Some []
      else tail_ticks unitName withMetadata (GetOffset logBuffer) ticks)"

text \<open>The entries of one tick of attach, to the channel of their source.\<close>

(* src: pkg/server/server.go 543-556 runAttach *)
definition attach_msgs :: "LogEntry list \<Rightarrow> ws_msg list" where
  "attach_msgs es =
     map (\<lambda>e. (if LogEntry_Source e = StderrLogSource then StderrChan else StdoutChan, LogEntry_Line e))
       (filter (\<lambda>e. LogEntry_Source e \<noteq> HelperLogSource) es)"

(* src: pkg/server/server.go 526-558 runAttach *)
fun attach_ticks :: "string \<Rightarrow> int \<Rightarrow> tick list \<Rightarrow> ws_msg list option" where
  "attach_ticks unitName lastOffset [] = Some []"
| "attach_ticks unitName lastOffset (t # ts) =
     (if \<not> tk_running t then Some [not_running unitName]
      else case ReadSince (tk_log t) lastOffset of
        None \<Rightarrow> None
      | Some (es, lastOffset) \<Rightarrow>
          if attach_msgs es \<noteq> [] \<and> \<not> tk_written t then Some []
          else map_option (\<lambda>ms. attach_msgs es @ ms) (attach_ticks unitName lastOffset ts))"

section \<open>Properties\<close>

lemma logs_body_bounded:
  assumes "logs_body opts lb = Some s" "Opt_BytesNum opts > 0"
  shows "int (length s) \<le> Opt_BytesNum opts"
proof -
  let ?n = "Opt_BytesNum opts"
  obtain z where "s = (if ?n > 0 \<and> int (length z) > ?n then drop (nat (int (length z) - ?n)) z else z)"
    using assms(1) by (auto simp: logs_body_def bind_eq_Some_conv)
  then show ?thesis
    using assms(2) by (cases "int (length z) > ?n") simp_all
qed

lemma format_plain: "format_all False es = Some (concat (map LogEntry_Line es))"
  by (induction es) (simp_all add: LogEntry_Format_def)

text \<open>
  \<open>sees h bs ts\<close>: the ticks of a unit that ran and then stopped, over a log that held \<open>h\<close> and to
  which the batches \<open>bs\<close> were added, each before the tick that read it; the last tick finds the unit
  stopped and nothing new.
\<close>

fun sees :: "LogEntry list \<Rightarrow> LogEntry list list \<Rightarrow> tick list \<Rightarrow> bool" where
  "sees h [] [t] = (\<not> tk_running t \<and> repr (tk_peek t) h)"
| "sees h (b # bs) (t # ts) =
     (repr (tk_log t) (h @ b) \<and> length b \<le> nat (LogBuffer_capacity (tk_log t)) \<and> tk_written t \<and>
      (tk_running t \<or> b \<noteq> [] \<and> repr (tk_peek t) (h @ b) \<and>
         length b \<le> nat (LogBuffer_capacity (tk_peek t))) \<and> sees (h @ b) bs ts)"
| "sees h bs ts = False"

lemma ReadSince_batch:
  assumes "repr lb (h @ b)" "length b \<le> nat (LogBuffer_capacity lb)"
  shows "ReadSince lb (int (length h)) = Some (b, int (length (h @ b)))"
  using logbuf.since_window [OF assms(1), of "length h"] assms(2) by simp

text \<open>The tailer sends every entry, in order, and then says that the unit has stopped.\<close>

lemma tail_complete:
  assumes "sees h bs ts"
  shows "tail_ticks unitName False (int (length h)) ts =
    Some (map (\<lambda>b. (StdoutChan, concat (map LogEntry_Line b))) (filter (\<lambda>b. b \<noteq> []) bs)
          @ [not_running unitName])"
  using assms
proof (induction h bs ts rule: sees.induct)
  case (1 h t)
  then show ?case using ReadSince_batch [of "tk_peek t" h "[]"] by simp
next
  case (2 h b bs t ts)
  have "ReadSince (tk_log t) (int (length h)) = Some (b, int (length (h @ b)))"
    using 2 by (intro ReadSince_batch) simp_all
  moreover have "fst (the (ReadSince (tk_peek t) (int (length h)))) = b \<and>
      ReadSince (tk_peek t) (int (length h)) \<noteq> None" if "\<not> tk_running t"
    using 2 that ReadSince_batch [of "tk_peek t" h b] by simp
  ultimately show ?case
    using 2 by (cases "tk_running t"; cases "b = []") (auto simp: format_plain Let_def)
qed simp_all

text \<open>Attach sends what it read while the unit ran; what was written after that is lost.\<close>

lemma attach_complete:
  assumes "grows repr h lbs" "list_all (\<lambda>(l, b). length b \<le> nat (LogBuffer_capacity l)) lbs"
    "map tk_log ts = map fst lbs" "list_all (\<lambda>t. tk_running t \<and> tk_written t) ts" "\<not> tk_running t"
  shows "attach_ticks unitName (int (length h)) (ts @ [t]) =
    Some (attach_msgs (concat (map snd lbs)) @ [not_running unitName])"
  using assms(1-4)
proof (induction lbs arbitrary: h ts)
  case Nil
  then show ?case using assms(5) by (simp add: attach_msgs_def)
next
  case (Cons lb lbs)
  obtain l b where lb: "lb = (l, b)" by (cases lb)
  obtain u us where ts: "ts = u # us" using Cons.prems(3) by (cases ts) auto
  have "ReadSince l (int (length h)) = Some (b, int (length (h @ b)))"
    using Cons.prems lb by (intro ReadSince_batch) auto
  moreover have "attach_ticks unitName (int (length (h @ b))) (us @ [t]) =
      Some (attach_msgs (concat (map snd lbs)) @ [not_running unitName])"
    using Cons.prems lb ts by (intro Cons.IH) auto
  ultimately show ?case
    using Cons.prems lb ts by (simp add: attach_msgs_def)
qed

end
