(* ===== verification/Exec_Cmd.thy ===== *)
theory Exec_Cmd
  imports Log_Stream Unit_Status Users
begin

text \<open>
  \<open>pkg/server/exec.go\<close>: running a command inside a unit for a client.  What is run is worked out from
  the unit's files, its users and its process; then the client is sent the output, and last the exit
  code.  The copying of the streams is represented by the output it copies.
\<close>

section \<open>The command\<close>

text \<open>
  \<open>xe_pid\<close> is the controller's \<open>GetPid\<close>; \<open>xe_environ\<close> is the environment of a process, or none when
  \<open>/proc\<close> cannot be read; \<open>xe_Sprintf\<close> formats a text that has no arguments.
\<close>

record exec_params =
  xe_decode_config :: "string \<Rightarrow> go_error + Config"
  xe_decode_unit :: "string \<Rightarrow> UnitConfig \<times> error"
  xe_passwd :: "string \<Rightarrow> go_error + pwd_User list"
  xe_group :: "string \<Rightarrow> go_error + pwd_Group list"
  xe_pid :: "string \<Rightarrow> int \<times> bool"
  xe_environ :: "int \<Rightarrow> string list option"
  xe_Sprintf :: "string \<Rightarrow> string"

datatype exec_plan =
    Refused string
  | Command "string list" "string list"

definition no_process :: "int \<Rightarrow> string \<Rightarrow> string" where
  "no_process pid unitName =
     ''Could not find process '' @ Itoa pid @ '' for unit named '' @ unitName @ [CHR 10]"

(* src: pkg/server/exec.go 110-127 runExec *)
definition nsenterCmd :: "int \<Rightarrow> nat \<Rightarrow> nat \<Rightarrow> string list" where
  "nsenterCmd pid uid gid =
     [''/usr/bin/nsenter'', ''-t'', Itoa pid, ''-p'', ''-u'', ''-m'', ''-n''] @
     (if uid \<noteq> 0 \<or> gid \<noteq> 0 then [''-S'', Itoa (int uid), ''-G'', Itoa (int gid)] else [])"

(* src: pkg/server/exec.go 88-128 runExec *)
definition enter_process ::
  "exec_params \<Rightarrow> ExecParams \<Rightarrow> string \<Rightarrow> nat \<Rightarrow> nat \<Rightarrow> string \<Rightarrow> exec_plan" where
  "enter_process xe params unitName uid gid homedir =
     (let (pid, exists) = xe_pid xe unitName
      in if \<not> exists
         then Refused (''Could not find running process for unit named '' @ unitName @ [CHR 10])
         else case xe_environ xe pid of
           None \<Rightarrow> Refused (no_process pid unitName)
         | Some environ \<Rightarrow>
             Command (nsenterCmd pid uid gid @ ExecParams_Command params)
               (EnsureDefaultEnviron environ (ExecParams_PodName params) homedir))"

(* src: pkg/server/exec.go 64-87 runExec *)
definition exec_in_unit ::
  "exec_params \<Rightarrow> string \<Rightarrow> ExecParams \<Rightarrow> string \<Rightarrow> exec_plan outcome unit_m" where
  "exec_in_unit xe rootdir params unitName = do {
     err \<leftarrow> OpenUnit (xe_decode_config xe) (xe_decode_unit xe) rootdir unitName;
     u \<leftarrow> gets (\<lambda>u. u);
     return (case err of
       Some e \<Rightarrow> Ret (Refused (''Error opening unit '' @ unitName @ '' for exec: '' @ Error e @ [CHR 10]))
     | None \<Rightarrow>
     (case NewPasswdUserLookup (GetRootfs u) (xe_passwd xe) (xe_group xe) of
        Inl e \<Rightarrow> Ret (Refused (''Error creating user lookup in '' @ unitName @ '' for exec: '' @
                   Error e @ [CHR 10]))
      | Inr lookup \<Rightarrow>
     (case GetUser u (passwd_lookup lookup) of
        Panic \<Rightarrow> Panic
      | Ret (Inl e) \<Rightarrow> Ret (Refused (''Error getting unit '' @ unitName @ '' user for exec: '' @
                         Error e @ [CHR 10]))
      | Ret (Inr (uid, gid, _, homedir)) \<Rightarrow>
          Ret (enter_process xe params unitName uid gid homedir)))) }"

text \<open>\<open>name\<close> is what the controller's \<open>GetUnitName\<close> gives for the name of the request.\<close>

(* src: pkg/server/exec.go 44-133 runExec *)
definition exec_plan_of ::
  "exec_params \<Rightarrow> string \<Rightarrow> ExecParams \<Rightarrow> string \<times> error \<Rightarrow> exec_plan outcome unit_m" where
  "exec_plan_of xe rootdir params name =
     (if ExecParams_Command params = [] then return (Ret (Refused ''No command specified''))
      else case name of
        (_, Some e) \<Rightarrow> return (Ret (Refused (xe_Sprintf xe (Error e))))
      | (unitName, None) \<Rightarrow>
          if ExecParams_SkipNSEnter params
          then return (Ret (Command (ExecParams_Command params) []))
          else exec_in_unit xe rootdir params unitName)"

section \<open>The answer\<close>

(* src: pkg/server/stream_utils.go 48-54 writeWSErrorExitcode *)
definition writeWSErrorExitcode :: "string \<Rightarrow> ws_msg list" where
  "writeWSErrorExitcode msg = [(StderrChan, msg), (ExitCodeChan, ''-1'')]"

text \<open>What \<open>cmd.Wait\<close> gives: nil, the exit status of the process, or another error.\<close>

datatype wait_result = W_ok | W_exit int | W_error

(* src: pkg/server/exec.go 257-266 waitForFinished *)
definition exit_code_str :: "wait_result \<Rightarrow> string" where
  "exit_code_str r = (case r of W_exit n \<Rightarrow> Itoa n | _ \<Rightarrow> ''0'')"

text \<open>
  How a command ends: it does not start, the client goes away and it is killed, or it ends after its
  output.  The exit code is written once both streams have been copied to their end.
\<close>

datatype exec_run =
    X_start_failed go_error
  | X_closed "ws_msg list"
  | X_ended "ws_msg list" wait_result

(* src: pkg/server/exec.go 249-280 waitForFinished *)
definition waitForFinished :: "exec_run \<Rightarrow> ws_msg list \<times> bool" where
  "waitForFinished run =
     (case run of
        X_start_failed e \<Rightarrow> ([], False)
      | X_closed out \<Rightarrow> (out, True)
      | X_ended out r \<Rightarrow> (out @ [(ExitCodeChan, exit_code_str r)], False))"

text \<open>The messages to the client, and whether the process is killed.\<close>

(* src: pkg/server/exec.go 146-193 runExecCmd *)
definition runExecCmd :: "exec_params \<Rightarrow> exec_run \<Rightarrow> ws_msg list \<times> bool" where
  "runExecCmd xe run =
     (case run of
        X_start_failed e \<Rightarrow> (writeWSErrorExitcode (xe_Sprintf xe (Error e)), False)
      | _ \<Rightarrow> waitForFinished run)"

(* src: pkg/server/exec.go 131-144 runExec *)
definition runExec :: "exec_params \<Rightarrow> (string list \<Rightarrow> string list \<Rightarrow> exec_run) \<Rightarrow> exec_plan \<Rightarrow> ws_msg list \<times> bool"
  where
  "runExec xe start plan =
     (case plan of
        Refused msg \<Rightarrow> (writeWSErrorExitcode msg, False)
      | Command command env \<Rightarrow> runExecCmd xe (start command env))"

section \<open>Properties\<close>

text \<open>
  What is run in a unit is the client's command inside the namespaces of the unit's process, as the
  unit's user when that is not root.
\<close>

lemma exec_in_unit_command:
  assumes "result (exec_in_unit xe rootdir params name) u = Ret (Command cmd env)"
  shows "\<exists>pid environ lookup uid gid groups homedir. xe_pid xe name = (pid, True) \<and>
     xe_environ xe pid = Some environ \<and>
     (let w = final (OpenUnit (xe_decode_config xe) (xe_decode_unit xe) rootdir name) u
      in NewPasswdUserLookup (GetRootfs w) (xe_passwd xe) (xe_group xe) = Inr lookup \<and>
         GetUser w (passwd_lookup lookup) = Ret (Inr (uid, gid, groups, homedir))) \<and>
     cmd = nsenterCmd pid uid gid @ ExecParams_Command params \<and>
     env = EnsureDefaultEnviron environ (ExecParams_PodName params) homedir"
  using assms
  by (auto simp: exec_in_unit_def enter_process_def Let_def
      split: option.splits sum.splits outcome.splits prod.splits if_splits)

text \<open>A command that is refused or does not start is reported with the code -1; one that ends, last.\<close>

lemma exec_one_exit_code:
  assumes "\<And>cmd env out r. start cmd env = X_ended out r \<or> start cmd env = X_closed out \<Longrightarrow>
    list_all (\<lambda>m. fst m \<noteq> ExitCodeChan) out"
  shows "\<not> snd (runExec xe start plan) \<Longrightarrow>
    \<exists>ms code. fst (runExec xe start plan) = ms @ [(ExitCodeChan, code)] \<and>
      list_all (\<lambda>m. fst m \<noteq> ExitCodeChan) ms"
    "snd (runExec xe start plan) \<Longrightarrow> list_all (\<lambda>m. fst m \<noteq> ExitCodeChan) (fst (runExec xe start plan))"
proof -
  have err: "\<exists>ms code. writeWSErrorExitcode m = ms @ [(ExitCodeChan, code)] \<and>
      list_all (\<lambda>m. fst m \<noteq> ExitCodeChan) ms" for m
    unfolding writeWSErrorExitcode_def
    by (rule exI [where x = "[(StderrChan, m)]"]) simp
  show "\<not> snd (runExec xe start plan) \<Longrightarrow>
    \<exists>ms code. fst (runExec xe start plan) = ms @ [(ExitCodeChan, code)] \<and>
      list_all (\<lambda>m. fst m \<noteq> ExitCodeChan) ms"
    using assms err
    by (auto simp: runExec_def runExecCmd_def waitForFinished_def
        split: exec_plan.splits exec_run.splits)
  show "snd (runExec xe start plan) \<Longrightarrow>
      list_all (\<lambda>m. fst m \<noteq> ExitCodeChan) (fst (runExec xe start plan))"
    using assms
    by (auto simp: runExec_def runExecCmd_def waitForFinished_def
        split: exec_plan.splits exec_run.splits)
qed

text \<open>An error of waiting that is not an exit status is reported as success.\<close>

lemma exit_code_of_error: "exit_code_str W_error = exit_code_str W_ok"
  by (simp add: exit_code_str_def)

end
