(* ===== verification/Metrics.thy ===== *)
theory Metrics
  imports Api_Types "HOL-Library.Word"
begin

text \<open>
  \<open>pkg/metrics\<close>: what the status of a pod says about its use of the machine.  The counters come from
  the libraries as 64-bit words; \<open>fl\<close> is the conversion to a floating-point number.  The use of the
  processors is arithmetic on floats, over any operations on them.
\<close>

section \<open>The counters\<close>

record MemoryUsage =
  mu_Usage :: "64 word"
  mu_Limit :: "64 word"

record MemoryStat =
  ms_TotalRSS :: "64 word"
  ms_TotalPgFault :: "64 word"
  ms_TotalPgMajFault :: "64 word"
  ms_TotalInactiveFile :: "64 word"
  ms_Usage :: "MemoryUsage option"

record CgroupStat =
  cg_CPUTotal :: "64 word option option"
  cg_Memory :: "MemoryStat option"

record DiskUsage =
  du_UsedPercent :: real
  du_Free :: "64 word"
  du_Total :: "64 word"
  du_Used :: "64 word"
  du_InodesFree :: "64 word"
  du_InodesTotal :: "64 word"
  du_InodesUsed :: "64 word"

record NetCounters =
  nc_Name :: string
  nc_BytesSent :: "64 word"
  nc_BytesRecv :: "64 word"
  nc_Errin :: "64 word"
  nc_Errout :: "64 word"

text \<open>What the host answers; an error is \<open>Inl\<close>.\<close>

record host_stats =
  hs_Load :: "string \<Rightarrow> error"
  hs_Stat :: "string \<Rightarrow> go_error + CgroupStat"
  hs_MemAvailable :: "go_error + 64 word"
  hs_MemUsedPercent :: "go_error + real"
  hs_Disk :: "go_error + DiskUsage"
  hs_Net :: "go_error + NetCounters list"
  hs_CpuPercent :: "go_error + real list"

section \<open>Units\<close>

(* src: pkg/metrics/metrics_linux.go 74-80 getWorkingSet *)
definition getWorkingSet :: "MemoryStat \<Rightarrow> MemoryUsage \<Rightarrow> 64 word" where
  "getWorkingSet memory usage =
     (if ms_TotalInactiveFile memory < mu_Usage usage
      then mu_Usage usage - ms_TotalInactiveFile memory else mu_Usage usage)"

(* src: pkg/metrics/metrics_linux.go 82-86 isMemoryUnlimited *)
definition isMemoryUnlimited :: "64 word \<Rightarrow> bool" where
  "isMemoryUnlimited v \<longleftrightarrow> 2 ^ 62 < v"

(* src: pkg/metrics/metrics_linux.go 54-70 ReadUnitMetrics *)
definition memory_metrics ::
  "(64 word \<Rightarrow> real) \<Rightarrow> host_stats \<Rightarrow> string \<Rightarrow> MemoryStat \<Rightarrow> MemoryUsage \<Rightarrow>
   ResourceMetrics \<Rightarrow> ResourceMetrics" where
  "memory_metrics fl hs name m usage metrics =
     (let workingSet = getWorkingSet m usage;
          metrics = metrics(name @ ''.memoryRSS'' \<mapsto> fl (ms_TotalRSS m),
            name @ ''.memoryPageFaults'' \<mapsto> fl (ms_TotalPgFault m),
            name @ ''.memoryMajorPageFaults'' \<mapsto> fl (ms_TotalPgMajFault m),
            name @ ''.memoryUsage'' \<mapsto> fl (mu_Usage usage),
            name @ ''.memoryWorkingSet'' \<mapsto> fl workingSet)
      in if \<not> isMemoryUnlimited (mu_Limit usage)
         then metrics(name @ ''.memoryAvailable'' \<mapsto> fl (mu_Limit usage - workingSet))
         else case hs_MemAvailable hs of
           Inr available \<Rightarrow> metrics(name @ ''.memoryAvailable'' \<mapsto> fl available)
         | Inl e \<Rightarrow> metrics)"

(* src: pkg/metrics/metrics_linux.go 39-72 ReadUnitMetrics *)
definition ReadUnitMetrics :: "(64 word \<Rightarrow> real) \<Rightarrow> host_stats \<Rightarrow> string \<Rightarrow> ResourceMetrics" where
  "ReadUnitMetrics fl hs name =
     (if hs_Load hs name \<noteq> None then Map.empty
      else case hs_Stat hs name of
        Inl e \<Rightarrow> Map.empty
      | Inr cm \<Rightarrow>
          let metrics = (case cg_CPUTotal cm of
                           Some (Some t) \<Rightarrow> [name @ ''.cpuUsage'' \<mapsto> fl t]
                         | _ \<Rightarrow> Map.empty)
          in case cg_Memory cm of
               None \<Rightarrow> metrics
             | Some m \<Rightarrow>
                 (case ms_Usage m of
                    None \<Rightarrow> metrics
                  | Some usage \<Rightarrow> memory_metrics fl hs name m usage metrics))"

section \<open>The system\<close>

(* src: pkg/metrics/metrics_linux.go 122-128 cpuPercent *)
definition cpuPercent :: "host_stats \<Rightarrow> real" where
  "cpuPercent hs =
     (case hs_CpuPercent hs of Inr (p # _) \<Rightarrow> p | _ \<Rightarrow> 0)"

(* src: pkg/metrics/metrics_linux.go 147-164 ReadSystemMetrics *)
definition net_metrics ::
  "(64 word \<Rightarrow> real) \<Rightarrow> string \<Rightarrow> NetCounters list \<Rightarrow> ResourceMetrics \<Rightarrow> ResourceMetrics" where
  "net_metrics fl netif stats metrics =
     (case List.find (\<lambda>cs. nc_Name cs = netif) stats of
        None \<Rightarrow> metrics
      | Some cs \<Rightarrow>
          if netif = ''veth0''
          then metrics(''netRx'' \<mapsto> fl (nc_BytesSent cs), ''netRxErrors'' \<mapsto> fl (nc_Errout cs),
                 ''netTx'' \<mapsto> fl (nc_BytesRecv cs), ''netTxErrors'' \<mapsto> fl (nc_Errin cs))
          else metrics(''netRx'' \<mapsto> fl (nc_BytesRecv cs), ''netRxErrors'' \<mapsto> fl (nc_Errin cs),
                 ''netTx'' \<mapsto> fl (nc_BytesSent cs), ''netTxErrors'' \<mapsto> fl (nc_Errout cs)))"

(* src: pkg/metrics/metrics_linux.go 132-168 ReadSystemMetrics *)
definition ReadSystemMetrics :: "(64 word \<Rightarrow> real) \<Rightarrow> host_stats \<Rightarrow> string \<Rightarrow> ResourceMetrics" where
  "ReadSystemMetrics fl hs netif =
     (let metrics = (case hs_MemUsedPercent hs of
                       Inr p \<Rightarrow> [''memory'' \<mapsto> p] | Inl e \<Rightarrow> Map.empty);
          metrics = (case hs_Disk hs of
                       Inr d \<Rightarrow> metrics(''disk'' \<mapsto> du_UsedPercent d, ''fsAvailable'' \<mapsto> fl (du_Free d),
                         ''fsCapacity'' \<mapsto> fl (du_Total d), ''fsUsed'' \<mapsto> fl (du_Used d),
                         ''fsInodesFree'' \<mapsto> fl (du_InodesFree d), ''fsInodes'' \<mapsto> fl (du_InodesTotal d),
                         ''fsInodesUsed'' \<mapsto> fl (du_InodesUsed d))
                     | Inl e \<Rightarrow> metrics);
          metrics = (case hs_Net hs of Inr stats \<Rightarrow> net_metrics fl netif stats metrics
                                     | Inl e \<Rightarrow> metrics)
      in metrics(''cpu'' \<mapsto> cpuPercent hs))"

text \<open>The providers of the other runtimes have no metrics of units yet.\<close>

(* src: pkg/metrics/metrics_linux.go 176-179 ReadUnitMetrics *)
definition podman_ReadUnitMetrics :: "string \<Rightarrow> ResourceMetrics" where
  "podman_ReadUnitMetrics ifname = Map.empty"

(* src: pkg/metrics/metrics_linux.go 185-188 ReadUnitMetrics *)
definition anka_ReadUnitMetrics :: "string \<Rightarrow> ResourceMetrics" where
  "anka_ReadUnitMetrics ifname = Map.empty"

(* src: pkg/metrics/metrics.go 25-28 MetricsProvider *)
record MetricsProvider =
  mp_ReadSystemMetrics :: "string \<Rightarrow> ResourceMetrics"
  mp_ReadUnitMetrics :: "string \<Rightarrow> ResourceMetrics"

(* src: pkg/metrics/metrics_linux.go 33-35 ItzoMetricsProvider *)
definition itzo_metrics :: "(64 word \<Rightarrow> real) \<Rightarrow> host_stats \<Rightarrow> MetricsProvider" where
  "itzo_metrics fl hs =
     \<lparr>mp_ReadSystemMetrics = ReadSystemMetrics fl hs, mp_ReadUnitMetrics = ReadUnitMetrics fl hs\<rparr>"

(* src: pkg/metrics/metrics_linux.go 170-179 PodmanMetricsProvider *)
definition podman_metrics :: "(64 word \<Rightarrow> real) \<Rightarrow> host_stats \<Rightarrow> MetricsProvider" where
  "podman_metrics fl hs =
     \<lparr>mp_ReadSystemMetrics = ReadSystemMetrics fl hs, mp_ReadUnitMetrics = podman_ReadUnitMetrics\<rparr>"

(* src: pkg/metrics/metrics_linux.go 181-188 AnkaMetricsProvider *)
definition anka_metrics :: "(64 word \<Rightarrow> real) \<Rightarrow> host_stats \<Rightarrow> MetricsProvider" where
  "anka_metrics fl hs =
     \<lparr>mp_ReadSystemMetrics = ReadSystemMetrics fl hs, mp_ReadUnitMetrics = anka_ReadUnitMetrics\<rparr>"

section \<open>The use of the processors\<close>

text \<open>
  \<open>cpuUtilization\<close> computes in floating point: \<open>'d\<close> and \<open>'f\<close> are the numbers of 64 and of 32 bits, with
  the operations it uses.  The times are those of one processor as the library answers them.
\<close>

record ('d, 'f) float_ops =
  fo_sub64 :: "'d \<Rightarrow> 'd \<Rightarrow> 'd"
  fo_float32 :: "'d \<Rightarrow> 'f"
  fo_sub :: "'f \<Rightarrow> 'f \<Rightarrow> 'f"
  fo_div :: "'f \<Rightarrow> 'f \<Rightarrow> 'f"
  fo_mul :: "'f \<Rightarrow> 'f \<Rightarrow> 'f"
  fo_less :: "'f \<Rightarrow> 'f \<Rightarrow> bool"
  fo_le :: "'f \<Rightarrow> 'f \<Rightarrow> bool"
  fo_zero :: 'f
  fo_hundred :: 'f

record 'd CpuTimes =
  ct_Total :: 'd
  ct_Steal :: 'd
  ct_Idle :: 'd

(* src: pkg/metrics/metrics_linux.go 90-94 GenericSystemMetricsProvider *)
record 'f GenericSystemMetricsProvider =
  prevBusy :: 'f
  prevAll :: 'f

(* src: pkg/metrics/metrics_linux.go 101-120 cpuUtilization *)
definition cpuUtilization ::
  "('d, 'f) float_ops \<Rightarrow> go_error + 'd CpuTimes list \<Rightarrow> 'f GenericSystemMetricsProvider \<Rightarrow>
   'f \<times> 'f GenericSystemMetricsProvider" where
  "cpuUtilization fo cpuTimes m =
     (case cpuTimes of
        Inr (c # _) \<Rightarrow>
          (let curBusy = fo_float32 fo (fo_sub64 fo (fo_sub64 fo (ct_Total c) (ct_Steal c)) (ct_Idle c));
               curAll = fo_float32 fo (ct_Total c)
           in if fo_le fo curAll (prevAll m) \<or> fo_less fo curBusy (prevBusy m) then (fo_zero fo, m)
              else
                let delta = fo_sub fo curAll (prevAll m);
                    utilizationPercent =
                      (if fo_less fo (fo_zero fo) delta
                       then fo_mul fo (fo_div fo (fo_sub fo curBusy (prevBusy m)) delta) (fo_hundred fo)
                       else fo_zero fo)
                in (utilizationPercent, m\<lparr>prevBusy := curBusy, prevAll := curAll\<rparr>))
      | _ \<Rightarrow> (fo_zero fo, m))"

section \<open>Properties\<close>

text \<open>The working set is at most the use, and the subtraction does not wrap.\<close>

lemma workingSet_unat:
  "unat (getWorkingSet m u) =
     (if unat (ms_TotalInactiveFile m) < unat (mu_Usage u)
      then unat (mu_Usage u) - unat (ms_TotalInactiveFile m) else unat (mu_Usage u))"
  by (simp add: getWorkingSet_def word_less_nat_alt unat_sub word_le_nat_alt)

lemma workingSet_le: "getWorkingSet m u \<le> mu_Usage u"
  by (simp add: word_le_nat_alt workingSet_unat)

text \<open>Under a limit that is kept, what is available is the rest; over it, the subtraction wraps.\<close>

lemma available_unat:
  "unat (mu_Limit u - getWorkingSet m u) =
     (if getWorkingSet m u \<le> mu_Limit u then unat (mu_Limit u) - unat (getWorkingSet m u)
      else 2 ^ 64 - (unat (getWorkingSet m u) - unat (mu_Limit u)))"
  using unsigned_less [of "getWorkingSet m u"]
  by (auto simp: word_le_nat_alt unat_sub_if_size word_size)

lemma available_bounded:
  assumes "mu_Usage u \<le> mu_Limit u"
  shows "unat (mu_Limit u - getWorkingSet m u) = unat (mu_Limit u) - unat (getWorkingSet m u)"
  using order_trans [OF workingSet_le assms] by (simp add: available_unat)

text \<open>
  With exact numbers: the percentage of the time between two answers in which the processors were busy,
  from 0 to 100 when neither the idle nor the stolen time has gone back, and nothing is lost: the times
  of the answer are kept for the next one unless they have gone back.
\<close>

definition exact_ops :: "(real, real) float_ops" where
  "exact_ops =
     \<lparr>fo_sub64 = (-), fo_float32 = (\<lambda>x. x), fo_sub = (-), fo_div = (/), fo_mul = (*), fo_less = (<),
      fo_le = (\<le>), fo_zero = 0, fo_hundred = 100\<rparr>"

definition busy :: "real CpuTimes \<Rightarrow> real" where
  "busy c = ct_Total c - ct_Steal c - ct_Idle c"

lemma cpuUtilization_exact:
  assumes "prevBusy m \<le> busy c" "prevAll m < ct_Total c"
  shows "cpuUtilization exact_ops (Inr (c # cs)) m =
     ((busy c - prevBusy m) / (ct_Total c - prevAll m) * 100, \<lparr>prevBusy = busy c, prevAll = ct_Total c\<rparr>)"
  using assms by (simp add: cpuUtilization_def exact_ops_def busy_def Let_def)

lemma cpuUtilization_percent:
  assumes "busy c - prevBusy m \<le> ct_Total c - prevAll m"
  shows "fst (cpuUtilization exact_ops (Inr (c # cs)) m) \<in> {0..100}"
proof (cases "prevBusy m \<le> busy c \<and> prevAll m < ct_Total c")
  case True
  define q where "q = (busy c - prevBusy m) / (ct_Total c - prevAll m)"
  have "0 \<le> q" "q \<le> 1" using True assms by (simp_all add: q_def divide_le_eq)
  moreover have "fst (cpuUtilization exact_ops (Inr (c # cs)) m) = q * 100"
    using True by (simp only: cpuUtilization_exact fst_conv q_def)
  ultimately show ?thesis by simp
next
  case False
  then show ?thesis by (auto simp: cpuUtilization_def exact_ops_def busy_def Let_def)
qed

lemma cpuUtilization_gone_back:
  assumes "fo_le fo (fo_float32 fo (ct_Total c)) (prevAll m)"
  shows "cpuUtilization fo (Inr (c # cs)) m = (fo_zero fo, m)"
  using assms by (simp add: cpuUtilization_def Let_def)

end
