(* ===== verification/Server.thy ===== *)
theory Server
  imports Runtime_Itzo Deploy File_Tail Exec_Cmd Metrics Agents
begin

text \<open>
  \<open>pkg/server/server.go\<close>, \<open>http_utils.go\<close> and \<open>stream_utils.go\<close>: the requests a client can make.  A
  handler is a computation over the state of the server, which holds those of the pod controller, of
  the network and of the files; what \<open>net/http\<close>, the websockets and JSON do is given as arguments.  A
  panic of a handler is \<open>Panic\<close>: \<open>net/http\<close> gives up that connection and goes on.
\<close>

section \<open>Requests and answers\<close>

record request =
  rq_Method :: string
  rq_URL :: RequestURL
  rq_Form :: "string \<Rightarrow> string"
  rq_Body :: string
  rq_FormFile :: "go_error + string"
  rq_Upgrade :: error

datatype response = Http int string | Streaming

definition not_found :: response where
  "not_found = Http 404 (''404 page not found'' @ [CHR 10])"

definition http_OK :: "string \<Rightarrow> response" where
  "http_OK body = Http 200 body"

(* src: pkg/server/http_utils.go 25-28 serverError *)
definition serverError :: "go_error \<Rightarrow> response" where
  "serverError err = Http 500 (''500 Server Error: '' @ Error err @ [CHR 10])"

(* src: pkg/server/http_utils.go 30-33 badRequest *)
definition badRequest :: "string \<Rightarrow> response" where
  "badRequest errMsg = Http 400 (''400 Bad Request: '' @ errMsg @ [CHR 10])"

section \<open>The server\<close>

(* src: pkg/server/server.go 51-63 ITZO_DIR *)
abbreviation (input) ITZO_DIR :: string where "ITZO_DIR \<equiv> ''/tmp/itzo''"

(* src: pkg/server/server.go 51-63 DEFAULT_ROOTDIR *)
abbreviation (input) DEFAULT_ROOTDIR :: string where "DEFAULT_ROOTDIR \<equiv> ''/tmp/itzo/units''"

(* src: pkg/server/server.go 51-63 ITZO_VERSION *)
abbreviation (input) ITZO_VERSION :: string where "ITZO_VERSION \<equiv> ''1.0''"

(* src: pkg/server/server.go 51-63 FILE_BYTES_LIMIT *)
abbreviation (input) FILE_BYTES_LIMIT :: int where "FILE_BYTES_LIMIT \<equiv> 4096"

(* src: pkg/server/server.go 51-63 minMetricPeriod *)
abbreviation (input) minMetricPeriod :: int where "minMetricPeriod \<equiv> 14000000000"

(* src: pkg/server/server.go 78-92 Server *)
record 's server =
  sv_installRootdir :: string
  sv_lastMetricTime :: Time
  sv_primaryIP :: string
  sv_secondaryIP :: string
  sv_podIP :: string
  sv_podNetworkInterface :: string
  sv_networkAgent :: bool
  sv_podController :: "'s pod_controller"
  sv_net :: net_os
  sv_os :: os

type_synonym ('s, 'a) sv_m = "('s server, 'a) state"

record 's server_params =
  sp_runtime :: "'s runtime"
  sp_metrics :: MetricsProvider
  sp_GetLogBuffer :: "LogOptions \<Rightarrow> 's \<Rightarrow> go_error + LogBuffer option"
  sp_Decode :: "string \<Rightarrow> go_error + PodParameters"
  sp_Marshal :: "PodStatusReply \<Rightarrow> go_error + string"
  sp_parse_url :: parse_url
  sp_parse6 :: "string \<Rightarrow> 128 word option"
  sp_pretty :: "Link_Attrs \<Rightarrow> string"
  sp_ipt :: "net_os iptables_Interface"
  sp_cloud :: "go_error + CloudInfo"
  sp_files :: "string \<Rightarrow> go_error + string"
  sp_untar :: "string \<Rightarrow> go_error + tar_next list"
  sp_is_semver :: "string \<Rightarrow> bool"
  sp_compare :: "string \<Rightarrow> string \<Rightarrow> int"
  sp_walk :: "string \<Rightarrow> walk_entry list"
  sp_madd :: "error \<Rightarrow> go_error \<Rightarrow> go_error"
  sp_quote :: "string \<Rightarrow> string"

definition on_pc :: "('s, 'a) pc_m \<Rightarrow> ('s, 'a) sv_m" where
  "on_pc m = State (\<lambda>s. let (r, pc) = run_state m (sv_podController s)
     in (r, s\<lparr>sv_podController := pc\<rparr>))"

definition on_net :: "(net_os, 'a) state \<Rightarrow> ('s, 'a) sv_m" where
  "on_net m = State (\<lambda>s. let (r, n) = run_state m (sv_net s) in (r, s\<lparr>sv_net := n\<rparr>))"

definition on_os :: "(os, 'a) state \<Rightarrow> ('s, 'a) sv_m" where
  "on_os m = State (\<lambda>s. let (r, w) = run_state m (sv_os s) in (r, s\<lparr>sv_os := w\<rparr>))"

lemma on_sel [simp]:
  "result (on_pc p) s = result p (sv_podController s)"
  "final (on_pc p) s = s\<lparr>sv_podController := final p (sv_podController s)\<rparr>"
  "result (on_net n) s = result n (sv_net s)"
  "final (on_net n) s = s\<lparr>sv_net := final n (sv_net s)\<rparr>"
  "result (on_os m) s = result m (sv_os s)"
  "final (on_os m) s = s\<lparr>sv_os := final m (sv_os s)\<rparr>"
  by (simp_all add: on_pc_def on_net_def on_os_def result_def final_def split_def Let_def)

(* src: pkg/server/server.go 94-112 New *)
definition New :: "string \<Rightarrow> Time \<Rightarrow> 's \<Rightarrow> net_os \<Rightarrow> os \<Rightarrow> 's server" where
  "New rootdir now world net w =
     \<lparr>sv_installRootdir = (if rootdir = '''' then DEFAULT_ROOTDIR else rootdir),
      sv_lastMetricTime = now - minMetricPeriod, sv_primaryIP = '''', sv_secondaryIP = '''',
      sv_podIP = '''', sv_podNetworkInterface = '''', sv_networkAgent = False,
      sv_podController = NewPodController world, sv_net = net, sv_os = w\<rparr>"

section \<open>Handlers\<close>

(* src: pkg/server/server.go 122-135 statusHandler *)
definition resource_usage ::
  "MetricsProvider \<Rightarrow> string \<Rightarrow> UnitStatus list \<Rightarrow> ResourceMetrics" where
  "resource_usage mp netif statuses =
     foldl (\<lambda>usage us. usage ++ mp_ReadUnitMetrics mp (UnitStatus_Name us))
       (mp_ReadSystemMetrics mp netif) statuses"

(* src: pkg/server/server.go 114-157 statusHandler *)
definition statusHandler ::
  "'s server_params \<Rightarrow> Time \<Rightarrow> request \<Rightarrow> ('s, response outcome) sv_m" where
  "statusHandler sp now r =
     (if rq_Method r \<noteq> ''GET'' then return (Ret not_found)
      else do {
        statuses \<leftarrow> on_pc (pc_GetStatus (sp_runtime sp));
        case statuses of
          Panic \<Rightarrow> return Panic
        | Ret (status, initStatus) \<Rightarrow> do {
            s \<leftarrow> gets (\<lambda>s. s);
            let due = (now - sv_lastMetricTime s > minMetricPeriod);
            let resourceUsage = (if due then resource_usage (sp_metrics sp) (sv_podNetworkInterface s)
                                   (status @ initStatus) else Map.empty);
            modify (\<lambda>s. if due then s\<lparr>sv_lastMetricTime := now\<rparr> else s);
            return (Ret (case sp_Marshal sp
                \<lparr>PodStatusReply_UnitStatuses = status, PodStatusReply_InitUnitStatuses = initStatus,
                 PodStatusReply_ResourceUsage = resourceUsage, PodStatusReply_PodIP = sv_podIP s\<rparr> of
              Inl err \<Rightarrow> serverError err
            | Inr buf \<Rightarrow> http_OK buf)) } })"

(* src: pkg/server/server.go 159-173 startNetworkAgent *)
definition startNetworkAgent :: "'s server_params \<Rightarrow> string \<Rightarrow> string \<Rightarrow> ('s, unit) sv_m" where
  "startNetworkAgent sp IP nodeName = do {
     cmd \<leftarrow> on_os (EnsureNetworkAgent (sp_is_semver sp) (sp_compare sp) (sp_walk sp) IP nodeName ITZO_DIR);
     modify (\<lambda>s. if cmd = None then s else s\<lparr>sv_networkAgent := True\<rparr>) }"

text \<open>The goroutine that waits for the agent.\<close>

(* src: pkg/server/server.go 165-172 startNetworkAgent *)
definition networkAgent_exited :: "('s, unit) sv_m" where
  "networkAgent_exited = modify (\<lambda>s. s\<lparr>sv_networkAgent := False\<rparr>)"

(* src: pkg/server/server.go 187-212 updateHandler *)
definition setup_network :: "'s server_params \<Rightarrow> PodParameters \<Rightarrow> ('s, error outcome) sv_m" where
  "setup_network sp params = do {
     addrs \<leftarrow> on_net (SetupNetNamespace (sp_parse6 sp) (sp_pretty sp) (sp_ipt sp) (sp_cloud sp)
                (PodParameters_PodIP params));
     case addrs of
       Panic \<Rightarrow> return Panic
     | Ret (Inl err) \<Rightarrow> return (Ret (Some err))
     | Ret (Inr (primaryIP, secondaryIP, podNS)) \<Rightarrow> do {
         modify (\<lambda>s. s\<lparr>sv_primaryIP := primaryIP, sv_secondaryIP := secondaryIP,
                      sv_podNetworkInterface := Veth0\<rparr>);
         (if IsHostNetwork (PodSpec_SecurityContext (PodParameters_Spec params)) then do {
            modify (\<lambda>s. s\<lparr>sv_podIP := primaryIP\<rparr>);
            nic \<leftarrow> on_net (GetPrimaryNetworkInterface (sp_parse6 sp));
            modify (\<lambda>s. s\<lparr>sv_podNetworkInterface :=
              (case nic of Inl e \<Rightarrow> ''eth0'' | Inr netif \<Rightarrow> netif)\<rparr>) }
          else do {
            modify (\<lambda>s. s\<lparr>sv_podIP := secondaryIP\<rparr>);
            on_pc (pc_SetPodNetwork (sp_runtime sp) podNS secondaryIP) });
         return (Ret None) } }"

(* src: pkg/server/server.go 175-227 updateHandler *)
definition updateHandler :: "'s server_params \<Rightarrow> request \<Rightarrow> ('s, response outcome) sv_m" where
  "updateHandler sp r =
     (if rq_Method r \<noteq> ''POST'' then return (Ret not_found)
      else case sp_Decode sp (rq_Body r) of
        Inl err \<Rightarrow> return (Ret (badRequest (''Error decoding pod update request: '' @ Error err)))
      | Inr params \<Rightarrow> do {
          s \<leftarrow> gets (\<lambda>s. s);
          net \<leftarrow> (if sv_primaryIP s = '''' \<and> sv_secondaryIP s = '''' then setup_network sp params
                  else return (Ret None));
          case net of
            Panic \<Rightarrow> return Panic
          | Ret (Some err) \<Rightarrow> return (Ret (serverError err))
          | Ret None \<Rightarrow> do {
              s \<leftarrow> gets (\<lambda>s. s);
              (if \<not> sv_networkAgent s \<and> PodParameters_NodeName params \<noteq> ''''
               then startNetworkAgent sp (sv_primaryIP s) (PodParameters_NodeName params)
               else return ());
              err \<leftarrow> on_pc (UpdatePod params);
              return (Ret (case err of Some e \<Rightarrow> serverError e | None \<Rightarrow> http_OK '''')) } })"

(* src: pkg/server/server.go 229-236 pingHandler *)
definition pingHandler :: "request \<Rightarrow> ('s, response outcome) sv_m" where
  "pingHandler r = return (Ret (if rq_Method r = ''GET'' then http_OK ''pong'' else not_found))"

(* src: pkg/server/server.go 238-245 versionHandler *)
definition versionHandler :: "request \<Rightarrow> ('s, response outcome) sv_m" where
  "versionHandler r = return (Ret (if rq_Method r = ''GET'' then http_OK ITZO_VERSION else not_found))"

text \<open>The controller's \<open>GetLogBuffer\<close> asks the runtime; a nil buffer panics when it is read.\<close>

(* src: pkg/server/server.go 247-285 logsHandler *)
definition logsHandler :: "'s server_params \<Rightarrow> request \<Rightarrow> ('s, response outcome) sv_m" where
  "logsHandler sp r =
     (if rq_Method r \<noteq> ''GET'' then return (Ret not_found)
      else case NewLogOptionsFromURL (sp_parse_url sp) (rq_URL r) of
        Inl err \<Rightarrow> return (Ret (badRequest (Error err)))
      | Inr logOptions \<Rightarrow> do {
          pc \<leftarrow> gets sv_podController;
          return (case GetUnitName pc (Opt_UnitName logOptions) of
            (_, Some err) \<Rightarrow> Ret (badRequest (Error err))
          | (unitName, None) \<Rightarrow>
          (case sp_GetLogBuffer sp logOptions (pc_world pc) of
             Inl err \<Rightarrow> Ret (badRequest (Error err))
           | Inr None \<Rightarrow> Panic
           | Inr (Some logBuffer) \<Rightarrow>
               if Opt_Follow logOptions
               then Ret (case rq_Upgrade r of Some err \<Rightarrow> serverError err | None \<Rightarrow> Streaming)
               else (case logs_body logOptions logBuffer of
                       None \<Rightarrow> Panic | Some body \<Rightarrow> Ret (http_OK body)))) })"

(* src: pkg/server/server.go 333-368 fileHandler *)
definition fileHandler :: "'s server_params \<Rightarrow> request \<Rightarrow> ('s, response outcome) sv_m" where
  "fileHandler sp r =
     (if rq_Method r \<noteq> ''GET'' then return (Ret not_found)
      else
        let path = rq_Form r ''path'';
            lns = int_param (rq_Form r ''lines'');
            numBytes = int_param (rq_Form r ''bytes'');
            numBytes = (if numBytes = 0 \<and> lns = 0 then FILE_BYTES_LIMIT else numBytes)
        in if path = '''' then return (Ret (badRequest ''Missing path parameter''))
           else return (case TailFile (sp_files sp) path lns numBytes of
             Panic \<Rightarrow> Panic
           | Ret (s, Some err) \<Rightarrow> Ret (badRequest (''Error reading file '' @ Error err))
           | Ret (s, None) \<Rightarrow> Ret (http_OK s)))"

(* src: pkg/server/server.go 370-381 resizevolumeHandler *)
definition resizevolumeHandler :: "'s server_params \<Rightarrow> request \<Rightarrow> ('s, response outcome) sv_m" where
  "resizevolumeHandler sp r =
     (if rq_Method r \<noteq> ''POST'' then return (Ret not_found)
      else do {
        err \<leftarrow> on_os (resizeVolume (sp_madd sp) (sp_quote sp));
        return (Ret (case err of Some e \<Rightarrow> serverError e | None \<Rightarrow> http_OK '''')) })"

(* src: pkg/server/server.go 383-396 saveFile *)
definition saveFile :: "string \<Rightarrow> (os, string \<times> error) state" where
  "saveFile content = do {
     tmpfile \<leftarrow> os_reply (Ext_Call ''ioutil.TempFile'' ['''', ''milpa-pkg-'']);
     if reply_err tmpfile \<noteq> None then return ('''', reply_err tmpfile)
     else do {
       let filename = reply_data tmpfile;
       err \<leftarrow> os_do (Io_Copy content filename);
       if err \<noteq> None then do { os_try (Os_Remove filename); return ('''', err) }
       else return (filename, None) } }"

(* src: pkg/server/server.go 398-440 deployHandler *)
definition deployHandler :: "'s server_params \<Rightarrow> request \<Rightarrow> ('s, response outcome) sv_m" where
  "deployHandler sp r =
     (if rq_Method r \<noteq> ''POST'' then return (Ret not_found)
      else
        let parts = path_parts (ReqURL_Path (rq_URL r))
        in if length parts \<noteq> 5
           then return (Ret (serverError (Errorf (''invalid deploy path '' @ ReqURL_Path (rq_URL r)))))
           else case rq_FormFile r of
             Inl err \<Rightarrow> return (Ret (serverError err))
           | Inr content \<Rightarrow> do {
               (pkgfile, err) \<leftarrow> on_os (saveFile content);
               case err of
                 Some e \<Rightarrow> return (Ret (serverError e))
               | None \<Rightarrow> do {
                   rootdir \<leftarrow> gets sv_installRootdir;
                   res \<leftarrow> on_os (DeployPackage (sp_untar sp) pkgfile rootdir (parts ! 4));
                   on_os (os_try (Os_Remove pkgfile));
                   return (case res of
                     None \<Rightarrow> Panic
                   | Some (Some e) \<Rightarrow> Ret (serverError e)
                   | Some None \<Rightarrow> Ret (http_OK '''')) } })"

section \<open>Streams\<close>

(* src: pkg/server/stream_utils.go 28-38 doUpgrade *)
definition doUpgrade :: "request \<Rightarrow> response" where
  "doUpgrade r = (case rq_Upgrade r of Some err \<Rightarrow> serverError err | None \<Rightarrow> Streaming)"

text \<open>The first message of a stream: the client has gone, or a text that is decoded.\<close>

(* src: pkg/server/stream_utils.go 56-70 getInitialParams *)
definition getInitialParams ::
  "(string \<Rightarrow> go_error + 'p) \<Rightarrow> string option \<Rightarrow> ws_msg list + 'p" where
  "getInitialParams decode paramsJson =
     (case paramsJson of
        None \<Rightarrow> Inl []
      | Some text \<Rightarrow>
          (case decode text of
             Inl err \<Rightarrow> Inl [(StderrChan, ''Error reading parameters '' @ Error err)]
           | Inr params \<Rightarrow> Inr params))"

text \<open>\<open>dial\<close> gives what the process at the other end sends until one of them hangs up.\<close>

(* src: pkg/server/server.go 449-487 servePortForward *)
definition servePortForward ::
  "(string \<Rightarrow> go_error + PortForwardParams) \<Rightarrow> (string \<Rightarrow> go_error + string list) \<Rightarrow> string \<Rightarrow>
   string option \<Rightarrow> ws_msg list" where
  "servePortForward decode dial podIP paramsJson =
     (case getInitialParams decode paramsJson of
        Inl ms \<Rightarrow> ms
      | Inr params \<Rightarrow>
          (case dial (podIP @ '':'' @ PortForwardParams_Port params) of
             Inl err \<Rightarrow> [(StderrChan, ''error connecting to port '' @ PortForwardParams_Port params @
                          '': '' @ Error err @ [CHR 10])]
           | Inr chunks \<Rightarrow> (StdoutChan, '''') # map (Pair StdoutChan) chunks))"

text \<open>
  \<open>stdin\<close> is the outcome of opening the unit and its standard input, \<open>fmt\<close> the formatting of a text
  without arguments.
\<close>

(* src: pkg/server/server.go 489-559 runAttach *)
definition runAttach ::
  "'s server_params \<Rightarrow> (string \<Rightarrow> string) \<Rightarrow> (string \<Rightarrow> error) \<Rightarrow> AttachParams \<Rightarrow> tick list \<Rightarrow>
   ('s, ws_msg list outcome) sv_m" where
  "runAttach sp fmt stdin params ticks = do {
     pc \<leftarrow> gets sv_podController;
     case GetUnitName pc (AttachParams_UnitName params) of
       (_, Some err) \<Rightarrow> return (Ret [(StderrChan, fmt (Error err))])
     | (unitName, None) \<Rightarrow> do {
         (pid, exists) \<leftarrow> on_pc (on_rt (rt_GetPid (sp_runtime sp) unitName));
         if \<not> exists
         then return (Ret [(StderrChan,
           ''Could not find running process for unit named '' @ unitName @ [CHR 10])])
         else do {
           pc \<leftarrow> gets sv_podController;
           return (case sp_GetLogBuffer sp \<lparr>Opt_UnitName = unitName, Opt_Follow = False,
               Opt_WithMetadata = False, Opt_LineNum = 0, Opt_BytesNum = 0\<rparr> (pc_world pc) of
             Inl err \<Rightarrow> Ret [(StderrChan, fmt (Error err))]
           | Inr None \<Rightarrow> Panic
           | Inr (Some logBuffer) \<Rightarrow>
               (case (if AttachParams_Interactive params then stdin unitName else None) of
                  Some err \<Rightarrow> Ret [(StderrChan, fmt (Error err))]
                | None \<Rightarrow>
                    (case attach_ticks unitName (GetOffset logBuffer) ticks of
                       None \<Rightarrow> Panic | Some ms \<Rightarrow> Ret ms))) } } }"

section \<open>Routing\<close>

datatype endpoint =
    EP_deploy | EP_logs | EP_file | EP_updatepod | EP_status | EP_resizevolume | EP_ping
  | EP_version | EP_portforward | EP_attach | EP_exec

(* src: pkg/server/server.go 595-613 getHandlers *)
definition getHandlers :: "(string \<times> endpoint) list" where
  "getHandlers =
     [(''/rest/v1/deploy/'', EP_deploy), (''/rest/v1/logs/'', EP_logs), (''/rest/v1/file/'', EP_file),
      (''/rest/v1/updatepod'', EP_updatepod), (''/rest/v1/status'', EP_status),
      (''/rest/v1/resizevolume'', EP_resizevolume), (''/rest/v1/ping'', EP_ping),
      (''/rest/v1/version'', EP_version), (''/rest/v1/portforward/'', EP_portforward),
      (''/rest/v1/attach/'', EP_attach), (''/rest/v1/exec/'', EP_exec)]"

text \<open>A pattern that ends in a slash stands for all the paths below it, as in \<open>http.ServeMux\<close>.\<close>

definition mux_match :: "string \<Rightarrow> string \<Rightarrow> bool" where
  "mux_match pattern path =
     (if HasSuffix pattern ''/'' then HasPrefix path pattern else path = pattern)"

(* src: pkg/server/server.go 615-617 ServeHTTP *)
definition ServeHTTP ::
  "'s server_params \<Rightarrow> Time \<Rightarrow> request \<Rightarrow> ('s, response outcome) sv_m" where
  "ServeHTTP sp now r =
     (case List.find (\<lambda>(p, e). mux_match p (ReqURL_Path (rq_URL r))) getHandlers of
        None \<Rightarrow> return (Ret not_found)
      | Some (_, e) \<Rightarrow>
          (case e of
             EP_deploy \<Rightarrow> deployHandler sp r
           | EP_logs \<Rightarrow> logsHandler sp r
           | EP_file \<Rightarrow> fileHandler sp r
           | EP_updatepod \<Rightarrow> updateHandler sp r
           | EP_status \<Rightarrow> statusHandler sp now r
           | EP_resizevolume \<Rightarrow> resizevolumeHandler sp r
           | EP_ping \<Rightarrow> pingHandler r
           | EP_version \<Rightarrow> versionHandler r
           | _ \<Rightarrow> return (Ret (doUpgrade r))))"

section \<open>Properties\<close>

text \<open>No path has two handlers, so the order in which the patterns are tried does not matter.\<close>

lemma prefixes_comparable:
  "HasPrefix s p \<Longrightarrow> HasPrefix s q \<Longrightarrow> HasPrefix p q \<or> HasPrefix q p"
  by (auto simp: HasPrefix_iff append_eq_append_conv2)

lemma mux_match_prefix: "mux_match p path \<Longrightarrow> HasPrefix path p"
  by (auto simp: mux_match_def split: if_splits)

lemma handlers_apart:
  "list_all (\<lambda>(p, e). list_all (\<lambda>(q, f). (p, e) = (q, f) \<or> \<not> HasPrefix p q) getHandlers) getHandlers"
  by code_simp

lemma one_handler:
  assumes "(p, e) \<in> set getHandlers" "(q, f) \<in> set getHandlers" "mux_match p path" "mux_match q path"
  shows "(p, e) = (q, f)"
proof -
  have apart: "(p, e) = (q, f) \<or> \<not> HasPrefix p q"
    if "(p, e) \<in> set getHandlers" "(q, f) \<in> set getHandlers" for p e q f
    using handlers_apart that by (fastforce simp: list_all_iff)
  show ?thesis
    using apart [OF assms(1,2)] apart [OF assms(2,1)]
      prefixes_comparable [OF mux_match_prefix [OF assms(3)] mux_match_prefix [OF assms(4)]]
    by auto
qed

text \<open>A request whose method is not the one of its endpoint is answered with 404 and changes nothing.\<close>

lemma wrong_method:
  assumes "rq_Method r \<notin> {''GET'', ''POST''}"
    "\<forall>p e. (p, e) \<in> set getHandlers \<and> mux_match p (ReqURL_Path (rq_URL r)) \<longrightarrow>
       e \<notin> {EP_portforward, EP_attach, EP_exec}"
  shows "run_state (ServeHTTP sp now r) s = (Ret not_found, s)"
proof (cases "List.find (\<lambda>(p, e). mux_match p (ReqURL_Path (rq_URL r))) getHandlers")
  case None
  then show ?thesis by (simp add: ServeHTTP_def)
next
  case (Some pe)
  then have "mux_match (fst pe) (ReqURL_Path (rq_URL r))" "pe \<in> set getHandlers"
    by (auto simp: find_Some_iff split_def)
  then have "snd pe \<notin> {EP_portforward, EP_attach, EP_exec}"
    using assms(2) by (metis prod.collapse)
  with Some assms(1) show ?thesis
    by (cases "snd pe")
      (auto simp: ServeHTTP_def split_def deployHandler_def logsHandler_def fileHandler_def
        updateHandler_def statusHandler_def resizevolumeHandler_def pingHandler_def
        versionHandler_def)
qed

text \<open>
  Without the name of a unit the log handler finds the first unit of the pod, and then asks the
  runtime for the log of the unit whose name is empty.
\<close>

definition itzo_GetLogBuffer :: "LogOptions \<Rightarrow> itzo_os \<Rightarrow> go_error + LogBuffer option" where
  "itzo_GetLogBuffer opts w =
     (case um_GetLogBuffer (Opt_UnitName opts) w of
        (_, Some err) \<Rightarrow> Inl err
      | (lb, None) \<Rightarrow> Inr lb)"

lemma logs_without_unit:
  assumes "rq_Method r = ''GET''" "NewLogOptionsFromURL (sp_parse_url sp) (rq_URL r) = Inr opts"
    "Opt_UnitName opts = ''''" "sp_GetLogBuffer sp = itzo_GetLogBuffer"
    "PodSpec_Units (pc_podStatus (sv_podController s)) = u # us"
    "conmap_GetOK (it_logs (pc_world (sv_podController s))) '''' = None"
  shows "result (logsHandler sp r) s =
    Ret (badRequest ''Could not find logs for unit named '')"
  using assms
  by (simp add: logsHandler_def GetUnitName_def itzo_GetLogBuffer_def um_GetLogBuffer_def)

text \<open>An update that is answered with 200 is the last of the queue; one that finds it full is refused.\<close>

lemma UpdatePod_queue:
  "result (UpdatePod params) pc = None \<longleftrightarrow> length (pc_updateChan pc) \<noteq> specChanSize"
  "result (UpdatePod params) pc = None \<Longrightarrow>
     pc_updateChan (final (UpdatePod params) pc) = pc_updateChan pc @ [params]"
  "result (UpdatePod params) pc \<noteq> None \<Longrightarrow> final (UpdatePod params) pc = pc"
  by (auto simp: UpdatePod_def)

lemma startNetworkAgent_sel [simp]:
  "sv_podController (final (startNetworkAgent sp ip n) s) = sv_podController s"
  "sv_primaryIP (final (startNetworkAgent sp ip n) s) = sv_primaryIP s"
  "sv_secondaryIP (final (startNetworkAgent sp ip n) s) = sv_secondaryIP s"
  "sv_podIP (final (startNetworkAgent sp ip n) s) = sv_podIP s"
  "sv_podNetworkInterface (final (startNetworkAgent sp ip n) s) = sv_podNetworkInterface s"
  "sv_net (final (startNetworkAgent sp ip n) s) = sv_net s"
  by (simp_all add: startNetworkAgent_def)

lemma update_with_network:
  assumes "rq_Method r = ''POST''" "sp_Decode sp (rq_Body r) = Inr params"
    "sv_primaryIP s \<noteq> '''' \<or> sv_secondaryIP s \<noteq> ''''"
  shows "result (updateHandler sp r) s =
      (if length (pc_updateChan (sv_podController s)) = specChanSize
       then Ret (serverError (Errorf ''Error updating pod spec: too many pending updates''))
       else Ret (http_OK ''''))"
    "sv_net (final (updateHandler sp r) s) = sv_net s"
    "sv_primaryIP (final (updateHandler sp r) s) = sv_primaryIP s"
    "sv_podIP (final (updateHandler sp r) s) = sv_podIP s"
    "sv_podController (final (updateHandler sp r) s) = final (UpdatePod params) (sv_podController s)"
  using assms by (auto simp: updateHandler_def UpdatePod_def)

text \<open>Two answers with metrics are more than the period apart.\<close>

lemma status_metrics_period:
  "sv_lastMetricTime (final (statusHandler sp now r) s) = sv_lastMetricTime s \<or>
   sv_lastMetricTime (final (statusHandler sp now r) s) = now \<and>
     sv_lastMetricTime s + minMetricPeriod < now"
  by (auto simp: statusHandler_def Let_def split: outcome.split prod.split)

text \<open>The address in the answer is the one that the first update has set up.\<close>

lemma statusHandler_PodIP:
  assumes "result (statusHandler sp now r) s = Ret (Http 200 body)"
  shows "\<exists>reply. sp_Marshal sp reply = Inr body \<and> PodStatusReply_PodIP reply = sv_podIP s"
  using assms
  by (auto simp: statusHandler_def Let_def not_found_def serverError_def http_OK_def
      split: outcome.splits prod.splits sum.splits if_splits)

text \<open>Two of the routes.\<close>

lemma served:
  "ReqURL_Path (rq_URL r) = ''/rest/v1/updatepod'' \<Longrightarrow> ServeHTTP sp now r = updateHandler sp r"
  "ReqURL_Path (rq_URL r) = ''/rest/v1/status'' \<Longrightarrow> ServeHTTP sp now r = statusHandler sp now r"
  by (simp_all add: ServeHTTP_def getHandlers_def mux_match_def HasSuffix_def HasPrefix_def)

end
