(* ===== verification/Rw_Lock.thy ===== *)
theory Rw_Lock
  imports Main
begin

text \<open>
  An object whose methods run under a \<open>sync.RWMutex\<close>, as a program of many threads.  A method takes the
  lock, for reading or for writing, does its body in any number of steps between which other threads may
  do theirs, and gives the lock back.  The locale \<open>rw_methods\<close> says what the methods must keep to, which
  is that a method that only locks for reading does not change the object; then whatever the threads do
  is explained by the methods having been run whole, one after the other.
\<close>

section \<open>Threads\<close>

text \<open>
  The methods: whether one locks for writing, how its body can start on an object (there may be a
  choice, as of the order of a map), and a step of a body, which goes on or ends with an answer.
\<close>

record ('op, 'l, 'm, 'r) methods =
  me_writes :: "'op \<Rightarrow> bool"
  me_starts :: "'op \<Rightarrow> 'm \<Rightarrow> 'l \<Rightarrow> bool"
  me_micro :: "'l \<Rightarrow> 'm \<Rightarrow> ('l + 'r) \<times> 'm"

datatype ('op, 'l, 'r) thread = Outside | Waiting 'op | Inside 'op 'l | Leaving 'op 'r

text \<open>
  \<open>sh_log\<close> is not part of the program: it lists the methods in the order in which their bodies ended,
  each with its thread and its answer.
\<close>

record ('op, 'l, 'm, 'r) shared =
  sh_object :: 'm
  sh_readers :: nat
  sh_writer :: bool
  sh_threads :: "nat \<Rightarrow> ('op, 'l, 'r) thread"
  sh_log :: "(nat \<times> 'op \<times> 'r) list"

inductive rw_step ::
  "('op, 'l, 'm, 'r) methods \<Rightarrow> nat \<Rightarrow> ('op, 'l, 'm, 'r) shared \<Rightarrow> ('op, 'l, 'm, 'r) shared \<Rightarrow> bool"
  for me :: "('op, 'l, 'm, 'r) methods" where
  call: "sh_threads s i = Outside \<Longrightarrow>
    rw_step me i s (s\<lparr>sh_threads := (sh_threads s)(i := Waiting op)\<rparr>)"
| Lock: "sh_threads s i = Waiting op \<Longrightarrow> me_writes me op \<Longrightarrow> \<not> sh_writer s \<Longrightarrow> sh_readers s = 0 \<Longrightarrow>
    me_starts me op (sh_object s) l \<Longrightarrow>
    rw_step me i s (s\<lparr>sh_writer := True, sh_threads := (sh_threads s)(i := Inside op l)\<rparr>)"
| RLock: "sh_threads s i = Waiting op \<Longrightarrow> \<not> me_writes me op \<Longrightarrow> \<not> sh_writer s \<Longrightarrow>
    me_starts me op (sh_object s) l \<Longrightarrow>
    rw_step me i s (s\<lparr>sh_readers := sh_readers s + 1, sh_threads := (sh_threads s)(i := Inside op l)\<rparr>)"
| go_on: "sh_threads s i = Inside op l \<Longrightarrow> me_micro me l (sh_object s) = (Inl l', m) \<Longrightarrow>
    rw_step me i s (s\<lparr>sh_object := m, sh_threads := (sh_threads s)(i := Inside op l')\<rparr>)"
| answer: "sh_threads s i = Inside op l \<Longrightarrow> me_micro me l (sh_object s) = (Inr r, m) \<Longrightarrow>
    rw_step me i s (s\<lparr>sh_object := m, sh_threads := (sh_threads s)(i := Leaving op r),
                    sh_log := sh_log s @ [(i, op, r)]\<rparr>)"
| Unlock: "sh_threads s i = Leaving op r \<Longrightarrow> me_writes me op \<Longrightarrow>
    rw_step me i s (s\<lparr>sh_writer := False, sh_threads := (sh_threads s)(i := Outside)\<rparr>)"
| RUnlock: "sh_threads s i = Leaving op r \<Longrightarrow> \<not> me_writes me op \<Longrightarrow>
    rw_step me i s (s\<lparr>sh_readers := sh_readers s - 1, sh_threads := (sh_threads s)(i := Outside)\<rparr>)"

definition rw_init :: "'m \<Rightarrow> ('op, 'l, 'm, 'r) shared" where
  "rw_init m = \<lparr>sh_object = m, sh_readers = 0, sh_writer = False, sh_threads = (\<lambda>_. Outside), sh_log = []\<rparr>"

inductive rw_reach ::
  "('op, 'l, 'm, 'r) methods \<Rightarrow> 'm \<Rightarrow> ('op, 'l, 'm, 'r) shared \<Rightarrow> bool"
  for me :: "('op, 'l, 'm, 'r) methods" and m0 :: 'm where
  start: "rw_reach me m0 (rw_init m0)"
| more: "rw_reach me m0 s \<Longrightarrow> rw_step me i s t \<Longrightarrow> rw_reach me m0 t"

section \<open>Methods run whole\<close>

text \<open>The steps of one body with nothing between them.\<close>

inductive body_path :: "('op, 'l, 'm, 'r) methods \<Rightarrow> 'l \<Rightarrow> 'm \<Rightarrow> 'l \<Rightarrow> 'm \<Rightarrow> bool"
  for me :: "('op, 'l, 'm, 'r) methods" and l :: 'l and m :: 'm where
  here: "body_path me l m l m"
| on: "body_path me l m l1 m1 \<Longrightarrow> me_micro me l1 m1 = (Inl l2, m2) \<Longrightarrow> body_path me l m l2 m2"

definition runs_whole :: "('op, 'l, 'm, 'r) methods \<Rightarrow> 'op \<Rightarrow> 'm \<Rightarrow> 'r \<Rightarrow> 'm \<Rightarrow> bool" where
  "runs_whole me op m r m' \<longleftrightarrow>
     (\<exists>l l1 m1. me_starts me op m l \<and> body_path me l m l1 m1 \<and> me_micro me l1 m1 = (Inr r, m'))"

inductive one_by_one :: "('op, 'l, 'm, 'r) methods \<Rightarrow> 'm \<Rightarrow> (nat \<times> 'op \<times> 'r) list \<Rightarrow> 'm \<Rightarrow> bool"
  for me :: "('op, 'l, 'm, 'r) methods" and m0 :: 'm where
  nothing: "one_by_one me m0 [] m0"
| one_more: "one_by_one me m0 log m \<Longrightarrow> runs_whole me op m r m' \<Longrightarrow> one_by_one me m0 (log @ [(i, op, r)]) m'"

section \<open>The lock\<close>

definition reading :: "('op, 'l, 'm, 'r) methods \<Rightarrow> ('op, 'l, 'r) thread \<Rightarrow> bool" where
  "reading me t \<longleftrightarrow> (case t of Inside op l \<Rightarrow> \<not> me_writes me op | Leaving op r \<Rightarrow> \<not> me_writes me op
     | _ \<Rightarrow> False)"

definition writing :: "('op, 'l, 'm, 'r) methods \<Rightarrow> ('op, 'l, 'r) thread \<Rightarrow> bool" where
  "writing me t \<longleftrightarrow> (case t of Inside op l \<Rightarrow> me_writes me op | Leaving op r \<Rightarrow> me_writes me op
     | _ \<Rightarrow> False)"

lemma reading_simps [simp]:
  "\<not> reading me Outside" "\<not> reading me (Waiting op)"
  "reading me (Inside op l) \<longleftrightarrow> \<not> me_writes me op" "reading me (Leaving op r) \<longleftrightarrow> \<not> me_writes me op"
  by (simp_all add: reading_def)

lemma writing_simps [simp]:
  "\<not> writing me Outside" "\<not> writing me (Waiting op)"
  "writing me (Inside op l) \<longleftrightarrow> me_writes me op" "writing me (Leaving op r) \<longleftrightarrow> me_writes me op"
  by (simp_all add: writing_def)

definition readers :: "('op, 'l, 'm, 'r) methods \<Rightarrow> ('op, 'l, 'm, 'r) shared \<Rightarrow> nat set" where
  "readers me s = {i. reading me (sh_threads s i)}"

definition writers :: "('op, 'l, 'm, 'r) methods \<Rightarrow> ('op, 'l, 'm, 'r) shared \<Rightarrow> nat set" where
  "writers me s = {i. writing me (sh_threads s i)}"

text \<open>The lock counts its holders: the readers exactly, or one writer and no reader.\<close>

definition lock_inv :: "('op, 'l, 'm, 'r) methods \<Rightarrow> ('op, 'l, 'm, 'r) shared \<Rightarrow> bool" where
  "lock_inv me s \<longleftrightarrow> finite (readers me s) \<and> card (readers me s) = sh_readers s \<and>
     (if sh_writer s then readers me s = {} \<and> (\<exists>i. writers me s = {i}) else writers me s = {})"

lemma holders_upd:
  assumes "sh_threads t = (sh_threads s)(i := th)"
  shows "readers me t = (if reading me th then insert i (readers me s) else readers me s - {i})"
    "writers me t = (if writing me th then insert i (writers me s) else writers me s - {i})"
  using assms by (auto simp: readers_def writers_def)

lemma lock_inv_init: "lock_inv me (rw_init m)"
  by (simp add: lock_inv_def rw_init_def readers_def writers_def)

text \<open>A step that moves a thread without changing what it holds keeps the lock as it is.\<close>

lemma lock_inv_move:
  assumes "lock_inv me s" "reading me th = reading me (sh_threads s i)"
    "writing me th = writing me (sh_threads s i)"
    "sh_readers t = sh_readers s" "sh_writer t = sh_writer s" "sh_threads t = (sh_threads s)(i := th)"
  shows "lock_inv me t"
proof -
  have "readers me t = readers me s" "writers me t = writers me s"
    using assms(2,3) by (auto simp: readers_def writers_def assms(6))
  with assms(1,4,5) show ?thesis by (simp add: lock_inv_def)
qed

lemma lock_inv_step:
  assumes "rw_step me i s t" "lock_inv me s"
  shows "lock_inv me t"
  using assms(1)
proof (cases rule: rw_step.cases)
  case (Lock op l)
  have "readers me s = {}" "writers me s = {}"
    using Lock assms(2) by (auto simp: lock_inv_def)
  then show ?thesis
    using Lock holders_upd [of t s i "Inside op l" me] by (simp add: lock_inv_def)
next
  case (RLock op l)
  have "i \<notin> readers me s" using RLock(2) by (simp add: readers_def)
  then show ?thesis
    using RLock assms(2) holders_upd [of t s i "Inside op l" me] by (simp add: lock_inv_def)
next
  case (Unlock op r)
  have "i \<in> writers me s" using Unlock(2,3) by (simp add: writers_def)
  with assms(2) have "writers me s = {i}" "readers me s = {}" "sh_readers s = 0"
    by (auto simp: lock_inv_def split: if_splits)
  then show ?thesis using Unlock holders_upd [of t s i Outside me] by (simp add: lock_inv_def)
next
  case (RUnlock op r)
  have i: "i \<in> readers me s" using RUnlock(2,3) by (simp add: readers_def)
  then have "\<not> sh_writer s" "writers me s = {}" "finite (readers me s)"
      "card (readers me s) = sh_readers s"
    using assms(2) by (auto simp: lock_inv_def split: if_splits)
  then show ?thesis
    using RUnlock i holders_upd [of t s i Outside me] by (simp add: lock_inv_def card_Diff_singleton)
next
  case (call op)
  then show ?thesis by (intro lock_inv_move [OF assms(2), of "Waiting op" i]) auto
next
  case (go_on op l l' m)
  then show ?thesis by (intro lock_inv_move [OF assms(2), of "Inside op l'" i]) auto
next
  case (answer op l r m)
  then show ?thesis by (intro lock_inv_move [OF assms(2), of "Leaving op r" i]) auto
qed

lemma lock_inv_reach: "rw_reach me m0 s \<Longrightarrow> lock_inv me s"
  by (induction rule: rw_reach.induct) (auto intro: lock_inv_init lock_inv_step)

text \<open>While a method that writes holds the lock, no other method holds it.\<close>

lemma no_data_race:
  assumes "lock_inv me s" "writing me (sh_threads s i)" "i \<noteq> j"
  shows "\<not> writing me (sh_threads s j) \<and> \<not> reading me (sh_threads s j)"
proof -
  have "i \<in> writers me s" using assms(2) by (simp add: writers_def)
  then have "writers me s = {i}" "readers me s = {}"
    using assms(1) by (auto simp: lock_inv_def split: if_splits)
  with assms(3) have "j \<notin> writers me s" "j \<notin> readers me s" by auto
  then show ?thesis by (simp add: writers_def readers_def)
qed

section \<open>What the threads do is one method after the other\<close>

text \<open>
  \<open>m\<close> is the object when the last body that ended had ended: every body that has begun since began on
  it, and when none of them writes the object is still \<open>m\<close>.
\<close>

definition explained :: "('op, 'l, 'm, 'r) methods \<Rightarrow> 'm \<Rightarrow> ('op, 'l, 'm, 'r) shared \<Rightarrow> 'm \<Rightarrow> bool" where
  "explained me m0 s m \<longleftrightarrow> one_by_one me m0 (sh_log s) m \<and>
     (\<forall>i op l. sh_threads s i = Inside op l \<longrightarrow>
        (\<exists>l0. me_starts me op m l0 \<and> body_path me l0 m l (sh_object s))) \<and>
     ((\<forall>i op l. sh_threads s i = Inside op l \<longrightarrow> \<not> me_writes me op) \<longrightarrow> sh_object s = m)"

lemma explained_same:
  assumes "explained me m0 s m" "sh_log t = sh_log s" "sh_object t = sh_object s"
    "\<And>j op l. sh_threads t j = Inside op l \<longleftrightarrow> sh_threads s j = Inside op l"
  shows "explained me m0 t m"
  using assms by (simp add: explained_def)

lemma explainedD:
  assumes "explained me m0 s m"
  shows "one_by_one me m0 (sh_log s) m"
    "sh_threads s i = Inside op l \<Longrightarrow> \<exists>l0. me_starts me op m l0 \<and> body_path me l0 m l (sh_object s)"
    "\<not> sh_writer s \<Longrightarrow> lock_inv me s \<Longrightarrow> sh_object s = m"
proof -
  show "one_by_one me m0 (sh_log s) m"
    "sh_threads s i = Inside op l \<Longrightarrow> \<exists>l0. me_starts me op m l0 \<and> body_path me l0 m l (sh_object s)"
    using assms by (simp_all add: explained_def)
  assume "\<not> sh_writer s" "lock_inv me s"
  then have "writers me s = {}" by (simp add: lock_inv_def)
  then have "\<not> writing me (sh_threads s i)" for i by (simp add: writers_def)
  then have "\<forall>i op l. sh_threads s i = Inside op l \<longrightarrow> \<not> me_writes me op"
    by (metis writing_simps(3))
  with assms show "sh_object s = m" by (simp add: explained_def)
qed

text \<open>An answer a method is about to give is in the log.\<close>

definition answered :: "('op, 'l, 'm, 'r) shared \<Rightarrow> bool" where
  "answered s \<longleftrightarrow> (\<forall>i op r. sh_threads s i = Leaving op r \<longrightarrow> (i, op, r) \<in> set (sh_log s))"

lemma answered_reach: "rw_reach me m0 s \<Longrightarrow> answered s"
proof (induction rule: rw_reach.induct)
  case start
  show ?case by (simp add: answered_def rw_init_def)
next
  case (more s t)
  from more.hyps(2) more.IH show ?case by (cases rule: rw_step.cases) (auto simp: answered_def)
qed

locale rw_methods =
  fixes me :: "('op, 'l, 'm, 'r) methods"
  assumes reads: "\<not> me_writes me op \<Longrightarrow> me_starts me op m l \<Longrightarrow> body_path me l m l1 m1 \<Longrightarrow>
    snd (me_micro me l1 m1) = m1"
begin

lemma path_keeps:
  assumes "\<not> me_writes me op" "me_starts me op m l" "body_path me l m l1 m1"
  shows "m1 = m"
  using assms(3)
proof (induction rule: body_path.induct)
  case (on l1 m1 l2 m2)
  then show ?case using reads [OF assms(1,2) on.hyps(1)] by simp
qed simp

lemma explained_step:
  assumes step: "rw_step me i s t" and lock: "lock_inv me s" and ex: "explained me m0 s m"
  shows "\<exists>m. explained me m0 t m"
  using step
proof (cases rule: rw_step.cases)
  case (call op)
  then have "explained me m0 t m" by (intro explained_same [OF ex]) auto
  then show ?thesis ..
next
  case (Lock op l)
  have "readers me s = {}" "writers me s = {}" using lock Lock(4,5) by (auto simp: lock_inv_def)
  then have "\<not> reading me (sh_threads s j)" "\<not> writing me (sh_threads s j)" for j
    by (auto simp: readers_def writers_def)
  then have none: "sh_threads s j \<noteq> Inside op' l'" for j op' l'
    by (metis reading_simps(3) writing_simps(3))
  have "sh_object s = m" using explainedD(3) [OF ex Lock(4) lock] .
  with Lock none explainedD(1) [OF ex] have "explained me m0 t m"
    by (auto simp: explained_def intro: body_path.here)
  then show ?thesis ..
next
  case (RLock op l)
  have "sh_object s = m" using explainedD(3) [OF ex RLock(4) lock] .
  with RLock ex have "explained me m0 t m"
    by (auto simp: explained_def intro: body_path.here)
  then show ?thesis ..
next
  case (go_on op l l' m')
  obtain l0 where l0: "me_starts me op m l0" "body_path me l0 m l (sh_object s)"
    using explainedD(2) [OF ex go_on(2)] by blast
  have path: "body_path me l0 m l' m'" using body_path.on [OF l0(2) go_on(3)] .
  show ?thesis
  proof (cases "me_writes me op")
    case True
    have "sh_threads s j \<noteq> Inside op' l''" if "j \<noteq> i" for j op' l''
      using no_data_race [OF lock, of i j] go_on(2) True that by auto
    then have "explained me m0 t m"
      using explainedD(1) [OF ex] l0(1) path True go_on(1) unfolding explained_def by auto
    then show ?thesis ..
  next
    case False
    have "m' = sh_object s" "sh_object s = m"
      using reads [OF False l0] path_keeps [OF False l0] go_on(3) by simp_all
    then have "explained me m0 t m"
      using ex l0(1) path False go_on(1,2) unfolding explained_def by auto
    then show ?thesis ..
  qed
next
  case (answer op l r m')
  obtain l0 where l0: "me_starts me op m l0" "body_path me l0 m l (sh_object s)"
    using explainedD(2) [OF ex answer(2)] by blast
  then have "runs_whole me op m r m'" using answer(3) by (auto simp: runs_whole_def)
  from one_by_one.one_more [OF explainedD(1) [OF ex] this, of i]
  have log: "one_by_one me m0 (sh_log t) m'" by (simp add: answer(1))
  show ?thesis
  proof (cases "me_writes me op")
    case True
    have "sh_threads s j \<noteq> Inside op' l''" if "j \<noteq> i" for j op' l''
      using no_data_race [OF lock, of i j] answer(2) True that by auto
    then have "explained me m0 t m'"
      using log answer(1) unfolding explained_def by auto
    then show ?thesis ..
  next
    case False
    have same: "m' = sh_object s" "sh_object s = m"
      using reads [OF False l0] path_keeps [OF False l0] answer(3) by simp_all
    then have "explained me m0 t m"
      using ex log answer(1,2) unfolding explained_def by auto
    then show ?thesis ..
  qed
next
  case (Unlock op r)
  then have "explained me m0 t m" by (intro explained_same [OF ex]) auto
  then show ?thesis ..
next
  case (RUnlock op r)
  then have "explained me m0 t m" by (intro explained_same [OF ex]) auto
  then show ?thesis ..
qed

theorem explained_reach:
  assumes "rw_reach me m0 s"
  shows "\<exists>m. explained me m0 s m"
  using assms
proof (induction rule: rw_reach.induct)
  case start
  have "explained me m0 (rw_init m0) m0"
    by (simp add: explained_def rw_init_def one_by_one.nothing)
  then show ?case ..
next
  case (more s t)
  then show ?case using explained_step lock_inv_reach by metis
qed

text \<open>When no thread is inside a method, the object is what the methods of the log make of it.\<close>

lemma quiet_object:
  assumes "rw_reach me m0 s" "\<not> sh_writer s"
  shows "one_by_one me m0 (sh_log s) (sh_object s)"
  using explained_reach [OF assms(1)] explainedD(1,3) lock_inv_reach [OF assms(1)] assms(2) by metis

end

text \<open>
  It is enough to name the local states of bodies that only read, and to look at one step of such a
  body.
\<close>

lemma rw_methodsI:
  assumes starts: "\<And>op m l. \<not> me_writes me op \<Longrightarrow> me_starts me op m l \<Longrightarrow> P l"
    and micro: "\<And>l m x m'. P l \<Longrightarrow> me_micro me l m = (x, m') \<Longrightarrow> m' = m \<and> (\<forall>l'. x = Inl l' \<longrightarrow> P l')"
  shows "rw_methods me"
proof
  fix op m l l1 m1
  assume "\<not> me_writes me op" "me_starts me op m l" and path: "body_path me l m l1 m1"
  then have "P l" using starts by blast
  from path this have "P l1"
    by (induction rule: body_path.induct) (use micro in blast)+
  then show "snd (me_micro me l1 m1) = m1" using micro by (metis prod.collapse)
qed

text \<open>A body that ends in its first step.\<close>

lemma body_path_end:
  assumes "body_path me l m l1 m1" "\<And>l'. fst (me_micro me l m) \<noteq> Inl l'"
  shows "l1 = l \<and> m1 = m"
  using assms(1)
proof (induction rule: body_path.induct)
  case (on l1 m1 l2 m2)
  then show ?case using assms(2) by (metis fst_conv)
qed simp

text \<open>No method waits for ever, provided a body can always start.\<close>

definition can_go_on :: "('op, 'l, 'm, 'r) methods \<Rightarrow> ('op, 'l, 'm, 'r) shared \<Rightarrow> nat \<Rightarrow> bool" where
  "can_go_on me s i \<longleftrightarrow> sh_threads s i \<noteq> Outside \<and> (\<exists>t. rw_step me i s t)"

lemma can_go_onI: "rw_step me i s t \<Longrightarrow> sh_threads s i \<noteq> Outside \<Longrightarrow> can_go_on me s i"
  by (auto simp: can_go_on_def)

lemma holder_goes_on:
  assumes "reading me (sh_threads s j) \<or> writing me (sh_threads s j)"
  shows "can_go_on me s j"
proof (cases "sh_threads s j")
  case (Inside op l)
  obtain x m where x: "me_micro me l (sh_object s) = (x, m)" by fastforce
  show ?thesis
  proof (cases x)
    case (Inl l')
    show ?thesis by (rule can_go_onI [OF rw_step.go_on [OF Inside x [unfolded Inl]]]) (simp add: Inside)
  next
    case (Inr r)
    show ?thesis by (rule can_go_onI [OF rw_step.answer [OF Inside x [unfolded Inr]]]) (simp add: Inside)
  qed
next
  case (Leaving op r)
  show ?thesis
  proof (cases "me_writes me op")
    case True
    show ?thesis by (rule can_go_onI [OF rw_step.Unlock [OF Leaving True]]) (simp add: Leaving)
  next
    case False
    show ?thesis by (rule can_go_onI [OF rw_step.RUnlock [OF Leaving False]]) (simp add: Leaving)
  qed
qed (use assms in auto)

lemma lock_progress:
  assumes "rw_reach me m0 s" "\<And>op. \<exists>l. me_starts me op (sh_object s) l" "sh_threads s i \<noteq> Outside"
  shows "\<exists>j. can_go_on me s j"
proof (cases "\<exists>j. reading me (sh_threads s j) \<or> writing me (sh_threads s j)")
  case True
  then obtain j where "reading me (sh_threads s j) \<or> writing me (sh_threads s j)" by blast
  from holder_goes_on [OF this] show ?thesis by (rule exI)
next
  case False
  then have "readers me s = {}" "writers me s = {}" by (auto simp: readers_def writers_def)
  then have free: "\<not> sh_writer s" "sh_readers s = 0"
    using lock_inv_reach [OF assms(1)] by (auto simp: lock_inv_def split: if_splits)
  have "\<not> reading me (sh_threads s i)" "\<not> writing me (sh_threads s i)" using False by blast+
  then obtain op where op: "sh_threads s i = Waiting op"
    using assms(3) by (cases "sh_threads s i") auto
  obtain l where l: "me_starts me op (sh_object s) l" using assms(2) by blast
  have "can_go_on me s i"
  proof (cases "me_writes me op")
    case True
    show ?thesis by (rule can_go_onI [OF rw_step.Lock [OF op True free l]]) (simp_all add: op)
  next
    case False
    show ?thesis by (rule can_go_onI [OF rw_step.RLock [OF op False free(1) l]]) (simp_all add: op)
  qed
  then show ?thesis ..
qed

end
