(* ===== verification/Conmap.thy ===== *)
theory Conmap
  imports Containers Rw_Lock
begin

text \<open>
  \<open>pkg/util/conmap\<close> in two respects that \<open>Containers\<close> leaves out.  First the generated file
  \<open>gen-conmaps.go\<close>: its three maps are structs of their own, each with the methods of the template
  written out; they are shown to be instances of it.  Second the lock: the methods as threads of a
  concurrent program, in which every step that reads or changes the map or its \<open>RWMutex\<close> may be
  interleaved with the steps of other methods.  The answers are those of the methods run one after the
  other, which is what the rest of the development takes a method to be.
\<close>

section \<open>The generated maps\<close>

text \<open>A pointer is an address, or nil; what it points at is not part of the map.\<close>

type_synonym Process_ref = "nat option"
type_synonym LogBuffer_ref = "nat option"

subsection \<open>StringString\<close>

(* src: pkg/util/conmap/gen-conmaps.go 34-37 StringString *)
record StringString =
  StringString_data :: "string \<rightharpoonup> string"

(* src: pkg/util/conmap/gen-conmaps.go 39-42 NodeStringString *)
record NodeStringString =
  NodeStringString_Key :: string
  NodeStringString_Value :: string

(* src: pkg/util/conmap/gen-conmaps.go 44-48 NewStringString *)
definition NewStringString :: StringString where
  "NewStringString = \<lparr>StringString_data = Map.empty\<rparr>"

(* src: pkg/util/conmap/gen-conmaps.go 50-54 Set *)
definition StringString_Set :: "string \<Rightarrow> string \<Rightarrow> StringString \<Rightarrow> StringString" where
  "StringString_Set key val m = m\<lparr>StringString_data := (StringString_data m)(key \<mapsto> val)\<rparr>"

(* src: pkg/util/conmap/gen-conmaps.go 56-60 Delete *)
definition StringString_Delete :: "string \<Rightarrow> StringString \<Rightarrow> StringString" where
  "StringString_Delete key m = m\<lparr>StringString_data := (StringString_data m)(key := None)\<rparr>"

(* src: pkg/util/conmap/gen-conmaps.go 62-67 Get *)
definition StringString_Get :: "StringString \<Rightarrow> string \<Rightarrow> string" where
  "StringString_Get m key = (case StringString_data m key of None \<Rightarrow> '''' | Some v \<Rightarrow> v)"

(* src: pkg/util/conmap/gen-conmaps.go 69-74 GetOK *)
definition StringString_GetOK :: "StringString \<Rightarrow> string \<Rightarrow> string \<times> bool" where
  "StringString_GetOK m key = (case StringString_data m key of None \<Rightarrow> ('''', False) | Some v \<Rightarrow> (v, True))"

(* src: pkg/util/conmap/gen-conmaps.go 76-81 Len *)
definition StringString_Len :: "StringString \<Rightarrow> nat" where
  "StringString_Len m = card (dom (StringString_data m))"

(* src: pkg/util/conmap/gen-conmaps.go 83-91 Items *)
fun StringString_items :: "StringString \<Rightarrow> string list \<Rightarrow> NodeStringString list \<Rightarrow> NodeStringString list" where
  "StringString_items m [] items = items"
| "StringString_items m (k # ks) items =
     StringString_items m ks
       (case StringString_data m k of None \<Rightarrow> items
        | Some v \<Rightarrow> items @ [\<lparr>NodeStringString_Key = k, NodeStringString_Value = v\<rparr>])"

(* src: pkg/util/conmap/gen-conmaps.go 83-91 Items *)
definition StringString_Items :: "string list \<Rightarrow> StringString \<Rightarrow> NodeStringString list" where
  "StringString_Items order m = StringString_items m order []"

text \<open>It is the template with its two types filled in.\<close>

definition StringString_template :: "StringString \<Rightarrow> (string, string) KeyTypeValueType" where
  "StringString_template m = \<lparr>conmap_data = StringString_data m\<rparr>"

lemmas StringString_defs = StringString_template_def StringString_Set_def StringString_Delete_def StringString_Get_def StringString_GetOK_def
  StringString_Len_def conmap_Set_def conmap_Delete_def conmap_Get_def conmap_GetOK_def conmap_Len_def

lemma StringString_items_template:
  "map (\<lambda>n. (NodeStringString_Key n, NodeStringString_Value n)) (StringString_items m ks items) =
     map (\<lambda>n. (NodeStringString_Key n, NodeStringString_Value n)) items @ conmap_Items ks (StringString_template m)"
  by (induction ks arbitrary: items)
    (auto simp: conmap_Items_def StringString_template_def map_filter_simps split: option.split)

lemma StringString_instance:
  "StringString_template NewStringString = NewKeyTypeValueType"
  "StringString_template (StringString_Set k v m) = conmap_Set k v (StringString_template m)"
  "StringString_template (StringString_Delete k m) = conmap_Delete k (StringString_template m)"
  "StringString_Get m k = conmap_Get '''' (StringString_template m) k"
  "StringString_GetOK m k = (conmap_Get '''' (StringString_template m) k, conmap_GetOK (StringString_template m) k \<noteq> None)"
  "StringString_Len m = conmap_Len (StringString_template m)"
  "map (\<lambda>n. (NodeStringString_Key n, NodeStringString_Value n)) (StringString_Items ks m) = conmap_Items ks (StringString_template m)"
  using StringString_items_template [of m ks "[]"]
  by (simp_all add: StringString_defs NewStringString_def NewKeyTypeValueType_def StringString_Items_def split: option.split)

interpretation string_map: go_store "\<lambda>m k. (case StringString_GetOK m k of (v, ok) \<Rightarrow> if ok then Some v else None)"
    StringString_Set StringString_Delete
  by unfold_locales (auto simp: StringString_defs split: option.split)

subsection \<open>StringOsProcess\<close>

(* src: pkg/util/conmap/gen-conmaps.go 97-100 StringOsProcess *)
record StringOsProcess =
  StringOsProcess_data :: "string \<rightharpoonup> Process_ref"

(* src: pkg/util/conmap/gen-conmaps.go 102-105 NodeStringOsProcess *)
record NodeStringOsProcess =
  NodeStringOsProcess_Key :: string
  NodeStringOsProcess_Value :: Process_ref

(* src: pkg/util/conmap/gen-conmaps.go 107-111 NewStringOsProcess *)
definition NewStringOsProcess :: StringOsProcess where
  "NewStringOsProcess = \<lparr>StringOsProcess_data = Map.empty\<rparr>"

(* src: pkg/util/conmap/gen-conmaps.go 113-117 Set *)
definition StringOsProcess_Set :: "string \<Rightarrow> Process_ref \<Rightarrow> StringOsProcess \<Rightarrow> StringOsProcess" where
  "StringOsProcess_Set key val m = m\<lparr>StringOsProcess_data := (StringOsProcess_data m)(key \<mapsto> val)\<rparr>"

(* src: pkg/util/conmap/gen-conmaps.go 119-123 Delete *)
definition StringOsProcess_Delete :: "string \<Rightarrow> StringOsProcess \<Rightarrow> StringOsProcess" where
  "StringOsProcess_Delete key m = m\<lparr>StringOsProcess_data := (StringOsProcess_data m)(key := None)\<rparr>"

(* src: pkg/util/conmap/gen-conmaps.go 125-130 Get *)
definition StringOsProcess_Get :: "StringOsProcess \<Rightarrow> string \<Rightarrow> Process_ref" where
  "StringOsProcess_Get m key = (case StringOsProcess_data m key of None \<Rightarrow> None | Some v \<Rightarrow> v)"

(* src: pkg/util/conmap/gen-conmaps.go 132-137 GetOK *)
definition StringOsProcess_GetOK :: "StringOsProcess \<Rightarrow> string \<Rightarrow> Process_ref \<times> bool" where
  "StringOsProcess_GetOK m key = (case StringOsProcess_data m key of None \<Rightarrow> (None, False) | Some v \<Rightarrow> (v, True))"

(* src: pkg/util/conmap/gen-conmaps.go 139-144 Len *)
definition StringOsProcess_Len :: "StringOsProcess \<Rightarrow> nat" where
  "StringOsProcess_Len m = card (dom (StringOsProcess_data m))"

(* src: pkg/util/conmap/gen-conmaps.go 146-154 Items *)
fun StringOsProcess_items :: "StringOsProcess \<Rightarrow> string list \<Rightarrow> NodeStringOsProcess list \<Rightarrow> NodeStringOsProcess list" where
  "StringOsProcess_items m [] items = items"
| "StringOsProcess_items m (k # ks) items =
     StringOsProcess_items m ks
       (case StringOsProcess_data m k of None \<Rightarrow> items
        | Some v \<Rightarrow> items @ [\<lparr>NodeStringOsProcess_Key = k, NodeStringOsProcess_Value = v\<rparr>])"

(* src: pkg/util/conmap/gen-conmaps.go 146-154 Items *)
definition StringOsProcess_Items :: "string list \<Rightarrow> StringOsProcess \<Rightarrow> NodeStringOsProcess list" where
  "StringOsProcess_Items order m = StringOsProcess_items m order []"

text \<open>It is the template with its two types filled in.\<close>

definition StringOsProcess_template :: "StringOsProcess \<Rightarrow> (string, Process_ref) KeyTypeValueType" where
  "StringOsProcess_template m = \<lparr>conmap_data = StringOsProcess_data m\<rparr>"

lemmas StringOsProcess_defs = StringOsProcess_template_def StringOsProcess_Set_def StringOsProcess_Delete_def StringOsProcess_Get_def StringOsProcess_GetOK_def
  StringOsProcess_Len_def conmap_Set_def conmap_Delete_def conmap_Get_def conmap_GetOK_def conmap_Len_def

lemma StringOsProcess_items_template:
  "map (\<lambda>n. (NodeStringOsProcess_Key n, NodeStringOsProcess_Value n)) (StringOsProcess_items m ks items) =
     map (\<lambda>n. (NodeStringOsProcess_Key n, NodeStringOsProcess_Value n)) items @ conmap_Items ks (StringOsProcess_template m)"
  by (induction ks arbitrary: items)
    (auto simp: conmap_Items_def StringOsProcess_template_def map_filter_simps split: option.split)

lemma StringOsProcess_instance:
  "StringOsProcess_template NewStringOsProcess = NewKeyTypeValueType"
  "StringOsProcess_template (StringOsProcess_Set k v m) = conmap_Set k v (StringOsProcess_template m)"
  "StringOsProcess_template (StringOsProcess_Delete k m) = conmap_Delete k (StringOsProcess_template m)"
  "StringOsProcess_Get m k = conmap_Get None (StringOsProcess_template m) k"
  "StringOsProcess_GetOK m k = (conmap_Get None (StringOsProcess_template m) k, conmap_GetOK (StringOsProcess_template m) k \<noteq> None)"
  "StringOsProcess_Len m = conmap_Len (StringOsProcess_template m)"
  "map (\<lambda>n. (NodeStringOsProcess_Key n, NodeStringOsProcess_Value n)) (StringOsProcess_Items ks m) = conmap_Items ks (StringOsProcess_template m)"
  using StringOsProcess_items_template [of m ks "[]"]
  by (simp_all add: StringOsProcess_defs NewStringOsProcess_def NewKeyTypeValueType_def StringOsProcess_Items_def split: option.split)

interpretation proc_map: go_store "\<lambda>m k. (case StringOsProcess_GetOK m k of (v, ok) \<Rightarrow> if ok then Some v else None)"
    StringOsProcess_Set StringOsProcess_Delete
  by unfold_locales (auto simp: StringOsProcess_defs split: option.split)

subsection \<open>StringLogbufLogBuffer\<close>

(* src: pkg/util/conmap/gen-conmaps.go 160-163 StringLogbufLogBuffer *)
record StringLogbufLogBuffer =
  StringLogbufLogBuffer_data :: "string \<rightharpoonup> LogBuffer_ref"

(* src: pkg/util/conmap/gen-conmaps.go 165-168 NodeStringLogbufLogBuffer *)
record NodeStringLogbufLogBuffer =
  NodeStringLogbufLogBuffer_Key :: string
  NodeStringLogbufLogBuffer_Value :: LogBuffer_ref

(* src: pkg/util/conmap/gen-conmaps.go 170-174 NewStringLogbufLogBuffer *)
definition NewStringLogbufLogBuffer :: StringLogbufLogBuffer where
  "NewStringLogbufLogBuffer = \<lparr>StringLogbufLogBuffer_data = Map.empty\<rparr>"

(* src: pkg/util/conmap/gen-conmaps.go 176-180 Set *)
definition StringLogbufLogBuffer_Set :: "string \<Rightarrow> LogBuffer_ref \<Rightarrow> StringLogbufLogBuffer \<Rightarrow> StringLogbufLogBuffer" where
  "StringLogbufLogBuffer_Set key val m = m\<lparr>StringLogbufLogBuffer_data := (StringLogbufLogBuffer_data m)(key \<mapsto> val)\<rparr>"

(* src: pkg/util/conmap/gen-conmaps.go 182-186 Delete *)
definition StringLogbufLogBuffer_Delete :: "string \<Rightarrow> StringLogbufLogBuffer \<Rightarrow> StringLogbufLogBuffer" where
  "StringLogbufLogBuffer_Delete key m = m\<lparr>StringLogbufLogBuffer_data := (StringLogbufLogBuffer_data m)(key := None)\<rparr>"

(* src: pkg/util/conmap/gen-conmaps.go 188-193 Get *)
definition StringLogbufLogBuffer_Get :: "StringLogbufLogBuffer \<Rightarrow> string \<Rightarrow> LogBuffer_ref" where
  "StringLogbufLogBuffer_Get m key = (case StringLogbufLogBuffer_data m key of None \<Rightarrow> None | Some v \<Rightarrow> v)"

(* src: pkg/util/conmap/gen-conmaps.go 195-200 GetOK *)
definition StringLogbufLogBuffer_GetOK :: "StringLogbufLogBuffer \<Rightarrow> string \<Rightarrow> LogBuffer_ref \<times> bool" where
  "StringLogbufLogBuffer_GetOK m key = (case StringLogbufLogBuffer_data m key of None \<Rightarrow> (None, False) | Some v \<Rightarrow> (v, True))"

(* src: pkg/util/conmap/gen-conmaps.go 202-207 Len *)
definition StringLogbufLogBuffer_Len :: "StringLogbufLogBuffer \<Rightarrow> nat" where
  "StringLogbufLogBuffer_Len m = card (dom (StringLogbufLogBuffer_data m))"

(* src: pkg/util/conmap/gen-conmaps.go 209-217 Items *)
fun StringLogbufLogBuffer_items :: "StringLogbufLogBuffer \<Rightarrow> string list \<Rightarrow> NodeStringLogbufLogBuffer list \<Rightarrow> NodeStringLogbufLogBuffer list" where
  "StringLogbufLogBuffer_items m [] items = items"
| "StringLogbufLogBuffer_items m (k # ks) items =
     StringLogbufLogBuffer_items m ks
       (case StringLogbufLogBuffer_data m k of None \<Rightarrow> items
        | Some v \<Rightarrow> items @ [\<lparr>NodeStringLogbufLogBuffer_Key = k, NodeStringLogbufLogBuffer_Value = v\<rparr>])"

(* src: pkg/util/conmap/gen-conmaps.go 209-217 Items *)
definition StringLogbufLogBuffer_Items :: "string list \<Rightarrow> StringLogbufLogBuffer \<Rightarrow> NodeStringLogbufLogBuffer list" where
  "StringLogbufLogBuffer_Items order m = StringLogbufLogBuffer_items m order []"

text \<open>It is the template with its two types filled in.\<close>

definition StringLogbufLogBuffer_template :: "StringLogbufLogBuffer \<Rightarrow> (string, LogBuffer_ref) KeyTypeValueType" where
  "StringLogbufLogBuffer_template m = \<lparr>conmap_data = StringLogbufLogBuffer_data m\<rparr>"

lemmas StringLogbufLogBuffer_defs = StringLogbufLogBuffer_template_def StringLogbufLogBuffer_Set_def StringLogbufLogBuffer_Delete_def StringLogbufLogBuffer_Get_def StringLogbufLogBuffer_GetOK_def
  StringLogbufLogBuffer_Len_def conmap_Set_def conmap_Delete_def conmap_Get_def conmap_GetOK_def conmap_Len_def

lemma StringLogbufLogBuffer_items_template:
  "map (\<lambda>n. (NodeStringLogbufLogBuffer_Key n, NodeStringLogbufLogBuffer_Value n)) (StringLogbufLogBuffer_items m ks items) =
     map (\<lambda>n. (NodeStringLogbufLogBuffer_Key n, NodeStringLogbufLogBuffer_Value n)) items @ conmap_Items ks (StringLogbufLogBuffer_template m)"
  by (induction ks arbitrary: items)
    (auto simp: conmap_Items_def StringLogbufLogBuffer_template_def map_filter_simps split: option.split)

lemma StringLogbufLogBuffer_instance:
  "StringLogbufLogBuffer_template NewStringLogbufLogBuffer = NewKeyTypeValueType"
  "StringLogbufLogBuffer_template (StringLogbufLogBuffer_Set k v m) = conmap_Set k v (StringLogbufLogBuffer_template m)"
  "StringLogbufLogBuffer_template (StringLogbufLogBuffer_Delete k m) = conmap_Delete k (StringLogbufLogBuffer_template m)"
  "StringLogbufLogBuffer_Get m k = conmap_Get None (StringLogbufLogBuffer_template m) k"
  "StringLogbufLogBuffer_GetOK m k = (conmap_Get None (StringLogbufLogBuffer_template m) k, conmap_GetOK (StringLogbufLogBuffer_template m) k \<noteq> None)"
  "StringLogbufLogBuffer_Len m = conmap_Len (StringLogbufLogBuffer_template m)"
  "map (\<lambda>n. (NodeStringLogbufLogBuffer_Key n, NodeStringLogbufLogBuffer_Value n)) (StringLogbufLogBuffer_Items ks m) = conmap_Items ks (StringLogbufLogBuffer_template m)"
  using StringLogbufLogBuffer_items_template [of m ks "[]"]
  by (simp_all add: StringLogbufLogBuffer_defs NewStringLogbufLogBuffer_def NewKeyTypeValueType_def StringLogbufLogBuffer_Items_def split: option.split)

interpretation log_map: go_store "\<lambda>m k. (case StringLogbufLogBuffer_GetOK m k of (v, ok) \<Rightarrow> if ok then Some v else None)"
    StringLogbufLogBuffer_Set StringLogbufLogBuffer_Delete
  by unfold_locales (auto simp: StringLogbufLogBuffer_defs split: option.split)

section \<open>The lock\<close>

text \<open>
  The methods of the template: \<open>Items\<close> visits one key after the other and the order of a map is any, the
  others do their work in one step between locking and unlocking.
\<close>

datatype ('k, 'v) cm_method = M_Set 'k 'v | M_Delete 'k | M_Get 'k | M_GetOK 'k | M_Len | M_Items

datatype ('k, 'v) cm_reply = R_none | R_value 'v | R_found "'v option" | R_len nat | R_items "('k \<times> 'v) list"

datatype ('k, 'v) cm_local = Body "('k, 'v) cm_method" | Visiting "'k list" "('k \<times> 'v) list"

fun cm_writes :: "('k, 'v) cm_method \<Rightarrow> bool" where
  "cm_writes (M_Set k v) = True"
| "cm_writes (M_Delete k) = True"
| "cm_writes _ = False"

fun cm_body :: "'v \<Rightarrow> ('k, 'v) cm_method \<Rightarrow> ('k, 'v) KeyTypeValueType \<Rightarrow>
    ('k, 'v) cm_reply \<times> ('k, 'v) KeyTypeValueType" where
  "cm_body zero (M_Set k v) m = (R_none, conmap_Set k v m)"
| "cm_body zero (M_Delete k) m = (R_none, conmap_Delete k m)"
| "cm_body zero (M_Get k) m = (R_value (conmap_Get zero m k), m)"
| "cm_body zero (M_GetOK k) m = (R_found (conmap_GetOK m k), m)"
| "cm_body zero M_Len m = (R_len (conmap_Len m), m)"
| "cm_body zero M_Items m = (R_items [], m)"

definition cm_starts :: "('k, 'v) cm_method \<Rightarrow> ('k, 'v) KeyTypeValueType \<Rightarrow> ('k, 'v) cm_local \<Rightarrow> bool" where
  "cm_starts op m l \<longleftrightarrow>
     (if op = M_Items then \<exists>ks. iterates ks (conmap_data m) \<and> l = Visiting ks [] else l = Body op)"

fun cm_micro :: "'v \<Rightarrow> ('k, 'v) cm_local \<Rightarrow> ('k, 'v) KeyTypeValueType \<Rightarrow>
    (('k, 'v) cm_local + ('k, 'v) cm_reply) \<times> ('k, 'v) KeyTypeValueType" where
  "cm_micro zero (Body op) m = (case cm_body zero op m of (r, m') \<Rightarrow> (Inr r, m'))"
| "cm_micro zero (Visiting [] items) m = (Inr (R_items items), m)"
| "cm_micro zero (Visiting (k # ks) items) m =
     (Inl (Visiting ks (items @ (case conmap_data m k of None \<Rightarrow> [] | Some v \<Rightarrow> [(k, v)]))), m)"

(* src: pkg/util/conmap/conmaps.go 53-94 KeyTypeValueType *)
definition conmap_methods ::
  "'v \<Rightarrow> (('k, 'v) cm_method, ('k, 'v) cm_local, ('k, 'v) KeyTypeValueType, ('k, 'v) cm_reply) methods" where
  "conmap_methods zero =
     \<lparr>me_writes = cm_writes, me_starts = cm_starts, me_micro = cm_micro zero\<rparr>"

text \<open>A body that only reads stays one, and leaves the map as it is.\<close>

fun cm_reads :: "('k, 'v) cm_local \<Rightarrow> bool" where
  "cm_reads (Body op) \<longleftrightarrow> \<not> cm_writes op"
| "cm_reads (Visiting ks items) \<longleftrightarrow> True"

lemma cm_body_reads: "\<not> cm_writes op \<Longrightarrow> snd (cm_body zero op m) = m"
  by (cases op) simp_all

lemma cm_reads_micro:
  assumes "cm_reads l" "cm_micro zero l m = (x, m')"
  shows "m' = m \<and> (\<forall>l'. x = Inl l' \<longrightarrow> cm_reads l')"
  using assms cm_body_reads [of _ zero m]
  by (cases "(zero, l, m)" rule: cm_micro.cases; force split: prod.splits)

lemma cm_starts_reads: "\<not> cm_writes op \<Longrightarrow> cm_starts op m l \<Longrightarrow> cm_reads l"
  by (auto simp: cm_starts_def split: if_splits)

interpretation conmap_lock: rw_methods "conmap_methods zero"
  by (rule rw_methodsI [where P = cm_reads])
    (auto simp: conmap_methods_def dest: cm_starts_reads cm_reads_micro)

text \<open>A method run whole is the operation of \<open>Containers\<close>.\<close>

lemma conmap_Items_snoc:
  "conmap_Items (seen @ [k]) m =
     conmap_Items seen m @ (case conmap_data m k of None \<Rightarrow> [] | Some v \<Rightarrow> [(k, v)])"
  by (simp add: conmap_Items_def List.map_filter_def split: option.split)

lemma conmap_Items_Nil [simp]: "conmap_Items [] m = []"
  by (simp add: conmap_Items_def List.map_filter_def)

lemma visiting_path:
  assumes "body_path (conmap_methods zero) (Visiting ks []) m l1 m1"
  shows "m1 = m \<and> (\<exists>seen rest. ks = seen @ rest \<and> l1 = Visiting rest (conmap_Items seen m))"
  using assms
proof (induction rule: body_path.induct)
  case here
  show ?case by (auto intro: exI [of _ "[]"])
next
  case (on l1 m1 l2 m2)
  then obtain seen rest where sr: "ks = seen @ rest" "l1 = Visiting rest (conmap_Items seen m)" "m1 = m"
    by blast
  from on.hyps(2) sr obtain k rest' where "rest = k # rest'" by (cases rest) (auto simp: conmap_methods_def)
  with on.hyps(2) sr have "m2 = m" "l2 = Visiting rest' (conmap_Items (seen @ [k]) m)" "ks = (seen @ [k]) @ rest'"
    by (auto simp: conmap_methods_def conmap_Items_snoc)
  then show ?case by blast
qed

lemma conmap_runs_whole:
  assumes "runs_whole (conmap_methods zero) op m r m'"
  shows "if op = M_Items then m' = m \<and> (\<exists>ks. iterates ks (conmap_data m) \<and> r = R_items (conmap_Items ks m))
     else (r, m') = cm_body zero op m"
proof -
  obtain l l1 m1 where l: "cm_starts op m l" "body_path (conmap_methods zero) l m l1 m1"
      "cm_micro zero l1 m1 = (Inr r, m')"
    using assms by (auto simp: runs_whole_def conmap_methods_def)
  show ?thesis
  proof (cases "op = M_Items")
    case True
    then obtain ks where ks: "iterates ks (conmap_data m)" "l = Visiting ks []"
      using l(1) by (auto simp: cm_starts_def)
    have path: "body_path (conmap_methods zero) (Visiting ks []) m l1 m1" using l(2) unfolding ks(2) .
    note visited = visiting_path [OF path]
    obtain seen rest where sr: "ks = seen @ rest" "l1 = Visiting rest (conmap_Items seen m)" "m1 = m"
      using conjunct1 [OF visited] conjunct2 [OF visited] by iprover
    have "rest = []" using l(3) unfolding sr(2) by (cases rest) simp_all
    then have "seen = ks" using sr(1) by simp
    have "r = R_items (conmap_Items seen m)" "m' = m"
      using l(3) unfolding sr(2,3) \<open>rest = []\<close> by auto
    with ks(1) True \<open>seen = ks\<close> show ?thesis by metis
  next
    case False
    then have lop: "l = Body op" using l(1) by (simp add: cm_starts_def)
    have "fst (me_micro (conmap_methods zero) l m) \<noteq> Inl l'" for l'
      by (simp add: lop conmap_methods_def split: prod.split)
    from body_path_end [OF l(2) this] lop have "l1 = Body op" "m1 = m" by simp_all
    then have "cm_micro zero (Body op) m = (Inr r, m')" using l(3) by (simp only:)
    then have "cm_body zero op m = (r, m')" by (cases "cm_body zero op m") simp
    then show ?thesis using False by (simp only: if_False)
  qed
qed

text \<open>The methods one after the other, with the operations of \<open>Containers\<close>.\<close>

fun conmap_run :: "'v \<Rightarrow> ('k, 'v) KeyTypeValueType \<Rightarrow> (nat \<times> ('k, 'v) cm_method \<times> ('k, 'v) cm_reply) list \<Rightarrow>
    ('k, 'v) KeyTypeValueType \<Rightarrow> bool" where
  "conmap_run zero m [] m' \<longleftrightarrow> m' = m"
| "conmap_run zero m ((i, op, r) # log) m' \<longleftrightarrow>
     (if op = M_Items then \<exists>ks. iterates ks (conmap_data m) \<and> r = R_items (conmap_Items ks m)
      else r = fst (cm_body zero op m)) \<and>
     conmap_run zero (snd (cm_body zero op m)) log m'"

lemma conmap_run_append:
  "conmap_run zero m (log @ log') m' \<longleftrightarrow> (\<exists>m1. conmap_run zero m log m1 \<and> conmap_run zero m1 log' m')"
  by (induction zero m log m' rule: conmap_run.induct) auto

lemma conmap_one_by_one:
  assumes "one_by_one (conmap_methods zero) m0 log m"
  shows "conmap_run zero m0 log m"
  using assms
proof (induction rule: one_by_one.induct)
  case (one_more log m op r m' i)
  from conmap_runs_whole [OF one_more.hyps(2)]
  have "conmap_run zero m [(i, op, r)] m'" by (auto simp: prod_eq_iff split: if_splits)
  with one_more.IH show ?case by (auto simp: conmap_run_append)
qed simp

text \<open>No step makes the map infinite, so \<open>Items\<close> can always begin.\<close>

lemma conmap_micro_finite:
  assumes "cm_micro zero l m = (x, m')" "finite (dom (conmap_data m))"
  shows "finite (dom (conmap_data m'))"
proof (cases l)
  case (Body op)
  with assms show ?thesis by (cases op) (auto simp: conmap_Set_def conmap_Delete_def)
next
  case (Visiting ks items)
  with assms show ?thesis by (cases ks) auto
qed

lemma conmap_reach_finite:
  assumes "rw_reach (conmap_methods zero) m0 s" "finite (dom (conmap_data m0))"
  shows "finite (dom (conmap_data (sh_object s)))"
  using assms
proof (induction rule: rw_reach.induct)
  case start
  then show ?case by (simp add: rw_init_def)
next
  case (more s t)
  from more.hyps(2) show ?case
    using more.IH [OF more.prems]
    by (cases rule: rw_step.cases) (auto simp: conmap_methods_def dest: conmap_micro_finite)
qed

lemma cm_starts_ex:
  assumes "finite (dom (conmap_data m))"
  shows "\<exists>l. me_starts (conmap_methods zero) op m l"
proof -
  obtain ks where "iterates ks (conmap_data m)"
    using finite_distinct_list [OF assms] by (auto simp: iterates_def)
  then show ?thesis by (auto simp: conmap_methods_def cm_starts_def)
qed

end
