(* ===== verification/Env_Lock.thy ===== *)
theory Env_Lock
  imports Containers Rw_Lock
begin

text \<open>
  The methods of \<open>EnvStore\<close> (\<open>pkg/server/envstore.go\<close>) as threads.  \<open>Add\<close>, \<open>Delete\<close> and also \<open>Get\<close>
  take the lock for writing, \<open>Items\<close> takes it for reading and visits one variable after the other.
  The store is an object with \<open>rw_methods\<close>, so what threads see of it is what they would see if
  the operations of \<open>Containers\<close> were run one after the other.
\<close>

datatype env_method = E_Add string string string | E_Delete string string | E_Get string string | E_Items string

datatype env_reply = E_none | E_found "string option" | E_items "(string \<times> string) list"

datatype env_local = E_body env_method | E_visiting string "string list" "(string \<times> string) list"

fun env_writes :: "env_method \<Rightarrow> bool" where
  "env_writes (E_Items u) = False"
| "env_writes _ = True"

definition env_of_unit :: "EnvStore \<Rightarrow> string \<Rightarrow> string \<rightharpoonup> string" where
  "env_of_unit e u =
     (case EnvStore_data e of None \<Rightarrow> Map.empty
      | Some data \<Rightarrow> (case data u of None \<Rightarrow> Map.empty | Some m \<Rightarrow> m))"

fun env_starts :: "env_method \<Rightarrow> EnvStore \<Rightarrow> env_local \<Rightarrow> bool" where
  "env_starts (E_Items u) e l \<longleftrightarrow> (\<exists>ks. iterates ks (env_of_unit e u) \<and> l = E_visiting u ks [])"
| "env_starts op e l \<longleftrightarrow> l = E_body op"

fun env_body :: "env_method \<Rightarrow> EnvStore \<Rightarrow> env_reply \<times> EnvStore" where
  "env_body (E_Add u key val) e = (E_none, EnvStore_Add u key val e)"
| "env_body (E_Delete u key) e = (E_none, EnvStore_Delete u key e)"
| "env_body (E_Get u key) e = (E_found (EnvStore_Get e u key), e)"
| "env_body (E_Items u) e = (E_items [], e)"

fun env_micro :: "env_local \<Rightarrow> EnvStore \<Rightarrow> (env_local + env_reply) \<times> EnvStore" where
  "env_micro (E_body op) e = (case env_body op e of (r, e') \<Rightarrow> (Inr r, e'))"
| "env_micro (E_visiting u [] items) e = (Inr (E_items items), e)"
| "env_micro (E_visiting u (k # ks) items) e =
     (Inl (E_visiting u ks (items @ (case env_of_unit e u k of None \<Rightarrow> [] | Some v \<Rightarrow> [(k, v)]))), e)"

(* src: pkg/server/envstore.go 27-83 EnvStore *)
definition env_methods :: "(env_method, env_local, EnvStore, env_reply) methods" where
  "env_methods = \<lparr>me_writes = env_writes, me_starts = env_starts, me_micro = env_micro\<rparr>"

lemma env_methods_simps [simp]:
  "me_writes env_methods = env_writes" "me_starts env_methods = env_starts" "me_micro env_methods = env_micro"
  by (simp_all add: env_methods_def)

fun env_reads :: "env_local \<Rightarrow> bool" where
  "env_reads (E_body op) \<longleftrightarrow> False"
| "env_reads (E_visiting u ks items) \<longleftrightarrow> True"

interpretation env_lock: rw_methods env_methods
proof (rule rw_methodsI [where P = env_reads])
  show "env_reads l" if "\<not> me_writes env_methods op" "me_starts env_methods op e l" for op e l
    using that by (cases op) auto
  show "e' = e \<and> (\<forall>l'. x = Inl l' \<longrightarrow> env_reads l')"
    if "env_reads l" "me_micro env_methods l e = (x, e')" for l e x e'
    using that by (cases "(l, e)" rule: env_micro.cases) auto
qed

text \<open>A method run whole is the operation of \<open>Containers\<close>.\<close>

lemma EnvStore_Items_unit:
  "EnvStore_Items order e u = List.map_filter (\<lambda>k. map_option (\<lambda>v. (k, v)) (env_of_unit e u k)) order"
  by (simp add: EnvStore_Items_def env_of_unit_def List.map_filter_def split: option.split)

lemma EnvStore_Items_snoc:
  "EnvStore_Items (seen @ [k]) e u =
     EnvStore_Items seen e u @ (case env_of_unit e u k of None \<Rightarrow> [] | Some v \<Rightarrow> [(k, v)])"
  by (simp add: EnvStore_Items_unit List.map_filter_def split: option.split)

lemma EnvStore_Items_Nil [simp]: "EnvStore_Items [] e u = []"
  by (simp add: EnvStore_Items_unit List.map_filter_def)

lemma env_visiting_path:
  assumes "body_path env_methods (E_visiting u ks []) e l1 e1"
  shows "e1 = e \<and> (\<exists>seen rest. ks = seen @ rest \<and> l1 = E_visiting u rest (EnvStore_Items seen e u))"
  using assms
proof (induction rule: body_path.induct)
  case here
  show ?case by (auto intro: exI [of _ "[]"])
next
  case (on l1 e1 l2 e2)
  then obtain seen rest where sr: "ks = seen @ rest" "l1 = E_visiting u rest (EnvStore_Items seen e u)" "e1 = e"
    by blast
  from on.hyps(2) sr obtain k rest' where "rest = k # rest'" by (cases rest) auto
  with on.hyps(2) sr have "e2 = e" "l2 = E_visiting u rest' (EnvStore_Items (seen @ [k]) e u)"
      "ks = (seen @ [k]) @ rest'"
    by (auto simp: EnvStore_Items_snoc)
  then show ?case by blast
qed

definition env_whole :: "env_method \<Rightarrow> EnvStore \<Rightarrow> env_reply \<Rightarrow> EnvStore \<Rightarrow> bool" where
  "env_whole op e r e' \<longleftrightarrow>
     (case op of
        E_Items u \<Rightarrow> e' = e \<and> (\<exists>ks. iterates ks (env_of_unit e u) \<and> r = E_items (EnvStore_Items ks e u))
      | _ \<Rightarrow> (r, e') = env_body op e)"

lemma env_runs_whole:
  assumes "runs_whole env_methods op e r e'"
  shows "env_whole op e r e'"
proof -
  obtain l l1 e1 where l: "env_starts op e l" "body_path env_methods l e l1 e1" "env_micro l1 e1 = (Inr r, e')"
    using assms by (auto simp: runs_whole_def)
  show ?thesis
  proof (cases "env_writes op")
    case True
    then have lop: "l = E_body op" using l(1) by (cases op) simp_all
    have "fst (me_micro env_methods l e) \<noteq> Inl l'" for l' by (simp add: lop split: prod.split)
    from body_path_end [OF l(2) this] lop have "l1 = E_body op" "e1 = e" by simp_all
    then have "(r, e') = env_body op e" using l(3) by (cases "env_body op e") simp
    with True show ?thesis by (cases op) (simp_all add: env_whole_def)
  next
    case False
    then obtain u where u: "op = E_Items u" by (cases op) simp_all
    with l(1) obtain ks where ks: "iterates ks (env_of_unit e u)" "l = E_visiting u ks []" by auto
    have path: "body_path env_methods (E_visiting u ks []) e l1 e1" using l(2) unfolding ks(2) .
    note visited = env_visiting_path [OF path]
    obtain seen rest where sr: "ks = seen @ rest" "l1 = E_visiting u rest (EnvStore_Items seen e u)" "e1 = e"
      using conjunct1 [OF visited] conjunct2 [OF visited] by iprover
    have "rest = []" using l(3) unfolding sr(2) by (cases rest) simp_all
    then have "ks = seen" using sr(1) by simp
    have "r = E_items (EnvStore_Items seen e u)" "e' = e"
      using l(3) unfolding sr(2,3) \<open>rest = []\<close> by auto
    with ks(1) show ?thesis unfolding env_whole_def u \<open>ks = seen\<close> by auto
  qed
qed

fun env_run :: "EnvStore \<Rightarrow> (nat \<times> env_method \<times> env_reply) list \<Rightarrow> EnvStore \<Rightarrow> bool" where
  "env_run e [] e' \<longleftrightarrow> e' = e"
| "env_run e ((i, op, r) # log) e' \<longleftrightarrow>
     env_whole op e r (snd (env_body op e)) \<and> env_run (snd (env_body op e)) log e'"

lemma env_run_append: "env_run e (log @ log') e' \<longleftrightarrow> (\<exists>e1. env_run e log e1 \<and> env_run e1 log' e')"
  by (induction e log e' rule: env_run.induct) auto

lemma env_whole_next: "env_whole op e r e' \<Longrightarrow> e' = snd (env_body op e)"
  by (cases op) (auto simp: env_whole_def)

text \<open>Whatever the threads do, their answers are those of the operations run one after the other.\<close>

lemma env_one_by_one:
  assumes "one_by_one env_methods e0 log e"
  shows "env_run e0 log e"
  using assms
proof (induction rule: one_by_one.induct)
  case (one_more log e op r e' i)
  have "env_whole op e r e'" using env_runs_whole [OF one_more.hyps(2)] .
  then have "env_run e [(i, op, r)] e'" using env_whole_next by (metis env_run.simps)
  with one_more.IH show ?case by (auto simp: env_run_append)
qed simp

lemma env_linearizable:
  assumes "rw_reach env_methods e0 s"
  shows "\<exists>e. env_run e0 (sh_log s) e \<and> (\<not> sh_writer s \<longrightarrow> sh_object s = e)"
proof -
  obtain e where ex: "explained env_methods e0 s e" using env_lock.explained_reach [OF assms] by blast
  from env_one_by_one [OF explainedD(1) [OF ex]] explainedD(3) [OF ex _ lock_inv_reach [OF assms]]
  show ?thesis by blast
qed

end
