(* ===== verification/Log_Race.thy ===== *)
theory Log_Race
  imports Logbuf
begin

text \<open>
  The log buffer as its writers use it.  \<open>CaptureLogs\<close> (\<open>pkg/unit/unit_manager.go\<close>) starts a goroutine
  for each of the two pipes of a unit and both write to the unit's one buffer; \<open>pkg/logbuf\<close> has no lock
  ("Lets play a fast and loose with our locking").  \<open>Logbuf\<close> runs one \<open>Write\<close> after the other; here a
  \<open>Write\<close> is its reads and writes of the buffer's fields, four steps between which the other writers may
  do theirs.  Whatever the order of the steps, no index is out of range and the offset counts no write
  that was not made; but a writer that is overtaken takes the offset back, and the lines written
  meanwhile are gone.
\<close>

section \<open>Writers\<close>

text \<open>
  \<open>bufLoc := lb.offset % lb.capacity\<close> reads the offset, \<open>lb.buf[bufLoc] = e\<close> stores the entry, and
  \<open>lb.offset++\<close> reads the offset once more and stores it.
\<close>

datatype writer = At_bufLoc | At_store LogEntry nat | At_load | At_bump int

record log_race =
  lr_buffer :: LogBuffer
  lr_writer :: "nat \<Rightarrow> writer"
  lr_lines :: "nat \<Rightarrow> LogEntry list"
  lr_done :: nat

text \<open>A turn of one writer; \<^term>\<open>None\<close> is a panic.  \<open>lr_done\<close> only counts the writes that have ended.\<close>

(* src: pkg/logbuf/logbuf.go 82-95 Write *)
definition lr_turn :: "nat \<Rightarrow> log_race \<Rightarrow> log_race option" where
  "lr_turn i s =
     (case lr_writer s i of
        At_bufLoc \<Rightarrow>
          (case lr_lines s i of
             [] \<Rightarrow> Some s
           | e # es \<Rightarrow>
               (case bufLoc (lr_buffer s) (LogBuffer_offset (lr_buffer s)) of
                  None \<Rightarrow> None
                | Some l \<Rightarrow> Some (s\<lparr>lr_writer := (lr_writer s)(i := At_store e l),
                                    lr_lines := (lr_lines s)(i := es)\<rparr>)))
      | At_store e l \<Rightarrow>
          Some (s\<lparr>lr_buffer := (lr_buffer s)\<lparr>LogBuffer_buf := (LogBuffer_buf (lr_buffer s))[l := e]\<rparr>,
                  lr_writer := (lr_writer s)(i := At_load)\<rparr>)
      | At_load \<Rightarrow>
          Some (s\<lparr>lr_writer := (lr_writer s)(i := At_bump (LogBuffer_offset (lr_buffer s)))\<rparr>)
      | At_bump k \<Rightarrow>
          Some (s\<lparr>lr_buffer := (lr_buffer s)\<lparr>LogBuffer_offset := int64 (k + 1)\<rparr>,
                  lr_writer := (lr_writer s)(i := At_bufLoc), lr_done := Suc (lr_done s)\<rparr>))"

fun lr_run :: "nat list \<Rightarrow> log_race \<Rightarrow> log_race option" where
  "lr_run [] s = Some s"
| "lr_run (i # turns) s = Option.bind (lr_turn i s) (lr_run turns)"

lemma lr_run_append: "lr_run (ts @ ts') s = Option.bind (lr_run ts s) (lr_run ts')"
  by (induction ts arbitrary: s) (simp_all split: Option.bind_split)

text \<open>The two readers of a unit's pipes, with the lines they are going to write.\<close>

(* src: pkg/unit/unit_manager.go 257-264 CaptureLogs *)
definition two_writers :: "LogEntry list \<Rightarrow> LogEntry list \<Rightarrow> LogBuffer \<Rightarrow> log_race" where
  "two_writers out err lb =
     \<lparr>lr_buffer = lb, lr_writer = (\<lambda>_. At_bufLoc), lr_lines = (\<lambda>_. [])(0 := out, 1 := err), lr_done = 0\<rparr>"

section \<open>A writer that is not disturbed\<close>

lemma four_turns:
  assumes idle: "lr_writer s i = At_bufLoc" and lns: "lr_lines s i = mk_entry now src line ts # es"
    and w: "Write now src line ts (lr_buffer s) = Some lb'"
  shows "lr_run [i, i, i, i] s =
    Some (s\<lparr>lr_buffer := lb', lr_lines := (lr_lines s)(i := es), lr_done := Suc (lr_done s)\<rparr>)"
proof -
  let ?e = "mk_entry now src line ts" and ?lb = "lr_buffer s"
  obtain l where l: "bufLoc ?lb (LogBuffer_offset ?lb) = Some l"
      "lb' = ?lb\<lparr>LogBuffer_buf := (LogBuffer_buf ?lb)[l := ?e],
                LogBuffer_offset := int64 (LogBuffer_offset ?lb + 1)\<rparr>"
    using w by (auto simp: Write_def mk_entry_def Let_def split: option.splits)
  have "(lr_writer s)(i := At_bufLoc) = lr_writer s" using idle by auto
  then show ?thesis using l(1) unfolding l(2) by (simp add: lr_turn_def idle lns)
qed

lemma four_turns_repr:
  assumes r: "repr (lr_buffer s) h" "Suc (length h) < 2 ^ 62"
    and idle: "lr_writer s i = At_bufLoc" and lns: "lr_lines s i = e # es"
  shows "\<exists>lb'. lr_run [i, i, i, i] s =
      Some (s\<lparr>lr_buffer := lb', lr_lines := (lr_lines s)(i := es), lr_done := Suc (lr_done s)\<rparr>) \<and>
    repr lb' (h @ [e]) \<and> LogBuffer_capacity lb' = LogBuffer_capacity (lr_buffer s)"
proof -
  obtain now src line where e: "e = mk_entry now src line None"
    by (cases e) (auto simp: mk_entry_def)
  obtain lb' where w: "Write now src line None (lr_buffer s) = Some lb'" "repr lb' (h @ [e])"
      "LogBuffer_capacity lb' = LogBuffer_capacity (lr_buffer s)"
    unfolding e by (rule repr_Write [OF r])
  from four_turns [OF idle lns [unfolded e] w(1)] w(2,3) show ?thesis by blast
qed

text \<open>The lines of one writer are written like those of \<open>Logbuf\<close>, wherever the other one has stopped.\<close>

lemma lr_run_alone:
  assumes "repr (lr_buffer s) h" "length h + length es < 2 ^ 62" "lr_writer s i = At_bufLoc"
    "lr_lines s i = es"
  shows "\<exists>lb'. lr_run (concat (replicate (length es) [i, i, i, i])) s =
      Some (s\<lparr>lr_buffer := lb', lr_lines := (lr_lines s)(i := []),
              lr_done := lr_done s + length es\<rparr>) \<and>
    repr lb' (h @ es) \<and> LogBuffer_capacity lb' = LogBuffer_capacity (lr_buffer s)"
  using assms
proof (induction es arbitrary: s h)
  case Nil
  then have "(lr_lines s)(i := []) = lr_lines s" by auto
  with Nil show ?case by (intro exI [of _ "lr_buffer s"]) simp
next
  case (Cons e es)
  from Cons.prems(2) have len: "Suc (length h) < 2 ^ 62" by simp
  from four_turns_repr [OF Cons.prems(1) len Cons.prems(3,4)] obtain lb1 where
    lb1: "lr_run [i, i, i, i] s =
        Some (s\<lparr>lr_buffer := lb1, lr_lines := (lr_lines s)(i := es), lr_done := Suc (lr_done s)\<rparr>)"
      "repr lb1 (h @ [e])" "LogBuffer_capacity lb1 = LogBuffer_capacity (lr_buffer s)" by blast
  let ?s1 = "s\<lparr>lr_buffer := lb1, lr_lines := (lr_lines s)(i := es), lr_done := Suc (lr_done s)\<rparr>"
  have "\<exists>lb'. lr_run (concat (replicate (length es) [i, i, i, i])) ?s1 =
      Some (?s1\<lparr>lr_buffer := lb', lr_lines := (lr_lines ?s1)(i := []),
              lr_done := lr_done ?s1 + length es\<rparr>) \<and>
    repr lb' ((h @ [e]) @ es) \<and> LogBuffer_capacity lb' = LogBuffer_capacity (lr_buffer ?s1)"
    by (rule Cons.IH) (use lb1(2) Cons.prems in simp_all)
  then obtain lb' where lb': "lr_run (concat (replicate (length es) [i, i, i, i])) ?s1 =
      Some (?s1\<lparr>lr_buffer := lb', lr_lines := (lr_lines ?s1)(i := []), lr_done := lr_done ?s1 + length es\<rparr>)"
      "repr lb' ((h @ [e]) @ es)" "LogBuffer_capacity lb' = LogBuffer_capacity (lr_buffer ?s1)" by blast
  have same: "?s1\<lparr>lr_buffer := lb', lr_lines := (lr_lines ?s1)(i := []), lr_done := lr_done ?s1 + length es\<rparr> =
      s\<lparr>lr_buffer := lb', lr_lines := (lr_lines s)(i := []), lr_done := lr_done s + length (e # es)\<rparr>"
    by simp
  have "lr_run (concat (replicate (length (e # es)) [i, i, i, i])) s =
      lr_run (concat (replicate (length es) [i, i, i, i])) ?s1"
    by (simp only: list.size(4) Nat.add_0_right One_nat_def add_Suc_right replicate_Suc concat.simps
        lr_run_append lb1(1) bind.bind_lunit)
  note run = this [unfolded lb'(1) same]
  show ?case
  proof (intro exI conjI)
    show "lr_run (concat (replicate (length (e # es)) [i, i, i, i])) s =
      Some (s\<lparr>lr_buffer := lb', lr_lines := (lr_lines s)(i := []), lr_done := lr_done s + length (e # es)\<rparr>)"
      by (rule run)
  qed (use lb'(2,3) lb1(3) in simp_all)
qed

section \<open>Any order\<close>

text \<open>The offset is never above the number of writes that have ended, and every index is in range.\<close>

definition lr_ok :: "nat \<Rightarrow> nat \<Rightarrow> log_race \<Rightarrow> bool" where
  "lr_ok c n s \<longleftrightarrow>
     0 < c \<and> LogBuffer_capacity (lr_buffer s) = int c \<and> length (LogBuffer_buf (lr_buffer s)) = c \<and>
     0 \<le> LogBuffer_offset (lr_buffer s) \<and> LogBuffer_offset (lr_buffer s) \<le> int (n + lr_done s) \<and>
     (\<forall>i k. lr_writer s i = At_bump k \<longrightarrow> 0 \<le> k \<and> k \<le> int (n + lr_done s)) \<and>
     (\<forall>i e l. lr_writer s i = At_store e l \<longrightarrow> l < c)"

lemma lr_ok_bufLoc:
  assumes "lr_ok c n s"
  shows "\<exists>l<c. bufLoc (lr_buffer s) (LogBuffer_offset (lr_buffer s)) = Some l"
proof -
  obtain k where k: "LogBuffer_offset (lr_buffer s) = int k"
    using assms by (metis lr_ok_def nonneg_int_cases)
  have "\<not> c \<le> k mod c" "k mod c < c" using assms by (simp_all add: lr_ok_def not_le)
  with k assms show ?thesis by (auto simp: lr_ok_def bufLoc_def Let_def zmod_int [symmetric])
qed

lemma lr_ok_turn:
  assumes ok: "lr_ok c n s" and small: "n + Suc (lr_done s) < 2 ^ 62"
  shows "\<exists>t. lr_turn i s = Some t \<and> lr_ok c n t \<and> lr_done t \<le> Suc (lr_done s)"
proof (cases "lr_writer s i")
  case At_bufLoc
  obtain l where "l < c" "bufLoc (lr_buffer s) (LogBuffer_offset (lr_buffer s)) = Some l"
    using lr_ok_bufLoc [OF ok] by blast
  with ok At_bufLoc show ?thesis by (cases "lr_lines s i") (auto simp: lr_turn_def lr_ok_def)
next
  case (At_store e l)
  with ok show ?thesis by (auto simp: lr_turn_def lr_ok_def)
next
  case At_load
  with ok show ?thesis by (auto simp: lr_turn_def lr_ok_def)
next
  case (At_bump k)
  with ok have "0 \<le> k" "k \<le> int (n + lr_done s)" by (auto simp: lr_ok_def)
  with small have "int64 (k + 1) = k + 1" by (intro int64_id) auto
  with ok At_bump \<open>0 \<le> k\<close> \<open>k \<le> int (n + lr_done s)\<close> show ?thesis
    by (auto simp: lr_turn_def lr_ok_def) (smt (verit))+
qed

lemma lr_ok_run:
  assumes "lr_ok c n s" "n + lr_done s + length turns < 2 ^ 62"
  shows "\<exists>t. lr_run turns s = Some t \<and> lr_ok c n t"
  using assms
proof (induction turns arbitrary: s)
  case (Cons i turns)
  then have "n + Suc (lr_done s) < 2 ^ 62" by simp
  from lr_ok_turn [OF Cons.prems(1) this, of i] obtain t where
    t: "lr_turn i s = Some t" "lr_ok c n t" "lr_done t \<le> Suc (lr_done s)" by blast
  with Cons.prems(2) have "n + lr_done t + length turns < 2 ^ 62" by simp
  from Cons.IH [OF t(2) this] show ?case by (simp add: t(1))
qed simp

lemma lr_ok_two_writers:
  assumes "repr lb h"
  shows "lr_ok (nat (LogBuffer_capacity lb)) (length h) (two_writers out err lb)"
  using assms by (auto simp: lr_ok_def two_writers_def repr_def)

section \<open>A writer that is overtaken\<close>

text \<open>The first writer has read the offset and not yet stored it; meanwhile the second writes its lines.\<close>

definition overtaken :: "LogEntry list \<Rightarrow> nat list" where
  "overtaken es = [0, 0, 0] @ concat (replicate (length es) [1, 1, 1, 1]) @ [0]"

text \<open>Both writers have computed \<open>bufLoc\<close> before one of them goes on.\<close>

definition same_slot :: "nat list" where
  "same_slot = [0, 1, 0, 1, 0, 0, 1, 1]"

lemma bufLoc_same:
  assumes "LogBuffer_capacity lb = LogBuffer_capacity lb'"
    "length (LogBuffer_buf lb) = length (LogBuffer_buf lb')"
  shows "bufLoc lb k = bufLoc lb' k"
  using assms by (simp add: bufLoc_def)

lemma Write_overwritten:
  assumes "bufLoc lb (LogBuffer_offset lb) = Some l"
  shows "Write now src line ts (lb\<lparr>LogBuffer_buf := (LogBuffer_buf lb)[l := e]\<rparr>) = Write now src line ts lb"
proof -
  let ?lb = "lb\<lparr>LogBuffer_buf := (LogBuffer_buf lb)[l := e]\<rparr>"
  have "bufLoc ?lb (LogBuffer_offset ?lb) = bufLoc lb (LogBuffer_offset lb)"
    by (simp add: bufLoc_same [of ?lb lb])
  then show ?thesis using assms by (simp add: Write_def)
qed

text \<open>The slot of the line that was written last but one, and so on, in a buffer whose offset was changed.\<close>

lemma ReadSince_one:
  assumes r: "repr lb (h @ es)" and es: "es \<noteq> []" "length es \<le> nat (LogBuffer_capacity lb)"
  shows "ReadSince (lb\<lparr>LogBuffer_offset := int (length h) + 1\<rparr>) (int (length h)) =
    Some ([hd es], int (length h) + 1)"
proof -
  let ?lb = "lb\<lparr>LogBuffer_offset := int (length h) + 1\<rparr>"
  have c: "1 \<le> LogBuffer_capacity lb" and len: "length (h @ es) < 2 ^ 62" "LogBuffer_capacity lb < 2 ^ 62"
    using r by (auto simp: repr_def)
  have "int64 (int (length h) + LogBuffer_capacity lb) = int (length h) + LogBuffer_capacity lb"
    using len c by (intro int64_id) auto
  then have near: "\<not> int64 (int (length h) + LogBuffer_capacity ?lb) < LogBuffer_offset ?lb" using c by simp
  have "LogBuffer_buf lb ! (length h mod nat (LogBuffer_capacity lb)) = (h @ es) ! length h"
    using r es by (auto simp: repr_def)
  then have slot: "LogBuffer_buf lb ! (length h mod nat (LogBuffer_capacity lb)) = hd es"
    using es(1) by (simp add: nth_append hd_conv_nth)
  have "bufLoc ?lb (int (length h)) = bufLoc lb (int (length h))" by (rule bufLoc_same) simp_all
  also have "\<dots> = Some (length h mod nat (LogBuffer_capacity lb))" using repr_bufLoc [OF r] .
  finally have "bufLoc ?lb (int (length h)) = Some (length h mod nat (LogBuffer_capacity lb))" .
  then have "since_loop ?lb (int (length h)) [] = Some [hd es]"
    using slot by (subst since_loop.simps) (simp add: since_loop.simps)
  then show ?thesis using near by (simp add: ReadSince_def Let_def)
qed

lemma overtaken_run:
  assumes r: "repr lb h" and es: "es \<noteq> []" and len: "length h + length es < 2 ^ 62"
  shows "\<exists>lb' t. lr_run (overtaken es) (two_writers [e] es lb) = Some t \<and> repr lb' (h @ es) \<and>
    LogBuffer_capacity lb' = LogBuffer_capacity lb \<and>
    lr_buffer t = lb'\<lparr>LogBuffer_offset := int (length h) + 1\<rparr> \<and>
    lr_lines t = (\<lambda>_. []) \<and> lr_writer t = (\<lambda>_. At_bufLoc) \<and> lr_done t = Suc (length es)"
proof -
  define l where "l = length h mod nat (LogBuffer_capacity lb)"
  define lb0 where "lb0 = lb\<lparr>LogBuffer_buf := (LogBuffer_buf lb)[l := e]\<rparr>"
  have off: "LogBuffer_offset lb = int (length h)" using r by (simp add: repr_def)
  have loc: "bufLoc lb (int (length h)) = Some l" using repr_bufLoc [OF r, of "length h"] by (simp add: l_def)
  then have loc0: "bufLoc lb (LogBuffer_offset lb) = Some l" by (simp only: off)
  define s where "s = \<lparr>lr_buffer = lb0, lr_writer = (\<lambda>_. At_bufLoc)(0 := At_bump (int (length h))),
    lr_lines = (\<lambda>_. [])(1 := es), lr_done = 0\<rparr>"
  have "(\<lambda>_. [])(0 := [], 1 := es) = ((\<lambda>_. [])(1 := es) :: nat \<Rightarrow> LogEntry list)" by (simp add: fun_eq_iff)
  then have first: "lr_run [0, 0, 0] (two_writers [e] es lb) = Some s"
    using loc by (simp add: two_writers_def lr_turn_def s_def lb0_def off fun_upd_twist)
  obtain e' es' where e': "es = e' # es'" using es by (cases es) auto
  obtain now src line where m: "e' = mk_entry now src line None" by (cases e') (auto simp: mk_entry_def)
  have "Suc (length h) < 2 ^ 62" using len e' by simp
  then obtain lb1 where lb1: "Write now src line None lb = Some lb1" "repr lb1 (h @ [e'])"
      "LogBuffer_capacity lb1 = LogBuffer_capacity lb"
    unfolding m by (rule repr_Write [OF r])
  define s1 where "s1 = s\<lparr>lr_buffer := lb1, lr_lines := (lr_lines s)(1 := es'), lr_done := 1\<rparr>"
  have "Write now src line None (lr_buffer s) = Some lb1"
    using lb1(1) Write_overwritten [OF loc0] by (simp add: s_def lb0_def)
  then have second: "lr_run [1, 1, 1, 1] s = Some s1"
    using four_turns [of s 1 now src line None es' lb1] by (simp add: s_def s1_def e' m)
  have "\<exists>lb'. lr_run (concat (replicate (length es') [1, 1, 1, 1])) s1 =
      Some (s1\<lparr>lr_buffer := lb', lr_lines := (lr_lines s1)(1 := []), lr_done := lr_done s1 + length es'\<rparr>) \<and>
    repr lb' ((h @ [e']) @ es') \<and> LogBuffer_capacity lb' = LogBuffer_capacity (lr_buffer s1)"
    by (rule lr_run_alone) (use lb1 len e' in \<open>simp_all add: s1_def s_def\<close>)
  then obtain lb' where third: "lr_run (concat (replicate (length es') [1, 1, 1, 1])) s1 =
      Some (s1\<lparr>lr_buffer := lb', lr_lines := (lr_lines s1)(1 := []), lr_done := lr_done s1 + length es'\<rparr>)"
      "repr lb' (h @ es)" "LogBuffer_capacity lb' = LogBuffer_capacity lb"
    using lb1(3) e' by (auto simp: s1_def)
  have "int64 (int (length h) + 1) = int (length h) + 1"
    using \<open>Suc (length h) < 2 ^ 62\<close> by (intro int64_id) auto
  then have "\<exists>t. lr_run (overtaken es) (two_writers [e] es lb) = Some t \<and>
      lr_buffer t = lb'\<lparr>LogBuffer_offset := int (length h) + 1\<rparr> \<and>
      lr_lines t = (\<lambda>_. []) \<and> lr_writer t = (\<lambda>_. At_bufLoc) \<and> lr_done t = Suc (length es)"
    unfolding overtaken_def e' length_Cons replicate_Suc concat.simps lr_run_append first [unfolded e']
      bind.bind_lunit second third(1)
    by (simp add: lr_turn_def s1_def s_def e' fun_eq_iff)
  with third(2,3) show ?thesis by blast
qed

lemma overtaken_read:
  assumes "repr lb h" "es \<noteq> []" "length h + length es < 2 ^ 62" "length es \<le> nat (LogBuffer_capacity lb)"
  shows "\<exists>t. lr_run (overtaken es) (two_writers [e] es lb) = Some t \<and> lr_done t = Suc (length es) \<and>
    ReadSince (lr_buffer t) (int (length h)) = Some ([hd es], int (length h) + 1)"
proof -
  from overtaken_run [OF assms(1-3), of e] obtain lb' t where
    t: "lr_run (overtaken es) (two_writers [e] es lb) = Some t" "repr lb' (h @ es)"
      "LogBuffer_capacity lb' = LogBuffer_capacity lb"
      "lr_buffer t = lb'\<lparr>LogBuffer_offset := int (length h) + 1\<rparr>" "lr_done t = Suc (length es)" by blast
  have small: "length es \<le> nat (LogBuffer_capacity lb')" using assms(4) t(3) by simp
  have "ReadSince (lr_buffer t) (int (length h)) = Some ([hd es], int (length h) + 1)"
    unfolding t(4) by (rule ReadSince_one [OF t(2) assms(2) small])
  with t(1,5) show ?thesis by blast
qed

section \<open>Two writers at one slot\<close>

lemma same_slot_run:
  assumes r: "repr lb h" and full: "nat (LogBuffer_capacity lb) \<le> Suc (length h)"
    and two: "2 \<le> LogBuffer_capacity lb" and len: "length h + 2 < 2 ^ 62"
  shows "\<exists>t. lr_run same_slot (two_writers [e] [e'] lb) = Some t \<and>
    ReadSince (lr_buffer t) (int (length h)) =
      Some ([e', h ! (Suc (length h) - nat (LogBuffer_capacity lb))], int (length h) + 2)"
proof -
  obtain c where c: "LogBuffer_capacity lb = int c" "2 \<le> c" using two by (metis nonneg_int_cases of_nat_le_iff of_nat_numeral order_trans zero_le_numeral)
  define n where "n = length h"
  have off: "LogBuffer_offset lb = int n" and lenb: "length (LogBuffer_buf lb) = c"
    and big: "int c < 2 ^ 62" "int n + 2 < 2 ^ 62"
    using r c len by (auto simp: repr_def n_def)
  have loc: "bufLoc lb (int n) = Some (n mod c)" using repr_bufLoc [OF r, of n] by (simp add: c)
  have ints: "int64 (int n + 1) = int n + 1" "int64 (2 + int n) = 2 + int n" "int64 (int n + int c) = int n + int c"
    using big by (auto intro!: int64_id)
  define t where "t = \<lparr>lr_buffer = lb\<lparr>LogBuffer_buf := (LogBuffer_buf lb)[n mod c := e'],
      LogBuffer_offset := int n + 2\<rparr>, lr_writer = (\<lambda>_. At_bufLoc), lr_lines = (\<lambda>_. []), lr_done = 2\<rparr>"
  have run: "lr_run same_slot (two_writers [e] [e'] lb) = Some t"
    using ints by (simp add: same_slot_def two_writers_def lr_turn_def loc off t_def fun_eq_iff)
  have "bufLoc (lr_buffer t) (int k) = bufLoc lb (int k)" for k by (rule bufLoc_same) (simp_all add: t_def)
  then have locs: "bufLoc (lr_buffer t) (int k) = Some (k mod c)" for k
    using repr_bufLoc [OF r, of k] by (simp add: c)
  have neq: "Suc n mod c \<noteq> n mod c" using mod_window_neq [of n "Suc n" c] c(2) by simp
  have "(Suc n - c) mod c = Suc n mod c" using full c by (simp add: n_def le_mod_geq)
  moreover have "LogBuffer_buf lb ! ((Suc n - c) mod c) = h ! (Suc n - c)"
    using r full c(2) unfolding repr_def c(1) by (auto simp: n_def)
  ultimately have slots: "LogBuffer_buf (lr_buffer t) ! (n mod c) = e'"
      "LogBuffer_buf (lr_buffer t) ! (Suc n mod c) = h ! (Suc n - c)"
    using neq lenb c(2) by (simp_all add: t_def)
  have "since_loop (lr_buffer t) (int n + 2) es = Some es" for es
    by (subst since_loop.simps) (simp add: t_def)
  then have "since_loop (lr_buffer t) (int (Suc n)) es = Some (es @ [h ! (Suc n - c)])" for es
    using locs [of "Suc n"] slots(2) by (subst since_loop.simps) (simp add: t_def add.commute)
  then have "since_loop (lr_buffer t) (int n) [] = Some [e', h ! (Suc n - c)]"
    using locs [of n] slots(1) by (subst since_loop.simps) (simp add: t_def add.commute)
  then have "ReadSince (lr_buffer t) (int n) = Some ([e', h ! (Suc n - c)], int n + 2)"
    using ints c(2) by (simp add: ReadSince_def Let_def t_def c(1) not_less)
  with run show ?thesis by (auto simp: n_def c)
qed

end
