(* ===== verification/Sessions.thy ===== *)
theory Sessions
  imports Server
begin

text \<open>
  The rest of \<open>pkg/server\<close>: a session of a client over a websocket from the request to its end
  (\<open>serveAttach\<close>, \<open>serveExec\<close>, \<open>servePortForward\<close>), exec with a terminal and the loop that follows the
  size of the client's (\<open>exec.go\<close>), and what the server listens with.
\<close>

section \<open>Exec with a terminal\<close>

(* src: pkg/server/exec.go 40-42 wsTTYControlChan *)
abbreviation (input) wsTTYControlChan :: int where "wsTTYControlChan \<equiv> 4"

text \<open>
  The loop over the control channel, as a function of what it reads: a message, the end of the stream
  or an error.  \<open>set_size\<close> is \<open>pty.Setsize\<close>.  The answer is the sizes the terminal was given.
\<close>

datatype control_read = Read_message string | Read_EOF | Read_error

(* src: pkg/server/exec.go 209-234 runExecTTY *)
fun tty_resize_loop :: "(string \<Rightarrow> go_error + 'z) \<Rightarrow> ('z \<Rightarrow> error) \<Rightarrow> control_read list \<Rightarrow> 'z list" where
  "tty_resize_loop decode set_size [] = []"
| "tty_resize_loop decode set_size (Read_EOF # rs) = []"
| "tty_resize_loop decode set_size (Read_error # rs) = []"
| "tty_resize_loop decode set_size (Read_message buf # rs) =
     (case decode buf of
        Inl err \<Rightarrow> []
      | Inr sz \<Rightarrow> if set_size sz \<noteq> None then [] else sz # tty_resize_loop decode set_size rs)"

text \<open>A terminal has one output: what the command writes to either of its streams goes to the first channel.\<close>

datatype tty_run =
    Y_start_failed go_error
  | Y_closed "string list"
  | Y_ended "string list" wait_result

definition tty_output :: "string list \<Rightarrow> ws_msg list" where
  "tty_output chunks = map (Pair StdoutChan) chunks"

(* src: pkg/server/exec.go 195-247 runExecTTY *)
definition runExecTTY :: "tty_run \<Rightarrow> error \<times> ws_msg list \<times> bool" where
  "runExecTTY run =
     (case run of
        Y_start_failed e \<Rightarrow> (Some e, [], False)
      | Y_closed chunks \<Rightarrow> (None, waitForFinished (X_closed (tty_output chunks)))
      | Y_ended chunks r \<Rightarrow> (None, waitForFinished (X_ended (tty_output chunks) r)))"

text \<open>\<open>start\<close> and \<open>start_tty\<close> run a command without and with a terminal.\<close>

record exec_env =
  ee_params :: exec_params
  ee_name :: "string \<Rightarrow> string \<times> error"
  ee_start :: "string list \<Rightarrow> string list \<Rightarrow> exec_run"
  ee_start_tty :: "string list \<Rightarrow> string list \<Rightarrow> tty_run"

(* src: pkg/server/exec.go 131-144 runExec *)
definition run_command :: "exec_env \<Rightarrow> ExecParams \<Rightarrow> string list \<Rightarrow> string list \<Rightarrow> ws_msg list \<times> bool" where
  "run_command ee params command env =
     (if ExecParams_TTY params then
        (case runExecTTY (ee_start_tty ee command env) of
           (Some e, _) \<Rightarrow> (writeWSErrorExitcode (xe_Sprintf (ee_params ee) (Error e)), False)
         | (None, r) \<Rightarrow> r)
      else runExecCmd (ee_params ee) (ee_start ee command env))"

(* src: pkg/server/exec.go 44-144 runExec *)
definition exec_session ::
  "exec_env \<Rightarrow> string \<Rightarrow> ExecParams \<Rightarrow> unit_os \<Rightarrow> (ws_msg list \<times> bool) outcome" where
  "exec_session ee rootdir params u =
     (case result (exec_plan_of (ee_params ee) rootdir params (ee_name ee (ExecParams_UnitName params))) u of
        Panic \<Rightarrow> Panic
      | Ret (Refused msg) \<Rightarrow> Ret (writeWSErrorExitcode msg, False)
      | Ret (Command command env) \<Rightarrow> Ret (run_command ee params command env))"

section \<open>Sessions\<close>

text \<open>
  A session ends with an answer to the request when it cannot be upgraded, or with messages.  The first
  message of the client is \<open>None\<close> when it goes away before it sends one.
\<close>

datatype session = Answered response | Sent "ws_msg list"

(* src: pkg/server/server.go 561-575 serveAttach *)
definition serveAttach ::
  "'s server_params \<Rightarrow> (string \<Rightarrow> go_error + AttachParams) \<Rightarrow> (string \<Rightarrow> string) \<Rightarrow> (string \<Rightarrow> error) \<Rightarrow>
   request \<Rightarrow> string option \<Rightarrow> tick list \<Rightarrow> ('s, session outcome) sv_m" where
  "serveAttach sp decode fmt stdin r first ticks =
     (case doUpgrade r of
        Http code body \<Rightarrow> return (Ret (Answered (Http code body)))
      | Streaming \<Rightarrow>
          (case getInitialParams decode first of
             Inl ms \<Rightarrow> return (Ret (Sent ms))
           | Inr params \<Rightarrow> do {
               out \<leftarrow> runAttach sp fmt stdin params ticks;
               return (case out of Panic \<Rightarrow> Panic | Ret ms \<Rightarrow> Ret (Sent ms)) }))"

(* src: pkg/server/server.go 577-593 serveExec *)
definition serveExec ::
  "(string \<Rightarrow> go_error + ExecParams) \<Rightarrow> exec_env \<Rightarrow> unit_os \<Rightarrow> request \<Rightarrow> string option \<Rightarrow>
   ('s, session outcome) sv_m" where
  "serveExec decode ee u r first = do {
     rootdir \<leftarrow> gets sv_installRootdir;
     return
       (case doUpgrade r of
          Http code body \<Rightarrow> Ret (Answered (Http code body))
        | Streaming \<Rightarrow>
            (case getInitialParams decode first of
               Inl ms \<Rightarrow> Ret (Sent ms)
             | Inr params \<Rightarrow>
                 (case exec_session ee rootdir params u of
                    Panic \<Rightarrow> Panic
                  | Ret (ms, _) \<Rightarrow> Ret (Sent ms)))) }"

(* src: pkg/server/server.go 442-487 servePortForward *)
definition port_forward_session ::
  "(string \<Rightarrow> go_error + PortForwardParams) \<Rightarrow> (string \<Rightarrow> go_error + string list) \<Rightarrow> request \<Rightarrow>
   string option \<Rightarrow> ('s, session outcome) sv_m" where
  "port_forward_session decode dial r first = do {
     podIP \<leftarrow> gets sv_podIP;
     return (Ret (case doUpgrade r of
         Http code body \<Rightarrow> Answered (Http code body)
       | Streaming \<Rightarrow> Sent (servePortForward decode dial podIP first))) }"

section \<open>The bytes of a port-forward\<close>

text \<open>
  Two goroutines copy, each until its source ends or an error stops it, and whichever ends first closes
  the session.  \<open>fw_sent\<close> is all that has come from the client or the port, \<open>fw_copied\<close> how much
  of it has been copied; an error can come at any time.
\<close>

datatype side = From_client | From_port

datatype copy_end = Copy_EOF | Copy_error

record forward =
  fw_sent :: "side \<Rightarrow> string list"
  fw_copied :: "side \<Rightarrow> nat"
  fw_hung_up :: "side \<Rightarrow> bool"
  fw_ended :: "side \<Rightarrow> copy_end option"

(* src: pkg/server/server.go 463-484 servePortForward *)
inductive forward_step :: "forward \<Rightarrow> forward \<Rightarrow> bool" where
  sends: "\<not> fw_hung_up f d \<Longrightarrow> forward_step f (f\<lparr>fw_sent := (fw_sent f)(d := fw_sent f d @ [chunk])\<rparr>)"
| hangs_up: "forward_step f (f\<lparr>fw_hung_up := (fw_hung_up f)(d := True)\<rparr>)"
| copies: "fw_ended f d = None \<Longrightarrow> fw_copied f d < length (fw_sent f d) \<Longrightarrow>
    forward_step f (f\<lparr>fw_copied := (fw_copied f)(d := Suc (fw_copied f d))\<rparr>)"
| finishes: "fw_ended f d = None \<Longrightarrow> fw_hung_up f d \<Longrightarrow> fw_copied f d = length (fw_sent f d) \<Longrightarrow>
    forward_step f (f\<lparr>fw_ended := (fw_ended f)(d := Some Copy_EOF)\<rparr>)"
| breaks: "fw_ended f d = None \<Longrightarrow> forward_step f (f\<lparr>fw_ended := (fw_ended f)(d := Some Copy_error)\<rparr>)"

definition new_forward :: forward where
  "new_forward = \<lparr>fw_sent = (\<lambda>_. []), fw_copied = (\<lambda>_. 0), fw_hung_up = (\<lambda>_. False), fw_ended = (\<lambda>_. None)\<rparr>"

text \<open>What the client and the port have been given; the session is closed when a copy has ended.\<close>

definition given_client :: "forward \<Rightarrow> ws_msg list" where
  "given_client f = (StdoutChan, '''') # map (Pair StdoutChan) (take (fw_copied f From_port) (fw_sent f From_port))"

definition given_port :: "forward \<Rightarrow> string list" where
  "given_port f = take (fw_copied f From_client) (fw_sent f From_client)"

definition session_closed :: "forward \<Rightarrow> bool" where
  "session_closed f \<longleftrightarrow> (\<exists>d. fw_ended f d \<noteq> None)"

definition forward_inv :: "forward \<Rightarrow> bool" where
  "forward_inv f \<longleftrightarrow> (\<forall>d. fw_copied f d \<le> length (fw_sent f d) \<and>
     (fw_ended f d = Some Copy_EOF \<longrightarrow> fw_hung_up f d \<and> fw_copied f d = length (fw_sent f d)))"

lemma forward_inv_step: "forward_step f g \<Longrightarrow> forward_inv f \<Longrightarrow> forward_inv g"
  by (induction rule: forward_step.induct) (auto simp: forward_inv_def le_Suc_eq)

lemma forward_inv_run: "forward_step\<^sup>*\<^sup>* new_forward f \<Longrightarrow> forward_inv f"
proof (induction rule: rtranclp_induct)
  case base
  show ?case by (simp add: forward_inv_def new_forward_def)
qed (rule forward_inv_step)

lemma closed_for_good: "forward_step f g \<Longrightarrow> session_closed f \<Longrightarrow> session_closed g"
  by (induction rule: forward_step.induct) (auto simp: session_closed_def)

text \<open>
  Each side gets what the other sent, in order and without gaps, and all of it when the other hung up
  and no error came first; the answer of \<open>servePortForward\<close> is then what the client has.  What the
  client sent is lost from the point where the copy of the other direction closed the session.
\<close>

lemma forwarded_in_order:
  assumes "forward_step\<^sup>*\<^sup>* new_forward f"
  shows "\<exists>rest. fw_sent f From_client = given_port f @ rest"
    and "\<exists>rest. (StdoutChan, '''') # map (Pair StdoutChan) (fw_sent f From_port) = given_client f @ rest"
    and "fw_ended f From_client = Some Copy_EOF \<Longrightarrow> given_port f = fw_sent f From_client"
    and "fw_ended f From_port = Some Copy_EOF \<Longrightarrow>
      getInitialParams decode text = Inr params \<Longrightarrow>
      dial (podIP @ '':'' @ PortForwardParams_Port params) = Inr (fw_sent f From_port) \<Longrightarrow>
      given_client f = servePortForward decode dial podIP text"
proof -
  show "\<exists>rest. fw_sent f From_client = given_port f @ rest"
    unfolding given_port_def by (metis append_take_drop_id)
  have "map (Pair StdoutChan) (fw_sent f From_port) =
      map (Pair StdoutChan) (take (fw_copied f From_port) (fw_sent f From_port)) @
      map (Pair StdoutChan) (drop (fw_copied f From_port) (fw_sent f From_port))"
    by (metis append_take_drop_id map_append)
  then show "\<exists>rest. (StdoutChan, '''') # map (Pair StdoutChan) (fw_sent f From_port) = given_client f @ rest"
    by (auto simp: given_client_def)
qed (use forward_inv_run [OF assms] in
    \<open>simp_all add: forward_inv_def given_port_def given_client_def servePortForward_def\<close>)

section \<open>Listening\<close>

(* src: pkg/server/server.go 65-76 ParameterError *)
definition ParameterError_Error :: "error \<Rightarrow> string" where
  "ParameterError_Error err = (case err of Some e \<Rightarrow> Error e | None \<Rightarrow> '''')"

(* src: pkg/server/server.go 51-63 CERTS_DIR *)
abbreviation (input) CERTS_DIR :: string where "CERTS_DIR \<equiv> ITZO_DIR"

text \<open>
  \<open>certs\<close> is the certificates \<open>AppendCertsFromPEM\<close> finds in a text; that it finds none is not an error.
  The third case asks every client for a certificate that one of these has signed.
\<close>

datatype listening =
    Gave_up string
  | Plain string
  | With_TLS string "string list" string string

(* src: pkg/server/server.go 619-650 ListenAndServe *)
definition ListenAndServe ::
  "(string \<Rightarrow> go_error + string) \<Rightarrow> (string \<Rightarrow> string list) \<Rightarrow> string \<Rightarrow> bool \<Rightarrow> listening" where
  "ListenAndServe read certs addr disableTLS =
     (if disableTLS then Plain addr
      else case read (filepath_Join [CERTS_DIR, ''ca.crt'']) of
        Inl err \<Rightarrow> Gave_up (''Could not load root cert'' @ Error err)
      | Inr caCert \<Rightarrow>
          With_TLS addr (certs caCert) (filepath_Join [CERTS_DIR, ''server.crt''])
            (filepath_Join [CERTS_DIR, ''server.key'']))"

(* src: pkg/server/util.go 377-386 NewTestServer *)
definition NewTestServer :: "string \<Rightarrow> 's pod_controller \<Rightarrow> net_os \<Rightarrow> os \<Rightarrow> 's server" where
  "NewTestServer rootdir podCtl net w =
     \<lparr>sv_installRootdir = rootdir, sv_lastMetricTime = 0, sv_primaryIP = ''fake-ip'',
      sv_secondaryIP = '''', sv_podIP = '''', sv_podNetworkInterface = '''', sv_networkAgent = False,
      sv_podController = podCtl, sv_net = net, sv_os = w\<rparr>"

section \<open>Properties\<close>

text \<open>
  The sizes a terminal is given are those of the client's messages up to the first that is not a size
  or that the terminal refuses; no later one is read, however good it is.
\<close>

definition good_size :: "(string \<Rightarrow> go_error + 'z) \<Rightarrow> ('z \<Rightarrow> error) \<Rightarrow> string \<Rightarrow> bool" where
  "good_size decode set_size buf \<longleftrightarrow> (\<exists>sz. decode buf = Inr sz \<and> set_size sz = None)"

lemma resize_prefix:
  "map Inr (tty_resize_loop decode set_size (map Read_message bufs)) =
     map decode (takeWhile (good_size decode set_size) bufs)"
  by (induction bufs) (auto simp: good_size_def split: sum.split)

lemma resize_stops:
  assumes "\<not> good_size decode set_size bad"
  shows "tty_resize_loop decode set_size (rs @ Read_message bad # rs') = tty_resize_loop decode set_size rs"
  using assms
  by (induction rs rule: tty_resize_loop.induct) (auto simp: good_size_def split: sum.split)

text \<open>A session with a terminal ends like one without: with one exit code, unless it is killed.\<close>

lemma exec_session_exit_code:
  assumes "exec_session ee rootdir params u = Ret (ms, was_killed)"
    "\<And>cmd env out r. ee_start ee cmd env = X_ended out r \<or> ee_start ee cmd env = X_closed out \<Longrightarrow>
       list_all (\<lambda>m. fst m \<noteq> ExitCodeChan) out"
  shows "if was_killed then list_all (\<lambda>m. fst m \<noteq> ExitCodeChan) ms
     else \<exists>ms' code. ms = ms' @ [(ExitCodeChan, code)] \<and> list_all (\<lambda>m. fst m \<noteq> ExitCodeChan) ms'"
proof -
  have err: "\<exists>ms' code. writeWSErrorExitcode m = ms' @ [(ExitCodeChan, code)] \<and>
      list_all (\<lambda>m. fst m \<noteq> ExitCodeChan) ms'" for m
    unfolding writeWSErrorExitcode_def by (rule exI [where x = "[(StderrChan, m)]"]) simp
  have tty: "list_all (\<lambda>m. fst m \<noteq> ExitCodeChan) (tty_output chunks)" for chunks
    by (induction chunks) (simp_all add: tty_output_def)
  obtain plan where plan: "result (exec_plan_of (ee_params ee) rootdir params
      (ee_name ee (ExecParams_UnitName params))) u = Ret plan"
    using assms(1) by (auto simp: exec_session_def split: outcome.splits)
  show ?thesis
  proof (cases plan)
    case (Refused m)
    with plan assms(1) err [of m] show ?thesis by (auto simp: exec_session_def)
  next
    case (Command command env)
    then have run: "run_command ee params command env = (ms, was_killed)"
      using plan assms(1) by (simp add: exec_session_def)
    show ?thesis
    proof (cases "ExecParams_TTY params")
      case True
      with run err tty show ?thesis
        by (auto simp: run_command_def runExecTTY_def waitForFinished_def split: tty_run.splits)
    next
      case False
      with run err assms(2) [of command env] show ?thesis
        by (auto simp: run_command_def runExecCmd_def waitForFinished_def split: exec_run.splits)
    qed
  qed
qed

text \<open>Without the flag the server never serves a client it has not asked for a certificate.\<close>

lemma listening_with_TLS: "ListenAndServe read certs addr False \<noteq> Plain a"
  by (simp add: ListenAndServe_def split: sum.split)

end
