(* ===== verification/Darwin.thy ===== *)
theory Darwin
  imports Server Unit_Run
begin

text \<open>
  What the packages are on macOS: \<open>unit_darwin.go\<close>, \<open>mount_darwin.go\<close>, \<open>net_darwin.go\<close>,
  \<open>metrics_darwin.go\<close>, \<open>exec_darwin.go\<close>, \<open>itzo_darwin.go\<close> and \<open>podman_darwin.go\<close>, and the interfaces of
  \<open>pkg/runtime/itzo.go\<close> and \<open>pkg/mount/mount.go\<close> that both systems implement.  Anka's runtime is the one
  that works there; the last sections say what becomes of an agent that is given another.
\<close>

section \<open>Mounts\<close>

(* src: pkg/mount/mount.go 44-54 Mounter *)
record 'w Mounter =
  mo_CreateMount :: "Volume \<Rightarrow> ('w, error) state"
  mo_DeleteMount :: "Volume \<Rightarrow> ('w, error) state"
  mo_AttachMount :: "string \<Rightarrow> string \<Rightarrow> string \<Rightarrow> ('w, error) state"
  mo_DetachMount :: "string \<Rightarrow> string \<Rightarrow> ('w, error) state"
  mo_MountSpecial :: "string \<Rightarrow> ('w, error) state"
  mo_UnmountSpecial :: "string \<Rightarrow> ('w, unit) state"
  mo_BindMount :: "string \<Rightarrow> string \<Rightarrow> ('w, error) state"
  mo_Unmount :: "string \<Rightarrow> ('w, error) state"
  mo_PivotRoot :: "string \<Rightarrow> string \<Rightarrow> ('w, error) state"

text \<open>\<open>n\<close> bounds the absolute links that \<open>AttachMount\<close> follows; more of them count as an error.\<close>

(* src: pkg/mount/mount.go 56-102 NewOSMounter *)
definition NewOSMounter :: "nat \<Rightarrow> string \<Rightarrow> 'a os_scheme Mounter" where
  "NewOSMounter n basedir =
     \<lparr>mo_CreateMount = CreateMount basedir, mo_DeleteMount = DeleteMount basedir,
      mo_AttachMount = (\<lambda>unit src dst. do {
        r \<leftarrow> AttachMount n basedir unit src dst;
        return (follow r) }),
      mo_DetachMount = (\<lambda>unit dst. do {
        r \<leftarrow> DetachMount n basedir unit dst;
        return (follow r) }),
      mo_MountSpecial = MountSpecial basedir, mo_UnmountSpecial = UnmountSpecial basedir,
      mo_BindMount = BindMount, mo_Unmount = Unmount, mo_PivotRoot = PivotRoot\<rparr>"

(* src: pkg/mount/mount_darwin.go 52-96 NewOSMounter *)
definition darwin_NewOSMounter :: "string \<Rightarrow> 'w Mounter" where
  "darwin_NewOSMounter basedir =
     \<lparr>mo_CreateMount = (\<lambda>volume. return None), mo_DeleteMount = (\<lambda>volume. return None),
      mo_AttachMount = (\<lambda>unit src dst. return None), mo_DetachMount = (\<lambda>unit dst. return None),
      mo_MountSpecial = (\<lambda>unitname. return None), mo_UnmountSpecial = (\<lambda>unitname. return ()),
      mo_BindMount = (\<lambda>src dst. return None), mo_Unmount = (\<lambda>dir. return None),
      mo_PivotRoot = (\<lambda>rootfs oldrootfs. return None)\<rparr>"

(* src: pkg/mount/mount_darwin.go 86-88 ShareMount *)
definition darwin_ShareMount :: "string \<Rightarrow> nat \<Rightarrow> ('w, error) state" where
  "darwin_ShareMount target flags = return None"

section \<open>Units\<close>

text \<open>The structs are those of the other system; \<open>OpenUnit\<close> gives one with all fields zero.\<close>

(* src: pkg/unit/unit_darwin.go 65-71 HealthConfig *)
type_synonym darwin_HealthConfig = HealthConfig

(* src: pkg/unit/unit_darwin.go 74-100 Config *)
type_synonym darwin_Config = Config

(* src: pkg/unit/unit_darwin.go 102-112 UnitConfig *)
type_synonym darwin_UnitConfig = UnitConfig

(* src: pkg/unit/unit_darwin.go 114-124 Unit *)
record darwin_Unit =
  dU_Directory :: string
  dU_Name :: string
  dU_Image :: string
  dU_statusPath :: string
  dU_config :: "darwin_Config option"
  dU_unitConfig :: darwin_UnitConfig
  dU_stdinPath :: string

(* src: pkg/unit/unit_darwin.go 45-60 defaultCapabilities *)
definition darwin_defaultCapabilities :: "string list" where
  "darwin_defaultCapabilities =
     [''CAP_AUDIT_WRITE'', ''CAP_CHOWN'', ''CAP_DAC_OVERRIDE'', ''CAP_FOWNER'', ''CAP_FSETID'',
      ''CAP_KILL'', ''CAP_MKNOD'', ''CAP_NET_BIND_SERVICE'', ''CAP_NET_RAW'', ''CAP_SETFCAP'',
      ''CAP_SETGID'', ''CAP_SETPCAP'', ''CAP_SETUID'', ''CAP_SYS_CHROOT'']"

(* src: pkg/unit/unit_darwin.go 126-128 IsUnitExist *)
definition darwin_IsUnitExist :: "string \<Rightarrow> string \<Rightarrow> bool" where
  "darwin_IsUnitExist rootdir name = True"

(* src: pkg/unit/unit_darwin.go 130-133 OpenUnit *)
definition darwin_OpenUnit :: "string \<Rightarrow> string \<Rightarrow> darwin_Unit \<times> error" where
  "darwin_OpenUnit rootdir name =
     (\<lparr>dU_Directory = '''', dU_Name = '''', dU_Image = '''', dU_statusPath = '''', dU_config = None,
       dU_unitConfig = zero_UnitConfig, dU_stdinPath = ''''\<rparr>, None)"

text \<open>The methods take the unit by a pointer and change nothing: each is its answer.\<close>

(* src: pkg/unit/unit_darwin.go 135-137 SaveUnitConfig *)
definition darwin_SaveUnitConfig :: "darwin_UnitConfig \<Rightarrow> darwin_Unit \<Rightarrow> error" where
  "darwin_SaveUnitConfig unitConfig u = None"

(* src: pkg/unit/unit_darwin.go 139-141 SetUnitConfigOverlayfs *)
definition darwin_SetUnitConfigOverlayfs :: "bool \<Rightarrow> darwin_Unit \<Rightarrow> darwin_Unit" where
  "darwin_SetUnitConfigOverlayfs useOverlayfs u = u"

(* src: pkg/unit/unit_darwin.go 143-145 CreateCommand *)
definition darwin_CreateCommand :: "string list \<Rightarrow> string list \<Rightarrow> darwin_Unit \<Rightarrow> string list" where
  "darwin_CreateCommand command args u = []"

(* src: pkg/unit/unit_darwin.go 147-149 GetEnv *)
definition darwin_GetEnv :: "darwin_Unit \<Rightarrow> string list" where
  "darwin_GetEnv u = []"

(* src: pkg/unit/unit_darwin.go 151-153 GetWorkingDir *)
definition darwin_GetWorkingDir :: "darwin_Unit \<Rightarrow> string" where
  "darwin_GetWorkingDir u = ''''"

(* src: pkg/unit/unit_darwin.go 155-157 SetImage *)
definition darwin_SetImage :: "string \<Rightarrow> darwin_Unit \<Rightarrow> error" where
  "darwin_SetImage img u = None"

(* src: pkg/unit/unit_darwin.go 159-161 Destroy *)
definition darwin_Destroy :: "darwin_Unit \<Rightarrow> error" where
  "darwin_Destroy u = None"

(* src: pkg/unit/unit_darwin.go 163-165 GetRootfs *)
definition darwin_GetRootfs :: "darwin_Unit \<Rightarrow> string" where
  "darwin_GetRootfs u = filepath_Join [dU_Directory u, ''ROOTFS'']"

(* src: pkg/unit/unit_darwin.go 167-169 PullAndExtractImage *)
definition darwin_PullAndExtractImage :: "string \<Rightarrow> string \<Rightarrow> string \<Rightarrow> string \<Rightarrow> darwin_Unit \<Rightarrow> error" where
  "darwin_PullAndExtractImage img server username password u = None"

(* src: pkg/unit/unit_darwin.go 171-173 GetUser *)
definition darwin_GetUser :: "darwin_Unit \<Rightarrow> nat \<times> nat \<times> nat list \<times> string \<times> error" where
  "darwin_GetUser u = (0, 0, [], '''', None)"

(* src: pkg/unit/unit_darwin.go 175-177 SetStatus *)
definition darwin_SetStatus :: "UnitStatus \<Rightarrow> darwin_Unit \<Rightarrow> error" where
  "darwin_SetStatus status u = None"

(* src: pkg/unit/unit_darwin.go 179-181 UpdateStatusAttr *)
definition darwin_UpdateStatusAttr :: "bool option \<Rightarrow> bool option \<Rightarrow> darwin_Unit \<Rightarrow> error" where
  "darwin_UpdateStatusAttr ready started u = None"

(* src: pkg/unit/unit_darwin.go 183-185 GetStatus *)
definition darwin_GetStatus :: "darwin_Unit \<Rightarrow> UnitStatus option \<times> error" where
  "darwin_GetStatus u = (None, None)"

(* src: pkg/unit/unit_darwin.go 187-189 SetState *)
definition darwin_SetState :: "UnitState \<Rightarrow> int option \<Rightarrow> darwin_Unit \<Rightarrow> error" where
  "darwin_SetState st restarts u = None"

(* src: pkg/unit/unit_darwin.go 191-193 RunUnitLoop *)
definition darwin_RunUnitLoop :: "string list \<Rightarrow> string list \<Rightarrow> RestartPolicy \<Rightarrow> darwin_Unit \<Rightarrow> error" where
  "darwin_RunUnitLoop command caplist policy u = None"

(* src: pkg/unit/unit_darwin.go 195-197 Run *)
definition darwin_Run ::
  "string \<Rightarrow> string \<Rightarrow> string list \<Rightarrow> string \<Rightarrow> RestartPolicy \<Rightarrow> 'w Mounter \<Rightarrow> darwin_Unit \<Rightarrow> error" where
  "darwin_Run podname hostname command workingdir policy mounter u = None"

text \<open>A nil writer.\<close>

(* src: pkg/unit/unit_darwin.go 199-201 OpenStdinWriter *)
definition darwin_OpenStdinWriter :: "darwin_Unit \<Rightarrow> string option \<times> error" where
  "darwin_OpenStdinWriter u = (None, None)"

text \<open>What the helper process does: it answers at once, so it ends without starting a command.\<close>

(* src: pkg/unit/unit_darwin.go 241-243 StartUnit *)
definition darwin_StartUnit ::
  "string \<Rightarrow> string \<Rightarrow> string \<Rightarrow> string \<Rightarrow> string \<Rightarrow> string \<Rightarrow> string list \<Rightarrow> RestartPolicy \<Rightarrow> error" where
  "darwin_StartUnit rootdir podname hostname unitname workingdir netns command policy = None"

section \<open>The unit manager and the interfaces of the itzo runtime\<close>

(* src: pkg/runtime/itzo.go 36-48 UnitRunner *)
record 'w UnitRunner =
  ur_StartUnit :: "string \<Rightarrow> string \<Rightarrow> string \<Rightarrow> string \<Rightarrow> string \<Rightarrow> string list \<Rightarrow> string list \<Rightarrow>
    string list \<Rightarrow> RestartPolicy \<Rightarrow> ('w, error outcome) state"
  ur_StopUnit :: "string \<Rightarrow> ('w, error) state"
  ur_RemoveUnit :: "string \<Rightarrow> ('w, error) state"
  ur_UnitRunning :: "string \<Rightarrow> 'w \<Rightarrow> bool"
  ur_GetLogBuffer :: "string \<Rightarrow> 'w \<Rightarrow> LogBuffer option \<times> error"
  ur_ReadLogBuffer :: "string \<Rightarrow> int \<Rightarrow> 'w \<Rightarrow> (go_error + LogEntry list) outcome"
  ur_GetPid :: "string \<Rightarrow> 'w \<Rightarrow> int \<times> bool"

(* src: pkg/unit/unit_manager.go 71-75 UnitManager *)
definition unit_runner :: "itzo_params \<Rightarrow> itzo_os UnitRunner" where
  "unit_runner ip =
     \<lparr>ur_StartUnit = um_StartUnit ip, ur_StopUnit = um_StopUnit ip, ur_RemoveUnit = um_RemoveUnit ip,
      ur_UnitRunning = um_UnitRunning, ur_GetLogBuffer = um_GetLogBuffer,
      ur_ReadLogBuffer = um_ReadLogBuffer, ur_GetPid = um_GetPid\<rparr>"

(* src: pkg/unit/unit_darwin.go 203-239 UnitManager *)
definition darwin_unit_runner :: "'w UnitRunner" where
  "darwin_unit_runner =
     \<lparr>ur_StartUnit = (\<lambda>podname hostname unitname workingdir netns command args env policy.
        return (Ret None)),
      ur_StopUnit = (\<lambda>name. return None), ur_RemoveUnit = (\<lambda>name. return None),
      ur_UnitRunning = (\<lambda>name w. True), ur_GetLogBuffer = (\<lambda>name w. (None, None)),
      ur_ReadLogBuffer = (\<lambda>name n w. Ret (Inr [])), ur_GetPid = (\<lambda>name w. (0, False))\<rparr>"

text \<open>The part of a mounter that the itzo runtime asks for; every mounter has it.\<close>

(* src: pkg/runtime/itzo.go 28-33 Mounter *)
record 'w runtime_Mounter =
  rm_CreateMount :: "Volume \<Rightarrow> ('w, error) state"
  rm_DeleteMount :: "Volume \<Rightarrow> ('w, error) state"
  rm_AttachMount :: "string \<Rightarrow> string \<Rightarrow> string \<Rightarrow> ('w, error) state"
  rm_DetachMount :: "string \<Rightarrow> string \<Rightarrow> ('w, error) state"

definition as_runtime_Mounter :: "'w Mounter \<Rightarrow> 'w runtime_Mounter" where
  "as_runtime_Mounter m =
     \<lparr>rm_CreateMount = mo_CreateMount m, rm_DeleteMount = mo_DeleteMount m,
      rm_AttachMount = mo_AttachMount m, rm_DetachMount = mo_DetachMount m\<rparr>"

(* src: pkg/runtime/itzo_darwin.go 26-28 PullImage *)
definition darwin_PullImage ::
  "string \<Rightarrow> string \<Rightarrow> string \<Rightarrow> (string \<rightharpoonup> RegistryCredentials) \<Rightarrow> bool \<Rightarrow> error" where
  "darwin_PullImage rootdir name img registryCredentials useOverlayfs = None"

section \<open>The network, metrics and exec\<close>

(* src: pkg/net/net_darwin.go 33-37 NetNamespacer *)
type_synonym 'w darwin_NetNamespacer = "'w NetNamespacer"

(* src: pkg/net/net_darwin.go 39-60 NewOSNetNamespacer *)
definition darwin_NewOSNetNamespacer :: "string \<Rightarrow> 'w darwin_NetNamespacer" where
  "darwin_NewOSNetNamespacer nsname =
     \<lparr>nn_Create = return None, nn_WithNetNamespace = (\<lambda>cb. cb),
      nn_CreateVeth = (\<lambda>ipaddr. return None)\<rparr>"

text \<open>No namespace is made: the addresses are worked out and nothing else.\<close>

(* src: pkg/net/net_darwin.go 62-77 SetupNetNamespace *)
definition darwin_SetupNetNamespace ::
  "go_error + CloudInfo \<Rightarrow> string \<Rightarrow> (go_error + string \<times> string \<times> string) outcome" where
  "darwin_SetupNetNamespace cloud podIP =
     (case cloud of
        Inl e \<Rightarrow> Ret (Inl (errorf ''creating metadata client'' e))
      | Inr cloudInfo \<Rightarrow>
     (case GetMainIPv4Address cloudInfo of
        Panic \<Rightarrow> Panic
      | Ret (Inl e) \<Rightarrow> Ret (Inl e)
      | Ret (Inr mainIP) \<Rightarrow>
          if podIP = '''' then Ret (Inr (mainIP, mainIP, ''''))
          else Ret (Inr (mainIP, podIP, PodNetNamespaceName))))"

(* src: pkg/net/net_darwin.go 79-81 GetPrimaryNetworkInterface *)
definition darwin_GetPrimaryNetworkInterface :: "go_error + string" where
  "darwin_GetPrimaryNetworkInterface = Inl (Errorf '''')"

text \<open>\<open>ReadSystemMetrics\<close> gives a nil map, which \<open>statusHandler\<close> writes the metrics of the units into.\<close>

(* src: pkg/metrics/metrics_darwin.go 32-43 ReadSystemMetrics *)
definition darwin_ReadSystemMetrics :: "string \<Rightarrow> ResourceMetrics option" where
  "darwin_ReadSystemMetrics netif = None"

(* src: pkg/metrics/metrics_darwin.go 45-49 GetSystemMetrics *)
definition darwin_GetSystemMetrics :: "string \<Rightarrow> ResourceMetrics" where
  "darwin_GetSystemMetrics netif = Map.empty"

(* src: pkg/metrics/metrics_darwin.go 51-55 GetUnitMetrics *)
definition darwin_GetUnitMetrics :: "string \<Rightarrow> ResourceMetrics" where
  "darwin_GetUnitMetrics name = Map.empty"

(* src: pkg/metrics/metrics_darwin.go 57-64 ReadUnitMetrics *)
definition darwin_anka_ReadUnitMetrics :: "string \<Rightarrow> ResourceMetrics" where
  "darwin_anka_ReadUnitMetrics ifname = Map.empty"

text \<open>Writing to a key of a nil map panics; visiting an empty map does not write.\<close>

(* src: pkg/server/server.go 124-131 statusHandler *)
fun usage_of_units :: "(string \<Rightarrow> ResourceMetrics) \<Rightarrow> ResourceMetrics option \<Rightarrow> string list \<Rightarrow>
    ResourceMetrics option outcome" where
  "usage_of_units unit_metrics usage [] = Ret usage"
| "usage_of_units unit_metrics usage (name # names) =
     (if dom (unit_metrics name) = {} then usage_of_units unit_metrics usage names
      else case usage of
        None \<Rightarrow> Panic
      | Some m \<Rightarrow> usage_of_units unit_metrics (Some (m ++ unit_metrics name)) names)"

(* src: pkg/server/exec_darwin.go 30-33 runExec *)
definition darwin_runExec :: "ExecParams \<Rightarrow> ws_msg list" where
  "darwin_runExec params = writeWSErrorExitcode ''not supported on darwin''"

(* src: pkg/server/exec_darwin.go 35-37 runExecCmd *)
definition darwin_runExecCmd :: "string list \<Rightarrow> bool \<Rightarrow> error" where
  "darwin_runExecCmd cmd interactive = Some (Errorf ''not supported on darwin'')"

(* src: pkg/server/exec_darwin.go 39-41 runExecTTY *)
definition darwin_runExecTTY :: "string list \<Rightarrow> bool \<Rightarrow> error" where
  "darwin_runExecTTY cmd interactive = Some (Errorf ''not supported on darwin'')"

section \<open>Runtimes that are not there\<close>

text \<open>
  The itzo runtime panics in every method.  Its state says whether the process is alive: what a
  computation does after a panic has no meaning, and \<open>Panicked\<close> is never left.
\<close>

datatype process = Alive | Panicked string

definition implement_me :: "'a \<Rightarrow> (process, 'a) state" where
  "implement_me x = do {
     modify (\<lambda>p. case p of Alive \<Rightarrow> Panicked ''implement me'' | Panicked m \<Rightarrow> Panicked m);
     return x }"

(* src: pkg/runtime/itzo_darwin.go 30-86 ItzoRuntime *)
definition darwin_itzo_runtime :: "process runtime" where
  "darwin_itzo_runtime =
     \<lparr>rt_RunPodSandbox = (\<lambda>spec. implement_me (None, spec)),
      rt_StopPodSandbox = (\<lambda>spec. implement_me None),
      rt_RemovePodSandbox = (\<lambda>spec. implement_me None),
      rt_CreateContainer = (\<lambda>u spec podName creds overlay. implement_me (None, None)),
      rt_StartContainer = (\<lambda>u spec podName. implement_me (None, None)),
      rt_RemoveContainer = (\<lambda>u. implement_me None),
      rt_ContainerStatus = (\<lambda>name img. implement_me (None, None)),
      rt_UnitRunning = (\<lambda>name. implement_me False),
      rt_GetPid = (\<lambda>name. implement_me (0, False)),
      rt_SetPodNetwork = (\<lambda>netNS podIP. implement_me ())\<rparr>"

text \<open>The podman runtime answers nil everywhere, nil statuses included.\<close>

(* src: pkg/runtime/podman/podman_darwin.go 40-86 NoOpPodmanRuntime *)
definition NoOpPodmanRuntime :: "'w runtime" where
  "NoOpPodmanRuntime =
     \<lparr>rt_RunPodSandbox = (\<lambda>spec. return (None, spec)),
      rt_StopPodSandbox = (\<lambda>spec. return None),
      rt_RemovePodSandbox = (\<lambda>spec. return None),
      rt_CreateContainer = (\<lambda>u spec podName creds overlay. return (None, None)),
      rt_StartContainer = (\<lambda>u spec podName. return (None, None)),
      rt_RemoveContainer = (\<lambda>u. return None),
      rt_ContainerStatus = (\<lambda>name img. return (None, None)),
      rt_UnitRunning = (\<lambda>name. return True),
      rt_GetPid = (\<lambda>name. return (0, False)),
      rt_SetPodNetwork = (\<lambda>netNS podIP. return ())\<rparr>"

section \<open>Properties\<close>

text \<open>
  The addresses of a pod are the same on both systems, whenever the other system can set its network
  up: what differs is that on macOS nothing is set up.
\<close>

lemma darwin_same_addresses:
  assumes "result (SetupNetNamespace parse6 pretty ipt cloud podIP) w = Ret (Inr addrs)"
  shows "darwin_SetupNetNamespace cloud podIP = Ret (Inr addrs)"
  using assms
  by (auto simp: SetupNetNamespace_def darwin_SetupNetNamespace_def
      split: sum.splits outcome.splits if_splits option.splits)

text \<open>The nil map is never written to with Anka, because its units have no metrics.\<close>

lemma darwin_usage_Ret:
  "usage_of_units darwin_anka_ReadUnitMetrics (darwin_ReadSystemMetrics netif) names = Ret None"
  by (induction names) (simp_all add: darwin_anka_ReadUnitMetrics_def darwin_ReadSystemMetrics_def)

lemma nil_map_panics:
  assumes "name \<in> set names" "unit_metrics name \<noteq> Map.empty"
  shows "usage_of_units unit_metrics None names = Panic"
  using assms by (induction names) auto

text \<open>The stubs meet the part of the contract that is about failures, and not that on the status.\<close>

interpretation darwin_itzo: container_service darwin_itzo_runtime
  by unfold_locales (simp_all add: darwin_itzo_runtime_def implement_me_def)

interpretation noop_podman: container_service NoOpPodmanRuntime
  by unfold_locales (simp_all add: NoOpPodmanRuntime_def)

lemma noop_no_status: "\<not> runtime_service (NoOpPodmanRuntime :: 'w runtime)"
  by (auto simp: runtime_service_def runtime_service_axioms_def NoOpPodmanRuntime_def)

text \<open>
  With the podman stub, asking for the status of a pod that has units panics unless an earlier failure
  was kept for the first of them.
\<close>

lemma noop_status_panics:
  assumes "PodSpec_Units (pc_podStatus pc) = u # us" "pc_syncErrors pc (Unit_Name u) = None"
  shows "result (pc_GetStatus NoOpPodmanRuntime) pc = Panic"
  using assms by (simp add: pc_GetStatus_def unit_status_def NoOpPodmanRuntime_def)

text \<open>With the itzo stub, the first update that has anything to start ends the process.\<close>

abbreviation dead :: "process pod_controller \<Rightarrow> bool" where
  "dead pc \<equiv> pc_world pc \<noteq> Alive"

lemma implement_me_dead [simp]: "final (implement_me x) p \<noteq> Alive"
  by (cases p) (simp_all add: implement_me_def)

lemma implement_me_result [simp]: "result (implement_me x) p = x"
  by (simp add: implement_me_def)

lemma implement_me_stays: "preserves dead (on_rt (implement_me x))"
  by (simp add: preserves_def)

lemma darwin_itzo_sel [simp]:
  "rt_RunPodSandbox darwin_itzo_runtime spec = implement_me (None, spec)"
  "rt_StopPodSandbox darwin_itzo_runtime spec = implement_me None"
  "rt_RemovePodSandbox darwin_itzo_runtime spec = implement_me None"
  "rt_CreateContainer darwin_itzo_runtime u spec podName creds overlay = implement_me (None, None)"
  by (simp_all add: darwin_itzo_runtime_def)

lemma create_units_dead:
  "dead pc \<Longrightarrow> dead (final (create_units darwin_itzo_runtime spec (\<lambda>_. return ()) us) pc)"
  by (rule preservesD [where P = dead], unfold create_units_def set_syncError_def darwin_itzo_sel)
    (intro preserves_intros implement_me_stays; simp)

lemma CreatePod_dead: "dead (final (CreatePod darwin_itzo_runtime spec) pc)"
  by (simp add: CreatePod_def split_def create_units_dead)

lemma RestartPod_dead:
  assumes "PodSpec_Units status = []"
  shows "dead (final (RestartPod darwin_itzo_runtime spec status) pc)"
  using assms by (auto simp: RestartPod_def split_def create_units_dead)

lemma first_update_dead:
  assumes "PodSpec_Units (pc_podStatus pc) = []" "PodSpec_InitUnits (pc_podStatus pc) = []"
  shows "dead (final (update_prepare darwin_itzo_runtime params) pc)"
  using CreatePod_dead RestartPod_dead assms
  by (auto simp: update_prepare_def sync_prepare_def Let_def split_def detectChangeType_cases)

end
