(* ===== verification/Agent_Start.thy ===== *)
theory Agent_Start
  imports Sessions Podman Mac
begin

text \<open>
  From the flags of \<open>cmd/itzo\<close> to a running agent: which runtime \<open>NewPodController\<close> makes, what \<open>New\<close> does
  with it, and what the controller passes on to it; and the loop that waits for an init unit as the
  function it is in \<open>pod_controller.go\<close>, beside the steps of \<open>Pod_Controller\<close>.
\<close>

section \<open>The runtimes\<close>

text \<open>
  Podman's runtime as the controller sees it.  A panic of \<open>CreateContainer\<close> is an error with a nil status
  and one of \<open>ContainerStatus\<close> a nil status, on which the controller panics in the same place.
  \<open>UnitRunning\<close> is asked for in handlers only, where a panic ends the request.
\<close>

(* src: pkg/runtime/podman/podman.go 261-264 PodmanRuntime *)
definition podman_runtime :: "string \<Rightarrow> podman_os runtime" where
  "podman_runtime rootdir =
     \<lparr>rt_RunPodSandbox = (\<lambda>spec. do { err \<leftarrow> pm_RunPodSandbox spec; return (err, spec) }),
      rt_StopPodSandbox = pm_StopPodSandbox, rt_RemovePodSandbox = pm_RemovePodSandbox,
      rt_CreateContainer = (\<lambda>u spec podName creds overlay. do {
        r \<leftarrow> pm_CreateContainer rootdir u spec podName creds overlay;
        return (case r of Ret x \<Rightarrow> x | Panic \<Rightarrow> (None, Some (ErrOther ''nil pointer dereference''))) }),
      rt_StartContainer = pm_StartContainer, rt_RemoveContainer = pm_RemoveContainer,
      rt_ContainerStatus = (\<lambda>name img. do {
        r \<leftarrow> pm_ContainerStatus name img;
        return (case r of Ret x \<Rightarrow> x | Panic \<Rightarrow> (None, None)) }),
      rt_UnitRunning = (\<lambda>name. do {
        r \<leftarrow> pm_UnitRunning name;
        return (case r of Ret b \<Rightarrow> b | Panic \<Rightarrow> False) }),
      rt_GetPid = (\<lambda>name. return (pm_GetPid name)), rt_SetPodNetwork = pm_SetPodNetwork\<rparr>"

text \<open>A controller has one of three runtimes, each with a state of its own.\<close>

datatype controller =
    With_podman "podman_os runtime" "podman_os pod_controller"
  | With_anka "mac_os runtime" "mac_os pod_controller"
  | With_itzo "itzo_os runtime" "itzo_os pod_controller"

text \<open>What the machine is when the agent starts.\<close>

record machine =
  mc_podman :: podman_os
  mc_itzo :: itzo_os
  mc_os :: os
  mc_socket :: string
  mc_connect :: "string \<Rightarrow> go_error + nat"
  mc_anka :: mac_params
  mc_params :: itzo_params

(* src: pkg/server/pod_controller.go 74-107 NewPodController *)
definition NewController :: "machine \<Rightarrow> string \<Rightarrow> string \<Rightarrow> go_error + controller" where
  "NewController mc rootdir runtimeName =
     (if runtimeName = PodmanRuntimeName then
        (case NewPodmanRuntime (mc_socket mc) (mc_connect mc) rootdir of
           Inl err \<Rightarrow> Inl err
         | Inr _ \<Rightarrow> Inr (With_podman (podman_runtime rootdir) (NewPodController (mc_podman mc))))
      else if runtimeName = AnkaRuntimeName then
        Inr (With_anka (anka_runtime (mc_anka mc)) (NewPodController (NewMacRuntime (mc_os mc))))
      else Inr (With_itzo (itzo_runtime (mc_params mc))
             (NewPodController (final (NewUnitManager rootdir) (mc_itzo mc)))))"

text \<open>
  \<open>New\<close> logs the error and starts the controller all the same: when there is none, the loop that
  \<open>Start\<close> starts dereferences nil, and a panic of a goroutine is the end of the process.
\<close>

datatype 'c started = Crashed_at_start go_error | Started string 'c

(* src: pkg/server/server.go 94-112 New *)
definition start_controller :: "machine \<Rightarrow> string \<Rightarrow> string \<Rightarrow> controller started" where
  "start_controller mc rootdir runtimeName =
     (let rootdir = (if rootdir = '''' then DEFAULT_ROOTDIR else rootdir)
      in case NewController mc rootdir runtimeName of
           Inl err \<Rightarrow> Crashed_at_start err
         | Inr pc \<Rightarrow> Started rootdir pc)"

(* src: cmd/itzo/itzo.go 36-98 main *)
definition agent :: "machine \<Rightarrow> flags \<Rightarrow> controller started option" where
  "agent mc f =
     (if fl_appcmdline f \<noteq> '''' then None
      else case main_server f of
        Exit n \<Rightarrow> None
      | Serve rootdir runtimeName endpoint disableTLS \<Rightarrow>
          Some (start_controller mc rootdir runtimeName))"

section \<open>What the controller passes on\<close>

(* src: pkg/server/pod_controller.go 519-521 ReadSystemMetrics *)
definition pc_ReadSystemMetrics :: "MetricsProvider \<Rightarrow> string \<Rightarrow> ResourceMetrics" where
  "pc_ReadSystemMetrics mp ifname = mp_ReadSystemMetrics mp ifname"

(* src: pkg/server/pod_controller.go 523-525 ReadUnitMetrics *)
definition pc_ReadUnitMetrics :: "MetricsProvider \<Rightarrow> string \<Rightarrow> ResourceMetrics" where
  "pc_ReadUnitMetrics mp ifname = mp_ReadUnitMetrics mp ifname"

(* src: pkg/server/pod_controller.go 527-530 GetLogBuffer *)
definition pc_GetLogBuffer ::
  "(LogOptions \<Rightarrow> 's \<Rightarrow> go_error + LogBuffer option) \<Rightarrow> LogOptions \<Rightarrow> 's pod_controller \<Rightarrow>
   go_error + LogBuffer option" where
  "pc_GetLogBuffer get options pc = get options (pc_world pc)"

(* src: pkg/server/pod_controller.go 532-534 UnitRunning *)
definition pc_UnitRunning :: "'s runtime \<Rightarrow> string \<Rightarrow> ('s, bool) pc_m" where
  "pc_UnitRunning rt unit = on_rt (rt_UnitRunning rt unit)"

(* src: pkg/server/pod_controller.go 536-538 GetPid *)
definition pc_GetPid :: "'s runtime \<Rightarrow> string \<Rightarrow> ('s, int \<times> bool) pc_m" where
  "pc_GetPid rt unitName = on_rt (rt_GetPid rt unitName)"

section \<open>Logs and processes of the itzo runtime\<close>

(* src: pkg/runtime/itzo_linux.go 221-223 GetLogBuffer *)
definition it_GetLogBuffer :: "LogOptions \<Rightarrow> itzo_os \<Rightarrow> LogBuffer option \<times> error" where
  "it_GetLogBuffer options w = um_GetLogBuffer (Opt_UnitName options) w"

(* src: pkg/runtime/itzo_linux.go 225-227 UnitRunning *)
definition it_UnitRunning :: "string \<Rightarrow> itzo_os \<Rightarrow> bool" where
  "it_UnitRunning unitName w = um_UnitRunning unitName w"

(* src: pkg/runtime/itzo_linux.go 229-231 GetPid *)
definition it_GetPid :: "string \<Rightarrow> itzo_os \<Rightarrow> int \<times> bool" where
  "it_GetPid unitName w = um_GetPid unitName w"

section \<open>Waiting for an init unit\<close>

text \<open>
  The loop as a function of what \<open>select\<close> finds: that the update was cancelled, or that a second has
  passed.  \<open>None\<close> is a loop that still waits.
\<close>

datatype init_event = Ctx_done | After_interval

(* src: pkg/server/pod_controller.go 344-372 waitForInitUnit *)
fun waitForInitUnit ::
  "'s runtime \<Rightarrow> string \<Rightarrow> string \<Rightarrow> RestartPolicy \<Rightarrow> init_event list \<Rightarrow> ('s, bool option) pc_m" where
  "waitForInitUnit rt name img policy [] = return None"
| "waitForInitUnit rt name img policy (Ctx_done # evs) = return (Some False)"
| "waitForInitUnit rt name img policy (After_interval # evs) = do {
     (st, err) \<leftarrow> on_rt (rt_ContainerStatus rt name img);
     (if err = None \<and> st = None then modify (\<lambda>pc. pc\<lparr>pc_crashed := True\<rparr>) else return ());
     (case poll_init policy st err of
        P_again \<Rightarrow> waitForInitUnit rt name img policy evs
      | P_done \<Rightarrow> return (Some True)
      | P_failed \<Rightarrow> return (Some False))
   }"


section \<open>Properties\<close>

text \<open>A turn of the loop is a step of the goroutine, with the same state after it.\<close>

lemma wait_turn:
  "run_state (waitForInitUnit rt (Unit_Name u) (Unit_Image u) (init_policy spec) (After_interval # evs)) pc =
     (case run_state (run_task rt spec (T_wait u us units)) pc of
        (Next (T_inits _ _), pc') \<Rightarrow> (Some True, pc')
      | (progress.Ended d, pc') \<Rightarrow> (Some False, pc')
      | (_, pc') \<Rightarrow> run_state (waitForInitUnit rt (Unit_Name u) (Unit_Image u) (init_policy spec) evs) pc')"
  by (auto simp: run_task_def run_state_bind split_def split: poll_answer.splits)

text \<open>
  A goroutine that waits and is not cancelled: when the loop gives its answer, the steps of the system
  have brought the goroutine on to the next init unit, or ended it without \<open>Done\<close>.
\<close>

lemma wait_steps:
  assumes "sys_worker s = Some \<lparr>g_spec = spec, g_task = T_wait u us units, g_cancelled = c\<rparr>"
    "run_state (waitForInitUnit rt (Unit_Name u) (Unit_Image u) (init_policy spec)
       (replicate n After_interval)) (sys_pc s) = (Some b, pc')"
  shows "sys_steps rt s (s\<lparr>sys_pc := pc', sys_worker :=
     (if b then Some \<lparr>g_spec = spec, g_task = T_inits us units, g_cancelled = c\<rparr> else None)\<rparr>)"
  using assms
proof (induction n arbitrary: s)
  case (Suc n)
  obtain p q where run: "run_state (run_task rt spec (T_wait u us units)) (sys_pc s) = (p, q)"
    by fastforce
  let ?g = "\<lambda>t. Some \<lparr>g_spec = spec, g_task = t, g_cancelled = c\<rparr>"
  note turn = Suc.prems(2) [unfolded replicate_Suc wait_turn [where us = us and units = units], unfolded run]
  have "p = Next (T_wait u us units) \<or> p = Next (T_inits us units) \<or> p = progress.Ended False"
    using run by (auto simp: run_task_def run_state_bind split_def split: poll_answer.splits)
  then consider "p = Next (T_wait u us units)" | "p = Next (T_inits us units)" | "p = progress.Ended False"
    by blast
  then show ?case
  proof cases
    case 1
    define s' where "s' = s\<lparr>sys_pc := q, sys_worker := ?g (T_wait u us units)\<rparr>"
    have step: "sys_step rt s s'"
      using sys_step.goes_on [OF Suc.prems(1), of rt "T_wait u us units" q] run 1 by (simp add: s'_def)
    have "sys_worker s' = ?g (T_wait u us units)" by (simp add: s'_def)
    from Suc.IH [OF this] turn 1
    have "sys_steps rt s' (s'\<lparr>sys_pc := pc', sys_worker := (if b then ?g (T_inits us units) else None)\<rparr>)"
      by (simp add: s'_def)
    from sys_steps_head [OF this step] show ?thesis by (simp add: s'_def)
  next
    case 2
    with turn have "b" "q = pc'" by simp_all
    with sys_step.goes_on [OF Suc.prems(1), of rt "T_inits us units" q] run 2
    have "sys_step rt s (s\<lparr>sys_pc := pc', sys_worker := ?g (T_inits us units)\<rparr>)" by simp
    with \<open>b\<close> show ?thesis using sys_steps.step [OF sys_steps.refl] by simp
  next
    case 3
    with turn have "\<not> b" "q = pc'" by simp_all
    with sys_step.ends [OF Suc.prems(1), of rt False q] run 3
    have "sys_step rt s (s\<lparr>sys_pc := pc', sys_worker := None\<rparr>)" by simp
    with \<open>\<not> b\<close> show ?thesis using sys_steps.step [OF sys_steps.refl] by simp
  qed
qed simp

text \<open>\<open>--use-anka\<close> is stronger than \<open>--use-podman\<close>; without either the runtime is the one of this repository.\<close>

lemma agent_runtime:
  assumes "agent mc f = Some (Started rootdir pc)"
  shows "rootdir = (if fl_rootdir f = '''' then DEFAULT_ROOTDIR else fl_rootdir f) \<and>
     (case pc of
        With_anka rt c \<Rightarrow> fl_useAnka f
      | With_podman rt c \<Rightarrow> \<not> fl_useAnka f \<and> fl_usePodman f
      | With_itzo rt c \<Rightarrow> \<not> fl_useAnka f \<and> \<not> fl_usePodman f)"
  using assms
  by (auto simp: agent_def main_server_def start_controller_def NewController_def Let_def
      split: if_splits sum.splits)

text \<open>
  The only way not to start is podman: when its socket does not answer the agent logs the error and dies
  of a nil pointer.
\<close>

lemma agent_crashes:
  "agent mc f = Some (Crashed_at_start e) \<longleftrightarrow>
     fl_appcmdline f = '''' \<and> \<not> fl_version f \<and> fl_usePodman f \<and> \<not> fl_useAnka f \<and>
     mc_connect mc (if mc_socket mc = '''' then ''unix:/run/podman/podman.sock'' else mc_socket mc) = Inl e"
proof -
  define sock where "sock = (if mc_socket mc = [] then ''unix:/run/podman/podman.sock'' else mc_socket mc)"
  have new: "NewPodmanRuntime (mc_socket mc) (mc_connect mc) rootdir = map_sum id (\<lambda>c. (c, rootdir)) (mc_connect mc sock)"
    for rootdir by (simp add: NewPodmanRuntime_def GetPodmanConnection_def sock_def)
  show ?thesis
    unfolding sock_def [symmetric]
    by (cases "fl_appcmdline f = []"; cases "fl_version f"; cases "fl_useAnka f"; cases "fl_usePodman f";
        cases "mc_connect mc sock")
      (simp_all add: agent_def main_server_def start_controller_def NewController_def new Let_def)
qed

text \<open>Podman's runtime meets the contract for starting a container, and not that for creating one.\<close>

lemma podman_runtime_start:
  "result (rt_StartContainer (podman_runtime rootdir) u spec podName) w = (None, err) \<Longrightarrow> err = None"
  using podman_start_status by (simp add: podman_runtime_def)

end
