(* ===== verification/Spec2Isabelle.thy ===== *)
theory Spec2Isabelle
  imports Pod_Controller Pod_Sync Pod_Steps Runtime_Itzo Itzo_Works Unit_Run Prober Kill Logbuf Caps Users Containers
    Mounts Prog File_Tail Util_Names Deploy Cloud Pod_Net String_Sets Convert Podman Mac Agents
    Log_Stream Exec_Cmd Metrics Server Rw_Lock Conmap Env_Lock Log_Race Sessions Darwin Agent_Start
begin

text \<open>
  itzo is the agent that runs a pod's units on a cell: \<open>cmd/itzo\<close> starts a server (\<open>pkg/server\<close>) that
  receives the pod's specification over HTTP, and a controller brings the units to it through a
  container runtime (\<open>pkg/runtime\<close>): the one of this repository, which starts every unit as a process
  of its own (\<open>pkg/unit\<close>) in a chroot made of mounts (\<open>pkg/mount\<close>), with the user, capabilities and
  probes the specification asks for; podman; or the virtual machines of Anka.

  The theories follow the packages.
  \<^item> \<open>Itzo_Prelude\<close> is what the code uses of Go: errors, fixed-width integers, \<open>strings\<close>, \<open>strconv\<close>,
    \<open>path/filepath\<close>, and the state monad with Go's \<open>range\<close> loops; \<open>Paths\<close> has the lemmas on cleaned
    paths.  \<open>Api_Types\<close> has the structs of \<open>pkg/api\<close>.  \<open>Os_World\<close> is the operating system: calls are
    recorded in a trace and answered by an arbitrary function of the calls so far, so that a property
    without hypotheses on the answers holds for every behaviour of the system, failures included.
  \<^item> \<open>Util_Names\<close>, \<open>Containers\<close>, \<open>String_Sets\<close>, \<open>File_Tail\<close>, \<open>Prog\<close>, \<open>Kill\<close>, \<open>Users\<close> are the packages under
    \<open>pkg/util\<close> (names, images, environment lists, maps, sets, files, programs, process trees, users),
    with \<open>pkg/image\<close>, \<open>pkg/host/nvidia.go\<close> and \<open>pkg/server/envstore.go\<close>; \<open>Caps\<close> and \<open>Logbuf\<close> are
    \<open>pkg/caps\<close> and \<open>pkg/logbuf\<close>; \<open>Prober\<close> is \<open>pkg/prober\<close>; \<open>Mounts\<close> is \<open>pkg/mount\<close>; \<open>Metrics\<close> is
    \<open>pkg/metrics\<close> on 64-bit words.
  \<^item> \<open>Unit_Status\<close> and \<open>Unit_Run\<close> are \<open>pkg/unit/unit.go\<close> and \<open>pipe.go\<close>: a unit's directory and
    status file, and the process that prepares and restarts its command.  What a run keeps is a locale,
    \<open>unit_invariant\<close>, with three interpretations: the unit's identity, the type of its status file, and
    what its command needs to start.  \<open>Runtime_Service\<close> is the interface \<open>pkg/runtime/runtime.go\<close> with
    its contract as a locale, \<open>Runtime_Itzo\<close> the unit manager and the runtime that meets it,
    \<open>Pod_Controller\<close> is \<open>pkg/server/pod_controller.go\<close>, whose update loop, goroutine and wait group
    are a step relation; \<open>Pod_Sync\<close> follows its runs, those that settle and those that do not, over any
    runtime whose operations succeed (the locale \<open>working_runtime\<close>).  In \<open>Pod_Steps\<close> every call of the
    update loop to the runtime is a step, with those of the goroutine and of clients in between; the runs
    of \<open>Pod_Controller\<close> are among its runs, an update that finds no goroutine at work is simulated by
    \<open>Pod_Controller\<close>, and the properties of the controller are stated for these steps.  \<open>Itzo_Works\<close>
    shows that the runtime of this repository, down to the calls it makes, is one that works on a machine
    whose calls succeed: \<open>updates_settle\<close> and \<open>removed_unit_comes_back\<close> speak of the two together.
  \<^item> \<open>Rw_Lock\<close> is an object whose methods run under a \<open>sync.RWMutex\<close>, one step at a time beside other
    threads, with what such an object promises as the locale \<open>rw_methods\<close>; \<open>Conmap\<close> (the template of
    \<open>pkg/util/conmap\<close> and the three maps generated from it) and \<open>Env_Lock\<close> are its interpretations.
    \<open>Log_Race\<close> is the log buffer, which has no lock, with its two writers.
  \<^item> \<open>Convert\<close> and \<open>Podman\<close> are \<open>pkg/convert\<close> and the podman runtime over recorded calls of its client;
    \<open>Mac\<close> is \<open>pkg/runtime/mac\<close>, a runtime that does not meet the contract.
  \<^item> \<open>Cloud\<close> and \<open>Pod_Net\<close> are \<open>pkg/cloud\<close> and \<open>pkg/net\<close>: every netlink call is recorded with the
    namespace it is made in, and a packet is matched against the chains of \<open>iptables\<close>.
  \<^item> \<open>Deploy\<close> is \<open>pkg/server/util.go\<close> (growing the volume, deploying packages, killing helpers),
    \<open>Log_Stream\<close> and \<open>Exec_Cmd\<close> are the streams of logs, attach and exec, \<open>Agents\<close> the helper
    processes and \<open>cmd/itzo\<close>, and \<open>Server\<close> the handlers of \<open>pkg/server/server.go\<close> over all of these.
    \<open>Sessions\<close> has its websocket sessions (attach, exec with a terminal, port-forward with its two copies)
    and the choice of TLS, \<open>Agent_Start\<close> the way from the flags of \<open>cmd/itzo\<close> to the controller and its runtime, and
    \<open>Darwin\<close> what the packages do on macOS, where most of them are stubs.

  Loops that may not end have fuel.  \<open>run_turns\<close> counts restarts of a command: its answer \<open>Running\<close>
  means the count is used up, and the properties say what any answer means, for every count, and for
  which counts there is an answer.  \<open>resolveLinks\<close> counts the absolute links it follows; properties of
  it hold for every count and for the answer \<^term>\<open>None\<close> too.  Loops over the ticks of a timer are
  functions of the list of ticks.  All other functions are total.

  Not modelled: the inside of a terminal, of websockets, of TLS and of the other libraries that are
  called, struct tags, the printing of types, and the three functions of \<open>pkg/api/time.go\<close> that only
  wrap the package \<open>time\<close>.  Floating point is a parameter with the operations the code uses of it.  The
  goroutine that starts units is interleaved with the update loop and with clients between their calls
  to the runtime, not inside one; what two of them write to one Go map at the same time is not given a
  meaning, as Go gives it none.
\<close>

section \<open>Data of the examples\<close>

definition demo_unit :: "string \<Rightarrow> string \<Rightarrow> Unit" where
  "demo_unit name img = zero_Unit\<lparr>Unit_Name := name, Unit_Image := img\<rparr>"

definition demo_params :: "Unit list \<Rightarrow> Unit list \<Rightarrow> PodParameters" where
  "demo_params inits units =
     \<lparr>PodParameters_Secrets = Map.empty, PodParameters_Credentials = Map.empty,
      PodParameters_Spec = zero_PodSpec\<lparr>PodSpec_InitUnits := inits, PodSpec_Units := units\<rparr>,
      PodParameters_Annotations = [UseOverlayfsAnnotationKey \<mapsto> ''false''],
      PodParameters_PodName = ''ns_pod'', PodParameters_NodeName = [], PodParameters_PodIP = [],
      PodParameters_PodHostname = []\<rparr>"

definition demo_itzo :: itzo_os where
  "demo_itzo =
     \<lparr>os_env = (\<lambda>_ _. ok_reply), os_trace = [], it_rootdir = ''/pods'', it_netNS = [], it_podIP = [],
      it_files = (\<lambda>_. Absent), it_running = NewKeyTypeValueType, it_logs = NewKeyTypeValueType\<rparr>"

definition demo_ip :: itzo_params where
  "demo_ip =
     \<lparr>ip_decode_config = (\<lambda>_. Inl (Errorf [])), ip_decode_unit = (\<lambda>_. (zero_UnitConfig, None)),
      ip_encode_unit = (\<lambda>_. Inr []), ip_semver = (\<lambda>_. True), ip_compare = (\<lambda>_ _. 0),
      ip_quote = concat, ip_links = 10\<rparr>"

definition demo_machine :: itzo_os where
  "demo_machine = demo_itzo\<lparr>os_env := (\<lambda>_ _. ok_reply\<lparr>reply_ints := [200]\<rparr>)\<rparr>"

lemma demo_machine_good: "itzo_good demo_ip demo_machine" "itzo_shelf demo_machine = Map.empty"
  by (simp_all add: itzo_good_def works_def demo_machine_def demo_itzo_def demo_ip_def ok_reply_def
      um_UnitRunning_def itzo_shelf_def fun_eq_iff NewKeyTypeValueType_def conmap_GetOK_def)

lemma demo_accepted:
  assumes "distinct (map Unit_Name us)" "\<forall>u \<in> set us. Unit_VolumeMounts u = []" "\<forall>u \<in> set us. Unit_Env u = []"
  shows "sv_accepts (itzo_view ip) (demo_params [] us)" "wanted (demo_params [] us) = us"
proof -
  have "wanted (demo_params [] us) = us"
    using assms(3)
    by (simp add: wanted_def merged_spec_def MergeSecretsIntoSpec_def demo_params_def Let_def map_idI)
  then show "sv_accepts (itzo_view ip) (demo_params [] us)" "wanted (demo_params [] us) = us"
    using assms(1,2) by (simp_all add: sv_accepts_def simple_update_def)
      (simp add: demo_params_def merged_spec_def MergeSecretsIntoSpec_def zero_PodSpec_def)
qed

definition demo_replies :: "net_log \<Rightarrow> net_call \<Rightarrow> net_reply" where
  "demo_replies l c =
     \<lparr>nr_err = None, nr_handle = (if c = Netns_GetFromPid then 1 else 7),
      nr_link = \<lparr>Link_Name = ''eth0'', Link_Index = 1, Link_HardwareAddr = []\<rparr>, nr_nics = [],
      nr_addrs = None\<rparr>"

definition demo_net :: net_os where
  "demo_net = \<lparr>net_ns = 1, net_env = demo_replies, net_log = []\<rparr>"

definition demo_sp :: "itzo_os server_params" where
  "demo_sp =
     \<lparr>sp_runtime = itzo_runtime demo_ip,
      sp_metrics = \<lparr>mp_ReadSystemMetrics = (\<lambda>_. Map.empty), mp_ReadUnitMetrics = (\<lambda>_. Map.empty)\<rparr>,
      sp_GetLogBuffer = itzo_GetLogBuffer, sp_Decode = (\<lambda>_. Inl (Errorf [])),
      sp_Marshal = (\<lambda>_. Inr []), sp_parse_url = (\<lambda>p. Inr (p, \<lambda>_. [])), sp_parse6 = (\<lambda>_. None),
      sp_pretty = Link_Name,
      sp_ipt = \<lparr>EnsureChain = (\<lambda>_ _. return (False, None)), FlushChain = (\<lambda>_ _. return None),
                EnsureRule = (\<lambda>_ _ _ _. return (False, None))\<rparr>,
      sp_cloud = Inl (Errorf []), sp_files = (\<lambda>f. Inl (ErrNotExist f)), sp_untar = (\<lambda>_. Inr []),
      sp_is_semver = (\<lambda>_. True), sp_compare = (\<lambda>_ _. 0), sp_walk = (\<lambda>_. []), sp_madd = (\<lambda>_ e. e),
      sp_quote = (\<lambda>s. s)\<rparr>"

definition demo_server :: "itzo_os server" where
  "demo_server =
     \<lparr>sv_installRootdir = ''/pods'', sv_lastMetricTime = 0, sv_primaryIP = [], sv_secondaryIP = [],
      sv_podIP = [], sv_podNetworkInterface = [], sv_networkAgent = False,
      sv_podController = (NewPodController demo_itzo)
        \<lparr>pc_podStatus := zero_PodSpec\<lparr>PodSpec_Units := [demo_unit ''web'' ''nginx'']\<rparr>\<rparr>,
      sv_net = demo_net, sv_os = calm\<rparr>"

definition demo_request :: "string \<Rightarrow> string \<Rightarrow> request" where
  "demo_request method path =
     \<lparr>rq_Method = method,
      rq_URL = \<lparr>ReqURL_RawQuery = [], ReqURL_Path = path, ReqURL_String = path\<rparr>,
      rq_Form = (\<lambda>_. []), rq_Body = [], rq_FormFile = Inr [], rq_Upgrade = None\<rparr>"

text \<open>A controller that has been sent one update.\<close>

definition sent_update :: "'s \<Rightarrow> PodParameters \<Rightarrow> 's ctl" where
  "sent_update w params = (init_ctl w)\<lparr>ct_pc := final (UpdatePod params) (NewPodController w)\<rparr>"

lemma sent_update_reachable: "ctl_steps rt (init_ctl w) (sent_update w params)"
  using ctl_steps_one [OF ctl_step.sent [of rt "init_ctl w" params]]
  by (simp add: init_ctl_def sent_update_def)

section \<open>An update from the request to the running units\<close>





section \<open>The pod controller\<close>

text \<open>
  C3. In every state the controller can reach, at most one goroutine is starting units, the wait
  group counts it, and the update loop, once it waits for the goroutine of the update before, starts
  the next one only after that has ended.
\<close>

theorem one_goroutine:
  assumes "ctl_steps rt (init_ctl w) s"
  shows "ct_wg s \<le> 1 \<and> (ct_worker s \<noteq> None \<longrightarrow> ct_wg s = 1) \<and>
     (\<forall>a t i u spec p. ctl_step rt a s t \<longrightarrow> ct_loop s = L_wait i u spec p \<longrightarrow> ct_loop t = L_idle \<longrightarrow>
        ct_worker s = None)"
proof -
  have inv: "ct_wg_inv s" using ctl_steps_wg [OF assms init_ctl_wg] .
  have "ct_worker s = None"
    if "ctl_step rt a s t" "ct_loop s = L_wait i u spec p" "ct_loop t = L_idle" for a t i u spec p
    using that inv by (cases rule: ctl_step.cases) (auto simp: ct_wg_inv_def)
  with inv show ?thesis by (auto simp: ct_wg_inv_def)
qed

theorem one_goroutine_witness: "ct_wg (sent_update ([] :: rt_call list) (demo_params [] [])) \<le> 1"
  using one_goroutine [OF sent_update_reachable [of log_rt]] by simp

text \<open>
  C4. The wait group leaks.  A goroutine that is cancelled while it waits for an init unit returns
  without \<open>Done\<close>: when a first update with an init unit is followed by one with other init units, and
  the first init unit has not finished, the controller can reach a state in which the second update
  waits, and it waits for ever, whatever happens: no goroutine ever runs again.
\<close>

theorem update_deadlock:
  assumes "PodSpec_InitUnits (PodParameters_Spec p1) \<noteq> []"
    and "\<not> unitsSlicesEqual (PodSpec_InitUnits (merged_spec p2)) (PodSpec_InitUnits (merged_spec p1))"
  shows "\<exists>s i u spec. ctl_steps log_rt (init_ctl []) s \<and> ct_loop s = L_wait i u spec p2 \<and>
     (\<forall>t. ctl_steps log_rt s t \<longrightarrow> ct_loop t = L_wait i u spec p2 \<and> ct_worker t = None)"
proof -
  obtain s i u spec where s: "sys_steps log_rt (init_sys []) s" "leaked s"
      "sys_main s = M_wait i u spec p2"
    using leak_run [OF assms] by blast
  then have leaked: "ct_leaked (embed s)" "ct_loop (embed s) = L_wait i u spec p2"
    by (simp_all add: leaked_def ct_leaked_def)
  have "ct_loop t = L_wait i u spec p2 \<and> ct_worker t = None" if "ctl_steps log_rt (embed s) t" for t
    using ctl_steps_leaked [OF that leaked] by (simp add: ct_leaked_def)
  with init_steps [OF s(1)] leaked(2) show ?thesis by blast
qed

theorem update_deadlock_witness:
  "\<exists>s i u spec. ctl_steps log_rt (init_ctl []) s \<and>
     ct_loop s = L_wait i u spec (demo_params [demo_unit ''init'' ''b''] []) \<and>
     (\<forall>t. ctl_steps log_rt s t \<longrightarrow>
        ct_loop t = L_wait i u spec (demo_params [demo_unit ''init'' ''b''] []) \<and> ct_worker t = None)"
proof -
  have "PodSpec_InitUnits (PodParameters_Spec (demo_params [demo_unit ''init'' ''a''] [])) \<noteq> []"
    by (simp add: demo_params_def)
  moreover have "\<not> unitsSlicesEqual
      (PodSpec_InitUnits (merged_spec (demo_params [demo_unit ''init'' ''b''] [])))
      (PodSpec_InitUnits (merged_spec (demo_params [demo_unit ''init'' ''a''] [])))"
    by (simp add: demo_params_def demo_unit_def merged_spec_def MergeSecretsIntoSpec_def
        unitsSlicesEqual_def unitsEqual_def Let_def)
  ultimately show ?thesis by (rule update_deadlock)
qed





text \<open>
  What an update is: a restart exactly when the init units differ by name or image somewhere;
  else a creation when no unit is known yet; else a change of units exactly when the units differ.
\<close>

theorem change_type:
  "detectChangeType spec status =
     (if \<not> unitsSlicesEqual (PodSpec_InitUnits spec) (PodSpec_InitUnits status)
      then UpdateTypePodRestart
      else if PodSpec_Units status = [] \<and> PodSpec_InitUnits status = [] then UpdateTypePodCreate
      else if unitsSlicesEqual (PodSpec_Units spec) (PodSpec_Units status)
      then UpdateTypeNoChanges else UpdateTypeUnitsChange)"
  by (rule detectChangeType_cases)

text \<open>
  C8. With the runtime of this repository the controller never dereferences a nil status: neither an
  update, nor the goroutine that starts units, nor a request for the pod's status, whose answer has
  one status for every unit.
\<close>

theorem controller_never_crashes:
  assumes "ctl_steps (itzo_runtime ip) (init_ctl w) s"
  shows "\<not> pc_crashed (ct_pc s) \<and>
     (\<exists>ss iss. result (pc_GetStatus (itzo_runtime ip)) (ct_pc s) = Ret (ss, iss) \<and>
        length ss = length (PodSpec_Units (pc_podStatus (ct_pc s))) \<and>
        length iss = length (PodSpec_InitUnits (pc_podStatus (ct_pc s))))"
proof -
  have "alive (ct_pc (init_ctl w))"
    by (simp add: alive_def init_ctl_def NewPodController_def)
  with itzo_alive_ctl_steps [OF assms] show ?thesis
    using itzo.GetStatus_total by (simp add: alive_def)
qed

theorem controller_never_crashes_witness:
  "\<not> pc_crashed (ct_pc (sent_update demo_itzo (demo_params [] [])))"
  using controller_never_crashes [OF sent_update_reachable [of "itzo_runtime demo_ip"]] by blast

text \<open>
  C9. With Anka as the runtime the first init unit of a pod takes the agent down: containers are created
  for the regular units only, so the init unit has no machine, starting it gives an error with a nil
  status, and the controller dereferences that status.
\<close>

theorem anka_init_crash:
  assumes "UnitsVMIDs w = Map.empty"
    "fst (snd (result (update_prepare (anka_runtime mp) params) (NewPodController w))) =
       Some (u # us, units)"
    "Unit_Name u \<notin> Unit_Name ` set (PodSpec_Units (PodParameters_Spec params))"
  shows "\<exists>s. ctl_steps (anka_runtime mp) (init_ctl w) s \<and> pc_crashed (ct_pc s)"
proof -
  obtain s where "sys_steps (anka_runtime mp) (init_sys w) s" "pc_crashed (sys_pc s)"
    using anka_crash_run [OF assms] by blast
  with init_steps show ?thesis by fastforce
qed

definition demo_mac :: mac_params where
  "demo_mac =
     \<lparr>mp_decode_base = (\<lambda>_. Inl (Errorf [])), mp_decode_show = (\<lambda>_. Inr
        \<lparr>Resp_Message = [], Resp_Status = AnkaStatusOK,
         Show_Body = \<lparr>Show_Base = \<lparr>Resp_Message = [], Resp_Status = []\<rparr>, Show_Name = [],
           Show_CreationDate = [], Show_CPUCores = 1, Show_CPUFrequency = 0, Show_CPUHtt = False,
           Show_RAM = [], Show_RAMSize = 0, Show_FrameBuffers = 0, Show_HardDrive = 0,
           Show_ImageSize = 0, Show_Encrypted = False, Show_Status = ''running'', Show_StopDate = []\<rparr>\<rparr>),
      mp_parse_url = Some, mp_parse_time = (\<lambda>_. None), mp_now = 0\<rparr>"

theorem anka_init_crash_witness:
  "\<exists>s. ctl_steps (anka_runtime demo_mac) (init_ctl (NewMacRuntime calm)) s \<and> pc_crashed (ct_pc s)"
proof (rule anka_init_crash)
  let ?p = "demo_params [demo_unit ''init'' ''reg/a''] [demo_unit ''web'' ''reg/b'']"
  show "UnitsVMIDs (NewMacRuntime calm) = Map.empty"
    by (simp add: NewMacRuntime_def os.defs)
  show "fst (snd (result (update_prepare (anka_runtime demo_mac) ?p)
      (NewPodController (NewMacRuntime calm)))) =
    Some ([demo_unit ''init'' ''reg/a''], [demo_unit ''web'' ''reg/b''])"
    by code_simp
  show "Unit_Name (demo_unit ''init'' ''reg/a'') \<notin> Unit_Name ` set (PodSpec_Units (PodParameters_Spec ?p))"
    by (simp add: demo_params_def demo_unit_def)
qed

text \<open>
  An agent that is told to use podman whose socket does not answer takes itself down: the error is
  only logged and the controller that was not made is started.  It is the only way in which starting the
  agent fails.
\<close>

lemma unreachable_podman:
  "agent mc f = Some (Crashed_at_start e) \<longleftrightarrow>
     fl_appcmdline f = '''' \<and> \<not> fl_version f \<and> fl_usePodman f \<and> \<not> fl_useAnka f \<and>
     mc_connect mc (if mc_socket mc = '''' then ''unix:/run/podman/podman.sock'' else mc_socket mc) = Inl e"
  by (rule agent_crashes)

text \<open>
  C10. The queue of updates never holds more than a hundred, and a client's update is refused exactly
  when it is full; an accepted update is the last of the queue.
\<close>

theorem update_queue_bounded:
  assumes "ctl_steps rt (init_ctl w) s"
  shows "length (pc_updateChan (ct_pc s)) \<le> specChanSize \<and>
     (result (UpdatePod params) (ct_pc s) \<noteq> None \<longleftrightarrow>
        length (pc_updateChan (ct_pc s)) = specChanSize) \<and>
     (result (UpdatePod params) (ct_pc s) = None \<longrightarrow>
        pc_updateChan (final (UpdatePod params) (ct_pc s)) = pc_updateChan (ct_pc s) @ [params])"
proof -
  have "length (pc_updateChan (ct_pc s)) \<le> specChanSize"
    using ctl_steps_chan [OF assms] by (simp add: init_ctl_def NewPodController_def)
  then show ?thesis by (simp add: UpdatePod_result UpdatePod_chan)
qed

theorem update_queue_bounded_witness:
  "result (UpdatePod (demo_params [] [])) (ct_pc (init_ctl ([] :: rt_call list))) = None"
  using update_queue_bounded [OF ctl_steps.refl [of log_rt "init_ctl []"], of "demo_params [] []"]
  by (simp add: init_ctl_def NewPodController_def)

text \<open>
  C11. An update that comes too early leaves units of the one before running.  The goroutine of an
  update does not look whether it has been cancelled before it starts a unit, and starting does not ask
  whether the unit is there: it makes the unit's directory anew.  On a machine whose calls succeed,
  when the next update has no unit with the name of this one's first, the controller can get to a
  state in which it has nothing left to do, its status has exactly the units of the next update, and
  any chosen unit of the overtaken one runs.
\<close>

theorem removed_unit_comes_back:
  assumes "itzo_good ip w" "itzo_shelf w = Map.empty"
    and "sv_accepts (itzo_view ip) p1" "u \<in> set (wanted p1)" "sv_accepts (itzo_view ip) p2"
    and "Unit_Name (hd (wanted p1)) \<notin> Unit_Name ` set (wanted p2)"
  shows "\<exists>s. ctl_steps (itzo_runtime ip) (init_ctl w) s \<and> \<not> (\<exists>t. ctl_goes (itzo_runtime ip) s t) \<and>
     PodSpec_Units (pc_podStatus (ct_pc s)) = wanted p2 \<and> um_UnitRunning (Unit_Name u) (pc_world (ct_pc s))"
  using assms by (rule removed_unit_runs)

theorem removed_unit_comes_back_witness:
  "\<exists>s. ctl_steps (itzo_runtime demo_ip) (init_ctl demo_machine) s \<and>
     \<not> (\<exists>t. ctl_goes (itzo_runtime demo_ip) s t) \<and>
     map Unit_Name (PodSpec_Units (pc_podStatus (ct_pc s))) = [''api''] \<and>
     um_UnitRunning ''web'' (pc_world (ct_pc s))"
proof -
  let ?web = "demo_unit ''web'' ''nginx''" and ?new = "demo_unit ''api'' ''httpd''"
  have p1: "sv_accepts (itzo_view demo_ip) (demo_params [] [?web])" "wanted (demo_params [] [?web]) = [?web]"
    by (rule demo_accepted; simp add: demo_unit_def zero_Unit_def)+
  have p2: "sv_accepts (itzo_view demo_ip) (demo_params [] [?new])" "wanted (demo_params [] [?new]) = [?new]"
    by (rule demo_accepted; simp add: demo_unit_def zero_Unit_def)+
  have u: "?web \<in> set (wanted (demo_params [] [?web]))" by (simp add: p1)
  have first: "Unit_Name (hd (wanted (demo_params [] [?web]))) \<notin>
      Unit_Name ` set (wanted (demo_params [] [?new]))"
    by (simp add: p1 p2) (simp add: demo_unit_def)
  show ?thesis
    using removed_unit_comes_back [OF demo_machine_good p1(1) u p2(1) first]
    unfolding p2(2) by (auto simp: demo_unit_def)
qed

text \<open>
  C12. A restarted unit can be lost.  The goroutine that waits for a unit's helper removes the unit's
  name from the table of running units when the helper has ended, whatever stands there by then: if the
  unit has been removed, created and started again, the name is that of the new helper.  After this,
  the unit counts as one that does not run, and stopping it is an error and kills nothing.
\<close>

theorem late_exit_hides_unit:
  assumes "itzo_good ip w" "itzo_shelf w (Unit_Name u) = Some (img, False)"
    and "Unit_Name v = Unit_Name u" "Unit_VolumeMounts v = []"
    and "w1 = final (do {
           rt_StartContainer (itzo_runtime ip) u spec podName;
           it_RemoveContainer ip u;
           it_CreateContainer ip v spec podName creds overlay;
           rt_StartContainer (itzo_runtime ip) v spec podName
         }) w"
    and "w2 = final (um_exited (Unit_Name u)) w1"
  shows "itzo_shelf w1 (Unit_Name u) = Some (repo_of (Unit_Image v), True) \<and>
     \<not> um_UnitRunning (Unit_Name u) w2 \<and>
     result (um_StopUnit ip (Unit_Name u)) w2 \<noteq> None \<and> final (um_StopUnit ip (Unit_Name u)) w2 = w2"
proof -
  define a where "a = final (rt_StartContainer (itzo_runtime ip) u spec podName) w"
  define b where "b = final (it_RemoveContainer ip u) a"
  define c where "c = final (it_CreateContainer ip v spec podName creds overlay) b"
  have "itzo_good ip a" using start_works [OF assms(1,2)] by (simp add: a_def)
  from remove_works [OF this, of u] have b: "itzo_good ip b" "itzo_shelf b (Unit_Name v) = None"
    using assms(3) by (simp_all add: b_def)
  note c = create_works [OF b(1) assms(4) b(2), of spec podName creds overlay, folded c_def]
  have w1: "w1 = final (rt_StartContainer (itzo_runtime ip) v spec podName) c"
    using assms(5) by (simp add: a_def b_def c_def)
  have "itzo_shelf w1 (Unit_Name v) = Some (repo_of (Unit_Image v), True)"
    using start_works [OF c(2), of v "repo_of (Unit_Image v)" False spec podName] c(3) by (simp add: w1)
  moreover have "works (os_env c)" using c(2) by (simp add: itzo_good_def)
  note late_exit [OF this w1, of w2]
  ultimately show ?thesis using assms(3,6) by simp
qed

theorem late_exit_hides_unit_witness:
  "\<exists>w. itzo_shelf w ''web'' = Some (''library/httpd'', True) \<and>
     result (um_StopUnit demo_ip ''web'') (final (um_exited ''web'') w) \<noteq> None"
proof -
  let ?u = "demo_unit ''web'' ''nginx''" and ?v = "demo_unit ''web'' ''httpd''"
  let ?w = "final (it_CreateContainer demo_ip ?u zero_PodSpec ''ns_pod'' Map.empty False) demo_machine"
  have plain: "Unit_VolumeMounts ?u = []" "Unit_VolumeMounts ?v = []" "Unit_Name ?v = Unit_Name ?u"
    by (simp_all add: demo_unit_def zero_Unit_def)
  have "itzo_shelf demo_machine (Unit_Name ?u) = None" by (simp add: demo_machine_good)
  note w = create_works [OF demo_machine_good(1) plain(1) this, of zero_PodSpec "''ns_pod''" Map.empty False]
  have "itzo_shelf ?w (Unit_Name ?u) = Some (repo_of ''nginx'', False)"
    using w(3) by (simp add: demo_unit_def)
  note r = late_exit_hides_unit [OF w(2) this plain(3,2) HOL.refl HOL.refl]
  have names: "Unit_Name ?u = ''web''" "repo_of (Unit_Image ?v) = ''library/httpd''"
    by (simp add: demo_unit_def) (simp add: demo_unit_def, code_simp)
  note r = r [unfolded names]
  show ?thesis
    by (rule exI, rule conjI, rule r [THEN conjunct1], rule r [THEN conjunct2, THEN conjunct2, THEN conjunct1])
qed

text \<open>
  With a runtime that gives an error for a unit that has not been created, an update that comes too
  early costs the pod a unit: the goroutine ends at the first unit that does not start, and the units
  that both updates have are never started, although the controller has nothing left to do.
\<close>

lemma early_update_loses_start:
  assumes "simple_update p1" "wanted p1 = u # rest" "simple_update p2"
    and "Unit_Name u \<notin> Unit_Name ` set (wanted p2)"
    and "v \<in> set rest" "v \<notin> set (changed (wanted p1) (wanted p2))"
  shows "\<exists>s. sys_steps ideal_rt (init_sys Map.empty) s \<and> \<not> (\<exists>t. quiet_step ideal_rt s t) \<and>
     PodSpec_Units (pc_podStatus (sys_pc s)) = wanted p2 \<and> Unit_Name v \<in> Unit_Name ` set (wanted p2) \<and>
     pc_world (sys_pc s) (Unit_Name v) = Some (Unit_Image v, False)"
  using late_start_lost [OF assms] .

lemma early_update_loses_start_witness:
  "\<exists>s. sys_steps ideal_rt (init_sys Map.empty) s \<and> \<not> (\<exists>t. quiet_step ideal_rt s t) \<and>
     pc_world (sys_pc s) ''db'' = Some (''pg'', False)"
proof -
  let ?web = "demo_unit ''web'' ''nginx''" and ?db = "demo_unit ''db'' ''pg''"
  let ?new = "demo_unit ''api'' ''httpd''"
  let ?p1 = "demo_params [] [?web, ?db]" and ?p2 = "demo_params [] [?new, ?db]"
  have w: "wanted ?p1 = [?web, ?db]" "wanted ?p2 = [?new, ?db]"
    by (simp_all add: Let_def zero_Unit_def wanted_def merged_spec_def MergeSecretsIntoSpec_def demo_params_def demo_unit_def)
  have s: "simple_update ?p1" "simple_update ?p2"
    by (simp_all add: simple_update_def demo_params_def demo_unit_def)
  have u: "Unit_Name ?web \<notin> Unit_Name ` set (wanted ?p2)"
    unfolding w by (simp add: demo_unit_def)
  have v: "?db \<in> set [?db]" "?db \<notin> set (changed (wanted ?p1) (wanted ?p2))"
    unfolding w by (simp_all add: changed_def same_at_def unitsEqual_def upt_rec demo_unit_def zero_Unit_def)
  show ?thesis
    using early_update_loses_start [OF s(1) w(1) s(2) u v] by (auto simp: demo_unit_def)
qed

text \<open>
  C13. Merging secrets gives every unit the variables that have a value, in their order: a plain
  variable its own, a variable that refers to a secret that secret's; the others are dropped, no
  reference is left, and merging again changes nothing.
\<close>

theorem merged_environment:
  "map (\<lambda>ev. (EnvVar_Name ev, EnvVar_Value ev)) (merge_env secrets evs) =
     List.map_filter (\<lambda>ev. map_option (\<lambda>v. (EnvVar_Name ev, v)) (secret_value secrets ev)) evs \<and>
   list_all (\<lambda>ev. EnvVar_ValueFrom ev = None) (merge_env secrets evs) \<and>
   merge_env secrets' (merge_env secrets evs) = merge_env secrets evs"
  using merge_env_plain by (auto simp: merge_env_values merge_env_idem list_all_iff)

section \<open>Running a unit\<close>

text \<open>
  C14. A unit's name and image never change while it runs: if the status file agrees with the unit
  before \<open>Run\<close>, it agrees after it, however the system calls, the command and the probes behave.
\<close>

theorem unit_identity:
  assumes "consistent n i u"
  shows "consistent n i (final (Run p a) u)"
  using identity.Run_keeps assms by (rule preservesD)

definition demo_u :: unit_os where
  "demo_u =
     \<lparr>os_env = (\<lambda>_ _. ok_reply), os_trace = [], u_Directory = ''/pods/web'', u_Name = ''web'',
      u_Image = ''nginx'', u_statusPath = ''/pods/web/status'', u_config = None,
      u_unitConfig = zero_UnitConfig, u_stdinPath = [], u_Pipes = (\<lambda>_. False), u_file = Absent\<rparr>"

definition demo_env :: cmd_env where
  "demo_env =
     \<lparr>ce_caps = [], ce_events = (\<lambda>_. [Cmd_done (Some (ExitError 3))]), ce_processes = (\<lambda>_. Inr []),
      ce_kill = (\<lambda>_ _. None), ce_append = (\<lambda>_ e. e), ce_fs = (\<lambda>_. Inl (ErrNotExist []))\<rparr>"

definition demo_run :: run_params where
  "demo_run = cmd_env.extend demo_env
     \<lparr>rp_is_semver = (\<lambda>_. True), rp_compare = (\<lambda>_ _. 0),
      rp_host = \<lparr>Lookup = (\<lambda>_. (None, Some (Errorf []))), LookupId = (\<lambda>_. (None, Some (Errorf []))),
                 LookupGroup = (\<lambda>_. (None, Some (Errorf []))),
                 LookupGroupId = (\<lambda>_. (None, Some (Errorf [])))\<rparr>,
      rp_fuel = 5\<rparr>"

definition demo_args :: run_args where
  "demo_args = \<lparr>ra_podname = ''ns_pod'', ra_hostname = [], ra_command = [''/bin/web''],
     ra_workingdir = [], ra_policy = RestartPolicyNever, ra_basedir = ''/pods'', ra_environ = []\<rparr>"

theorem unit_identity_witness:
  "consistent ''web'' ''nginx'' (final (Run demo_run demo_args) demo_u)"
  by (rule unit_identity) (simp add: consistent_def demo_u_def)



text \<open>
  C16. On a disk that can be read and written, the status after a command has ended is terminated with
  the exit code and reason of the report, for the current and the last termination; the unit is
  neither ready nor started, and its restart count is what it was.
\<close>

theorem status_after_exit:
  assumes "disk_ok u"
  shows "\<exists>st t. u_file (final (handleCmdCleanup env k pid r policy startTime) u) = Holds st \<and>
     UnitState_Terminated (UnitStatus_State st) = Some t \<and>
     UnitStatus_LastTerminationState st = UnitStatus_State st \<and>
     UnitStateTerminated_ExitCode t = int32 (fst (snd (exit_report r))) \<and>
     UnitStateTerminated_Reason t = snd (snd (exit_report r)) \<and>
     UnitState_Running (UnitStatus_State st) = None \<and> UnitState_Waiting (UnitStatus_State st) = None \<and>
     \<not> UnitStatus_Ready st \<and> UnitStatus_Started st = Some False \<and>
     UnitStatus_RestartCount st = UnitStatus_RestartCount (current u)"
  using assms by (rule handleCmdCleanup_status)

theorem status_after_exit_witness:
  "\<exists>st t. u_file (final (handleCmdCleanup demo_env 0 7 (Some (ExitError 3), None)
       RestartPolicyAlways 0) demo_u) = Holds st \<and>
     UnitState_Terminated (UnitStatus_State st) = Some t \<and> UnitStateTerminated_ExitCode t = 3"
proof -
  have "disk_ok demo_u" by (simp add: disk_ok_def demo_u_def)
  from status_after_exit [OF this, of demo_env 0 7 "(Some (ExitError 3), None)" RestartPolicyAlways 0]
  show ?thesis by (auto simp: exit_report_def int32_id)
qed



text \<open>
  C18. When the loop ends: if the command can be started and each of its first starts ends, the loop
  returns after at most \<open>n + 1\<close> turns, under the policy Never, or under OnFailure once the start with
  number \<open>n\<close> ends without a failure, whatever became of the ones before.
\<close>

theorem loop_returns:
  assumes "command \<noteq> []" "starts command caplist u" "\<And>k. k \<le> n \<Longrightarrow> ends (ce_events env k)"
    "policy = RestartPolicyNever \<or> policy = RestartPolicyOnFailure \<and> ends_clean (ce_events env n)"
    "n < m"
  shows "\<exists>e. result (RunUnitLoop env m command caplist uid gid groups policy) u = Exited e"
  using run_turns_returns [OF assms(2), of 0 n env m policy uid gid groups time_Second] assms
  by (simp add: RunUnitLoop_def)

theorem loop_returns_witness:
  "\<exists>e. result (RunUnitLoop (demo_env\<lparr>ce_events := (\<lambda>k. [Cmd_done (if k < 2 then Some (ExitError 3) else None)])\<rparr>)
     3 [''/bin/web''] [] 0 0 [] RestartPolicyOnFailure) demo_u = Exited e"
  by (rule loop_returns [where n = 2]) (simp_all add: starts_def demo_u_def ends_def ends_clean_def)

text \<open>
  C19. Every pause between two starts of a command is at least a second and at most five minutes.
\<close>

theorem backoff_bounds:
  assumes "Sys_Sleep t \<in> set (os_trace (final
     (RunUnitLoop env n command caplist uid gid groups policy) u))" "os_trace u = []"
  shows "1000000000 \<le> t \<and> t \<le> 300000000000"
proof (cases "command = []")
  case False
  then have "sleep_ok (Sys_Sleep t)"
    using assms run_turns_sleep_ok [of time_Second "Sys_Sleep t" env n command caplist uid gid groups
        policy 0 u]
    by (simp add: RunUnitLoop_def backoff_ok_def)
  then show ?thesis by (simp add: backoff_ok_def)
qed (use assms in \<open>simp add: RunUnitLoop_def\<close>)

theorem backoff_bounds_witness:
  "\<exists>t. Sys_Sleep t \<in> set (os_trace (final
       (RunUnitLoop demo_env 1 [''/bin/web''] [] 0 0 [] RestartPolicyAlways) demo_u)) \<and>
     1000000000 \<le> t \<and> t \<le> 300000000000"
proof -
  have m: "Sys_Sleep 2000000000 \<in> set (os_trace (final
       (RunUnitLoop demo_env 1 [''/bin/web''] [] 0 0 [] RestartPolicyAlways) demo_u))"
    by code_simp
  have "os_trace demo_u = []" by (simp add: demo_u_def)
  with backoff_bounds [OF m] m show ?thesis by blast
qed

section \<open>Packages and the network\<close>


definition demo_header :: "string \<Rightarrow> string \<Rightarrow> tar_header" where
  "demo_header name data =
     \<lparr>th_Name = name, th_Typeflag = TypeReg, th_Mode = 420, th_Uid = 0, th_Gid = 0, th_Linkname = [],
      th_Size = length data, th_Reads = [(data, None)]\<rparr>"


text \<open>
  C21. An entry that climbs is written where it points: a package with the file
  \<open>ROOTFS/../../../../etc/passwd\<close> replaces the users of the machine.
\<close>

theorem package_escapes:
  "Io_WriteFile ''/etc/passwd'' data 420 \<in> set (os_trace (final
     (DeployPackage (\<lambda>_. Inr [Header (demo_header ''ROOTFS/../../../../etc/passwd'' data)]) filename
        ''/tmp/itzo/units'' ''web'') calm))"
proof -
  have dest: "filepath_Join [''/tmp/itzo/units'', ''..'', ''packages'', ''web''] = ''/tmp/itzo/packages/web''"
    and name: "filepath_Join [''/tmp/itzo/packages/web'', ''../../../../etc/passwd''] = ''/etc/passwd''"
    by code_simp+
  have "read_data (length data) [] [(data, None)] = Data data"
    by simp
  then show ?thesis
    by (simp add: DeployPackage_def doDeployPackage_def deploy_entry_def demo_header_def dest name
        ROOTFS_prefix_def Let_def)
qed

text \<open>
  C22. The masquerading of a pod: with any table of chains that keeps the laws of \<open>iptables\<close>, when the
  set-up gives no error the chain of the pod decides every packet as one rule would: masqueraded exactly
  when it leaves by the main interface, comes from the address of the pod, and does not go to one of
  the three private networks; and the postrouting chain jumps to it.
\<close>

theorem masquerade:
  assumes "ipt_laws ipt tab" "result (masq_chain ipt mainNic podIP) w = None"
  shows "map_option (chain_verdict p) (tab (final (masq_chain ipt mainNic podIP) w) podMasqChain) =
      Some (Some (if pk_out p = mainNic \<and> parse_ip podIP = Some (pk_src p) \<and> \<not> private_ip (pk_dst p)
                  then ''MASQUERADE'' else ''RETURN'')) \<and>
    (\<exists>rs. tab (final (masq_chain ipt mainNic podIP) w) ChainPostrouting = Some rs \<and>
       [''-j'', podMasqChain] \<in> set rs)"
  using masq_chain_rules [OF assms] by (simp add: masq_verdict)

definition demo_ipt :: ipt_os where
  "demo_ipt = \<lparr>net_ns = 1, net_env = demo_replies, net_log = [],
     ipt_table = [ChainPostrouting \<mapsto> []]\<rparr>"

theorem masquerade_witness:
  "map_option (chain_verdict \<lparr>pk_out = ''eth0'', pk_src = 0, pk_dst = 0\<rparr>)
     (ipt_table (final (masq_chain nat_table ''eth0'' ''10.0.0.5'') demo_ipt) podMasqChain) =
   Some (Some ''RETURN'')"
proof -
  have "result (masq_chain nat_table ''eth0'' ''10.0.0.5'') demo_ipt = None"
    by code_simp
  from masquerade [OF nat_table_laws this, of "\<lparr>pk_out = ''eth0'', pk_src = 0, pk_dst = 0\<rparr>"]
  show ?thesis by (simp add: parse_ip_def octet_def is_digit_def digits_val_def)
qed

text \<open>
  C23. The pod's end of the virtual cable is configured in the pod's namespace: if the namespace of the
  agent can be named and entered, making the cable leaves the agent in its own namespace whatever
  fails, addresses and neighbours are only added in the pod's namespace, links only made in the
  agent's, and the agent never enters a third one.
\<close>

theorem veth_in_namespaces:
  assumes "can_return (net_env w) (net_ns w)"
    "h = nr_handle (net_env w (net_log w) (Netns_GetFromName (NSName ns)))"
  shows "net_ns (final (CreateVeth pretty ns ipaddr) w) = net_ns w \<and>
    (\<exists>cs. net_log (final (CreateVeth pretty ns ipaddr) w) = net_log w @ cs \<and>
       list_all (placed (net_ns w) h) cs)"
  using veth_placed [OF assms, of pretty ipaddr] by auto

theorem veth_in_namespaces_witness:
  "net_ns (final (CreateVeth Link_Name (NewOSNetNamespacer ''pod'') ''10.0.0.5'') demo_net) = 1"
proof -
  have "can_return (net_env demo_net) (net_ns demo_net)"
    by (simp add: can_return_def demo_net_def demo_replies_def)
  from veth_in_namespaces [OF this, of _ "NewOSNetNamespacer ''pod''" Link_Name "''10.0.0.5''", OF HOL.refl]
  show ?thesis by (simp add: demo_net_def)
qed

section \<open>Processes, logs, probes\<close>

text \<open>
  C24. Killing a process tree: the processes killed are exactly the descendants of the given one in
  the process list, itself last, and the result is nil exactly when every kill was answered with
  success.
\<close>

theorem kill_tree:
  "\<exists>ks. snd (KillProcessTree (Inr ps) kp madd p) = ks @ [p] \<and>
     insert p (set ks) = descendants ps p \<and>
     (fst (KillProcessTree (Inr ps) kp madd p) = None \<longleftrightarrow> kills_ok kp [] (ks @ [p]))"
proof -
  obtain ks where ks: "snd (killProcessTree kp madd p ps None []) = ks @ [p]"
      "insert p (set ks) = descendants ps p"
    using kill_killed(1) [of kp madd p ps None "[]"] by auto
  moreover have "fst (killProcessTree kp madd p ps None []) = None \<longleftrightarrow> kills_ok kp [] (ks @ [p])"
    using kill_result(1) [of kp madd p ps None "[]"] ks(1) by auto
  ultimately show ?thesis by (auto simp: KillProcessTree_def)
qed

text \<open>
  C25. A log buffer of any capacity and any number of writes: no write or read panics, a client that
  asks for what is new since offset \<open>i\<close> gets every entry from \<open>i\<close> on that is among the last
  \<open>capacity\<close> ones, in order, and the offset to ask with next.
\<close>

theorem log_since:
  assumes "0 < c" "c < 2 ^ 62" "NewLogBuffer c = Some lb" "length ws < 2 ^ 62"
  shows "\<exists>lb'. write_all ws lb = Some lb' \<and>
     ReadSince lb' (int i) = Some (drop (max i (length ws - nat c)) (entries ws), int (length ws))"
proof -
  obtain lb' where "write_all ws lb = Some lb'" "repr lb' (entries ws)" "LogBuffer_capacity lb' = c"
    using write_all_repr [OF assms] by blast
  then show ?thesis using ReadSince_repr [of lb' "entries ws" i] by simp
qed

definition demo_writes :: "(string \<times> LogSource \<times> string \<times> string option) list" where
  "demo_writes = [(''1'', ''out'', ''a'', None), (''2'', ''out'', ''b'', None), (''3'', ''err'', ''c'', None)]"

definition demo_lb :: LogBuffer where
  "demo_lb = \<lparr>LogBuffer_buf = replicate 2 zero_LogEntry, LogBuffer_capacity = 2, LogBuffer_offset = 0\<rparr>"

lemma demo_lb_new: "NewLogBuffer 2 = Some demo_lb"
  by (simp add: NewLogBuffer_def demo_lb_def int64_id numeral_eq_Suc)

theorem log_since_witness:
  "\<exists>lb'. write_all demo_writes demo_lb = Some lb' \<and>
     ReadSince lb' 0 = Some ([mk_entry ''2'' ''out'' ''b'' None, mk_entry ''3'' ''err'' ''c'' None], 3)"
  using log_since [OF _ _ demo_lb_new, of demo_writes 0] by (simp add: demo_writes_def entries_def)

text \<open>
  C26. The log buffer is written without a lock by the goroutines of a unit's two pipes.  In
  whatever order their steps come, no index is out of range and the offset never counts a write that
  has not been made.  But when one writer has read the offset and not yet stored it while the other writes
  its lines, the offset is taken back: of all these lines a client gets the first, and the line of the
  writer that was overtaken is lost.  When both compute the slot before either goes on, one line is lost
  as well and the client gets, as if it were new, the oldest line of a buffer that is full.
\<close>

theorem log_race:
  assumes "repr lb h" "length h + length turns + length es < 2 ^ 62" "es \<noteq> []"
    "length es \<le> nat (LogBuffer_capacity lb)" "2 \<le> LogBuffer_capacity lb"
    "nat (LogBuffer_capacity lb) \<le> Suc (length h)" "length h + 2 < 2 ^ 62"
  shows "(\<exists>t. lr_run turns (two_writers out err lb) = Some t \<and> 0 \<le> LogBuffer_offset (lr_buffer t) \<and>
      LogBuffer_offset (lr_buffer t) \<le> int (length h + lr_done t)) \<and>
    (\<exists>t. lr_run (overtaken es) (two_writers [e] es lb) = Some t \<and> lr_done t = Suc (length es) \<and>
      ReadSince (lr_buffer t) (int (length h)) = Some ([hd es], int (length h) + 1)) \<and>
    (\<exists>t. lr_run same_slot (two_writers [e] [e'] lb) = Some t \<and>
      ReadSince (lr_buffer t) (int (length h)) =
        Some ([e', h ! (Suc (length h) - nat (LogBuffer_capacity lb))], int (length h) + 2))"
proof (intro conjI)
  have "length h + lr_done (two_writers out err lb) + length turns < 2 ^ 62"
    using assms(2) by (simp add: two_writers_def)
  from lr_ok_run [OF lr_ok_two_writers [OF assms(1)] this]
  show "\<exists>t. lr_run turns (two_writers out err lb) = Some t \<and> 0 \<le> LogBuffer_offset (lr_buffer t) \<and>
      LogBuffer_offset (lr_buffer t) \<le> int (length h + lr_done t)"
    unfolding lr_ok_def by blast
  have "length h + length es < 2 ^ 62" using assms(2) by simp
  then show "\<exists>t. lr_run (overtaken es) (two_writers [e] es lb) = Some t \<and> lr_done t = Suc (length es) \<and>
      ReadSince (lr_buffer t) (int (length h)) = Some ([hd es], int (length h) + 1)"
    using overtaken_read [OF assms(1,3) _ assms(4)] by blast
  show "\<exists>t. lr_run same_slot (two_writers [e] [e'] lb) = Some t \<and>
      ReadSince (lr_buffer t) (int (length h)) =
        Some ([e', h ! (Suc (length h) - nat (LogBuffer_capacity lb))], int (length h) + 2)"
    using same_slot_run [OF assms(1,6,5,7)] .
qed

definition demo_full :: LogBuffer where
  "demo_full = \<lparr>LogBuffer_buf = [zero_LogEntry, zero_LogEntry], LogBuffer_capacity = 2, LogBuffer_offset = 2\<rparr>"

lemma all_less_two: "(\<forall>k<Suc (Suc 0). P k) \<longleftrightarrow> P 0 \<and> P 1"
  by (auto simp: less_Suc_eq)

lemma demo_full_repr: "repr demo_full [zero_LogEntry, zero_LogEntry]"
  by (simp add: repr_def demo_full_def all_less_two)

theorem log_race_witness:
  "(\<exists>t. lr_run [0, 1] (two_writers [mk_entry ''1'' ''stdout'' ''a'' None] [] demo_full) = Some t) \<and>
   (\<exists>t. lr_run (overtaken [mk_entry ''2'' ''stderr'' ''b'' None])
      (two_writers [mk_entry ''1'' ''stdout'' ''a'' None] [mk_entry ''2'' ''stderr'' ''b'' None] demo_full) = Some t \<and>
      lr_done t = 2 \<and> ReadSince (lr_buffer t) 2 = Some ([mk_entry ''2'' ''stderr'' ''b'' None], 3)) \<and>
   (\<exists>t. lr_run same_slot
      (two_writers [mk_entry ''1'' ''stdout'' ''a'' None] [mk_entry ''2'' ''stderr'' ''b'' None] demo_full) = Some t \<and>
      ReadSince (lr_buffer t) 2 = Some ([mk_entry ''2'' ''stderr'' ''b'' None, zero_LogEntry], 4))"
proof -
  let ?e = "mk_entry ''1'' ''stdout'' ''a'' None" and ?e' = "mk_entry ''2'' ''stderr'' ''b'' None"
  have c: "LogBuffer_capacity demo_full = 2" by (simp add: demo_full_def)
  have "(2::nat) ^ 62 = 4611686018427387904" by simp
  then have "length [zero_LogEntry, zero_LogEntry] + length [0, 1 :: nat] + length [?e'] < 2 ^ 62"
    "length [zero_LogEntry, zero_LogEntry] + 2 < (2::nat) ^ 62" by simp_all
  note small = this
  have "[?e'] \<noteq> []" "length [?e'] \<le> nat (LogBuffer_capacity demo_full)" "2 \<le> LogBuffer_capacity demo_full"
    "nat (LogBuffer_capacity demo_full) \<le> Suc (length [zero_LogEntry, zero_LogEntry])" by (simp_all add: c)
  note race = log_race [OF demo_full_repr small(1) this small(2), of "[?e]" "[]" ?e ?e']
  have "int (length [zero_LogEntry, zero_LogEntry]) = 2" "(2::int) + 1 = 3" "(2::int) + 2 = 4"
    "Suc (length [?e']) = 2" "hd [?e'] = ?e'"
    "[zero_LogEntry, zero_LogEntry] ! (Suc (length [zero_LogEntry, zero_LogEntry]) - nat 2) = zero_LogEntry"
    by simp_all
  note race = race [unfolded c this]
  from race [THEN conjunct1] race [THEN conjunct2] show ?thesis by iprover
qed

text \<open>
  Reading the last \<open>n\<close> entries gives exactly those, in the order written; \<open>0\<close>, and any number
  above what is kept, stands for all that is kept, and a negative one for none.
\<close>

theorem log_read:
  assumes "0 < c" "c < 2 ^ 62" "NewLogBuffer c = Some lb" "length ws < 2 ^ 62"
  shows "\<exists>lb'. write_all ws lb = Some lb' \<and> Read lb' n =
     (let keep = min (nat c) (length ws)
      in if n < 0 then Some []
         else if n = 0 \<or> n > int keep then Some (drop (length ws - keep) (entries ws))
         else Some (drop (length ws - nat n) (entries ws)))"
proof -
  obtain lb' where "write_all ws lb = Some lb'" "repr lb' (entries ws)" "LogBuffer_capacity lb' = c"
    using write_all_repr [OF assms] by blast
  then show ?thesis using Read_repr [of lb' "entries ws" n] by (simp only: length_entries) blast
qed

theorem log_read_witness:
  "\<exists>lb'. write_all demo_writes demo_lb = Some lb' \<and>
     Read lb' 1 = Some [mk_entry ''3'' ''err'' ''c'' None]"
  using log_read [OF _ _ demo_lb_new, of demo_writes 1] by (simp add: demo_writes_def entries_def)

text \<open>
  A client that keeps asking with the offset it was given gets every entry once and in order,
  as long as no more than \<open>capacity\<close> entries are written between two of its requests.
\<close>

theorem log_polling:
  assumes "grows repr h lbs" "list_all (\<lambda>(l, b). length b \<le> nat (LogBuffer_capacity l)) lbs"
  shows "poll ReadSince (int (length h)) (map fst lbs) =
    Some (concat (map snd lbs), int (length h + length (concat (map snd lbs))))"
  using assms by (intro logbuf.poll_complete) (auto simp: list_all_iff)

theorem log_polling_witness: "poll ReadSince 0 [demo_lb, demo_lb] = Some ([], 0)"
proof -
  have "grows repr [] [(demo_lb, []), (demo_lb, [])]"
    using repr_new [OF _ _ demo_lb_new] by simp
  from log_polling [OF this] show ?thesis by simp
qed



text \<open>
  C28. Asking for the logs of the default unit always fails: the handler finds the first unit of the pod
  but asks the runtime with the empty name of the request, for which there is no log.
\<close>

theorem default_unit_logs:
  assumes "rq_Method r = ''GET''" "NewLogOptionsFromURL (sp_parse_url sp) (rq_URL r) = Inr opts"
    "Opt_UnitName opts = ''''" "sp_GetLogBuffer sp = itzo_GetLogBuffer"
    "PodSpec_Units (pc_podStatus (sv_podController s)) = u # us"
    "conmap_GetOK (it_logs (pc_world (sv_podController s))) '''' = None"
  shows "result (logsHandler sp r) s =
    Ret (badRequest ''Could not find logs for unit named '')"
  using assms by (rule logs_without_unit)

theorem default_unit_logs_witness:
  "result (logsHandler demo_sp (demo_request ''GET'' ''/rest/v1/logs'')) demo_server =
     Ret (badRequest ''Could not find logs for unit named '')"
proof (rule default_unit_logs [where u = "demo_unit ''web'' ''nginx''" and us = "[]"])
  show "NewLogOptionsFromURL (sp_parse_url demo_sp) (rq_URL (demo_request ''GET'' ''/rest/v1/logs'')) =
      Inr \<lparr>Opt_UnitName = [], Opt_Follow = False, Opt_WithMetadata = False, Opt_LineNum = 0,
           Opt_BytesNum = 0\<rparr>"
    by code_simp
qed (simp_all add: demo_request_def demo_sp_def demo_server_def demo_itzo_def NewPodController_def
    conmap_GetOK_def NewKeyTypeValueType_def)




text \<open>
  C30. With podman an init unit never finishes: a container that has exited, whatever its exit code, is
  reported as waiting, unless podman calls it dead, so the controller polls it again, under any policy.
\<close>

theorem podman_init_polls:
  assumes "pm_env w (pm_log w) (Containers_Inspect (UnitNameToContainerName name)) = r"
    "pr_err r = None" "pr_data r = Some d" "Inspect_State d = Some st"
    "\<not> Inspect_Running st" "\<not> Inspect_Dead st"
  shows "\<exists>s. result (pm_ContainerStatus name img) w = Ret (Some s, None) \<and>
     UnitStatus_State s = waiting_state (Inspect_Status st) False \<and>
     poll_init policy (Some s) None = P_again"
  using assms by (rule podman_exited_init)

definition demo_exited :: InspectContainerState where
  "demo_exited =
     \<lparr>Inspect_Status = ''exited'', Inspect_Running = False, Inspect_Dead = False, Inspect_ExitCode = 1,
      Inspect_Error = [], Inspect_StartedAt = 0, Inspect_FinishedAt = 0\<rparr>"

definition demo_podman :: podman_os where
  "demo_podman = os.extend calm
     \<lparr>pm_env = (\<lambda>_ _. \<lparr>pr_err = None, pr_exists = True, pr_report = None,
        pr_data = Some \<lparr>Inspect_State = Some demo_exited, Inspect_Image = ''nginx''\<rparr>, pr_lines = []\<rparr>),
      pm_log = []\<rparr>"

theorem podman_init_polls_witness:
  "\<exists>s. result (pm_ContainerStatus ''init'' ''nginx'') demo_podman = Ret (Some s, None) \<and>
     UnitStatus_State s = waiting_state ''exited'' False \<and>
     poll_init RestartPolicyNever (Some s) None = P_again"
  using podman_init_polls [of demo_podman "''init''" _ _ demo_exited "''nginx''" RestartPolicyNever, OF HOL.refl]
  by (simp add: demo_podman_def demo_exited_def os.defs)

text \<open>
  C31. A probe's answers are reported only after enough of them in a row: the answer noted after the
  answers \<open>rs\<close> is sent exactly when, with it, at least the threshold of its kind stand at the end.
\<close>

theorem probe_threshold:
  assumes "NewWorker lib env unit ip t (Some spec) = Some (w0, pb)" "probed pb w0 w x rs"
  shows "fst (fst (note_result spec r w)) =
     ((r \<noteq> Failure \<or> Probe_FailureThreshold spec \<le> int (trailing r (rs @ [r]))) \<and>
      (r \<noteq> Success \<or> Probe_SuccessThreshold spec \<le> int (trailing r (rs @ [r]))))"
  using probed_emits [OF assms(2)] NewWorker_fresh [OF assms(1)] by auto

definition demo_probes :: "int probe_lib" where
  "demo_probes =
     \<lparr>pl_exec = (\<lambda>e. return (Ret (probe_Failure, [], None))),
      pl_http = (\<lambda>_ _ _ _ _. return (probe_Failure, [], None)),
      pl_tcp = (\<lambda>_ _ _. return (probe_Failure, [], None)),
      pl_os_exec = (\<lambda>_ _. return ([], None, False)), pl_expand = (\<lambda>_ s. s), pl_url_Parse = (\<lambda>_. None)\<rparr>"

definition demo_probe :: Probe where
  "demo_probe =
     \<lparr>Probe_Handler = \<lparr>Handler_Exec = Some \<lparr>ExecAction_Command = [''true'']\<rparr>, Handler_HTTPGet = None,
                       Handler_TCPSocket = None\<rparr>,
      Probe_InitialDelaySeconds = 0, Probe_TimeoutSeconds = 1, Probe_PeriodSeconds = 10,
      Probe_SuccessThreshold = 1, Probe_FailureThreshold = 2\<rparr>"

theorem probe_threshold_witness:
  "\<exists>w pb. NewWorker demo_probes [] ''web'' ''1.2.3.4'' Liveness (Some demo_probe) = Some (w, pb) \<and>
     \<not> fst (fst (note_result demo_probe Failure w)) \<and> fst (fst (note_result demo_probe Success w))"
proof -
  obtain w pb where w: "NewWorker demo_probes [] ''web'' ''1.2.3.4'' Liveness (Some demo_probe) =
      Some (w, pb)"
    by (simp add: NewWorker_def)
  show ?thesis
    using w probe_threshold [OF w probed.new, of Failure] probe_threshold [OF w probed.new, of Success]
    by (simp add: demo_probe_def trailing_def)
qed

text \<open>
  A probe is retried only on errors: what it answers is its first run without an error, or its
  last run if all have one; so a probe that fails without an error is not tried again.
\<close>

theorem probe_retries:
  "result (runProbeWithRetries pb t p n) x =
     first_or_last (Ret (probe_Unknown, [], None)) failed (runs pb t p x n)"
  by (simp add: runProbeWithRetries_def runProbe_loop_answer)



section \<open>Mounts\<close>

text \<open>
  C33. The special file systems of a unit are made and mounted in the order of the table.  When a
  mount fails, all of them are unmounted in the reverse order; but when a directory cannot be made,
  what was mounted before it stays mounted.
\<close>

theorem special_mounts:
  "(result (MountSpecial b u) w = None \<and>
      final (MountSpecial b u) w = w\<lparr>os_trace := os_trace w @ mount_calls b u Mounts\<rparr>) \<or>
   (result (MountSpecial b u) w \<noteq> None \<and>
      (\<exists>k < length Mounts. \<exists>cs. final (MountSpecial b u) w =
          w\<lparr>os_trace := os_trace w @ mount_calls b u (take k Mounts) @ cs\<rparr> \<and>
        (cs = [Os_MkdirAll (special_target b u (Mounts ! k)) 448] \<or>
         cs = mount_calls b u [Mounts ! k] @ unmount_calls b u)))"
  unfolding MountSpecial_mount_one by (rule for_err_mount_one)

text \<open>
  C34. Whatever links a container's image has, attaching a volume creates directories, files and
  mounts only at paths that begin with the path of the unit's root.
\<close>

theorem attach_below_root:
  "\<exists>cs. os_trace (final (AttachMount n basedir unit src dst) w) = os_trace w @ cs \<and>
     list_all (below (filepath_Join [basedir, unit, ''ROOTFS''])) cs"
  using AttachMount_calls [of basedir unit n src dst] unfolding calls_within_def
  by (metis os.select_convs(2) os.surjective os.update_convs(2))





text \<open>
  A volume that is created has exactly one kind of source: an empty directory, a package-like
  source (package, secret, config map or projected), or a path of the host.
\<close>

theorem volume_source:
  assumes "result (CreateMount b v) w = None"
  shows "source_groups (Volume_VolumeSource v) = 1"
  using assms by (rule CreateMount_ok_groups)

definition host_volume :: Volume where
  "host_volume =
     \<lparr>Volume_Name = ''logs'', Volume_VolumeSource =
        \<lparr>VolumeSource_EmptyDir = None, VolumeSource_PackagePath = None, VolumeSource_ConfigMap = None,
         VolumeSource_Secret = None, VolumeSource_HostPath = Some
           \<lparr>HostPathVolumeSource_Path = ''/var/log'', HostPathVolumeSource_Type = None\<rparr>,
         VolumeSource_Projected = None\<rparr>\<rparr>"

theorem volume_source_witness:
  "source_groups (Volume_VolumeSource host_volume) = 1 \<and>
   result (CreateMount ''/pods'' host_volume) \<lparr>os_env = (\<lambda>_ _. ok_reply), os_trace = []\<rparr> = None"
proof -
  have r: "result (CreateMount ''/pods'' host_volume) \<lparr>os_env = (\<lambda>_ _. ok_reply), os_trace = []\<rparr> = None"
    by code_simp
  then show ?thesis using volume_source [OF r] by simp
qed

text \<open>
  A host path that must be a socket, a character device or a block device is accepted exactly
  when it exists and is not one: the three tests are the wrong way round.
\<close>

theorem special_files_inverted:
  "(let r = os_env w (os_trace w) (Os_Stat p); i = reply_info r;
        ok = (\<lambda>t. result (check_hostpath \<lparr>HostPathVolumeSource_Path = p,
                                           HostPathVolumeSource_Type = Some t\<rparr>) w = None)
    in ok HostPathSocket = (reply_err r = None \<and> \<not> fi_ModeSocket i) \<and>
       ok HostPathCharDev = (reply_err r = None \<and> \<not> fi_ModeCharDevice i) \<and>
       ok HostPathBlockDev = (reply_err r = None \<and> \<not> (fi_ModeDevice i \<and> \<not> fi_ModeCharDevice i)))"
  by (simp add: Let_def check_hostpath_special)

section \<open>The runtime of this repository\<close>


text \<open>
  While a unit's process is known the unit is reported ready, running since the zero time and
  never restarted: what the process has written to the status file, restarts, failed probes and start
  failures included, is not looked at.
\<close>

theorem running_status_constant:
  assumes "um_UnitRunning name w"
  shows "\<exists>st. result (it_ContainerStatus ip name img) w = (Some st, None) \<and> UnitStatus_Ready st \<and>
     UnitStatus_RestartCount st = 0 \<and> UnitStatus_State st = running_state 0 \<and>
     os_trace (final (it_ContainerStatus ip name img) w) = os_trace w"
  using assms running_unit_status [OF assms]
  by (simp add: running_status_def zero_UnitStatus_def it_ContainerStatus_def Let_def)

theorem running_status_constant_witness:
  "\<exists>st. result (it_ContainerStatus demo_ip ''web'' ''nginx'')
      (demo_itzo\<lparr>it_running := conmap_Set ''web'' 7 NewKeyTypeValueType\<rparr>) = (Some st, None) \<and>
     UnitStatus_RestartCount st = 0"
  using running_status_constant [of "''web''" "demo_itzo\<lparr>it_running := conmap_Set ''web'' 7 NewKeyTypeValueType\<rparr>"
      demo_ip "''nginx''"]
  by (auto simp: um_UnitRunning_def)

text \<open>
  C37. The capabilities of a unit that asks for changes: every name must be known, and the set is the
  one requested: everything but what is dropped when \<open>ALL\<close> is added, only what is added when
  \<open>ALL\<close> is dropped, else the defaults less what is dropped, with what is added.
\<close>

theorem unit_capabilities:
  assumes "SecurityContext_Capabilities (UnitConfig_SecurityContext (u_unitConfig u)) = Some c"
    and "Capabilities_Add c @ Capabilities_Drop c \<noteq> []"
    and "getCapabilities cl u = Inr cs"
  shows "list_all (known_cap cl) (Capabilities_Add c @ Capabilities_Drop c) \<and>
     set cs =
       (let A = norm_cap ` set (Capabilities_Add c); D = norm_cap ` set (Capabilities_Drop c)
        in if allCapabilities \<in> A then set (GetAllCapabilities cl) - D
           else if allCapabilities \<in> D then A
           else (set defaultCapabilities - D) \<union> A)"
  using assms
  by (auto simp: getCapabilities_def TweakCapabilities_def NormalizeLegacyCapabilities_Inr
      list_all_iff Let_def split: if_splits sum.splits)

theorem unit_capabilities_witness:
  "\<exists>cs. getCapabilities [\<lparr>CapabilityMapping_Key = ''CAP_KILL'', CapabilityMapping_Value = 5\<rparr>]
      (demo_u\<lparr>u_unitConfig := zero_UnitConfig\<lparr>UnitConfig_SecurityContext := zero_SecurityContext
         \<lparr>SecurityContext_Capabilities :=
            Some \<lparr>Capabilities_Add = [''kill''], Capabilities_Drop = [''all'']\<rparr>\<rparr>\<rparr>\<rparr>) = Inr cs \<and>
     set cs = {''CAP_KILL''}"
proof -
  let ?u = "demo_u\<lparr>u_unitConfig := zero_UnitConfig\<lparr>UnitConfig_SecurityContext := zero_SecurityContext
         \<lparr>SecurityContext_Capabilities :=
            Some \<lparr>Capabilities_Add = [''kill''], Capabilities_Drop = [''all'']\<rparr>\<rparr>\<rparr>\<rparr>"
  have r: "getCapabilities [\<lparr>CapabilityMapping_Key = ''CAP_KILL'', CapabilityMapping_Value = 5\<rparr>] ?u =
      Inr [''CAP_KILL'']"
    by code_simp
  have "norm_cap ''kill'' = ''CAP_KILL''" "norm_cap ''all'' = allCapabilities"
      "allCapabilities \<noteq> ''CAP_KILL''"
    by code_simp+
  with unit_capabilities [OF _ _ r] r show ?thesis by simp
qed

section \<open>Users, environments, names\<close>

text \<open>
  With the users of a container's own passwd and group files, looking up a user specification
  never dereferences nil, and whatever it is, the answer is a user or an error; a number that no file
  knows is taken as the id itself.
\<close>

lemma lookup_user_total:
  "\<exists>r. LookupUser spec (passwd_lookup l) = Ret r \<and>
     (\<forall>e. r = Inl e \<longrightarrow>
        (\<exists>s. snd (pul_LookupId l s) \<noteq> None \<and> snd (pul_Lookup l s) = Some e))"
  using pwd.LookupUser_total [of spec l] by (simp add: passwd_lookup_def)

lemma lookup_user_total_witness:
  "\<exists>r. LookupUser ''nobody'' (passwd_lookup
      \<lparr>pul_RootFs = [], pul_users = Map.empty, pul_uids = Map.empty, pul_groups = Map.empty,
       pul_gids = Map.empty\<rparr>) = Ret r"
  using lookup_user_total by blast

text \<open>
  Looking up a group by its id never reads the groups: the group with the id of a user is given
  that user's name and primary group, whatever the group file says.
\<close>

theorem group_ids_read_users:
  "pul_LookupGroupId (l\<lparr>pul_groups := gs, pul_gids := ids\<rparr>) name = pul_LookupGroupId l name \<and>
   (\<forall>i e. numeric_id ''group'' name = Inr i \<longrightarrow> pul_uids l (word_of_int i) = Some e \<longrightarrow>
      pul_LookupGroupId l name =
        (Some \<lparr>Group_Gid = Itoa (sint (pwd_User_Gid e)), Group_Name = pwd_User_Name e\<rparr>, None))"
  by (simp add: pul_LookupGroupId_def split: sum.split)

definition demo_passwd :: PasswdUserLookup where
  "demo_passwd =
     \<lparr>pul_RootFs = [], pul_users = Map.empty,
      pul_uids = [5 \<mapsto> \<lparr>pwd_User_Name = ''sync'', pwd_User_Uid = 5, pwd_User_Gid = 60,
                      pwd_User_Home = ''/bin''\<rparr>],
      pul_groups = Map.empty,
      pul_gids = [5 \<mapsto> \<lparr>pwd_Group_Name = ''tty'', pwd_Group_Gid = 5\<rparr>]\<rparr>"

theorem group_ids_read_users_witness:
  "\<exists>g. pul_LookupGroupId demo_passwd ''5'' = (Some g, None) \<and> Group_Name g = ''sync'' \<and>
     Group_Gid g = Itoa 60"
proof -
  have "numeric_id ''group'' ''5'' = Inr 5" by code_simp
  with group_ids_read_users [where l = demo_passwd and name = "''5''"] show ?thesis
    by (simp add: demo_passwd_def)
qed

text \<open>
  The default environment of a unit: exactly one entry for each of \<open>HOSTNAME\<close>, \<open>TERM\<close>, \<open>HOME\<close>
  and \<open>PATH\<close>, of which \<open>HOSTNAME\<close> is the pod's and the others are those given or a default; every other
  entry stays, in its order.
\<close>

theorem default_environment:
  "filter (\<lambda>e. env_key e = ''HOSTNAME'') (EnsureDefaultEnviron env podname homedir) =
     [env_entry ''HOSTNAME'' (MakeHostname podname)] \<and>
   filter (\<lambda>e. env_key e = ''TERM'') (EnsureDefaultEnviron env podname homedir) =
     [env_new (rev env) ''TERM'' ''xterm'' False] \<and>
   filter (\<lambda>e. env_key e = ''HOME'') (EnsureDefaultEnviron env podname homedir) =
     [env_new env ''HOME'' homedir False] \<and>
   filter (\<lambda>e. env_key e = ''PATH'') (EnsureDefaultEnviron env podname homedir) =
     [env_new (rev env) ''PATH'' defaultPath False] \<and>
   filter (\<lambda>e. env_key e \<notin> default_keys) (EnsureDefaultEnviron env podname homedir) =
     filter (\<lambda>e. env_key e \<notin> default_keys) env"
  by (simp add: EnsureDefaultEnviron_entries)

text \<open>
  The name of a namespaced pod gives back its namespace and its name when it is split, provided
  the namespace has no separator of its own; the name may have as many as it likes.
\<close>

theorem namespace_roundtrip:
  assumes "NamespaceSeparator \<notin> set ns"
  shows "SplitNamespaceAndName (WithNamespace ns name) = (ns, name) \<and>
     GetNamespaceFromString (WithNamespace ns name) = ns \<and>
     GetNameFromString (WithNamespace ns name) = name"
  using assms
  by (simp add: SplitNamespaceAndName_WithNamespace GetNamespaceFromString_WithNamespace
      GetNameFromString_WithNamespace)

theorem namespace_roundtrip_witness:
  "SplitNamespaceAndName (WithNamespace ''default'' ''a_b'') = (''default'', ''a_b'')"
proof -
  have "NamespaceSeparator \<notin> set ''default''" by code_simp
  from namespace_roundtrip [OF this] show ?thesis by simp
qed

text \<open>
  Parsing an image name loses nothing: either a server, which has a dot, and a repository that
  make up the name with a slash between them, or no server and the name itself, prefixed with
  \<open>library/\<close> when it has no slash.
\<close>

theorem parse_image:
  assumes "ParseImageSpec img = (server, repo)"
  shows "(server \<noteq> [] \<longrightarrow> Contains server ''.'' \<and> img = server @ ''/'' @ repo) \<and>
     (server = [] \<longrightarrow> repo = (if CHR ''/'' \<in> set img then img else ''library/'' @ img))"
proof (cases rule: ParseImageSpec_cases [of img])
  case library
  with assms show ?thesis by simp
next
  case (server s r)
  then have "s \<noteq> []" by auto
  with server assms show ?thesis by simp
next
  case plain
  with assms show ?thesis by simp
qed

theorem parse_image_witness:
  "''gcr.io/x/y'' = ''gcr.io'' @ ''/'' @ ''x/y'' \<and> ParseImageSpec ''gcr.io/x/y'' = (''gcr.io'', ''x/y'')"
proof -
  have r: "ParseImageSpec ''gcr.io/x/y'' = (''gcr.io'', ''x/y'')" by code_simp
  with parse_image [OF r] show ?thesis by simp
qed

text \<open>
  The tail of a file is a suffix of it: with a limit on lines it has at most that many line ends,
  whatever the size of the file and of the chunks it is read in; without one it is the last bytes, the
  limit being ten megabytes when none is given or it is larger.
\<close>

theorem tail_file:
  assumes "fs path = Inr f" "0 \<le> maxBytes"
  shows "\<exists>p s. TailFile fs path lns maxBytes = Ret (s, None) \<and> f = p @ s \<and>
     (if lns > 0 then newlines s \<le> nat lns
      else s = drop (length f - (if maxBytes = 0 \<or> maxBytes > MaxBufferSize then 10485760
                                 else nat maxBytes)) f)"
proof (cases "lns > 0")
  case True
  with assms(1) show ?thesis
    using tailLines_suffix [of f "nat lns"
        "if maxBytes = 0 \<or> maxBytes > MaxBufferSize then MaxBufferSize else maxBytes"]
    by (simp add: TailFile_def Let_def)
next
  case False
  with TailFile_bytes [of fs path f lns maxBytes] assms show ?thesis
    by (simp add: append_take_drop_id [symmetric]) (metis append_take_drop_id)
qed

theorem tail_file_witness:
  "TailFile (\<lambda>_. Inr ''abc'') ''log'' 0 2 = Ret (''bc'', None)"
  using tail_file [of "\<lambda>_. Inr ''abc''" "''log''" "''abc''" 2 0]
  by auto

text \<open>
  C38. The sets of strings are sets: whatever order a run visits the maps in, union, intersection,
  difference, inclusion and equality are those of the sets of their elements, and the list is sorted.
\<close>

theorem string_set_algebra:
  assumes "ranging rng" "finite (dom s)" "finite (dom t)"
  shows "dom (set_Union rng s t) = dom s \<union> dom t \<and> dom (Intersection rng s t) = dom s \<inter> dom t \<and>
    dom (Difference rng s t) = dom s - dom t \<and> (IsSuperset rng s t \<longleftrightarrow> dom t \<subseteq> dom s) \<and>
    (set_Equal rng s t \<longleftrightarrow> dom s = dom t) \<and> set_List rng s = sorted_list_of_set (dom s)"
  using string_set_results [OF assms] String_eq_iff [of s t] by simp

theorem string_set_algebra_witness:
  "dom (set_Union (\<lambda>s. sorted_list_of_set (dom s)) (NewString [''b'', ''a'']) (NewString [''c''])) =
     {''a'', ''b'', ''c''}"
  using string_set_algebra [OF sorted_range.ranging_axioms, of "NewString [''b'', ''a'']" "NewString [''c'']"]
  by auto

text \<open>
  C39. The concurrent maps under their lock: in whatever order the threads of a program take and
  give back the lock of a map and do the steps of their methods, the answers they get are those of the
  methods run one after the other on the empty map, in the order in which they ended, and the map is what
  these methods make of it; no method runs beside one that writes, and as long as a method is under way
  some thread can go on.
\<close>

theorem conmap_linearizable:
  assumes "rw_reach (conmap_methods zero) NewKeyTypeValueType s"
  shows "(\<exists>m. conmap_run zero NewKeyTypeValueType (sh_log s) m \<and> (sh_writer s \<or> sh_object s = m)) \<and>
    (sh_threads s i = Leaving op r \<longrightarrow> (i, op, r) \<in> set (sh_log s)) \<and>
    (writing (conmap_methods zero) (sh_threads s i) \<and> i \<noteq> j \<longrightarrow>
      \<not> writing (conmap_methods zero) (sh_threads s j) \<and> \<not> reading (conmap_methods zero) (sh_threads s j)) \<and>
    (sh_threads s i = Outside \<or> (\<exists>j. can_go_on (conmap_methods zero) s j))"
proof (intro conjI impI)
  obtain m where ex: "explained (conmap_methods zero) NewKeyTypeValueType s m"
    using conmap_lock.explained_reach [OF assms] by blast
  from conmap_one_by_one [OF explainedD(1) [OF ex]] explainedD(3) [OF ex _ lock_inv_reach [OF assms]]
  show "\<exists>m. conmap_run zero NewKeyTypeValueType (sh_log s) m \<and> (sh_writer s \<or> sh_object s = m)" by blast
  show "(i, op, r) \<in> set (sh_log s)" if "sh_threads s i = Leaving op r"
    using answered_reach [OF assms] that by (simp add: answered_def)
  show "\<not> writing (conmap_methods zero) (sh_threads s j)" "\<not> reading (conmap_methods zero) (sh_threads s j)"
    if "writing (conmap_methods zero) (sh_threads s i) \<and> i \<noteq> j"
    using no_data_race [OF lock_inv_reach [OF assms], of i j] that by blast+
  have "finite (dom (conmap_data (sh_object s)))"
    using conmap_reach_finite [OF assms] by (simp add: NewKeyTypeValueType_def)
  then show "sh_threads s i = Outside \<or> (\<exists>j. can_go_on (conmap_methods zero) s j)"
    using lock_progress [OF assms cm_starts_ex] by blast
qed

text \<open>One thread has set a key and another waits for the lock to read it.\<close>

lemma demo_conmap_reach:
  "\<exists>s. rw_reach (conmap_methods (0::nat)) NewKeyTypeValueType s \<and>
     sh_log s = [(0, M_Set ''a'' 7, R_none)] \<and> sh_writer s \<and>
     sh_threads s 0 = Leaving (M_Set ''a'' 7) R_none \<and> sh_threads s 1 = thread.Waiting (M_GetOK ''a'')"
proof -
  let ?me = "conmap_methods (0::nat)"
  let ?w = "M_Set ''a'' 7" and ?r = "M_GetOK ''a''"
  define s0 where "s0 = (rw_init NewKeyTypeValueType :: ((string, nat) cm_method, (string, nat) cm_local, (string, nat) KeyTypeValueType, (string, nat) cm_reply) shared)"
  define s1 where "s1 = s0\<lparr>sh_threads := (sh_threads s0)(0 := thread.Waiting ?w)\<rparr>"
  define s2 where "s2 = s1\<lparr>sh_threads := (sh_threads s1)(1 := thread.Waiting ?r)\<rparr>"
  define s3 where "s3 = s2\<lparr>sh_writer := True, sh_threads := (sh_threads s2)(0 := Inside ?w (Body ?w))\<rparr>"
  define s4 where "s4 = s3\<lparr>sh_object := conmap_Set ''a'' 7 NewKeyTypeValueType,
    sh_threads := (sh_threads s3)(0 := Leaving ?w R_none), sh_log := sh_log s3 @ [(0, ?w, R_none)]\<rparr>"
  have "rw_step ?me 0 s0 s1" unfolding s1_def by (rule rw_step.call) (simp add: s0_def rw_init_def)
  moreover have "rw_step ?me 1 s1 s2"
    unfolding s2_def by (rule rw_step.call) (simp add: s1_def s0_def rw_init_def)
  moreover have "rw_step ?me 0 s2 s3"
    unfolding s3_def
    by (rule rw_step.Lock) (simp_all add: s2_def s1_def s0_def rw_init_def conmap_methods_def cm_starts_def)
  moreover have "rw_step ?me 0 s3 s4"
    unfolding s4_def
    by (rule rw_step.answer [where l = "Body ?w"])
      (simp_all add: s3_def s2_def s1_def s0_def rw_init_def conmap_methods_def)
  moreover have "rw_reach ?me NewKeyTypeValueType s0" unfolding s0_def by (rule rw_reach.start)
  ultimately have "rw_reach ?me NewKeyTypeValueType s4" by (iprover intro: rw_reach.more)
  moreover have "sh_log s4 = [(0, ?w, R_none)] \<and> sh_writer s4 \<and> sh_threads s4 0 = Leaving ?w R_none \<and>
      sh_threads s4 1 = thread.Waiting ?r"
    by (simp add: s4_def s3_def s2_def s1_def s0_def rw_init_def)
  ultimately show ?thesis by blast
qed

theorem conmap_linearizable_witness:
  "\<exists>s. sh_log s = [(0, M_Set ''a'' (7::nat), R_none)] \<and>
     (\<exists>m. conmap_run 0 NewKeyTypeValueType (sh_log s) m) \<and>
     (0, M_Set ''a'' 7, R_none) \<in> set (sh_log s) \<and>
     \<not> reading (conmap_methods 0) (sh_threads s 1) \<and> (\<exists>j. can_go_on (conmap_methods 0) s j)"
proof -
  obtain s where s: "rw_reach (conmap_methods (0::nat)) NewKeyTypeValueType s"
      "sh_log s = [(0, M_Set ''a'' 7, R_none)]" "sh_writer s"
      "sh_threads s 0 = Leaving (M_Set ''a'' 7) R_none" "sh_threads s 1 = thread.Waiting (M_GetOK ''a'')"
    using demo_conmap_reach by blast
  have w: "writing (conmap_methods 0) (sh_threads s 0)" by (simp add: s(4) conmap_methods_def)
  show ?thesis
    using conmap_linearizable [OF s(1), of 0 "M_Set ''a'' 7" R_none 1] w s(2,4)
    by (intro exI [of _ s]) (simp only: thread.distinct simp_thms, blast)
qed

text \<open>
  C40. The difference of two maps, applied to the second, gives the first; a key is added, updated or
  deleted, never two of these, and one with the same value in both is in none.
\<close>

theorem map_diff:
  assumes "iterates spec_order spec" "iterates status_order status"
  shows "apply_diff spec (MapDiff spec_order status_order spec status) status = spec \<and>
     (case MapDiff spec_order status_order spec status of (add, update, delete) \<Rightarrow>
        distinct (add @ update @ delete) \<and> set add = dom spec - dom status \<and>
        set update = {k \<in> dom spec \<inter> dom status. spec k \<noteq> status k} \<and>
        set delete = dom status - dom spec)"
  using MapDiff_correct [OF assms] MapDiff_disjoint [OF assms] by simp

theorem map_diff_witness:
  "apply_diff [''a'' \<mapsto> ''1''] (MapDiff [''a''] [''b''] [''a'' \<mapsto> ''1''] [''b'' \<mapsto> ''2'']) [''b'' \<mapsto> ''2''] =
     [''a'' \<mapsto> (''1'' :: string)]"
proof -
  have "iterates [''a''] [''a'' \<mapsto> ''1'']" "iterates [''b''] [''b'' \<mapsto> ''2'']"
    by (simp_all add: iterates_def)
  from map_diff [OF this] show ?thesis by simp
qed

text \<open>
  A program that itzo runs is tried at least once and at most as often as the limit says, with
  fewer pauses than tries; the first pause is at least three seconds and each is at least twice as long as the
  one before.
\<close>

theorem run_program:
  assumes "plain_prog prog"
  shows "\<exists>cs. final (RunProg prog limit n args) w = w\<lparr>os_trace := os_trace w @ cs\<rparr> \<and>
     1 \<le> attempts prog args cs \<and> attempts prog args cs \<le> nat (max 1 n) \<and>
     length (slept cs) < attempts prog args cs \<and> doubling 3000000000 (slept cs)"
  using RunProg_loop_trace [OF assms, of 3 limit n args 0 w] by (simp add: RunProg_def)

theorem run_program_witness:
  "\<exists>cs. os_trace (final (RunProg ''tosi'' 100 3 []) \<lparr>os_env = (\<lambda>_ _. ok_reply), os_trace = []\<rparr>) = cs \<and>
     attempts ''tosi'' [] cs \<le> 3"
proof -
  have "plain_prog ''tosi''" by (simp add: plain_prog_def)
  from run_program [OF this, of 100 3 "[]" "\<lparr>os_env = (\<lambda>_ _. ok_reply), os_trace = []\<rparr>"]
  show ?thesis by auto
qed

end
